(* ===== verification/Prelude.thy ===== *)
theory Prelude
  imports Main
begin

text \<open>
  Shared vocabulary of the development: the outcome of running a piece of the crate
  (a value, a panic, undefined behaviour, or a refused build), the sequencing of
  operations on a state, powers of two and their divisibility, rounding up to an
  alignment, and decimal printing of sizes.
\<close>

named_theorems op_simps
  \<open>rewrite rules that run a sequenced operation\<close>
named_theorems macro_simps
  \<open>deciding which strings are identifiers\<close>


section \<open>Outcomes\<close>

text \<open>
  The crate is built on \<open>unsafe\<close> code, so undefined behaviour is an outcome of its own: a
  model operation returns \<open>UB\<close> exactly where the Rust reference makes the execution
  undefined. A failed \<open>const\<close> assertion is a build error, not a runtime outcome.
\<close>

datatype ub_kind =
    Misaligned
  | OutOfBounds
  | DanglingPointer
  | InvalidValue
  | LayoutMismatch
  | UnreachableReached
  | BadFnPointer

datatype 'a res =
    Ok 'a
  | Panic string
  | UB ub_kind
  | BuildError string

fun map_res :: "('a \<Rightarrow> 'b) \<Rightarrow> 'a res \<Rightarrow> 'b res" where
  "map_res f (Ok x) = Ok (f x)"
| "map_res f (Panic s) = Panic s"
| "map_res f (UB u) = UB u"
| "map_res f (BuildError s) = BuildError s"

fun is_ub :: "'a res \<Rightarrow> bool" where
  "is_ub (UB u) = True"
| "is_ub (Ok x) = False"
| "is_ub (Panic s) = False"
| "is_ub (BuildError s) = False"

fun res_bind :: "'a res \<Rightarrow> ('a \<Rightarrow> 'b res) \<Rightarrow> 'b res" where
  "res_bind (Ok x) f = f x"
| "res_bind (Panic s) f = Panic s"
| "res_bind (UB u) f = UB u"
| "res_bind (BuildError s) f = BuildError s"

lemma map_res_eq_Ok [simp]: "map_res f r = Ok y \<longleftrightarrow> (\<exists>x. r = Ok x \<and> y = f x)"
  by (cases r) auto

lemma is_ub_map_res [simp]: "is_ub (map_res f r) = is_ub r"
  by (cases r) auto

type_synonym ('w, 'a) op = "'w \<Rightarrow> 'a res \<times> 'w"

definition ret :: "'a \<Rightarrow> ('w, 'a) op" where
  "ret x = (\<lambda>w. (Ok x, w))"

definition throw :: "'a res \<Rightarrow> ('w, 'a) op" where
  "throw r = (\<lambda>w. (r, w))"

definition gets :: "('w \<Rightarrow> 'a res) \<Rightarrow> ('w, 'a) op" where
  "gets g = (\<lambda>w. (g w, w))"

text \<open>Sequencing: anything but \<open>Ok\<close> ends the run, in the state reached so far.\<close>

definition bnd :: "('w, 'a) op \<Rightarrow> ('a \<Rightarrow> ('w, 'b) op) \<Rightarrow> ('w, 'b) op" where
  "bnd m f = (\<lambda>w. case m w of
      (Ok x, w') \<Rightarrow> f x w'
    | (Panic s, w') \<Rightarrow> (Panic s, w')
    | (UB u, w') \<Rightarrow> (UB u, w')
    | (BuildError s, w') \<Rightarrow> (BuildError s, w'))"

lemma ret_run [simp, op_simps]: "ret x w = (Ok x, w)"
  by (simp add: ret_def)

lemma throw_run [simp, op_simps]: "throw r w = (r, w)"
  by (simp add: throw_def)

lemma gets_run [simp, op_simps]: "gets g w = (g w, w)"
  by (simp add: gets_def)

lemma bnd_Ok [simp, op_simps]: "m w = (Ok x, w') \<Longrightarrow> bnd m f w = f x w'"
  by (simp add: bnd_def)

lemma bnd_Panic [simp, op_simps]: "m w = (Panic s, w') \<Longrightarrow> bnd m f w = (Panic s, w')"
  by (simp add: bnd_def)

lemma bnd_UB [simp, op_simps]: "m w = (UB u, w') \<Longrightarrow> bnd m f w = (UB u, w')"
  by (simp add: bnd_def)

lemma bnd_BuildError [simp, op_simps]:
  "m w = (BuildError s, w') \<Longrightarrow> bnd m f w = (BuildError s, w')"
  by (simp add: bnd_def)

lemma bnd_assoc: "bnd (bnd m f) g = bnd m (\<lambda>x. bnd (f x) g)"
  by (rule ext) (auto simp: bnd_def split: prod.splits res.splits)

lemma bnd_ret_left: "bnd (ret x) f = f x"
  by (rule ext) (simp add: bnd_def)

lemma bnd_ret_right: "bnd m ret = m"
  by (rule ext) (auto simp: bnd_def split: prod.splits res.splits)

lemma bnd_eq_Ok:
  "bnd m f w = (Ok y, w'') \<longleftrightarrow> (\<exists>x w'. m w = (Ok x, w') \<and> f x w' = (Ok y, w''))"
  by (auto simp: bnd_def split: prod.splits res.splits)


section \<open>Powers of two and alignment\<close>

text \<open>Alignments are powers of two (\<open>Layout\<close>'s and \<open>elain\<close>'s documented invariant).\<close>

fun pow2 :: "nat \<Rightarrow> bool" where
  "pow2 n = (if n \<le> 1 then n = 1 else even n \<and> pow2 (n div 2))"

declare pow2.simps [simp del]

lemma pow2_exists: "pow2 n \<longleftrightarrow> (\<exists>k. n = 2 ^ k)"
proof (induction n rule: pow2.induct)
  case (1 n)
  show ?case
  proof (cases "n \<le> 1")
    case True
    then show ?thesis
      by (subst pow2.simps) (auto simp: le_Suc_eq intro: exI [of _ 0])
  next
    case False
    have "(even n \<and> (\<exists>k. n div 2 = 2 ^ k)) \<longleftrightarrow> (\<exists>k. n = 2 ^ k)"
    proof
      assume "even n \<and> (\<exists>k. n div 2 = 2 ^ k)"
      then obtain k where "n = 2 * 2 ^ k" by (metis dvd_mult_div_cancel)
      then have "n = 2 ^ Suc k" by simp
      then show "\<exists>k. n = 2 ^ k" ..
    next
      assume "\<exists>k. n = 2 ^ k"
      then obtain k where k: "n = 2 ^ k" ..
      with False obtain j where "k = Suc j" by (cases k) auto
      with k show "even n \<and> (\<exists>k. n div 2 = 2 ^ k)" by auto
    qed
    with False 1 show ?thesis by (subst pow2.simps) auto
  qed
qed

lemma pow2_pos: "pow2 n \<Longrightarrow> 0 < n"
  by (auto simp: pow2_exists)

text \<open>
  The step that makes the crate's \<open>align_of::<T>() <= ALIGN\<close> test enough: between powers of
  two, smaller means divides.
\<close>

lemma pow2_le_dvd: "pow2 a \<Longrightarrow> pow2 b \<Longrightarrow> a \<le> b \<Longrightarrow> a dvd b"
  by (auto simp: pow2_exists le_imp_power_dvd)

lemma pow2_max: "pow2 a \<Longrightarrow> pow2 b \<Longrightarrow> pow2 (max a b)"
  by (simp add: max_def)

lemma pow2_dvd_max: "pow2 a \<Longrightarrow> pow2 b \<Longrightarrow> a dvd max a b"
  by (auto simp: max_def intro: pow2_le_dvd)

definition round_up :: "nat \<Rightarrow> nat \<Rightarrow> nat" where
  "round_up n a = ((n + (a - 1)) div a) * a"

lemma round_up_dvd [simp]: "a dvd round_up n a"
  by (simp add: round_up_def)

lemma round_up_ge: "0 < a \<Longrightarrow> n \<le> round_up n a"
proof -
  assume a: "0 < a"
  have "n + (a - 1) = ((n + (a - 1)) div a) * a + (n + (a - 1)) mod a"
    by (rule div_mult_mod_eq [symmetric])
  moreover have "(n + (a - 1)) mod a \<le> a - 1"
    using mod_less_divisor [OF a, of "n + (a - 1)"] by linarith
  ultimately show ?thesis
    using a unfolding round_up_def by linarith
qed

lemma round_up_less: "0 < a \<Longrightarrow> round_up n a < n + a"
  using div_times_less_eq_dividend [of "n + (a - 1)" a]
  unfolding round_up_def by linarith

lemma round_up_id: "0 < a \<Longrightarrow> a dvd n \<Longrightarrow> round_up n a = n"
proof -
  assume a: "0 < a" and "a dvd n"
  then obtain k where k: "n = a * k" by (auto elim: dvdE)
  have "(a * k + (a - 1)) div a = k"
    using a div_mult_self4 [of a k "a - 1"] by simp
  then show ?thesis by (simp add: round_up_def k mult.commute)
qed


text \<open>
  \<open>elain::Align<ALIGN>: Alignment\<close> holds for the powers of two only; an \<open>ALIGN\<close> parameter
  under that bound is given by its exponent.
\<close>

datatype alignment = Log2 nat

fun align_val :: "alignment \<Rightarrow> nat" where
  "align_val (Log2 k) = 2 ^ k"

text \<open>Alignments are ordered by their value, so that a weaker one divides a stronger one.\<close>

instantiation alignment :: linorder
begin

definition less_eq_alignment :: "alignment \<Rightarrow> alignment \<Rightarrow> bool" where
  "less_eq_alignment A B \<longleftrightarrow> align_val A \<le> align_val B"

definition less_alignment :: "alignment \<Rightarrow> alignment \<Rightarrow> bool" where
  "less_alignment A B \<longleftrightarrow> align_val A < align_val B"

instance
proof
  fix A B C :: alignment
  show "A < B \<longleftrightarrow> A \<le> B \<and> \<not> B \<le> A" "A \<le> A"
    by (auto simp: less_eq_alignment_def less_alignment_def)
  show "A \<le> B \<Longrightarrow> B \<le> C \<Longrightarrow> A \<le> C" "A \<le> B \<or> B \<le> A"
    by (auto simp: less_eq_alignment_def)
  show "A \<le> B \<Longrightarrow> B \<le> A \<Longrightarrow> A = B"
    by (cases A; cases B) (simp add: less_eq_alignment_def)
qed

end

lemma pow2_align_val [simp]: "pow2 (align_val A)"
  by (cases A) (auto simp: pow2_exists)

lemma align_val_pos [simp]: "0 < align_val A"
  by (cases A) simp

lemma max_Suc_0_align_val [simp]:
  "max (Suc 0) (align_val A) = align_val A" "max (align_val A) (Suc 0) = align_val A"
  by (simp_all add: max_def Suc_le_eq le_Suc_eq)


section \<open>Lists\<close>

lemma take_append_drop_overwrite [simp]:
  "length v \<le> length bs \<Longrightarrow> take (length v) (v @ drop (length v) bs) = v"
  by simp

lemma filter_map_Some:
  "List.map_filter (\<lambda>x. Some (f x)) xs = map f xs"
  by (induction xs) (simp_all add: List.map_filter_simps)


section \<open>Decimal digits\<close>

fun digit_char :: "nat \<Rightarrow> char" where
  "digit_char d = char_of (48 + d)"

fun show_nat :: "nat \<Rightarrow> string" where
  "show_nat n = (if n < 10 then [digit_char n] else show_nat (n div 10) @ [digit_char (n mod 10)])"

declare show_nat.simps [simp del]

text \<open>The build configuration: cargo features, and the target's \<open>usize\<close>.\<close>

record config =
  alloc_feature :: bool
  const_panic_feature :: bool
  usize_size :: nat
  usize_align :: alignment
  rob_payload_units :: "nat \<Rightarrow> alignment \<Rightarrow> nat"

end
