(* ===== verification/Memory.thy ===== *)
theory Memory
  imports Prelude "HOL-Library.Word"
begin

text \<open>
  The part of the Rust language and of \<open>core\<close>/\<open>alloc\<close> that the crate stands on: types as
  the crate sees them (name, layout, drop glue), values as the bytes that represent them,
  the global allocator's blocks, pointers with their provenance, typed reads and writes,
  \<open>ptr::drop_in_place\<close>, and the primitives of \<open>std\<close>'s \<open>Box\<close>.

  A value of a type is the list of its bytes (\<open>size_of::<T>()\<close> of them, possibly
  uninitialised, for padding). Which byte strings a type accepts and whether its drop glue
  panics are properties of the user's types, not of the crate: they are the fields of \<open>env\<close>.
\<close>


section \<open>Types, layouts, values\<close>

datatype abyte = Uninit | Byte "8 word"

type_synonym rval = "abyte list"

record layout =
  lsize :: nat
  lalign :: nat

text \<open>
  A concrete Rust type, nominal: \<open>tname\<close> makes distinct types distinct even when their
  layouts agree. \<open>tneeds_drop\<close> is the value of \<open>mem::needs_drop\<close>.
\<close>

record rtype =
  tname :: string
  tlayout :: layout
  tneeds_drop :: bool

abbreviation size_of :: "rtype \<Rightarrow> nat" where
  "size_of T \<equiv> lsize (tlayout T)"

abbreviation align_of :: "rtype \<Rightarrow> nat" where
  "align_of T \<equiv> lalign (tlayout T)"

text \<open>\<open>core::any::TypeId\<close>: equal exactly when the types are.\<close>

datatype type_id = TypeId rtype

definition type_id_of :: "rtype \<Rightarrow> type_id" where
  "type_id_of T = TypeId T"

lemma type_id_of_eq [simp]: "type_id_of T = type_id_of U \<longleftrightarrow> T = U"
  by (simp add: type_id_of_def)

definition wf_layout :: "layout \<Rightarrow> bool" where
  "wf_layout l \<longleftrightarrow> pow2 (lalign l) \<and> lalign l dvd lsize l"

abbreviation wf_rtype :: "rtype \<Rightarrow> bool" where
  "wf_rtype T \<equiv> wf_layout (tlayout T)"

record env =
  valid :: "rtype \<Rightarrow> rval \<Rightarrow> bool"
  drop_panics :: "rtype \<Rightarrow> rval \<Rightarrow> bool"

definition wf_val :: "env \<Rightarrow> rtype \<Rightarrow> rval \<Rightarrow> bool" where
  "wf_val E T v \<longleftrightarrow> length v = size_of T \<and> valid E T v"

lemma wf_val_length: "wf_val E T v \<Longrightarrow> length v = size_of T"
  by (simp add: wf_val_def)

lemma wf_val_valid: "wf_val E T v \<Longrightarrow> valid E T v"
  by (simp add: wf_val_def)


section \<open>The world: allocated blocks and the log of drops\<close>

text \<open>
  \<open>blocks\<close> maps the base address of a live allocation to its layout and bytes; \<open>brk\<close> is the
  first address never handed out. Addresses are never reused, so any use of a freed block is
  seen. \<open>dropped\<close> logs each run of a drop glue with the value it consumed.
\<close>

record world =
  brk :: nat
  blocks :: "nat \<Rightarrow> (layout \<times> rval) option"
  dropped :: "(rtype \<times> rval) list"

definition empty_world :: world where
  "empty_world = \<lparr>brk = 1, blocks = Map.empty, dropped = []\<rparr>"

definition wf_world :: "world \<Rightarrow> bool" where
  "wf_world w \<longleftrightarrow> 0 < brk w
    \<and> (\<forall>a l bs. blocks w a = Some (l, bs) \<longrightarrow>
          0 < a \<and> lsize l \<noteq> 0 \<and> length bs = lsize l \<and> lalign l dvd a \<and> a + lsize l \<le> brk w)
    \<and> (\<forall>a b l bs. blocks w a = Some (l, bs) \<and> b \<in> dom (blocks w) \<and> a < b \<longrightarrow> a + lsize l \<le> b)"

lemma wf_empty_world [simp]: "wf_world empty_world"
  by (simp add: wf_world_def empty_world_def)

lemma wf_world_below: "wf_world w \<Longrightarrow> blocks w a = Some (l, bs) \<Longrightarrow> a < brk w"
  by (auto simp: wf_world_def) (metis add_lessD1 le_neq_implies_less less_add_same_cancel1 nat_neq_iff not_gr_zero order_less_le_trans)

text \<open>
  \<open>frees A w w'\<close>: \<open>w'\<close> is \<open>w\<close> with exactly the blocks of \<open>A\<close> given back. Read backwards it
  says that \<open>w\<close> is \<open>w'\<close> with fresh blocks \<open>A\<close> added.
\<close>

definition frees :: "nat set \<Rightarrow> world \<Rightarrow> world \<Rightarrow> bool" where
  "frees A w w' \<longleftrightarrow> A \<subseteq> dom (blocks w) \<and> blocks w' = blocks w |` (- A) \<and> dropped w' = dropped w"

text \<open>\<open>untouched A w w'\<close>: no block outside \<open>A\<close> differs.\<close>

definition untouched :: "nat set \<Rightarrow> world \<Rightarrow> world \<Rightarrow> bool" where
  "untouched A w w' \<longleftrightarrow> dom (blocks w') = dom (blocks w) \<and> dropped w' = dropped w
     \<and> (\<forall>a. a \<notin> A \<longrightarrow> blocks w' a = blocks w a)"

lemma frees_empty [simp]: "frees {} w w"
  by (simp add: frees_def restrict_map_def)

lemma frees_blocks: "frees A w w' \<Longrightarrow> a \<notin> A \<Longrightarrow> blocks w' a = blocks w a"
  by (simp add: frees_def)

lemma frees_gone: "frees A w w' \<Longrightarrow> a \<in> A \<Longrightarrow> blocks w' a = None"
  by (simp add: frees_def)

lemma frees_frees: "frees A w' w \<Longrightarrow> frees A w' w'' \<Longrightarrow> blocks w'' = blocks w"
  by (simp add: frees_def)

lemma frees_fresh: "frees A w' w \<Longrightarrow> A \<inter> dom (blocks w) = {}"
  by (auto simp: frees_def)

lemma untouched_refl [simp]: "untouched A w w"
  by (simp add: untouched_def)

lemma untouched_trans: "untouched A w w' \<Longrightarrow> untouched A w' w'' \<Longrightarrow> untouched A w w''"
  by (simp add: untouched_def)


section \<open>The allocator\<close>

definition allocate :: "layout \<Rightarrow> rval \<Rightarrow> (world, nat) op" where
  "allocate l bs = (\<lambda>w. let a = round_up (brk w) (lalign l) in
     (Ok a, w\<lparr>brk := a + lsize l, blocks := (blocks w)(a \<mapsto> (l, bs))\<rparr>))"

text \<open>
  \<open>alloc::alloc::dealloc\<close>: undefined for a pointer that is not a live allocation, and for a
  layout other than the one it was allocated with.
\<close>

definition dealloc :: "nat \<Rightarrow> layout \<Rightarrow> (world, unit) op" where
  "dealloc a l = (\<lambda>w. case blocks w a of
      None \<Rightarrow> (UB DanglingPointer, w)
    | Some (l', bs) \<Rightarrow>
        if l' = l then (Ok (), w\<lparr>blocks := (blocks w)(a := None)\<rparr>)
        else (UB LayoutMismatch, w))"

lemma allocate_spec:
  assumes w: "wf_world w" and l: "wf_layout l" "lsize l \<noteq> 0" and bs: "length bs = lsize l"
  shows "\<exists>a w'. allocate l bs w = (Ok a, w') \<and> wf_world w' \<and> frees {a} w' w
    \<and> blocks w' a = Some (l, bs) \<and> 0 < a \<and> lalign l dvd a"
proof -
  define a where "a = round_up (brk w) (lalign l)"
  define w' where "w' = w\<lparr>brk := a + lsize l, blocks := (blocks w)(a \<mapsto> (l, bs))\<rparr>"
  have run: "allocate l bs w = (Ok a, w')"
    by (simp add: allocate_def a_def w'_def Let_def)
  have al: "0 < lalign l" using l(1) by (simp add: wf_layout_def pow2_pos)
  have ge: "brk w \<le> a" unfolding a_def by (rule round_up_ge [OF al])
  have pos: "0 < a" using ge w by (simp add: wf_world_def)
  have fresh: "blocks w a = None"
    using ge wf_world_below [OF w] by (metis leD not_Some_eq surj_pair)
  have bound: "c + lsize m \<le> a" if "blocks w c = Some (m, cs)" for c m cs
    using that w ge unfolding wf_world_def by (meson le_trans)
  have wf': "wf_world w'"
    unfolding wf_world_def
  proof (intro conjI allI impI)
    show "0 < brk w'" using pos by (simp add: w'_def)
  next
    fix c m cs assume c: "blocks w' c = Some (m, cs)"
    show "0 < c" "lsize m \<noteq> 0" "length cs = lsize m" "lalign m dvd c" "c + lsize m \<le> brk w'"
      using c w bound [of c m cs] pos l(2) bs
      by (auto simp: w'_def a_def wf_world_def split: if_splits)
  next
    fix c d m cs assume c: "blocks w' c = Some (m, cs) \<and> d \<in> dom (blocks w') \<and> c < d"
    show "c + lsize m \<le> d"
    proof (cases "d = a")
      case True
      with c bound [of c m cs] show ?thesis by (auto simp: w'_def split: if_splits)
    next
      case False
      then have "d \<in> dom (blocks w)" using c by (auto simp: w'_def split: if_splits)
      moreover from this have "d < a"
        using bound ge wf_world_below [OF w] by (metis domD surj_pair order_less_le_trans)
      ultimately show ?thesis
        using c w unfolding wf_world_def by (auto simp: w'_def split: if_splits)
    qed
  qed
  have "frees {a} w' w"
    using fresh by (auto simp: frees_def w'_def restrict_map_def fun_eq_iff)
  then show ?thesis
    using run wf' pos by (auto simp: w'_def a_def)
qed

lemma wf_world_sub:
  assumes w: "wf_world w" and brk: "brk w' = brk w"
    and sub: "\<And>c. c \<in> dom (blocks w') \<Longrightarrow> blocks w' c = blocks w c"
  shows "wf_world w'"
proof -
  have Some: "blocks w c = Some (l, bs)" if "blocks w' c = Some (l, bs)" for c l bs
    using that sub [of c] by (simp add: domI)
  have dom: "d \<in> dom (blocks w)" if "d \<in> dom (blocks w')" for d
    using that sub [OF that] by (simp add: dom_def)
  show ?thesis
    using w Some dom unfolding wf_world_def brk by meson
qed

lemma wf_world_remove:
  "wf_world w \<Longrightarrow> wf_world (w\<lparr>blocks := (blocks w)(a := None)\<rparr>)"
  by (erule wf_world_sub) (auto split: if_splits)

lemma wf_world_block:
  assumes "wf_world w" and "blocks w a = Some (l, bs)"
  shows "0 < a" "lsize l \<noteq> 0" "length bs = lsize l" "lalign l dvd a" "a + lsize l \<le> brk w"
  using assms unfolding wf_world_def by blast+

lemma wf_world_disjoint:
  "wf_world w \<Longrightarrow> blocks w a = Some (l, bs) \<Longrightarrow> b \<in> dom (blocks w) \<Longrightarrow> a < b \<Longrightarrow> a + lsize l \<le> b"
  unfolding wf_world_def by blast

lemma wf_world_update:
  assumes w: "wf_world w" and a: "blocks w a = Some (l, bs)" and len: "length cs = length bs"
  shows "wf_world (w\<lparr>blocks := (blocks w)(a \<mapsto> (l, cs))\<rparr>)" (is "wf_world ?w")
proof -
  have old: "\<exists>es. blocks w c = Some (m, es) \<and> length es = length ds"
    if "blocks ?w c = Some (m, ds)" for c m ds
    using that a len by (auto split: if_splits)
  have dom: "dom (blocks ?w) = dom (blocks w)" using a by auto
  show ?thesis
    unfolding wf_world_def dom
  proof (intro conjI allI impI)
    show "0 < brk ?w" using w by (simp add: wf_world_def)
  next
    fix c m ds assume "blocks ?w c = Some (m, ds)"
    from old [OF this] obtain es where c: "blocks w c = Some (m, es)" "length es = length ds" by blast
    from wf_world_block [OF w c(1)] c(2)
    show "0 < c" "lsize m \<noteq> 0" "length ds = lsize m" "lalign m dvd c" "c + lsize m \<le> brk ?w"
      by simp_all
  next
    fix c d m ds assume h: "blocks ?w c = Some (m, ds) \<and> d \<in> dom (blocks w) \<and> c < d"
    with old obtain es where "blocks w c = Some (m, es)" by blast
    with h show "c + lsize m \<le> d" by (blast intro: wf_world_disjoint [OF w])
  qed
qed

lemma dealloc_spec:
  assumes "wf_world w" and "blocks w a = Some (l, bs)"
  shows "\<exists>w'. dealloc a l w = (Ok (), w') \<and> wf_world w' \<and> frees {a} w w'"
  using assms wf_world_remove [of w a]
  by (auto simp: dealloc_def frees_def restrict_map_def fun_eq_iff)


section \<open>Pointers, typed reads and writes\<close>

text \<open>
  A pointer the crate hands out points either into the storage value itself (\<open>InlineP\<close>, with
  the address of its first byte) or to an allocation (\<open>HeapP\<close>; for a zero-sized type a
  dangling but aligned address). \<open>frame\<close> is the inline buffer that an \<open>InlineP\<close> may access:
  where it lies and its bytes.
\<close>

datatype ptr = InlineP nat | HeapP nat

fun ptr_addr :: "ptr \<Rightarrow> nat" where
  "ptr_addr (InlineP a) = a"
| "ptr_addr (HeapP a) = a"

record frame =
  faddr :: nat
  fbytes :: rval

definition ptr_ok :: "rtype \<Rightarrow> ptr \<Rightarrow> bool" where
  "ptr_ok T p \<longleftrightarrow> ptr_addr p \<noteq> 0 \<and> align_of T dvd ptr_addr p"

fun bytes_at :: "frame \<Rightarrow> world \<Rightarrow> ptr \<Rightarrow> nat \<Rightarrow> rval res" where
  "bytes_at fr w (InlineP a) n =
     (if n = 0 then Ok []
      else if a \<noteq> faddr fr then UB DanglingPointer
      else if n \<le> length (fbytes fr) then Ok (take n (fbytes fr))
      else UB OutOfBounds)"
| "bytes_at fr w (HeapP a) n =
     (if n = 0 then Ok []
      else case blocks w a of
          None \<Rightarrow> UB DanglingPointer
        | Some (l, bs) \<Rightarrow> if n \<le> length bs then Ok (take n bs) else UB OutOfBounds)"

text \<open>A typed read: alignment, bounds, and the bytes must be a value of the type.\<close>

definition load :: "env \<Rightarrow> rtype \<Rightarrow> frame \<Rightarrow> ptr \<Rightarrow> world \<Rightarrow> rval res" where
  "load E T fr p w =
     (if \<not> ptr_ok T p then UB Misaligned
      else case bytes_at fr w p (size_of T) of
          Ok bs \<Rightarrow> if valid E T bs then Ok bs else UB InvalidValue
        | r \<Rightarrow> r)"

text \<open>A reference \<open>&T\<close>/\<open>&mut T\<close> may only be made from a pointer a read of \<open>T\<close> accepts.\<close>

definition ref_to :: "env \<Rightarrow> rtype \<Rightarrow> frame \<Rightarrow> ptr \<Rightarrow> world \<Rightarrow> ptr res" where
  "ref_to E T fr p w = map_res (\<lambda>_. p) (load E T fr p w)"

text \<open>A typed write returns the new bytes of the frame and the new world.\<close>

fun store_bytes :: "frame \<Rightarrow> ptr \<Rightarrow> rval \<Rightarrow> (world, rval) op" where
  "store_bytes fr (InlineP a) v w =
     (if v = [] then (Ok (fbytes fr), w)
      else if a \<noteq> faddr fr then (UB DanglingPointer, w)
      else if length v \<le> length (fbytes fr) then (Ok (v @ drop (length v) (fbytes fr)), w)
      else (UB OutOfBounds, w))"
| "store_bytes fr (HeapP a) v w =
     (if v = [] then (Ok (fbytes fr), w)
      else case blocks w a of
          None \<Rightarrow> (UB DanglingPointer, w)
        | Some (l, bs) \<Rightarrow>
            if length v \<le> length bs
            then (Ok (fbytes fr), w\<lparr>blocks := (blocks w)(a \<mapsto> (l, v @ drop (length v) bs))\<rparr>)
            else (UB OutOfBounds, w))"

definition store :: "rtype \<Rightarrow> frame \<Rightarrow> ptr \<Rightarrow> rval \<Rightarrow> (world, rval) op" where
  "store T fr p v w = (if ptr_ok T p then store_bytes fr p v w else (UB Misaligned, w))"


section \<open>Dropping a value in place\<close>

text \<open>
  \<open>ptr.cast::<T>().drop_in_place()\<close> runs the drop glue of \<open>T\<close> on the value behind the
  pointer; the user's \<open>Drop\<close> may panic after the value has been consumed.
\<close>

definition log_drop :: "rtype \<Rightarrow> rval \<Rightarrow> world \<Rightarrow> world" where
  "log_drop T v w = w\<lparr>dropped := dropped w @ [(T, v)]\<rparr>"

definition drop_glue :: "env \<Rightarrow> rtype \<Rightarrow> frame \<Rightarrow> ptr \<Rightarrow> (world, unit) op" where
  "drop_glue E T fr p w =
     (case load E T fr p w of
        Ok v \<Rightarrow> (if drop_panics E T v then Panic ''drop'' else Ok (), log_drop T v w)
      | Panic s \<Rightarrow> (Panic s, w)
      | UB u \<Rightarrow> (UB u, w)
      | BuildError s \<Rightarrow> (BuildError s, w))"

lemma log_drop_simps [simp]:
  "blocks (log_drop T v w) = blocks w" "brk (log_drop T v w) = brk w"
  "dropped (log_drop T v w) = dropped w @ [(T, v)]"
  by (simp_all add: log_drop_def)

lemma wf_world_log_drop [simp]: "wf_world (log_drop T v w) = wf_world w"
  unfolding wf_world_def log_drop_simps by (rule refl)

lemma bytes_at_world: "blocks w' = blocks w \<Longrightarrow> bytes_at fr w' p n = bytes_at fr w p n"
  by (cases p) auto

lemma load_world: "blocks w' = blocks w \<Longrightarrow> load E T fr p w' = load E T fr p w"
  by (simp only: load_def bytes_at_world [of w' w])

lemma load_log_drop [simp]: "load E T fr p (log_drop U u w) = load E T fr p w"
  by (rule load_world) simp


section \<open>The \<open>Box\<close> of the standard library\<close>

text \<open>
  A \<open>Box<T>\<close> is the pointer to its block; a zero-sized \<open>T\<close> takes no block and the pointer is
  dangling at the address \<open>align_of::<T>()\<close>.
\<close>

definition std_box_new :: "rtype \<Rightarrow> rval \<Rightarrow> (world, ptr) op" where
  "std_box_new T v =
     (if size_of T = 0 then ret (HeapP (align_of T))
      else bnd (allocate (tlayout T) v) (\<lambda>a. ret (HeapP a)))"

text \<open>\<open>*boxed\<close>: move the value out and free the block.\<close>

definition std_box_unbox :: "env \<Rightarrow> rtype \<Rightarrow> ptr \<Rightarrow> (world, rval) op" where
  "std_box_unbox E T p = (\<lambda>w.
     bnd (throw (load E T \<lparr>faddr = 0, fbytes = []\<rparr> p w))
       (\<lambda>v. if size_of T = 0 then ret v
             else bnd (dealloc (ptr_addr p) (tlayout T)) (\<lambda>_. ret v)) w)"

text \<open>\<open>p\<close> is a box of \<open>T\<close> holding \<open>v\<close>; \<open>box_own\<close> are the blocks it owns.\<close>

definition boxed :: "rtype \<Rightarrow> rval \<Rightarrow> ptr \<Rightarrow> world \<Rightarrow> bool" where
  "boxed T v p w \<longleftrightarrow> (case p of
      InlineP _ \<Rightarrow> False
    | HeapP a \<Rightarrow> a \<noteq> 0 \<and> align_of T dvd a
        \<and> (if size_of T = 0 then v = [] else blocks w a = Some (tlayout T, v)))"

definition box_own :: "rtype \<Rightarrow> ptr \<Rightarrow> nat set" where
  "box_own T p = (if size_of T = 0 then {} else {ptr_addr p})"

lemma boxed_HeapP: "boxed T v p w \<Longrightarrow> \<exists>a. p = HeapP a"
  by (cases p) (auto simp: boxed_def)

lemma boxed_ptr_ok: "boxed T v p w \<Longrightarrow> ptr_ok T p"
  by (cases p) (auto simp: boxed_def ptr_ok_def)

lemma box_own_dom: "boxed T v p w \<Longrightarrow> box_own T p \<subseteq> dom (blocks w)"
  by (cases p) (auto simp: boxed_def box_own_def split: if_splits)

lemma boxed_frame:
  "boxed T v p w \<Longrightarrow> (\<forall>a\<in>box_own T p. blocks w' a = blocks w a) \<Longrightarrow> boxed T v p w'"
  by (cases p) (auto simp: boxed_def box_own_def split: if_splits)

lemma boxed_load:
  "boxed T v p w \<Longrightarrow> wf_val E T v \<Longrightarrow> load E T fr p w = Ok v"
  using boxed_ptr_ok [of T v p w]
  by (cases p) (auto simp: boxed_def load_def wf_val_def split: if_splits)

lemma std_box_new_spec:
  assumes "wf_world w" and "wf_rtype T" and "length v = size_of T"
  shows "\<exists>p w'. std_box_new T v w = (Ok p, w') \<and> wf_world w' \<and> boxed T v p w'
    \<and> frees (box_own T p) w' w"
proof (cases "size_of T = 0")
  case True
  moreover have "align_of T \<noteq> 0" using assms(2) pow2_pos by (fastforce simp: wf_layout_def)
  ultimately show ?thesis
    using assms by (auto simp: std_box_new_def boxed_def box_own_def)
next
  case False
  with allocate_spec [OF assms(1,2) _ assms(3)] obtain a w' where
    "allocate (tlayout T) v w = (Ok a, w')" "wf_world w'" "frees {a} w' w"
    "blocks w' a = Some (tlayout T, v)" "0 < a" "align_of T dvd a"
    by blast
  with False show ?thesis
    by (auto simp: std_box_new_def boxed_def box_own_def)
qed

lemma std_box_unbox_spec:
  assumes "wf_world w" and "boxed T v p w" and "wf_val E T v"
  shows "\<exists>w'. std_box_unbox E T p w = (Ok v, w') \<and> wf_world w' \<and> frees (box_own T p) w w'"
proof (cases "size_of T = 0")
  case True
  with assms show ?thesis
    by (auto simp: std_box_unbox_def boxed_load box_own_def)
next
  case False
  from boxed_HeapP [OF assms(2)] obtain a where p: "p = HeapP a" by blast
  with assms(2) False have "blocks w a = Some (tlayout T, v)" by (simp add: boxed_def)
  from dealloc_spec [OF assms(1) this] obtain w' where
    "dealloc a (tlayout T) w = (Ok (), w')" "wf_world w'" "frees {a} w w'" by blast
  with False assms p show ?thesis
    by (auto simp: std_box_unbox_def boxed_load box_own_def)
qed

end
