(* ===== verification/Storage_Trait.thy ===== *)
theory Storage_Trait
  imports Memory
begin

text \<open>
  The traits \<open>Storage\<close> and \<open>FromBox\<close> of \<open>src/storage.rs\<close>: the dictionaries of their methods
  (what monomorphisation passes around), the provided method bodies, and the contract an
  implementation owes its clients, stated once as the locale \<open>storage_contract\<close> and its
  extension \<open>from_box_contract\<close>.

  A storage value \<open>s\<close> of type \<open>'s\<close> lives at a place with address \<open>a\<close>; a reference to it is the
  pair. Three entries of the dictionary are not methods but facts about the memory a value of
  the type occupies: the alignment of the type, the inline bytes a pointer into the place may
  reach, and the value with these bytes replaced.
\<close>


section \<open>The method dictionaries\<close>

record 's storage_ops =
  so_new :: "rtype \<Rightarrow> rval \<Rightarrow> (world, 's) op"
  so_ptr :: "nat \<Rightarrow> 's \<Rightarrow> ptr res"
  so_ptr_mut :: "nat \<Rightarrow> 's \<Rightarrow> ptr res"
  so_as_ref :: "env \<Rightarrow> rtype \<Rightarrow> nat \<Rightarrow> 's \<Rightarrow> world \<Rightarrow> ptr res"
  so_as_mut :: "env \<Rightarrow> rtype \<Rightarrow> nat \<Rightarrow> 's \<Rightarrow> world \<Rightarrow> ptr res"
  so_as_pinned_mut :: "env \<Rightarrow> rtype \<Rightarrow> nat \<Rightarrow> 's \<Rightarrow> world \<Rightarrow> ptr res"
  so_drop_in_place :: "layout \<Rightarrow> 's \<Rightarrow> (world, unit) op"
  so_align :: nat
  so_frame :: "nat \<Rightarrow> 's \<Rightarrow> frame"
  so_put :: "rval \<Rightarrow> 's \<Rightarrow> 's"

record 's from_box_ops = "'s storage_ops" +
  so_from_box :: "env \<Rightarrow> rtype \<Rightarrow> ptr \<Rightarrow> (world, 's) op"


section \<open>Provided methods\<close>

text \<open>\<open>unsafe { self.ptr().cast().as_ref() }\<close>\<close>

definition default_as_ref ::
  "(nat \<Rightarrow> 's \<Rightarrow> ptr res) \<Rightarrow> (nat \<Rightarrow> 's \<Rightarrow> frame) \<Rightarrow> env \<Rightarrow> rtype \<Rightarrow> nat \<Rightarrow> 's \<Rightarrow> world \<Rightarrow> ptr res" where
  "default_as_ref ptr fr E T a s w = res_bind (ptr a s) (\<lambda>p. ref_to E T (fr a s) p w)"

text \<open>\<open>unsafe { self.ptr_mut().cast().as_mut() }\<close>\<close>

definition default_as_mut ::
  "(nat \<Rightarrow> 's \<Rightarrow> ptr res) \<Rightarrow> (nat \<Rightarrow> 's \<Rightarrow> frame) \<Rightarrow> env \<Rightarrow> rtype \<Rightarrow> nat \<Rightarrow> 's \<Rightarrow> world \<Rightarrow> ptr res" where
  "default_as_mut ptr_mut fr E T a s w = res_bind (ptr_mut a s) (\<lambda>p. ref_to E T (fr a s) p w)"

text \<open>\<open>self.map_unchecked_mut(|this| this.as_mut())\<close>: \<open>Pin\<close> only wraps the reference.\<close>

definition default_as_pinned_mut ::
  "(env \<Rightarrow> rtype \<Rightarrow> nat \<Rightarrow> 's \<Rightarrow> world \<Rightarrow> ptr res) \<Rightarrow> env \<Rightarrow> rtype \<Rightarrow> nat \<Rightarrow> 's \<Rightarrow> world \<Rightarrow> ptr res" where
  "default_as_pinned_mut as_mut E T a s w = as_mut E T a s w"

text \<open>Places: a storage may only live at a non-null address aligned for its type.\<close>

definition place_ok :: "('s, 'z) storage_ops_scheme \<Rightarrow> nat \<Rightarrow> bool" where
  "place_ok S a \<longleftrightarrow> 0 < a \<and> so_align S dvd a"

text \<open>Reading and writing through a reference \<open>p\<close> obtained from the storage at \<open>a\<close>.\<close>

definition read_ref ::
  "('s, 'z) storage_ops_scheme \<Rightarrow> env \<Rightarrow> rtype \<Rightarrow> nat \<Rightarrow> 's \<Rightarrow> ptr \<Rightarrow> world \<Rightarrow> rval res" where
  "read_ref S E T a s p w = load E T (so_frame S a s) p w"

definition write_ref ::
  "('s, 'z) storage_ops_scheme \<Rightarrow> rtype \<Rightarrow> nat \<Rightarrow> 's \<Rightarrow> ptr \<Rightarrow> rval \<Rightarrow> (world, 's) op" where
  "write_ref S T a s p v = bnd (store T (so_frame S a s) p v) (\<lambda>bs. ret (so_put S bs s))"


section \<open>The contract\<close>

text \<open>
  \<open>rep T v s w\<close>: in world \<open>w\<close> the storage \<open>s\<close> holds the value \<open>v\<close> of type \<open>T\<close>.
  \<open>own T s\<close>: the allocations the storage is responsible for.
  \<open>fits T\<close>: the types the storage accepts (for the others the program does not build).
\<close>

locale storage_contract =
  fixes S :: "('s, 'z) storage_ops_scheme"
    and fits :: "rtype \<Rightarrow> bool"
    and rep :: "rtype \<Rightarrow> rval \<Rightarrow> 's \<Rightarrow> world \<Rightarrow> bool"
    and own :: "rtype \<Rightarrow> 's \<Rightarrow> nat set"
  assumes new_law: "wf_rtype T \<Longrightarrow> length v = size_of T \<Longrightarrow> fits T \<Longrightarrow> wf_world w \<Longrightarrow>
      \<exists>s w'. so_new S T v w = (Ok s, w') \<and> wf_world w' \<and> rep T v s w' \<and> frees (own T s) w' w"
    and ref_law: "rep T v s w \<Longrightarrow> wf_rtype T \<Longrightarrow> wf_val E T v \<Longrightarrow> place_ok S a \<Longrightarrow>
      \<exists>p. so_ptr S a s = Ok p \<and> so_ptr_mut S a s = Ok p
        \<and> so_as_ref S E T a s w = Ok p \<and> so_as_mut S E T a s w = Ok p
        \<and> so_as_pinned_mut S E T a s w = Ok p \<and> read_ref S E T a s p w = Ok v"
    and write_law: "rep T v s w \<Longrightarrow> wf_rtype T \<Longrightarrow> wf_world w \<Longrightarrow> length u = size_of T \<Longrightarrow>
      place_ok S a \<Longrightarrow> so_ptr_mut S a s = Ok p \<Longrightarrow>
      \<exists>s' w'. write_ref S T a s p u w = (Ok s', w') \<and> wf_world w' \<and> rep T u s' w'
        \<and> own T s' = own T s \<and> so_ptr_mut S a s' = Ok p \<and> untouched (own T s) w w'"
    and drop_law: "rep T v s w \<Longrightarrow> wf_world w \<Longrightarrow>
      \<exists>w'. so_drop_in_place S (tlayout T) s w = (Ok (), w') \<and> wf_world w' \<and> frees (own T s) w w'"
    and rep_frame: "rep T v s w \<Longrightarrow> (\<And>a. a \<in> own T s \<Longrightarrow> blocks w' a = blocks w a) \<Longrightarrow> rep T v s w'"
    and own_dom: "rep T v s w \<Longrightarrow> own T s \<subseteq> dom (blocks w)"
    and rep_length: "rep T v s w \<Longrightarrow> length v = size_of T"

locale from_box_contract = storage_contract S fits rep own
  for S :: "('s, 'z) from_box_ops_scheme" and fits rep own +
  assumes from_box_law: "boxed T v p w \<Longrightarrow> wf_rtype T \<Longrightarrow> wf_val E T v \<Longrightarrow> wf_world w \<Longrightarrow>
      \<exists>s w'. so_from_box S E T p w = (Ok s, w') \<and> wf_world w' \<and> rep T v s w'
        \<and> own T s \<inter> (dom (blocks w) - box_own T p) = {}
        \<and> blocks w' |` (- own T s) = blocks w |` (- box_own T p) \<and> dropped w' = dropped w"


section \<open>What a client gets from the contract\<close>

context storage_contract
begin

lemma ptr_ptr_mut:
  assumes "rep T v s w" "wf_rtype T" "wf_val E T v" "place_ok S a"
  shows "so_ptr S a s = so_ptr_mut S a s"
  using ref_law [OF assms] by auto

lemma rep_world:
  "rep T v s w \<Longrightarrow> blocks w' = blocks w \<Longrightarrow> rep T v s w'"
  by (erule rep_frame) simp

lemma rep_log_drop [simp]: "rep T v s (log_drop U u w) = rep T v s w"
  by (rule iffI; erule rep_world; simp)

text \<open>Two storages side by side: what one frees leaves the other in place.\<close>

lemma rep_frees_other:
  assumes "rep T v s w" and "frees A w w'" and "A \<inter> own T s = {}"
  shows "rep T v s w'"
  using assms(1)
proof (rule rep_frame)
  fix a assume "a \<in> own T s"
  with assms(3) have "a \<notin> A" by blast
  with assms(2) show "blocks w' a = blocks w a" by (rule frees_blocks)
qed

lemma rep_new_other:
  assumes "rep T v s w" and "frees A w' w"
  shows "rep T v s w'"
  using assms(1)
proof (rule rep_frame)
  fix a assume "a \<in> own T s"
  with own_dom [OF assms(1)] frees_fresh [OF assms(2)] have "a \<notin> A" by blast
  with assms(2) show "blocks w' a = blocks w a" by (metis frees_blocks)
qed

text \<open>Creating a storage and dropping it in place leaves the heap as it was.\<close>

lemma new_drop_heap:
  assumes "wf_rtype T" "length v = size_of T" "fits T" "wf_world w"
  shows "\<exists>s w' w''. so_new S T v w = (Ok s, w')
    \<and> so_drop_in_place S (tlayout T) s w' = (Ok (), w'') \<and> blocks w'' = blocks w"
proof -
  from new_law [OF assms] obtain s w' where
    s: "so_new S T v w = (Ok s, w')" "wf_world w'" "rep T v s w'" "frees (own T s) w' w" by blast
  from drop_law [OF s(3,2)] obtain w'' where
    "so_drop_in_place S (tlayout T) s w' = (Ok (), w'')" "frees (own T s) w' w''" by blast
  with s frees_frees show ?thesis by blast
qed

text \<open>A write through \<open>as_mut\<close> is what the next read through \<open>as_ref\<close> sees.\<close>

lemma write_read:
  assumes "rep T v s w" "wf_rtype T" "wf_world w" "wf_val E T v" "wf_val E T u" "place_ok S a"
  shows "\<exists>p s' w'. so_as_mut S E T a s w = Ok p \<and> write_ref S T a s p u w = (Ok s', w')
    \<and> rep T u s' w' \<and> so_as_ref S E T a s' w' = Ok p \<and> read_ref S E T a s' p w' = Ok u"
proof -
  from ref_law [OF assms(1,2,4,6)] obtain p where
    p: "so_ptr_mut S a s = Ok p" "so_as_mut S E T a s w = Ok p" by blast
  from write_law [OF assms(1-3) wf_val_length [OF assms(5)] assms(6) p(1)] obtain s' w' where
    s': "write_ref S T a s p u w = (Ok s', w')" "rep T u s' w'" "so_ptr_mut S a s' = Ok p" by blast
  from ref_law [OF s'(2) assms(2,5,6)] s'(3) have
    "so_as_ref S E T a s' w' = Ok p" "read_ref S E T a s' p w' = Ok u" by auto
  with p s' show ?thesis by blast
qed

end

end
