(* ===== verification/Object.thy ===== *)
theory Object
  imports Storage_Trait
begin

text \<open>
  \<open>DynObject\<close> of \<open>src/object.rs\<close>: the traits \<open>DynTrait\<close> and \<open>Vtable\<close>, the object (a storage
  and the vtable of the concrete type), its constructors, \<open>insert\<close>, and its \<open>Drop\<close>.
  Everything is over an arbitrary storage dictionary and vtable constructor, as the source is
  generic in them; the lemmas are proved in the locale \<open>dyn_object\<close> from the two contracts.

  The address \<open>a\<close> of an object is the address of its \<open>storage\<close> field.
\<close>


section \<open>\<open>DynTrait\<close> and \<open>Vtable\<close>\<close>

text \<open>The function pointer \<open>|ptr_mut| ptr_mut.cast::<T>().drop_in_place()\<close>, by its \<open>T\<close>.\<close>

datatype drop_fn = DropInPlace rtype

record vtable =
  vt_drop_in_place :: "drop_fn option"
  vt_layout :: layout

text \<open>
  \<open>DynTrait\<close>, as the dictionary of its two functions: each \<open>dyn\<close> type implements it for its own
  vtable type, and every implementation reads the two fields its vtable starts with.
\<close>

record 'v dyn_trait_ops =
  dt_drop_in_place_fn :: "'v \<Rightarrow> drop_fn option"
  dt_layout :: "'v \<Rightarrow> layout"

definition drop_in_place_fn :: "'z vtable_scheme \<Rightarrow> drop_fn option" where
  "drop_in_place_fn vt = vt_drop_in_place vt"

definition layout_fn :: "'z vtable_scheme \<Rightarrow> layout" where
  "layout_fn vt = vt_layout vt"

text \<open>Every implementation of \<open>DynTrait\<close> reads the two fields.\<close>

definition reads_fields :: "'z vtable_scheme dyn_trait_ops \<Rightarrow> bool" where
  "reads_fields D \<longleftrightarrow> D = \<lparr>dt_drop_in_place_fn = drop_in_place_fn, dt_layout = layout_fn\<rparr>"

definition DROP_IN_PLACE_FN :: "rtype \<Rightarrow> drop_fn option" where
  "DROP_IN_PLACE_FN T = (if tneeds_drop T then Some (DropInPlace T) else None)"

fun call_drop_fn :: "env \<Rightarrow> drop_fn \<Rightarrow> frame \<Rightarrow> ptr \<Rightarrow> (world, unit) op" where
  "call_drop_fn E (DropInPlace T) fr p = drop_glue E T fr p"

text \<open>The two safety clauses of \<open>unsafe trait Vtable<T>\<close>.\<close>

locale vtable_contract =
  fixes vt :: "rtype \<Rightarrow> 'z vtable_scheme"
  assumes layout_law: "layout_fn (vt T) = tlayout T"
    and drop_fn_law: "drop_in_place_fn (vt T) = DROP_IN_PLACE_FN T"


section \<open>The object\<close>

record ('s, 'v) dynobj =
  storage :: 's
  vtable :: 'v

definition dyn_new ::
  "('s, 'y) storage_ops_scheme \<Rightarrow> (rtype \<Rightarrow> 'v) \<Rightarrow> rtype \<Rightarrow> rval \<Rightarrow> (world, ('s, 'v) dynobj) op" where
  "dyn_new S vt T object =
     bnd (so_new S T object) (\<lambda>s. ret \<lparr>storage = s, vtable = vt T\<rparr>)"

definition dyn_from_box ::
  "('s, 'y) from_box_ops_scheme \<Rightarrow> (rtype \<Rightarrow> 'v) \<Rightarrow> env \<Rightarrow> rtype \<Rightarrow> ptr \<Rightarrow> (world, ('s, 'v) dynobj) op" where
  "dyn_from_box S vt E T bx =
     bnd (so_from_box S E T bx) (\<lambda>s. ret \<lparr>storage = s, vtable = vt T\<rparr>)"

text \<open>
  The hidden accessors. \<open>&mut\<close> and \<open>Pin<&mut>\<close> of the field reach the same place; the caller puts the
  new value of the field back.
\<close>

definition obj_vtable :: "('s, 'v) dynobj \<Rightarrow> 'v" where
  "obj_vtable this = vtable this"

definition obj_storage :: "('s, 'v) dynobj \<Rightarrow> 's" where
  "obj_storage this = storage this"

definition obj_storage_mut :: "('s, 'v) dynobj \<Rightarrow> 's" where
  "obj_storage_mut this = storage this"

definition obj_storage_pinned_mut :: "('s, 'v) dynobj \<Rightarrow> 's" where
  "obj_storage_pinned_mut this = storage this"

declare obj_vtable_def [simp] obj_storage_def [simp] obj_storage_mut_def [simp] obj_storage_pinned_mut_def [simp]

text \<open>\<open>impl Drop for DynObject\<close>. The storages have no drop glue of their own.\<close>

definition dyn_drop ::
  "('s, 'y) storage_ops_scheme \<Rightarrow> env \<Rightarrow> nat \<Rightarrow> ('s, 'z vtable_scheme) dynobj \<Rightarrow> (world, unit) op" where
  "dyn_drop S E a this =
     bnd (case drop_in_place_fn (vtable this) of
            Some drop_inner \<Rightarrow>
              bnd (throw (so_ptr_mut S a (obj_storage_mut this)))
                (\<lambda>p. call_drop_fn E drop_inner (so_frame S a (storage this)) p)
          | None \<Rightarrow> ret ())
       (\<lambda>_. so_drop_in_place S (layout_fn (vtable this)) (obj_storage_mut this))"

text \<open>Dropping an \<open>Option<DynObject>\<close>.\<close>

fun opt_drop ::
  "('s, 'y) storage_ops_scheme \<Rightarrow> env \<Rightarrow> nat \<Rightarrow> ('s, 'z vtable_scheme) dynobj option \<Rightarrow> (world, unit) op" where
  "opt_drop S E a None = ret ()"
| "opt_drop S E a (Some ob) = dyn_drop S E a ob"

text \<open>
  \<open>DynObject::insert\<close>. \<open>Option::insert\<close> assigns \<open>Some(value)\<close>: the new object is built first,
  the old value is dropped, and the new one is in place even when that drop unwinds. The
  result carries the final value of the \<open>&mut Option\<close>.
\<close>

definition dyn_insert ::
  "('s, 'y) storage_ops_scheme \<Rightarrow> (rtype \<Rightarrow> 'z vtable_scheme) \<Rightarrow> env \<Rightarrow> rtype \<Rightarrow> nat
    \<Rightarrow> ('s, 'z vtable_scheme) dynobj option \<Rightarrow> rval \<Rightarrow> world
    \<Rightarrow> ptr res \<times> ('s, 'z vtable_scheme) dynobj option \<times> world" where
  "dyn_insert S vt E T a this object w =
     (case dyn_new S vt T object w of
        (Ok ob, w1) \<Rightarrow>
          (case opt_drop S E a this w1 of
             (Ok _, w2) \<Rightarrow> (so_as_mut S E T a (obj_storage_mut ob) w2, Some ob, w2)
           | (Panic s, w2) \<Rightarrow> (Panic s, Some ob, w2)
           | (UB u, w2) \<Rightarrow> (UB u, Some ob, w2)
           | (BuildError s, w2) \<Rightarrow> (BuildError s, Some ob, w2))
      | (Panic s, w1) \<Rightarrow> (Panic s, this, w1)
      | (UB u, w1) \<Rightarrow> (UB u, this, w1)
      | (BuildError s, w1) \<Rightarrow> (BuildError s, this, w1))"

text \<open>\<open>this.map_unchecked_mut(|opt| Self::insert(opt, object))\<close>\<close>

definition dyn_insert_pinned ::
  "('s, 'y) storage_ops_scheme \<Rightarrow> (rtype \<Rightarrow> 'z vtable_scheme) \<Rightarrow> env \<Rightarrow> rtype \<Rightarrow> nat
    \<Rightarrow> ('s, 'z vtable_scheme) dynobj option \<Rightarrow> rval \<Rightarrow> world
    \<Rightarrow> ptr res \<times> ('s, 'z vtable_scheme) dynobj option \<times> world" where
  "dyn_insert_pinned S vt E T a this object w = dyn_insert S vt E T a this object w"


section \<open>Well-formed objects\<close>

text \<open>The object holds the value \<open>v\<close> of type \<open>T\<close> and carries the vtable of that \<open>T\<close>.\<close>

definition obj_rep ::
  "(rtype \<Rightarrow> rval \<Rightarrow> 's \<Rightarrow> world \<Rightarrow> bool) \<Rightarrow> (rtype \<Rightarrow> 'v) \<Rightarrow> rtype \<Rightarrow> rval \<Rightarrow> ('s, 'v) dynobj \<Rightarrow> world \<Rightarrow> bool" where
  "obj_rep rep vt T v ob w \<longleftrightarrow> rep T v (storage ob) w \<and> vtable ob = vt T"

text \<open>What a drop of a \<open>T\<close> holding \<open>v\<close> adds to the log.\<close>

definition drop_trace :: "rtype \<Rightarrow> rval \<Rightarrow> (rtype \<times> rval) list" where
  "drop_trace T v = (if tneeds_drop T then [(T, v)] else [])"

text \<open>\<open>after_drop A T v w w'\<close>: from \<open>w\<close> to \<open>w'\<close> the value was dropped once and \<open>A\<close> was freed.\<close>

definition after_drop :: "nat set \<Rightarrow> rtype \<Rightarrow> rval \<Rightarrow> world \<Rightarrow> world \<Rightarrow> bool" where
  "after_drop A T v w w' \<longleftrightarrow> wf_world w' \<and> blocks w' = blocks w |` (- A)
     \<and> dropped w' = dropped w @ drop_trace T v"

locale dyn_object = storage_contract S fits rep own + vtable_contract vt
  for S :: "('s, 'y) storage_ops_scheme" and fits rep own
    and vt :: "rtype \<Rightarrow> 'z vtable_scheme"
begin

lemma obj_rep_storage: "obj_rep rep vt T v ob w \<Longrightarrow> rep T v (storage ob) w"
  by (simp add: obj_rep_def)

lemma obj_rep_frame:
  "obj_rep rep vt T v ob w \<Longrightarrow> (\<And>a. a \<in> own T (storage ob) \<Longrightarrow> blocks w' a = blocks w a)
    \<Longrightarrow> obj_rep rep vt T v ob w'"
  by (auto simp: obj_rep_def intro: rep_frame)

lemma new_ok:
  assumes "wf_rtype T" "length v = size_of T" "fits T" "wf_world w"
  shows "\<exists>ob w'. dyn_new S vt T v w = (Ok ob, w') \<and> wf_world w' \<and> obj_rep rep vt T v ob w'
    \<and> frees (own T (storage ob)) w' w"
proof -
  from new_law [OF assms] obtain s w' where
    s: "so_new S T v w = (Ok s, w')" "wf_world w'" "rep T v s w'" "frees (own T s) w' w" by blast
  then have "dyn_new S vt T v w = (Ok \<lparr>storage = s, vtable = vt T\<rparr>, w')"
    by (simp add: dyn_new_def)
  with s show ?thesis by (auto simp: obj_rep_def)
qed

text \<open>The glue of \<open>T\<close> runs on exactly the stored value, if the type has any glue.\<close>

lemma drop_call:
  assumes "obj_rep rep vt T v ob w" "wf_rtype T" "wf_val E T v" "place_ok S a"
  shows "dyn_drop S E a ob w =
    (if tneeds_drop T \<and> drop_panics E T v then (Panic ''drop'', log_drop T v w)
     else so_drop_in_place S (tlayout T) (storage ob) (if tneeds_drop T then log_drop T v w else w))"
proof -
  from assms(1) have v: "vtable ob = vt T" "rep T v (storage ob) w" by (simp_all add: obj_rep_def)
  from ref_law [OF v(2) assms(2-4)] obtain p where
    p: "so_ptr_mut S a (storage ob) = Ok p" "read_ref S E T a (storage ob) p w = Ok v" by blast
  have "drop_glue E T (so_frame S a (storage ob)) p w
      = (if drop_panics E T v then Panic ''drop'' else Ok (), log_drop T v w)"
    using p(2) by (simp add: drop_glue_def read_ref_def)
  then show ?thesis
    using v(1) p(1) layout_law [of T] drop_fn_law [of T]
    by (simp add: dyn_drop_def DROP_IN_PLACE_FN_def bnd_def)
qed

lemma drop_ok:
  assumes "obj_rep rep vt T v ob w" "wf_rtype T" "wf_val E T v" "place_ok S a" "wf_world w"
    and "tneeds_drop T \<longrightarrow> \<not> drop_panics E T v"
  shows "\<exists>w'. dyn_drop S E a ob w = (Ok (), w') \<and> after_drop (own T (storage ob)) T v w w'"
proof -
  let ?w = "if tneeds_drop T then log_drop T v w else w"
  have r: "rep T v (storage ob) ?w" and wf: "wf_world ?w"
    using assms(5) obj_rep_storage [OF assms(1)] by simp_all
  from drop_law [OF r wf] obtain w' where
    "so_drop_in_place S (tlayout T) (storage ob) ?w = (Ok (), w')" "wf_world w'"
    "frees (own T (storage ob)) ?w w'" by blast
  then show ?thesis
    using drop_call [OF assms(1-4)] assms(6)
    by (auto simp: after_drop_def drop_trace_def frees_def split: if_splits)
qed

text \<open>When the glue unwinds, the storage is not released: the blocks stay allocated.\<close>

lemma drop_panic:
  assumes "obj_rep rep vt T v ob w" "wf_rtype T" "wf_val E T v" "place_ok S a"
    and "tneeds_drop T" "drop_panics E T v"
  shows "dyn_drop S E a ob w = (Panic ''drop'', log_drop T v w)"
  using drop_call [OF assms(1-4)] assms(5,6) by simp

lemma drop_no_ub:
  assumes "obj_rep rep vt T v ob w" "wf_rtype T" "wf_val E T v" "place_ok S a" "wf_world w"
  shows "\<not> is_ub (fst (dyn_drop S E a ob w))"
proof (cases "tneeds_drop T \<and> drop_panics E T v")
  case True
  with drop_panic [OF assms(1-4)] show ?thesis by simp
next
  case False
  with drop_ok [OF assms] show ?thesis by auto
qed

lemma new_drop:
  assumes "wf_rtype T" "wf_val E T v" "fits T" "wf_world w" "place_ok S a"
    and "tneeds_drop T \<longrightarrow> \<not> drop_panics E T v"
  shows "\<exists>ob w' w''. dyn_new S vt T v w = (Ok ob, w') \<and> dyn_drop S E a ob w' = (Ok (), w'')
    \<and> wf_world w'' \<and> blocks w'' = blocks w \<and> dropped w'' = dropped w @ drop_trace T v"
proof -
  from new_ok [OF assms(1) wf_val_length [OF assms(2)] assms(3,4)] obtain ob w' where
    ob: "dyn_new S vt T v w = (Ok ob, w')" "wf_world w'" "obj_rep rep vt T v ob w'"
    "frees (own T (storage ob)) w' w" by blast
  from drop_ok [OF ob(3) assms(1,2,5) ob(2) assms(6)] obtain w'' where
    "dyn_drop S E a ob w' = (Ok (), w'')" "after_drop (own T (storage ob)) T v w' w''" by blast
  with ob show ?thesis by (auto simp: after_drop_def frees_def)
qed

text \<open>
  \<open>insert\<close> over a filled slot: the old value is dropped once, its blocks are returned, and the
  reference handed out reads the new value.
\<close>

lemma insert_ok:
  assumes old: "obj_rep rep vt U u ob0 w" "wf_rtype U" "wf_val E U u" "tneeds_drop U \<longrightarrow> \<not> drop_panics E U u"
    and T: "wf_rtype T" "wf_val E T v" "fits T" and w: "wf_world w" and a: "place_ok S a"
  shows "\<exists>p ob w'. dyn_insert S vt E T a (Some ob0) v w = (Ok p, Some ob, w') \<and> wf_world w'
    \<and> obj_rep rep vt T v ob w' \<and> read_ref S E T a (storage ob) p w' = Ok v
    \<and> own T (storage ob) \<inter> dom (blocks w) = {}
    \<and> blocks w' |` (- own T (storage ob)) = blocks w |` (- own U (storage ob0))
    \<and> dropped w' = dropped w @ drop_trace U u"
proof -
  from new_ok [OF T(1) wf_val_length [OF T(2)] T(3) w] obtain ob w1 where
    ob: "dyn_new S vt T v w = (Ok ob, w1)" "wf_world w1" "obj_rep rep vt T v ob w1"
    "frees (own T (storage ob)) w1 w" by blast
  have disj: "own T (storage ob) \<inter> dom (blocks w) = {}"
    using ob(4) by (rule frees_fresh)
  have own0: "own U (storage ob0) \<subseteq> dom (blocks w)"
    using own_dom obj_rep_storage [OF old(1)] by blast
  have old1: "obj_rep rep vt U u ob0 w1"
    using old(1) rep_new_other [OF _ ob(4)] by (simp add: obj_rep_def)
  from drop_ok [OF old1 old(2,3) a ob(2) old(4)] obtain w2 where
    w2: "dyn_drop S E a ob0 w1 = (Ok (), w2)" "after_drop (own U (storage ob0)) U u w1 w2" by blast
  have new2: "obj_rep rep vt T v ob w2"
    using ob(3)
  proof (rule obj_rep_frame)
    fix b assume "b \<in> own T (storage ob)"
    with disj own0 have "b \<notin> own U (storage ob0)" by blast
    with w2(2) show "blocks w2 b = blocks w1 b" by (simp add: after_drop_def)
  qed
  from ref_law [OF obj_rep_storage [OF new2] T(1,2) a] obtain p where
    p: "so_as_mut S E T a (storage ob) w2 = Ok p" "read_ref S E T a (storage ob) p w2 = Ok v" by blast
  have run: "dyn_insert S vt E T a (Some ob0) v w = (Ok p, Some ob, w2)"
    using ob(1) w2(1) p(1) by (simp add: dyn_insert_def)
  have "blocks w2 |` (- own T (storage ob)) = blocks w |` (- own U (storage ob0))"
    using w2(2) ob(4) by (simp add: after_drop_def frees_def restrict_restrict Int_commute)
  with run w2(2) new2 p(2) disj ob(4) show ?thesis
    by (auto simp: after_drop_def frees_def)
qed

lemma insert_empty:
  assumes "wf_rtype T" "wf_val E T v" "fits T" "wf_world w" "place_ok S a"
  shows "\<exists>p ob w'. dyn_insert S vt E T a None v w = (Ok p, Some ob, w') \<and> wf_world w'
    \<and> obj_rep rep vt T v ob w' \<and> read_ref S E T a (storage ob) p w' = Ok v
    \<and> frees (own T (storage ob)) w' w"
proof -
  from new_ok [OF assms(1) wf_val_length [OF assms(2)] assms(3,4)] obtain ob w1 where
    ob: "dyn_new S vt T v w = (Ok ob, w1)" "wf_world w1" "obj_rep rep vt T v ob w1"
    "frees (own T (storage ob)) w1 w" by blast
  from ref_law [OF obj_rep_storage [OF ob(3)] assms(1,2,5)] obtain p where
    "so_as_mut S E T a (storage ob) w1 = Ok p" "read_ref S E T a (storage ob) p w1 = Ok v" by blast
  with ob show ?thesis by (auto simp: dyn_insert_def)
qed

text \<open>If dropping the old value unwinds, the slot already holds the new object.\<close>

lemma insert_panic:
  assumes old: "obj_rep rep vt U u ob0 w" "wf_rtype U" "wf_val E U u" "tneeds_drop U" "drop_panics E U u"
    and T: "wf_rtype T" "wf_val E T v" "fits T" and w: "wf_world w" and a: "place_ok S a"
  shows "\<exists>ob w'. dyn_insert S vt E T a (Some ob0) v w = (Panic ''drop'', Some ob, w') \<and> wf_world w'
    \<and> obj_rep rep vt T v ob w' \<and> dropped w' = dropped w @ [(U, u)]
    \<and> own U (storage ob0) \<subseteq> dom (blocks w')
    \<and> own T (storage ob) \<inter> dom (blocks w) = {}
    \<and> blocks w' |` (- own T (storage ob)) = blocks w"
proof -
  from new_ok [OF T(1) wf_val_length [OF T(2)] T(3) w] obtain ob w1 where
    ob: "dyn_new S vt T v w = (Ok ob, w1)" "obj_rep rep vt T v ob w1"
    "frees (own T (storage ob)) w1 w" "wf_world w1" by blast
  have old1: "obj_rep rep vt U u ob0 w1"
    using old(1) rep_new_other [OF _ ob(3)] by (simp add: obj_rep_def)
  from drop_panic [OF old1 old(2,3) a old(4,5)]
  have "dyn_insert S vt E T a (Some ob0) v w = (Panic ''drop'', Some ob, log_drop U u w1)"
    using ob(1) by (simp add: dyn_insert_def)
  moreover have "own U (storage ob0) \<subseteq> dom (blocks (log_drop U u w1))"
    using own_dom [OF obj_rep_storage [OF old1]] by simp
  ultimately show ?thesis
    using ob frees_fresh [OF ob(3)] by (auto simp: obj_rep_def frees_def)
qed

end

locale dyn_object_from_box = from_box_contract S fits rep own + dyn_object S fits rep own vt
  for S :: "('s, 'y) from_box_ops_scheme" and fits rep own
    and vt :: "rtype \<Rightarrow> 'z vtable_scheme"
begin

lemma from_box_ok:
  assumes "boxed T v p w" "wf_rtype T" "wf_val E T v" "wf_world w"
  shows "\<exists>ob w'. dyn_from_box S vt E T p w = (Ok ob, w') \<and> wf_world w' \<and> obj_rep rep vt T v ob w'
    \<and> own T (storage ob) \<inter> (dom (blocks w) - box_own T p) = {}
    \<and> blocks w' |` (- own T (storage ob)) = blocks w |` (- box_own T p) \<and> dropped w' = dropped w"
proof -
  from from_box_law [OF assms] obtain s w' where
    s: "so_from_box S E T p w = (Ok s, w')" "wf_world w'" "rep T v s w'"
    "own T s \<inter> (dom (blocks w) - box_own T p) = {}"
    "blocks w' |` (- own T s) = blocks w |` (- box_own T p)" "dropped w' = dropped w" by blast
  then have "dyn_from_box S vt E T p w = (Ok \<lparr>storage = s, vtable = vt T\<rparr>, w')"
    by (simp add: dyn_from_box_def)
  with s show ?thesis by (auto simp: obj_rep_def)
qed

text \<open>Boxing a value, turning the box into an object and dropping it frees everything.\<close>

lemma from_box_drop:
  assumes "wf_rtype T" "wf_val E T v" "wf_world w" "place_ok S a"
    and "tneeds_drop T \<longrightarrow> \<not> drop_panics E T v"
  shows "\<exists>p ob w1 w2 w3. std_box_new T v w = (Ok p, w1) \<and> dyn_from_box S vt E T p w1 = (Ok ob, w2)
    \<and> dyn_drop S E a ob w2 = (Ok (), w3) \<and> blocks w3 = blocks w
    \<and> dropped w3 = dropped w @ drop_trace T v"
proof -
  from std_box_new_spec [OF assms(3,1) wf_val_length [OF assms(2)]] obtain p w1 where
    p: "std_box_new T v w = (Ok p, w1)" "wf_world w1" "boxed T v p w1" "frees (box_own T p) w1 w"
    by blast
  from from_box_ok [OF p(3) assms(1,2) p(2)] obtain ob w2 where
    ob: "dyn_from_box S vt E T p w1 = (Ok ob, w2)" "wf_world w2" "obj_rep rep vt T v ob w2"
    "blocks w2 |` (- own T (storage ob)) = blocks w1 |` (- box_own T p)" "dropped w2 = dropped w1"
    by blast
  from drop_ok [OF ob(3) assms(1,2,4) ob(2) assms(5)] obtain w3 where
    "dyn_drop S E a ob w2 = (Ok (), w3)" "after_drop (own T (storage ob)) T v w2 w3" by blast
  with p ob show ?thesis by (auto simp: after_drop_def frees_def)
qed

end

end
