(* ===== verification/Object_Programs.thy ===== *)
theory Object_Programs
  imports Object
begin

text \<open>
  Programs over \<open>DynObject<dyn Trait, S>\<close> variables, for any trait and any storage: lists of
  commands that create, drop, move and overwrite objects and use them through the methods of the
  trait. What such programs are promised is an abstract machine: variables that hold a typed
  value or nothing, and the log of the values dropped, with no storage, heap, vtable or address.

  The locale \<open>object_client\<close> asks of the methods that each does to a stored value what it does to
  the value itself; then every program on the storage gives the results of the abstract machine.
\<close>


section \<open>Programs\<close>

datatype 'c cmd =
    New nat rtype rval
  | From_Box nat rtype rval
  | Drop nat
  | Move nat nat
  | Insert nat rtype rval
  | Use nat 'c

text \<open>
  What the program sees of a command: that it is done, what a method returns, or that the
  compiler rejects it (it uses a variable moved out of, or overwrites one).
\<close>

datatype 'r obs = Done | Got 'r | Rejected

text \<open>
  A method on a value: what it returns, or its panic, and the value it leaves, if it leaves one.
  The same through an object at an address.
\<close>

type_synonym ('c, 'r) value_op = "'c \<Rightarrow> rtype \<Rightarrow> rval \<Rightarrow> 'r res \<times> rval option"

type_synonym ('s, 'v, 'c, 'r) object_op =
  "env \<Rightarrow> 'c \<Rightarrow> nat \<Rightarrow> ('s, 'v) dynobj \<Rightarrow> world \<Rightarrow> 'r res \<times> ('s, 'v) dynobj option \<times> world"

text \<open>\<open>DynObject::from_box\<close>, where the storage has it.\<close>

type_synonym ('s, 'v) box_op = "env \<Rightarrow> rtype \<Rightarrow> ptr \<Rightarrow> (world, ('s, 'v) dynobj) op"

definition no_from_box :: "('s, 'v) box_op" where
  "no_from_box E T p = throw (BuildError ''the trait FromBox is not implemented'')"

text \<open>Commands on values of their types, which the storage takes.\<close>

fun cmd_ok :: "env \<Rightarrow> (rtype \<Rightarrow> bool) \<Rightarrow> bool \<Rightarrow> (env \<Rightarrow> 'c \<Rightarrow> bool) \<Rightarrow> 'c cmd \<Rightarrow> bool" where
  "cmd_ok E fits boxes uses (New i T v) \<longleftrightarrow> wf_rtype T \<and> wf_val E T v \<and> fits T"
| "cmd_ok E fits boxes uses (From_Box i T v) \<longleftrightarrow> boxes \<and> wf_rtype T \<and> wf_val E T v"
| "cmd_ok E fits boxes uses (Insert i T v) \<longleftrightarrow> wf_rtype T \<and> wf_val E T v \<and> fits T"
| "cmd_ok E fits boxes uses (Use i c) \<longleftrightarrow> uses E c"
| "cmd_ok E fits boxes uses c \<longleftrightarrow> True"

lemma cmd_ok_mono:
  "list_all (cmd_ok E fits boxes uses) cs \<Longrightarrow> (\<And>T. fits T \<Longrightarrow> fits' T) \<Longrightarrow> (boxes \<Longrightarrow> boxes')
    \<Longrightarrow> (\<And>c. uses E c \<Longrightarrow> uses' E c) \<Longrightarrow> list_all (cmd_ok E fits' boxes' uses') cs"
proof (induction cs)
  case (Cons c cs)
  then show ?case by (cases c) auto
qed simp


section \<open>The abstract machine\<close>

record amach =
  avars :: "nat \<Rightarrow> (rtype \<times> rval) option"
  alog :: "(rtype \<times> rval) list"

definition init_amach :: amach where
  "init_amach = \<lparr>avars = Map.empty, alog = []\<rparr>"

text \<open>Dropping a value: its destructor runs, and may panic.\<close>

definition drop_result :: "env \<Rightarrow> rtype \<Rightarrow> rval \<Rightarrow> 'r obs res" where
  "drop_result E T v = (if tneeds_drop T \<and> drop_panics E T v then Panic ''drop'' else Ok Done)"

definition put :: "nat \<Rightarrow> (rtype \<times> rval) option \<Rightarrow> (rtype \<times> rval) list \<Rightarrow> amach \<Rightarrow> amach" where
  "put i x log a = a\<lparr>avars := (avars a)(i := x), alog := alog a @ log\<rparr>"

fun spec_cmd :: "('c, 'r) value_op \<Rightarrow> env \<Rightarrow> 'c cmd \<Rightarrow> amach \<Rightarrow> 'r obs res \<times> amach" where
  "spec_cmd f E (New i T v) a =
     (if avars a i = None then (Ok Done, put i (Some (T, v)) [] a) else (Ok Rejected, a))"
| "spec_cmd f E (From_Box i T v) a =
     (if avars a i = None then (Ok Done, put i (Some (T, v)) [] a) else (Ok Rejected, a))"
| "spec_cmd f E (Drop i) a = (case avars a i of
      None \<Rightarrow> (Ok Rejected, a)
    | Some (T, v) \<Rightarrow> (drop_result E T v, put i None (drop_trace T v) a))"
| "spec_cmd f E (Move i j) a =
     (if avars a i \<noteq> None \<and> avars a j = None
      then (Ok Done, put j (avars a i) [] (put i None [] a)) else (Ok Rejected, a))"
| "spec_cmd f E (Insert i T v) a = (case avars a i of
      None \<Rightarrow> (Ok Done, put i (Some (T, v)) [] a)
    | Some (U, u) \<Rightarrow> (drop_result E U u, put i (Some (T, v)) (drop_trace U u) a))"
| "spec_cmd f E (Use i c) a = (case avars a i of
      None \<Rightarrow> (Ok Rejected, a)
    | Some (T, v) \<Rightarrow> (case f c T v of (r, x) \<Rightarrow> (map_res Got r, put i (map_option (Pair T) x) [] a)))"

fun spec_prog :: "('c, 'r) value_op \<Rightarrow> env \<Rightarrow> 'c cmd list \<Rightarrow> amach \<Rightarrow> 'r obs res list \<times> amach" where
  "spec_prog f E [] a = ([], a)"
| "spec_prog f E (c # cs) a =
     (let (r, a') = spec_cmd f E c a; (rs, a'') = spec_prog f E cs a' in (r # rs, a''))"


section \<open>Running a program on a storage\<close>

record ('s, 'v) mach =
  mheap :: world
  mvars :: "nat \<Rightarrow> ('s, 'v) dynobj option"

definition init_mach :: "('s, 'v) mach" where
  "init_mach = \<lparr>mheap = empty_world, mvars = Map.empty\<rparr>"

definition set_var :: "nat \<Rightarrow> ('s, 'v) dynobj option \<Rightarrow> world \<Rightarrow> ('s, 'v) mach \<Rightarrow> ('s, 'v) mach" where
  "set_var i x w m = m\<lparr>mheap := w, mvars := (mvars m)(i := x)\<rparr>"

fun ok_value :: "'a res \<Rightarrow> 'a option" where
  "ok_value (Ok x) = Some x"
| "ok_value (Panic s) = None"
| "ok_value (UB u) = None"
| "ok_value (BuildError s) = None"

text \<open>
  The variable \<open>i\<close> lives at the address \<open>addr i\<close>. A panic is caught, and the program goes on with
  the next command.
\<close>

fun run_cmd ::
  "('s, 'y) storage_ops_scheme \<Rightarrow> (rtype \<Rightarrow> 'z vtable_scheme) \<Rightarrow> ('s, 'z vtable_scheme) box_op
    \<Rightarrow> ('s, 'z vtable_scheme, 'c, 'r) object_op \<Rightarrow> env \<Rightarrow> (nat \<Rightarrow> nat) \<Rightarrow> 'c cmd
    \<Rightarrow> ('s, 'z vtable_scheme) mach \<Rightarrow> 'r obs res \<times> ('s, 'z vtable_scheme) mach" where
  "run_cmd S vt fb f E addr (New i T v) m = (case mvars m i of
      Some ob \<Rightarrow> (Ok Rejected, m)
    | None \<Rightarrow> (case dyn_new S vt T v (mheap m) of
        (r, w) \<Rightarrow> (map_res (\<lambda>_. Done) r, set_var i (ok_value r) w m)))"
| "run_cmd S vt fb f E addr (From_Box i T v) m = (case mvars m i of
      Some ob \<Rightarrow> (Ok Rejected, m)
    | None \<Rightarrow> (case bnd (std_box_new T v) (fb E T) (mheap m) of
        (r, w) \<Rightarrow> (map_res (\<lambda>_. Done) r, set_var i (ok_value r) w m)))"
| "run_cmd S vt fb f E addr (Drop i) m = (case mvars m i of
      None \<Rightarrow> (Ok Rejected, m)
    | Some ob \<Rightarrow> (case dyn_drop S E (addr i) ob (mheap m) of
        (r, w) \<Rightarrow> (map_res (\<lambda>_. Done) r, set_var i None w m)))"
| "run_cmd S vt fb f E addr (Move i j) m = (case (mvars m i, mvars m j) of
      (Some ob, None) \<Rightarrow> (Ok Done, set_var j (Some ob) (mheap m) (set_var i None (mheap m) m))
    | _ \<Rightarrow> (Ok Rejected, m))"
| "run_cmd S vt fb f E addr (Insert i T v) m =
     (case dyn_insert S vt E T (addr i) (mvars m i) v (mheap m) of
        (r, x, w) \<Rightarrow> (map_res (\<lambda>_. Done) r, set_var i x w m))"
| "run_cmd S vt fb f E addr (Use i c) m = (case mvars m i of
      None \<Rightarrow> (Ok Rejected, m)
    | Some ob \<Rightarrow> (case f E c (addr i) ob (mheap m) of
        (r, x, w) \<Rightarrow> (map_res Got r, set_var i x w m)))"

fun run_prog ::
  "('s, 'y) storage_ops_scheme \<Rightarrow> (rtype \<Rightarrow> 'z vtable_scheme) \<Rightarrow> ('s, 'z vtable_scheme) box_op
    \<Rightarrow> ('s, 'z vtable_scheme, 'c, 'r) object_op \<Rightarrow> env \<Rightarrow> (nat \<Rightarrow> nat) \<Rightarrow> 'c cmd list
    \<Rightarrow> ('s, 'z vtable_scheme) mach \<Rightarrow> 'r obs res list \<times> ('s, 'z vtable_scheme) mach" where
  "run_prog S vt fb f E addr [] m = ([], m)"
| "run_prog S vt fb f E addr (c # cs) m =
     (let (r, m') = run_cmd S vt fb f E addr c m; (rs, m'') = run_prog S vt fb f E addr cs m' in (r # rs, m''))"

text \<open>What a run shows: the results, and the values dropped, in order.\<close>

definition observed :: "'r obs res list \<times> ('s, 'v) mach \<Rightarrow> 'r obs res list \<times> (rtype \<times> rval) list" where
  "observed x = (fst x, dropped (mheap (snd x)))"

definition spec_observed :: "'r obs res list \<times> amach \<Rightarrow> 'r obs res list \<times> (rtype \<times> rval) list" where
  "spec_observed x = (fst x, alog (snd x))"


section \<open>The simulation relation\<close>

text \<open>
  Each variable holds what the abstract one does, no two objects share an allocation, and the same
  values were dropped in the same order.
\<close>

fun holds ::
  "(rtype \<Rightarrow> rval \<Rightarrow> 's \<Rightarrow> world \<Rightarrow> bool) \<Rightarrow> (rtype \<Rightarrow> 'v) \<Rightarrow> env \<Rightarrow> world \<Rightarrow> ('s, 'v) dynobj option
    \<Rightarrow> (rtype \<times> rval) option \<Rightarrow> bool" where
  "holds rep vt E w (Some ob) (Some (T, v)) \<longleftrightarrow> wf_rtype T \<and> wf_val E T v \<and> obj_rep rep vt T v ob w"
| "holds rep vt E w x y \<longleftrightarrow> x = None \<and> y = None"

fun extent :: "(rtype \<Rightarrow> 's \<Rightarrow> nat set) \<Rightarrow> ('s, 'v) dynobj option \<Rightarrow> (rtype \<times> rval) option \<Rightarrow> nat set" where
  "extent own (Some ob) (Some (T, v)) = own T (storage ob)"
| "extent own x y = {}"

definition refines ::
  "(rtype \<Rightarrow> rval \<Rightarrow> 's \<Rightarrow> world \<Rightarrow> bool) \<Rightarrow> (rtype \<Rightarrow> 's \<Rightarrow> nat set) \<Rightarrow> (rtype \<Rightarrow> 'v) \<Rightarrow> env
    \<Rightarrow> ('s, 'v) mach \<Rightarrow> amach \<Rightarrow> bool" where
  "refines rep own vt E m a \<longleftrightarrow> wf_world (mheap m) \<and> dropped (mheap m) = alog a
     \<and> (\<forall>i. holds rep vt E (mheap m) (mvars m i) (avars a i))
     \<and> (\<forall>i j. i \<noteq> j \<longrightarrow> extent own (mvars m i) (avars a i) \<inter> extent own (mvars m j) (avars a j) = {})"

definition agree ::
  "(rtype \<Rightarrow> rval \<Rightarrow> 's \<Rightarrow> world \<Rightarrow> bool) \<Rightarrow> (rtype \<Rightarrow> 's \<Rightarrow> nat set) \<Rightarrow> (rtype \<Rightarrow> 'v) \<Rightarrow> env
    \<Rightarrow> 'r obs res \<times> ('s, 'v) mach \<Rightarrow> 'r obs res \<times> amach \<Rightarrow> bool" where
  "agree rep own vt E x y \<longleftrightarrow> fst x = fst y \<and> refines rep own vt E (snd x) (snd y)"

lemma set_var_simps [simp]: "mheap (set_var i x w m) = w" "mvars (set_var i x w m) = (mvars m)(i := x)"
  by (simp_all add: set_var_def)

lemma put_simps [simp]: "avars (put i x l a) = (avars a)(i := x)" "alog (put i x l a) = alog a @ l"
  by (simp_all add: put_def)

lemma holds_empty [simp]:
  "holds rep vt E w None y \<longleftrightarrow> y = None" "holds rep vt E w x None \<longleftrightarrow> x = None"
  by (cases y; simp) (cases x; simp)

lemma extent_empty [simp]: "extent own None y = {}" "extent own x None = {}"
  by (cases y; simp) (cases x; simp)

lemma refines_holds: "refines rep own vt E m a \<Longrightarrow> holds rep vt E (mheap m) (mvars m i) (avars a i)"
  by (simp add: refines_def)

lemma refines_disjoint:
  "refines rep own vt E m a \<Longrightarrow> i \<noteq> j \<Longrightarrow>
    extent own (mvars m i) (avars a i) \<inter> extent own (mvars m j) (avars a j) = {}"
  by (simp add: refines_def)

lemma refines_wf: "refines rep own vt E m a \<Longrightarrow> wf_world (mheap m)"
  by (simp add: refines_def)

lemma refines_log: "refines rep own vt E m a \<Longrightarrow> dropped (mheap m) = alog a"
  by (simp add: refines_def)

lemma refines_None: "refines rep own vt E m a \<Longrightarrow> mvars m i = None \<longleftrightarrow> avars a i = None"
  using refines_holds [of rep own vt E m a i] by (cases "mvars m i"; cases "avars a i") auto

lemma refines_empty: "refines rep own vt E m a \<Longrightarrow> mvars m i = None \<Longrightarrow> avars a i = None"
  by (simp add: refines_None)

lemma refines_Some:
  assumes "refines rep own vt E m a" "mvars m i = Some ob"
  obtains T v where "avars a i = Some (T, v)" "wf_rtype T" "wf_val E T v" "obj_rep rep vt T v ob (mheap m)"
  using refines_holds [OF assms(1), of i] assms(2) by (cases "avars a i") auto

lemma init_refines: "refines rep own vt E init_mach init_amach"
  by (simp add: refines_def init_mach_def init_amach_def) (simp add: empty_world_def)


section \<open>The contract of a client\<close>

text \<open>
  What a method does to an object: it returns what it returns on the value, and either leaves the
  object with the new value in the same blocks, or gives them back.
\<close>

definition op_agrees ::
  "(rtype \<Rightarrow> rval \<Rightarrow> 's \<Rightarrow> world \<Rightarrow> bool) \<Rightarrow> (rtype \<Rightarrow> 's \<Rightarrow> nat set) \<Rightarrow> (rtype \<Rightarrow> 'v) \<Rightarrow> env \<Rightarrow> rtype
    \<Rightarrow> ('s, 'v) dynobj \<Rightarrow> world \<Rightarrow> rval option \<Rightarrow> ('s, 'v) dynobj option \<Rightarrow> world \<Rightarrow> bool" where
  "op_agrees rep own vt E T ob w y x w' \<longleftrightarrow> wf_world w' \<and> (case y of
      None \<Rightarrow> x = None \<and> frees (own T (storage ob)) w w'
    | Some u \<Rightarrow> wf_val E T u \<and> untouched (own T (storage ob)) w w'
        \<and> (\<exists>ob'. x = Some ob' \<and> obj_rep rep vt T u ob' w' \<and> own T (storage ob') = own T (storage ob)))"

locale object_client = dyn_object S fits rep own vt
  for S :: "('s, 'y) storage_ops_scheme" and fits rep own
    and vt :: "rtype \<Rightarrow> 'z vtable_scheme" +
  fixes fb :: "('s, 'z vtable_scheme) box_op" and boxes :: bool
    and f :: "('s, 'z vtable_scheme, 'c, 'r) object_op" and g :: "('c, 'r) value_op"
    and uses :: "env \<Rightarrow> 'c \<Rightarrow> bool"
  assumes box_law: "boxes \<Longrightarrow> boxed T v p w \<Longrightarrow> wf_rtype T \<Longrightarrow> wf_val E T v \<Longrightarrow> wf_world w \<Longrightarrow>
      \<exists>ob w'. fb E T p w = (Ok ob, w') \<and> wf_world w' \<and> obj_rep rep vt T v ob w'
        \<and> own T (storage ob) \<inter> (dom (blocks w) - box_own T p) = {}
        \<and> blocks w' |` (- own T (storage ob)) = blocks w |` (- box_own T p) \<and> dropped w' = dropped w"
    and use_law: "uses E c \<Longrightarrow> obj_rep rep vt T v ob w \<Longrightarrow> wf_rtype T \<Longrightarrow> wf_val E T v \<Longrightarrow>
      wf_world w \<Longrightarrow> place_ok S k \<Longrightarrow>
      \<exists>x w'. f E c k ob w = (fst (g c T v), x, w') \<and> op_agrees rep own vt E T ob w (snd (g c T v)) x w'"
begin

text \<open>The one lemma behind the commands: a step on variable \<open>i\<close> leaves the others as they are.\<close>

lemma holds_extent: "holds rep vt E w x y \<Longrightarrow> extent own x y \<subseteq> dom (blocks w)"
  by (cases "(own, x, y)" rule: extent.cases) (auto dest: obj_rep_storage own_dom)

lemma holds_frame:
  assumes "holds rep vt E w x y" "\<And>b. b \<in> extent own x y \<Longrightarrow> blocks w' b = blocks w b"
  shows "holds rep vt E w' x y"
proof (cases "\<exists>ob T v. x = Some ob \<and> y = Some (T, v)")
  case True
  then obtain ob T v where xy: "x = Some ob" "y = Some (T, v)" by blast
  with assms have "obj_rep rep vt T v ob w'" by (auto intro: obj_rep_frame)
  with xy assms(1) show ?thesis by simp
qed (use assms(1) in \<open>cases x; cases y; auto\<close>)

lemma refines_update:
  assumes r: "refines rep own vt E m a" and w: "wf_world w" "dropped w = alog a @ log"
    and h: "holds rep vt E w x y"
    and new: "extent own x y \<inter> (dom (blocks (mheap m)) - extent own (mvars m i) (avars a i)) = {}"
    and same: "\<And>b. b \<in> dom (blocks (mheap m)) \<Longrightarrow> b \<notin> extent own (mvars m i) (avars a i) \<Longrightarrow>
        blocks w b = blocks (mheap m) b"
  shows "refines rep own vt E (set_var i x w m) (put i y log a)"
proof -
  have other: "extent own (mvars m j) (avars a j)
      \<subseteq> dom (blocks (mheap m)) - extent own (mvars m i) (avars a i)" if "j \<noteq> i" for j
    using holds_extent [OF refines_holds [OF r, of j]] refines_disjoint [OF r that] by blast
  have "holds rep vt E w (mvars m j) (avars a j)" if "j \<noteq> i" for j
    using refines_holds [OF r, of j] by (rule holds_frame) (use other [OF that] same in blast)
  moreover have "extent own x y \<inter> extent own (mvars m j) (avars a j) = {}" if "j \<noteq> i" for j
    using other [OF that] new by blast
  ultimately show ?thesis
    using refines_disjoint [OF r] w h by (auto simp: refines_def Int_commute)
qed

text \<open>A variable that was empty gets an object in blocks that were free.\<close>

lemma refines_fresh:
  assumes r: "refines rep own vt E m a" and i: "mvars m i = None" and T: "wf_rtype T" "wf_val E T v"
    and ob: "wf_world w" "obj_rep rep vt T v ob w" "frees (own T (storage ob)) w (mheap m)"
  shows "refines rep own vt E (set_var i (Some ob) w m) (put i (Some (T, v)) [] a)"
proof (rule refines_update [OF r ob(1)])
  show "dropped w = alog a @ []" using ob(3) refines_log [OF r] by (simp add: frees_def)
  show "holds rep vt E w (Some ob) (Some (T, v))" using T ob(2) by simp
  show "extent own (Some ob) (Some (T, v)) \<inter> (dom (blocks (mheap m)) - extent own (mvars m i) (avars a i)) = {}"
    using frees_fresh [OF ob(3)] i by simp
  show "blocks w b = blocks (mheap m) b" if "b \<in> dom (blocks (mheap m))" for b
    using frees_blocks [OF ob(3), of b] frees_fresh [OF ob(3)] that by (metis disjoint_iff)
qed

text \<open>A variable loses its object, whose blocks are given back or leaked.\<close>

lemma refines_gone:
  assumes r: "refines rep own vt E m a" and i: "mvars m i = Some ob" "avars a i = Some (T, v)"
    and w: "wf_world w" "dropped w = alog a @ log"
      "\<And>b. b \<notin> own T (storage ob) \<Longrightarrow> blocks w b = blocks (mheap m) b"
  shows "refines rep own vt E (set_var i None w m) (put i None log a)"
  using refines_update [OF r w(1,2), of None None i] i w(3) by simp

lemma run_New:
  assumes r: "refines rep own vt E m a" and T: "wf_rtype T" "wf_val E T v" "fits T"
  shows "agree rep own vt E (run_cmd S vt fb f E addr (New i T v) m) (spec_cmd g E (New i T v) a)"
proof (cases "mvars m i")
  case None
  from new_ok [OF T(1) wf_val_length [OF T(2)] T(3) refines_wf [OF r]] obtain ob w where
    ob: "dyn_new S vt T v (mheap m) = (Ok ob, w)" "wf_world w" "obj_rep rep vt T v ob w"
    "frees (own T (storage ob)) w (mheap m)" by blast
  from refines_fresh [OF r None T(1,2) ob(2-4)] ob(1) None refines_empty [OF r None]
  show ?thesis by (simp add: agree_def)
qed (use r refines_None [OF r, of i] in \<open>auto simp: agree_def\<close>)

lemma run_From_Box:
  assumes r: "refines rep own vt E m a" and T: "wf_rtype T" "wf_val E T v" "boxes"
  shows "agree rep own vt E (run_cmd S vt fb f E addr (From_Box i T v) m) (spec_cmd g E (From_Box i T v) a)"
proof (cases "mvars m i")
  case None
  from std_box_new_spec [OF refines_wf [OF r] T(1) wf_val_length [OF T(2)]] obtain p w1 where
    p: "std_box_new T v (mheap m) = (Ok p, w1)" "wf_world w1" "boxed T v p w1"
    "frees (box_own T p) w1 (mheap m)" by blast
  from box_law [OF T(3) p(3) T(1,2) p(2)] obtain ob w where
    ob: "fb E T p w1 = (Ok ob, w)" "wf_world w" "obj_rep rep vt T v ob w"
    "own T (storage ob) \<inter> (dom (blocks w1) - box_own T p) = {}"
    "blocks w |` (- own T (storage ob)) = blocks w1 |` (- box_own T p)" "dropped w = dropped w1" by blast
  have "frees (own T (storage ob)) w (mheap m)"
    using ob(4-6) p(4) own_dom [OF obj_rep_storage [OF ob(3)]] by (auto simp: frees_def)
  from refines_fresh [OF r None T(1,2) ob(2,3) this] ob(1) p(1) None refines_empty [OF r None]
  show ?thesis by (simp add: agree_def)
qed (use r refines_None [OF r, of i] in \<open>auto simp: agree_def\<close>)

lemma run_Drop:
  assumes r: "refines rep own vt E m a" and k: "place_ok S (addr i)"
  shows "agree rep own vt E (run_cmd S vt fb f E addr (Drop i) m) (spec_cmd g E (Drop i) a)"
proof (cases "mvars m i")
  case (Some ob)
  from refines_Some [OF r Some] obtain T v where
    o: "avars a i = Some (T, v)" "wf_rtype T" "wf_val E T v" "obj_rep rep vt T v ob (mheap m)" .
  note gone = refines_gone [OF r Some o(1)]
  show ?thesis
  proof (cases "tneeds_drop T \<and> drop_panics E T v")
    case True
    with drop_panic [OF o(4,2,3) k] gone [of "log_drop T v (mheap m)" "drop_trace T v"]
      Some o(1) refines_wf [OF r] refines_log [OF r]
    show ?thesis by (simp add: agree_def drop_result_def drop_trace_def)
  next
    case False
    with drop_ok [OF o(4,2,3) k refines_wf [OF r]] obtain w where
      w: "dyn_drop S E (addr i) ob (mheap m) = (Ok (), w)" "after_drop (own T (storage ob)) T v (mheap m) w"
      by blast
    with gone [of w "drop_trace T v"] Some o(1) False refines_log [OF r]
    show ?thesis by (auto simp: agree_def drop_result_def after_drop_def)
  qed
qed (use r in \<open>simp add: refines_empty agree_def\<close>)

lemma run_Move:
  assumes r: "refines rep own vt E m a"
  shows "agree rep own vt E (run_cmd S vt fb f E addr (Move i j) m) (spec_cmd g E (Move i j) a)"
proof (cases "mvars m i = None \<or> mvars m j \<noteq> None")
  case False
  then obtain ob where i: "mvars m i = Some ob" and j: "mvars m j = None" by auto
  have "extent own (Some ob) (avars a i) \<inter> extent own (mvars m k) (avars a k) = {}" if "k \<noteq> i" for k
    using refines_disjoint [OF r, of i k] i that by auto
  with r i j refines_empty [OF r j] refines_holds [OF r, of i]
  have "refines rep own vt E (set_var j (Some ob) (mheap m) (set_var i None (mheap m) m))
      (put j (avars a i) [] (put i None [] a))"
    unfolding refines_def by (auto simp: Int_commute)
  with i j refines_None [OF r, of i] refines_empty [OF r j] show ?thesis by (simp add: agree_def)
next
  case True
  with r refines_None [OF r, of i] refines_None [OF r, of j] show ?thesis
    by (cases "mvars m i"; cases "mvars m j") (auto simp: agree_def)
qed

text \<open>\<open>insert\<close>: the new object in fresh blocks, then the old one's blocks are given back or leaked.\<close>

lemma run_Insert_full:
  assumes r: "refines rep own vt E m a" and i: "mvars m i = Some ob0" "avars a i = Some (U, u)"
    and T: "wf_rtype T" "wf_val E T v"
    and run: "dyn_insert S vt E T (addr i) (Some ob0) v (mheap m) = (q, Some ob, w)"
      "map_res (\<lambda>_. Done) q = (drop_result E U u :: 'r obs res)"
    and w: "wf_world w" "obj_rep rep vt T v ob w" "dropped w = dropped (mheap m) @ drop_trace U u"
      "own T (storage ob) \<inter> dom (blocks (mheap m)) = {}"
      "\<And>b. b \<notin> own T (storage ob) \<Longrightarrow> b \<notin> own U (storage ob0) \<Longrightarrow> blocks w b = blocks (mheap m) b"
  shows "agree rep own vt E (run_cmd S vt fb f E addr (Insert i T v) m) (spec_cmd g E (Insert i T v) a)"
proof -
  have "refines rep own vt E (set_var i (Some ob) w m) (put i (Some (T, v)) (drop_trace U u) a)"
  proof (rule refines_update [OF r w(1)])
    show "blocks w b = blocks (mheap m) b"
      if "b \<in> dom (blocks (mheap m))" "b \<notin> extent own (mvars m i) (avars a i)" for b
      using that w(4) i by (intro w(5)) auto
  qed (use w i T refines_log [OF r] in auto)
  with run i show ?thesis by (simp add: agree_def)
qed

lemma run_Insert:
  assumes r: "refines rep own vt E m a" and k: "place_ok S (addr i)"
    and T: "wf_rtype T" "wf_val E T v" "fits T"
  shows "agree rep own vt E (run_cmd S vt fb f E addr (Insert i T v) m) (spec_cmd g E (Insert i T v) a)"
proof (cases "mvars m i")
  case None
  from insert_empty [OF T refines_wf [OF r] k] obtain q ob w where
    ob: "dyn_insert S vt E T (addr i) None v (mheap m) = (Ok q, Some ob, w)" "wf_world w"
    "obj_rep rep vt T v ob w" "frees (own T (storage ob)) w (mheap m)" by blast
  from refines_fresh [OF r None T(1,2) ob(2-4)] ob(1) None refines_empty [OF r None]
  show ?thesis by (simp add: agree_def)
next
  case (Some ob0)
  from refines_Some [OF r Some] obtain U u where
    o: "avars a i = Some (U, u)" "wf_rtype U" "wf_val E U u" "obj_rep rep vt U u ob0 (mheap m)" .
  note full = run_Insert_full [OF r Some o(1) T(1,2), of addr]
  show ?thesis
  proof (cases "tneeds_drop U \<and> drop_panics E U u")
    case True
    with insert_panic [OF o(4,2,3) _ _ T refines_wf [OF r] k] obtain ob w where
      w: "dyn_insert S vt E T (addr i) (Some ob0) v (mheap m) = (Panic ''drop'', Some ob, w)" "wf_world w"
      "obj_rep rep vt T v ob w" "dropped w = dropped (mheap m) @ [(U, u)]"
      "own T (storage ob) \<inter> dom (blocks (mheap m)) = {}"
      "blocks w |` (- own T (storage ob)) = blocks (mheap m)" by blast
    have "blocks w b = blocks (mheap m) b" if "b \<notin> own T (storage ob)" for b
      using fun_cong [OF w(6), of b] that by simp
    then show ?thesis
      by (intro full [OF w(1) _ w(2,3) _ w(5)])
        (use True w(4) in \<open>simp_all add: drop_result_def drop_trace_def\<close>)
  next
    case False
    with insert_ok [OF o(4,2,3) _ T refines_wf [OF r] k] obtain q ob w where
      w: "dyn_insert S vt E T (addr i) (Some ob0) v (mheap m) = (Ok q, Some ob, w)" "wf_world w"
      "obj_rep rep vt T v ob w" "own T (storage ob) \<inter> dom (blocks (mheap m)) = {}"
      "blocks w |` (- own T (storage ob)) = blocks (mheap m) |` (- own U (storage ob0))"
      "dropped w = dropped (mheap m) @ drop_trace U u" by blast
    have "blocks w b = blocks (mheap m) b" if "b \<notin> own T (storage ob)" "b \<notin> own U (storage ob0)" for b
      using fun_cong [OF w(5), of b] that by simp
    then show ?thesis
      by (intro full [OF w(1) _ w(2,3,6,4)]) (use False in \<open>simp_all add: drop_result_def\<close>)
  qed
qed

lemma run_Use:
  assumes r: "refines rep own vt E m a" and k: "place_ok S (addr i)" and c: "uses E c"
  shows "agree rep own vt E (run_cmd S vt fb f E addr (Use i c) m) (spec_cmd g E (Use i c) a)"
proof (cases "mvars m i")
  case (Some ob)
  from refines_Some [OF r Some] obtain T v where
    o: "avars a i = Some (T, v)" "wf_rtype T" "wf_val E T v" "obj_rep rep vt T v ob (mheap m)" .
  from use_law [OF c o(4,2,3) refines_wf [OF r] k] obtain x w where
    x: "f E c (addr i) ob (mheap m) = (fst (g c T v), x, w)"
    "op_agrees rep own vt E T ob (mheap m) (snd (g c T v)) x w" by blast
  have own: "own T (storage ob) \<subseteq> dom (blocks (mheap m))"
    using own_dom [OF obj_rep_storage [OF o(4)]] .
  have "refines rep own vt E (set_var i x w m) (put i (map_option (Pair T) (snd (g c T v))) [] a)"
  proof (rule refines_update [OF r])
    show "wf_world w" using x(2) by (simp add: op_agrees_def)
    show "dropped w = alog a @ []" "holds rep vt E w x (map_option (Pair T) (snd (g c T v)))"
      using x(2) refines_log [OF r] o(2)
      by (auto simp: op_agrees_def frees_def untouched_def split: option.splits)
    show "extent own x (map_option (Pair T) (snd (g c T v)))
        \<inter> (dom (blocks (mheap m)) - extent own (mvars m i) (avars a i)) = {}"
      using x(2) Some o(1) by (auto simp: op_agrees_def split: option.splits)
    show "blocks w b = blocks (mheap m) b" if "b \<notin> extent own (mvars m i) (avars a i)" for b
      using x(2) Some o(1) that
      by (auto simp: op_agrees_def untouched_def frees_blocks split: option.splits)
  qed
  with Some o(1) x(1) show ?thesis by (simp add: agree_def split_beta)
qed (use r in \<open>simp add: refines_empty agree_def\<close>)

lemma run_cmd_agrees:
  assumes "refines rep own vt E m a" "cmd_ok E fits boxes uses c" "\<And>i. place_ok S (addr i)"
  shows "agree rep own vt E (run_cmd S vt fb f E addr c m) (spec_cmd g E c a)"
  by (cases c) (use assms in \<open>auto intro: run_New run_From_Box run_Drop run_Move run_Insert run_Use
      simp del: run_cmd.simps spec_cmd.simps\<close>)

lemma run_prog_refines:
  assumes "list_all (cmd_ok E fits boxes uses) cs" "refines rep own vt E m a" and k: "\<And>i. place_ok S (addr i)"
  shows "fst (run_prog S vt fb f E addr cs m) = fst (spec_prog g E cs a)
    \<and> refines rep own vt E (snd (run_prog S vt fb f E addr cs m)) (snd (spec_prog g E cs a))"
  using assms(1,2)
proof (induction cs arbitrary: m a)
  case (Cons c cs)
  from Cons.prems run_cmd_agrees [OF Cons.prems(2) _ k, of c]
  have c: "fst (run_cmd S vt fb f E addr c m) = fst (spec_cmd g E c a)"
    "refines rep own vt E (snd (run_cmd S vt fb f E addr c m)) (snd (spec_cmd g E c a))"
    by (simp_all add: agree_def)
  from Cons.IH [OF _ c(2)] Cons.prems(1) c(1) show ?case by (simp add: Let_def split_beta)
qed simp

text \<open>What the program sees is what the abstract machine shows.\<close>

lemma prog_observed:
  assumes "list_all (cmd_ok E fits boxes uses) cs" "\<And>i. place_ok S (addr i)"
  shows "observed (run_prog S vt fb f E addr cs init_mach) = spec_observed (spec_prog g E cs init_amach)"
  using run_prog_refines [OF assms(1) init_refines assms(2)]
  by (auto simp: refines_def observed_def spec_observed_def)

end

end
