(* ===== verification/Syn_Ast.thy ===== *)
theory Syn_Ast
  imports Prelude
begin

text \<open>
  The syntax tree the procedural macros work on: the node types of the \<open>syn\<close> crate that
  \<open>macros/src\<close> matches on, with the constructors and fields its patterns name. Node kinds the
  macros never look into keep their source text (\<open>TyOther\<close>, \<open>BVerbatim\<close>, \<open>PatOther\<close>, blocks).
  Spans are left out except in token trees, where \<open>respan\<close> works on them.

  A path is its segments; a leading \<open>::\<close> is not kept.

  Parsing is done by \<open>syn\<close>; an attribute is given as the parsed list of its nested items.
\<close>

type_synonym ident = string
type_synonym lifetime = string

datatype lifetime_param = LParam lifetime "lifetime list"

datatype captured = CLifetime lifetime | CIdent ident

datatype ty =
    TyPath "ty option" "path_segment list"
  | TyReference "lifetime option" bool ty
  | TyImplTrait "bound list"
  | TyTraitObject "bound list"
  | TyTuple "ty list"
  | TySlice ty
  | TyArray ty string
  | TyPtr bool ty
  | TyOther string
and path_segment = Seg ident path_args
and path_args = NoArgs | AngleBracketed "generic_arg list" | Parenthesized "ty list" "ty option"
and generic_arg = ArgLifetime lifetime | ArgType ty | ArgAssoc ident ty | ArgOther string
and bound =
    BTrait bool "lifetime_param list" "path_segment list"
  | BLifetime lifetime
  | BPreciseCapture "captured list"
  | BVerbatim string

type_synonym path = "path_segment list"

fun seg_ident :: "path_segment \<Rightarrow> ident" where
  "seg_ident (Seg i a) = i"

fun seg_args :: "path_segment \<Rightarrow> path_args" where
  "seg_args (Seg i a) = a"

definition ident_path :: "ident \<Rightarrow> path" where
  "ident_path i = [Seg i NoArgs]"

text \<open>\<open>Path::is_ident\<close>: one segment, no arguments.\<close>

definition is_ident :: "path \<Rightarrow> ident \<Rightarrow> bool" where
  "is_ident p i \<longleftrightarrow> p = [Seg i NoArgs]"

abbreviation ty_ident :: "ident \<Rightarrow> ty" where
  "ty_ident i \<equiv> TyPath None (ident_path i)"

abbreviation ty_Self :: ty where
  "ty_Self \<equiv> ty_ident ''Self''"

datatype generic_param =
    GPLifetime lifetime_param
  | GPType ident "bound list" "ty option"
  | GPConst ident ty "string option"

datatype where_pred = WPType ty "bound list" | WPLifetime lifetime "lifetime list"

record generics =
  g_params :: "generic_param list"
  g_where :: "where_pred list option"

definition no_generics :: generics where
  "no_generics = \<lparr>g_params = [], g_where = None\<rparr>"

datatype pat =
    PatIdent bool bool ident "pat option"
  | PatTuple "pat list"
  | PatWild
  | PatOther string

text \<open>
  \<open>Receiver\<close>: \<open>reference\<close> is \<open>Some lt\<close> for the shorthand \<open>&self\<close>/\<open>&'a mut self\<close>; \<open>rc_ty\<close> is the
  type of \<open>self\<close> in full.
\<close>

record recv =
  rc_reference :: "lifetime option option"
  rc_mutability :: bool
  rc_ty :: ty

datatype fn_arg = Receiver recv | Typed pat ty

datatype return_type = RDefault | RType ty

record signature =
  sg_async :: bool
  sg_unsafe :: bool
  sg_ident :: ident
  sg_generics :: generics
  sg_inputs :: "fn_arg list"
  sg_output :: return_type

fun sig_receiver :: "fn_arg list \<Rightarrow> recv option" where
  "sig_receiver (Receiver r # args) = Some r"
| "sig_receiver args = None"

datatype nested_meta = Nested path meta_arg
and meta_arg =
    NoArg
  | EqIdent ident
  | EqLitStr string
  | EqPath path
  | EqPaths "path list"
  | EqOther string
  | ParenArgs "nested_meta list"

datatype attr_meta = MetaPath | MetaList "nested_meta list" | MetaNameValue meta_arg

datatype attribute = Attr path attr_meta

fun attr_path :: "attribute \<Rightarrow> path" where
  "attr_path (Attr p m) = p"

fun attr_meta_of :: "attribute \<Rightarrow> attr_meta" where
  "attr_meta_of (Attr p m) = m"


section \<open>Errors of a macro run\<close>

text \<open>\<open>syn::Error\<close> by its message, or a panic inside the macro (an \<open>unwrap\<close>, an invalid identifier).\<close>

datatype macro_error = SynError string | MacroPanic string

type_synonym 'a mres = "macro_error + 'a"

fun mbind :: "'a mres \<Rightarrow> ('a \<Rightarrow> 'b mres) \<Rightarrow> 'b mres" where
  "mbind (Inl e) f = Inl e"
| "mbind (Inr x) f = f x"

lemma mbind_eq_Inr: "mbind m f = Inr y \<longleftrightarrow> (\<exists>x. m = Inr x \<and> f x = Inr y)"
  by (cases m) auto

lemma mbind_eq_Inl: "mbind m f = Inl e \<longleftrightarrow> m = Inl e \<or> (\<exists>x. m = Inr x \<and> f x = Inl e)"
  by (cases m) auto

text \<open>
  The macros \<open>bail!\<close>, and \<open>bail_method!\<close>, which differs in the span only: \<open>return\<close> with an error.
\<close>

definition bail :: "string \<Rightarrow> 'a mres" where
  "bail err = Inl (SynError err)"

definition bail_method :: "string \<Rightarrow> 'a mres" where
  "bail_method err = bail err"

declare bail_def [simp] bail_method_def [simp]

text \<open>\<open>collect::<syn::Result<Vec<_>>>\<close>: stops at the first error.\<close>

fun mmap :: "('a \<Rightarrow> 'b mres) \<Rightarrow> 'a list \<Rightarrow> 'b list mres" where
  "mmap f [] = Inr []"
| "mmap f (x # xs) = mbind (f x) (\<lambda>y. mbind (mmap f xs) (\<lambda>ys. Inr (y # ys)))"

lemma mmap_eq_Inr: "mmap f xs = Inr ys \<longleftrightarrow> list_all2 (\<lambda>x y. f x = Inr y) xs ys"
  by (induction xs arbitrary: ys) (auto simp: mbind_eq_Inr list_all2_Cons1)

text \<open>
  \<open>Ident::new\<close> (behind \<open>format_ident!\<close>) panics on a string that is no identifier. ASCII only.
\<close>

fun ident_char :: "char \<Rightarrow> bool" where
  "ident_char c = (let n = (of_char c :: nat)
     in (48 \<le> n \<and> n \<le> 57) \<or> (65 \<le> n \<and> n \<le> 90) \<or> (97 \<le> n \<and> n \<le> 122) \<or> n = 95)"

fun digit :: "char \<Rightarrow> bool" where
  "digit c = (let n = (of_char c :: nat) in 48 \<le> n \<and> n \<le> 57)"

definition valid_ident :: "string \<Rightarrow> bool" where
  "valid_ident s \<longleftrightarrow> s \<noteq> [] \<and> \<not> digit (hd s) \<and> list_all ident_char s"

definition format_ident :: "string \<Rightarrow> ident mres" where
  "format_ident s = (if valid_ident s then Inr s else Inl (MacroPanic ''not a valid Ident''))"


section \<open>Generated code\<close>

text \<open>
  The bodies the macros write. A method argument is \<open>self\<close> or a parameter's pattern used as an
  expression.
\<close>

datatype arg_expr = SelfArg | PatArg pat

datatype block =
    UserBlock string
  | CallDyn ident "arg_expr list"
  | DynObjectNew block
  | MaybeSyncSync block
  | MaybeSyncAsync block
  | IfConst ident block block
  | LetUnimplemented "arg_expr list"


section \<open>Items\<close>

record trait_item_fn =
  fn_attrs :: "attribute list"
  fn_sig :: signature
  fn_default :: "block option"

record trait_item_type =
  ty_attrs :: "attribute list"
  ty_name :: ident
  ty_generics :: generics
  ty_bounds :: "bound list"
  ty_default :: "ty option"

record trait_item_const =
  co_attrs :: "attribute list"
  co_name :: ident
  co_ty :: ty
  co_value :: "string option"

datatype trait_item =
    TIFn trait_item_fn
  | TIType trait_item_type
  | TIConst trait_item_const
  | TIOther string

datatype impl_item =
    IIFn signature block
  | IIType ident ty
  | IIConst ident ty string

record item_trait =
  tr_attrs :: "attribute list"
  tr_vis :: string
  tr_unsafe :: bool
  tr_ident :: ident
  tr_generics :: generics
  tr_supertraits :: "bound list"
  tr_items :: "trait_item list"

fun trait_item_name :: "trait_item \<Rightarrow> ident option" where
  "trait_item_name (TIFn m) = Some (sg_ident (fn_sig m))"
| "trait_item_name (TIType t) = Some (ty_name t)"
| "trait_item_name (TIConst c) = Some (co_name c)"
| "trait_item_name (TIOther s) = None"

fun impl_item_name :: "impl_item \<Rightarrow> ident" where
  "impl_item_name (IIFn sg b) = sg_ident sg"
| "impl_item_name (IIType i t) = i"
| "impl_item_name (IIConst i t v) = i"

end
