(* ===== verification/Macro_Utils.thy ===== *)
theory Macro_Utils
  imports Syn_Ast
begin

text \<open>
  \<open>macros/src/utils.rs\<close>, \<open>macros/src/sync.rs\<close> and the option parsers of \<open>macros/src/lib.rs\<close>:
  the predicates that decide which items are dispatchable, the accessors of types and paths,
  the visitors that rewrite patterns and spans, and the \<open>sync\<close> attribute.
\<close>


section \<open>Iterators, types, paths\<close>

text \<open>\<open>IteratorExt::update\<close>: apply an in-place update to every item.\<close>

definition update_items :: "('a \<Rightarrow> 'a) \<Rightarrow> 'a list \<Rightarrow> 'a list" where
  "update_items f xs = map f xs"

definition is_not_generic :: "trait_item_type \<Rightarrow> bool" where
  "is_not_generic ty \<longleftrightarrow> g_params (ty_generics ty) = [] \<and> g_where (ty_generics ty) = None"

definition last_segment :: "path \<Rightarrow> ident \<Rightarrow> path_segment option" where
  "last_segment p i = (if p = [] then None
     else if seg_ident (last p) = i then Some (last p) else None)"

text \<open>\<open>Pin<&Self>\<close> or \<open>Pin<&mut Self>\<close>: the lifetime and mutability of the reference.\<close>

fun pinned_ref :: "ty \<Rightarrow> (lifetime option \<times> bool) option" where
  "pinned_ref (TyPath q p) =
     (case last_segment p ''Pin'' of
        Some (Seg i (AngleBracketed (ArgType (TyReference lt m elem) # args))) \<Rightarrow>
          (if elem = ty_Self then Some (lt, m) else None)
      | _ \<Rightarrow> None)"
| "pinned_ref t = None"

fun is_lifetime_param :: "generic_param \<Rightarrow> bool" where
  "is_lifetime_param (GPLifetime l) = True"
| "is_lifetime_param (GPType i b d) = False"
| "is_lifetime_param (GPConst i t d) = False"

definition has_dyn_trait_receiver :: "signature \<Rightarrow> bool" where
  "has_dyn_trait_receiver sg \<longleftrightarrow> (case sig_receiver (sg_inputs sg) of
      None \<Rightarrow> False
    | Some r \<Rightarrow> rc_reference r \<noteq> None \<or> pinned_ref (rc_ty r) \<noteq> None)"

definition is_dispatchable :: "trait_item_fn \<Rightarrow> bool" where
  "is_dispatchable m \<longleftrightarrow> has_dyn_trait_receiver (fn_sig m)
     \<and> list_all is_lifetime_param (g_params (sg_generics (fn_sig m)))"

fun return_type :: "signature \<Rightarrow> ty option" where
  "return_type sg = (case sg_output sg of RDefault \<Rightarrow> None | RType t \<Rightarrow> Some t)"

fun as_impl_trait :: "ty \<Rightarrow> bound list option" where
  "as_impl_trait (TyImplTrait bs) = Some bs"
| "as_impl_trait t = None"

fun trait_bound_path :: "bound \<Rightarrow> path option" where
  "trait_bound_path (BTrait m ls p) = Some p"
| "trait_bound_path b = None"

fun find_map :: "('a \<Rightarrow> 'b option) \<Rightarrow> 'a list \<Rightarrow> 'b option" where
  "find_map f [] = None"
| "find_map f (x # xs) = (case f x of Some y \<Rightarrow> Some y | None \<Rightarrow> find_map f xs)"

fun assoc_output :: "generic_arg \<Rightarrow> ty option" where
  "assoc_output (ArgAssoc i t) = (if i = ''Output'' then Some t else None)"
| "assoc_output a = None"

definition future_output :: "bound list \<Rightarrow> ty option" where
  "future_output bs =
     (case find_map (\<lambda>p. last_segment p ''Future'') (List.map_filter trait_bound_path bs) of
        Some (Seg i (AngleBracketed args)) \<Rightarrow> find_map assoc_output args
      | _ \<Rightarrow> None)"


section \<open>Patterns as arguments\<close>

text \<open>\<open>PatternAsArg\<close>: an identifier pattern loses \<open>ref\<close>, \<open>mut\<close> and its subpattern.\<close>

fun pattern_as_arg :: "pat \<Rightarrow> pat" where
  "pattern_as_arg (PatIdent by_ref mut i sub) = PatIdent False False i None"
| "pattern_as_arg (PatTuple ps) = PatTuple (map pattern_as_arg ps)"
| "pattern_as_arg PatWild = PatWild"
| "pattern_as_arg (PatOther s) = PatOther s"

fun pattern_as_arg_input :: "fn_arg \<Rightarrow> fn_arg" where
  "pattern_as_arg_input (Receiver r) = Receiver r"
| "pattern_as_arg_input (Typed p t) = Typed (pattern_as_arg p) t"

definition pattern_as_arg_sig :: "signature \<Rightarrow> signature" where
  "pattern_as_arg_sig sg = sg\<lparr>sg_inputs := map pattern_as_arg_input (sg_inputs sg)\<rparr>"

fun fn_arg_expr :: "fn_arg \<Rightarrow> arg_expr" where
  "fn_arg_expr (Receiver r) = SelfArg"
| "fn_arg_expr (Typed p t) = PatArg (pattern_as_arg p)"

definition fn_args :: "signature \<Rightarrow> arg_expr list" where
  "fn_args sg = map fn_arg_expr (sg_inputs sg)"

definition impl_method :: "signature \<Rightarrow> block \<Rightarrow> impl_item" where
  "impl_method sg b = IIFn sg b"

text \<open>What reads as an expression: identifiers and tuples of them, but not \<open>_\<close>.\<close>

fun pat_is_expr :: "pat \<Rightarrow> bool" where
  "pat_is_expr (PatIdent r m i s) = (\<not> r \<and> \<not> m \<and> s = None)"
| "pat_is_expr (PatTuple ps) = list_all pat_is_expr ps"
| "pat_is_expr PatWild = False"
| "pat_is_expr (PatOther s) = False"

fun pat_named :: "pat \<Rightarrow> bool" where
  "pat_named (PatIdent r m i s) = True"
| "pat_named (PatTuple ps) = list_all pat_named ps"
| "pat_named PatWild = False"
| "pat_named (PatOther s) = False"

lemma pattern_as_arg_idem [simp]: "pattern_as_arg (pattern_as_arg p) = pattern_as_arg p"
  by (induction p rule: pattern_as_arg.induct) simp_all

lemma pattern_as_arg_expr: "pat_is_expr (pattern_as_arg p) \<longleftrightarrow> pat_named p"
  by (induction p rule: pattern_as_arg.induct) (auto simp: list_all_iff)

lemma fn_arg_expr_as_arg [simp]: "fn_arg_expr (pattern_as_arg_input x) = fn_arg_expr x"
  by (cases x) simp_all

lemma fn_args_pattern_as_arg [simp]: "fn_args (pattern_as_arg_sig sg) = fn_args sg"
  by (simp add: fn_args_def pattern_as_arg_sig_def)

lemma sig_receiver_as_arg [simp]: "sig_receiver (map pattern_as_arg_input xs) = sig_receiver xs"
  by (induction xs rule: sig_receiver.induct) simp_all

lemma pattern_as_arg_sig_simps [simp]:
  "sg_ident (pattern_as_arg_sig sg) = sg_ident sg" "sg_async (pattern_as_arg_sig sg) = sg_async sg"
  "sg_generics (pattern_as_arg_sig sg) = sg_generics sg" "sg_output (pattern_as_arg_sig sg) = sg_output sg"
  "sg_unsafe (pattern_as_arg_sig sg) = sg_unsafe sg"
  "sg_inputs (pattern_as_arg_sig sg) = map pattern_as_arg_input (sg_inputs sg)"
  by (simp_all add: pattern_as_arg_sig_def)


section \<open>Token spans\<close>

datatype delimiter = Parenthesis | Brace | Bracket | NoDelimiter

datatype token_kind = TkIdent string | TkPunct char | TkLiteral string

datatype 'sp token_tree = Group delimiter "'sp token_tree list" 'sp | Leaf token_kind 'sp

fun respan_tree :: "'sp \<Rightarrow> 'sp token_tree \<Rightarrow> 'sp token_tree" where
  "respan_tree sp (Group d ts s) = Group d (map (respan_tree sp) ts) sp"
| "respan_tree sp (Leaf k s) = Leaf k sp"

definition respan :: "'sp \<Rightarrow> 'sp token_tree list \<Rightarrow> 'sp token_tree list" where
  "respan sp ts = update_items (respan_tree sp) ts"

fun tree_spans :: "'sp token_tree \<Rightarrow> 'sp set" where
  "tree_spans (Group d ts s) = insert s (\<Union>t\<in>set ts. tree_spans t)"
| "tree_spans (Leaf k s) = {s}"

text \<open>The tokens without their spans.\<close>

fun tree_text :: "'sp token_tree \<Rightarrow> unit token_tree" where
  "tree_text (Group d ts s) = Group d (map tree_text ts) ()"
| "tree_text (Leaf k s) = Leaf k ()"

lemma tree_text_respan [simp]: "tree_text (respan_tree sp t) = tree_text t"
  by (induction t) simp_all

lemma tree_spans_respan: "tree_spans (respan_tree sp t) = {sp}"
  by (induction t) auto


section \<open>The \<open>sync\<close> attribute\<close>

definition sync_fn :: "signature \<Rightarrow> ident mres" where
  "sync_fn sg = format_ident (sg_ident sg @ ''_sync'')"

fun upper_char :: "char \<Rightarrow> char" where
  "upper_char c = (let n = (of_char c :: nat) in if 97 \<le> n \<and> n \<le> 122 then char_of (n - 32) else c)"

definition to_uppercase :: "string \<Rightarrow> string" where
  "to_uppercase s = map upper_char s"

definition is_sync_const :: "signature \<Rightarrow> ident mres" where
  "is_sync_const sg = format_ident (to_uppercase (sg_ident sg) @ ''_IS_SYNC'')"

text \<open>The method, its synchronous copy, and the constant that announces it.\<close>

definition sync_impl :: "signature \<Rightarrow> block \<Rightarrow> impl_item list mres" where
  "sync_impl sg body =
     (if \<not> sg_async sg then bail_method ''`sync` must be used on async method''
      else mbind (sync_fn sg) (\<lambda>sync_name.
           mbind (is_sync_const sg) (\<lambda>is_sync.
             Inr [IIFn sg body,
                  IIFn (sg\<lparr>sg_async := False, sg_ident := sync_name\<rparr>) body,
                  IIConst is_sync (ty_ident ''bool'') ''true''])))"

lemma ident_char_upper: "ident_char c \<Longrightarrow> ident_char (upper_char c)"
  by (auto simp: Let_def)

lemma digit_upper: "digit (upper_char c) \<Longrightarrow> digit c"
  by (auto simp: Let_def split: if_splits)

declare ident_char.simps [simp del, macro_simps] digit.simps [simp del, macro_simps]
  valid_ident_def [macro_simps] format_ident_def [macro_simps] upper_char.simps [simp del]

lemma valid_ident_append:
  "valid_ident s \<Longrightarrow> list_all ident_char t \<Longrightarrow> valid_ident (s @ t)"
  by (auto simp: valid_ident_def)

lemma valid_ident_upper: "valid_ident s \<Longrightarrow> valid_ident (to_uppercase s)"
proof -
  assume v: "valid_ident s"
  then obtain c cs where s: "s = c # cs" by (cases s) (auto simp: valid_ident_def)
  from v have "\<not> digit c" "list_all ident_char s" by (simp_all add: valid_ident_def s)
  then have "\<not> digit (upper_char c)" "list_all ident_char (to_uppercase s)"
    using digit_upper [of c] by (auto simp: to_uppercase_def list_all_iff intro: ident_char_upper)
  then show ?thesis by (simp add: valid_ident_def s to_uppercase_def)
qed

text \<open>On a real method name the two identifiers are always well formed.\<close>

lemma sync_fn_ok: "valid_ident (sg_ident sg) \<Longrightarrow> sync_fn sg = Inr (sg_ident sg @ ''_sync'')"
  using valid_ident_append [of "sg_ident sg" "''_sync''"]
  by (simp add: sync_fn_def format_ident_def ident_char.simps)

lemma is_sync_const_ok:
  "valid_ident (sg_ident sg) \<Longrightarrow> is_sync_const sg = Inr (to_uppercase (sg_ident sg) @ ''_IS_SYNC'')"
  using valid_ident_append [OF valid_ident_upper, of "sg_ident sg" "''_IS_SYNC''"]
  by (simp add: is_sync_const_def format_ident_def ident_char.simps)


section \<open>Options of the attributes\<close>

text \<open>\<open>meta.input.parse::<Token![=]>()\<close> and then a path.\<close>

fun parse_eq_path :: "meta_arg \<Rightarrow> path mres" where
  "parse_eq_path (EqIdent i) = Inr (ident_path i)"
| "parse_eq_path (EqPath p) = Inr p"
| "parse_eq_path (EqLitStr s) = Inl (SynError ''expected identifier'')"
| "parse_eq_path (EqPaths ps) = Inl (SynError ''expected `,`'')"
| "parse_eq_path (EqOther s) = Inl (SynError ''expected identifier'')"
| "parse_eq_path NoArg = Inl (SynError ''expected `=`'')"
| "parse_eq_path (ParenArgs ms) = Inl (SynError ''expected `=`'')"

text \<open>
  \<open>syn::meta::parser\<close> feeds the items one after another to \<open>parse_meta\<close>, which sees whether the
  input goes on after its item.
\<close>

fun parse_metas :: "(bool \<Rightarrow> 'o \<Rightarrow> nested_meta \<Rightarrow> 'o mres) \<Rightarrow> 'o \<Rightarrow> nested_meta list \<Rightarrow> 'o mres" where
  "parse_metas parse_meta opts [] = Inr opts"
| "parse_metas parse_meta opts (m # ms) =
     mbind (parse_meta (ms \<noteq> []) opts m) (\<lambda>opts'. parse_metas parse_meta opts' ms)"

text \<open>\<open>impl MacroArgs for ()\<close>: \<open>#[sync]\<close> takes no argument.\<close>

fun unit_parse_meta :: "bool \<Rightarrow> unit \<Rightarrow> nested_meta \<Rightarrow> unit mres" where
  "unit_parse_meta goes_on u (Nested p a) = bail ''unknown attribute''"

definition crate_name :: path where
  "crate_name = [Seg ''dyn_utils'' NoArgs]"

text \<open>\<open>macro_impl\<close>: parse the arguments, run the macro; an error becomes \<open>compile_error!\<close>, a
  panic stays one.\<close>

datatype 'o macro_output = Expanded 'o | CompileError string | Panicked string

fun to_compile_error :: "'o mres \<Rightarrow> 'o macro_output" where
  "to_compile_error (Inr x) = Expanded x"
| "to_compile_error (Inl (SynError s)) = CompileError s"
| "to_compile_error (Inl (MacroPanic s)) = Panicked s"

definition macro_impl ::
  "('item \<Rightarrow> 'args \<Rightarrow> 'o mres) \<Rightarrow> (bool \<Rightarrow> 'args \<Rightarrow> nested_meta \<Rightarrow> 'args mres) \<Rightarrow> 'args
    \<Rightarrow> 'item \<Rightarrow> nested_meta list \<Rightarrow> 'o macro_output" where
  "macro_impl impl_fn parse_meta dflt item args =
     to_compile_error (mbind (parse_metas parse_meta dflt args) (\<lambda>opts. impl_fn item opts))"

end
