(* ===== verification/Captured_Lifetimes.thy ===== *)
theory Captured_Lifetimes
  imports Macro_Utils
begin

text \<open>
  \<open>CapturedLifetimes\<close> of \<open>macros/src/dyn_trait.rs\<close>: the visitor that ties the elided lifetimes
  of a method's arguments to the lifetime \<open>'__dyn\<close> of the returned \<open>DynObject\<close>. A lifetime is
  written without its apostrophe.
\<close>

abbreviation dyn_lt :: lifetime where "dyn_lt \<equiv> ''__dyn''"
abbreviation default_lt :: lifetime where "default_lt \<equiv> ''_''"

fun precise_capture :: "bound \<Rightarrow> captured list option" where
  "precise_capture (BPreciseCapture cs) = Some cs"
| "precise_capture b = None"

fun captured_lifetime :: "captured \<Rightarrow> lifetime option" where
  "captured_lifetime (CLifetime l) = Some l"
| "captured_lifetime (CIdent i) = None"

fun param_lifetime :: "generic_param \<Rightarrow> lifetime option" where
  "param_lifetime (GPLifetime (LParam l bs)) = Some l"
| "param_lifetime (GPType i b d) = None"
| "param_lifetime (GPConst i t d) = None"

text \<open>
  Without \<open>use<..>\<close> everything in scope is captured: the method's lifetimes and the elided one.
\<close>

definition captured_new :: "bound list \<Rightarrow> generics \<Rightarrow> lifetime list" where
  "captured_new bs g =
     (case find_map precise_capture bs of
        Some cs \<Rightarrow> List.map_filter captured_lifetime cs
      | None \<Rightarrow> List.map_filter param_lifetime (g_params g) @ [default_lt])"

fun visit_lifetime :: "lifetime list \<Rightarrow> lifetime \<Rightarrow> lifetime" where
  "visit_lifetime cap l = (if l = default_lt \<and> l \<in> set cap then dyn_lt else l)"

fun visit_lifetime_param :: "lifetime list \<Rightarrow> lifetime_param \<Rightarrow> lifetime_param" where
  "visit_lifetime_param cap (LParam l bs) = LParam l (if l \<in> set cap then bs @ [dyn_lt] else bs)"

fun visit_captured :: "lifetime list \<Rightarrow> captured \<Rightarrow> captured" where
  "visit_captured cap (CLifetime l) = CLifetime (visit_lifetime cap l)"
| "visit_captured cap (CIdent i) = CIdent i"

primrec visit_ty :: "lifetime list \<Rightarrow> ty \<Rightarrow> ty"
  and visit_seg :: "lifetime list \<Rightarrow> path_segment \<Rightarrow> path_segment"
  and visit_args :: "lifetime list \<Rightarrow> path_args \<Rightarrow> path_args"
  and visit_generic_arg :: "lifetime list \<Rightarrow> generic_arg \<Rightarrow> generic_arg"
  and visit_bound :: "lifetime list \<Rightarrow> bound \<Rightarrow> bound" where
  "visit_ty cap (TyPath q p) = TyPath (map_option (visit_ty cap) q) (map (visit_seg cap) p)"
| "visit_ty cap (TyReference lt m t) =
     TyReference (Some (visit_lifetime cap (case lt of None \<Rightarrow> default_lt | Some l \<Rightarrow> l))) m (visit_ty cap t)"
| "visit_ty cap (TyImplTrait bs) = TyImplTrait (map (visit_bound cap) bs)"
| "visit_ty cap (TyTraitObject bs) = TyTraitObject (map (visit_bound cap) bs)"
| "visit_ty cap (TyTuple ts) = TyTuple (map (visit_ty cap) ts)"
| "visit_ty cap (TySlice t) = TySlice (visit_ty cap t)"
| "visit_ty cap (TyArray t n) = TyArray (visit_ty cap t) n"
| "visit_ty cap (TyPtr m t) = TyPtr m (visit_ty cap t)"
| "visit_ty cap (TyOther s) = TyOther s"
| "visit_seg cap (Seg i a) = Seg i (visit_args cap a)"
| "visit_args cap NoArgs = NoArgs"
| "visit_args cap (AngleBracketed gs) = AngleBracketed (map (visit_generic_arg cap) gs)"
| "visit_args cap (Parenthesized ts r) = Parenthesized (map (visit_ty cap) ts) (map_option (visit_ty cap) r)"
| "visit_generic_arg cap (ArgLifetime l) = ArgLifetime (visit_lifetime cap l)"
| "visit_generic_arg cap (ArgType t) = ArgType (visit_ty cap t)"
| "visit_generic_arg cap (ArgAssoc i t) = ArgAssoc i (visit_ty cap t)"
| "visit_generic_arg cap (ArgOther s) = ArgOther s"
| "visit_bound cap (BTrait m ls p) = BTrait m (map (visit_lifetime_param cap) ls) (map (visit_seg cap) p)"
| "visit_bound cap (BLifetime l) = BLifetime (visit_lifetime cap l)"
| "visit_bound cap (BPreciseCapture cs) = BPreciseCapture (map (visit_captured cap) cs)"
| "visit_bound cap (BVerbatim s) = BVerbatim s"

definition visit_receiver :: "lifetime list \<Rightarrow> recv \<Rightarrow> recv" where
  "visit_receiver cap r = r\<lparr>
     rc_reference := map_option (\<lambda>lt. Some (visit_lifetime cap (case lt of None \<Rightarrow> default_lt | Some l \<Rightarrow> l)))
       (rc_reference r),
     rc_ty := visit_ty cap (rc_ty r)\<rparr>"

fun visit_fn_arg :: "lifetime list \<Rightarrow> fn_arg \<Rightarrow> fn_arg" where
  "visit_fn_arg cap (Receiver r) = Receiver (visit_receiver cap r)"
| "visit_fn_arg cap (Typed p t) = Typed p (visit_ty cap t)"

fun visit_generic_param :: "lifetime list \<Rightarrow> generic_param \<Rightarrow> generic_param" where
  "visit_generic_param cap (GPLifetime l) = GPLifetime (visit_lifetime_param cap l)"
| "visit_generic_param cap (GPType i bs d) =
     GPType i (map (visit_bound cap) bs) (map_option (visit_ty cap) d)"
| "visit_generic_param cap (GPConst i t d) = GPConst i (visit_ty cap t) d"


section \<open>The lifetimes a type mentions\<close>

text \<open>\<open>None\<close> is an elided reference lifetime, \<open>Some default_lt\<close> the explicit \<open>'_\<close>.\<close>

primrec ty_lts :: "ty \<Rightarrow> lifetime option set"
  and seg_lts :: "path_segment \<Rightarrow> lifetime option set"
  and args_lts :: "path_args \<Rightarrow> lifetime option set"
  and generic_arg_lts :: "generic_arg \<Rightarrow> lifetime option set"
  and bound_lts :: "bound \<Rightarrow> lifetime option set" where
  "ty_lts (TyPath q p) = \<Union>(set_option (map_option ty_lts q)) \<union> \<Union>(set (map seg_lts p))"
| "ty_lts (TyReference lt m t) = insert lt (ty_lts t)"
| "ty_lts (TyImplTrait bs) = \<Union>(set (map bound_lts bs))"
| "ty_lts (TyTraitObject bs) = \<Union>(set (map bound_lts bs))"
| "ty_lts (TyTuple ts) = \<Union>(set (map ty_lts ts))"
| "ty_lts (TySlice t) = ty_lts t"
| "ty_lts (TyArray t n) = ty_lts t"
| "ty_lts (TyPtr m t) = ty_lts t"
| "ty_lts (TyOther s) = {}"
| "seg_lts (Seg i a) = args_lts a"
| "args_lts NoArgs = {}"
| "args_lts (AngleBracketed gs) = \<Union>(set (map generic_arg_lts gs))"
| "args_lts (Parenthesized ts r) = \<Union>(set (map ty_lts ts)) \<union> \<Union>(set_option (map_option ty_lts r))"
| "generic_arg_lts (ArgLifetime l) = {Some l}"
| "generic_arg_lts (ArgType t) = ty_lts t"
| "generic_arg_lts (ArgAssoc i t) = ty_lts t"
| "generic_arg_lts (ArgOther s) = {}"
| "bound_lts (BTrait m ls p) = \<Union>(set (map seg_lts p))"
| "bound_lts (BLifetime l) = {Some l}"
| "bound_lts (BPreciseCapture cs) = {}"
| "bound_lts (BVerbatim s) = {}"

text \<open>Where each lifetime goes.\<close>

definition resolve_lt :: "lifetime list \<Rightarrow> lifetime option \<Rightarrow> lifetime option" where
  "resolve_lt cap lt = Some (visit_lifetime cap (case lt of None \<Rightarrow> default_lt | Some l \<Rightarrow> l))"

lemma resolve_lt_Some [simp]: "resolve_lt cap (Some l) = Some (visit_lifetime cap l)"
  by (simp add: resolve_lt_def)

lemma visit_lts:
  "ty_lts (visit_ty cap t) = resolve_lt cap ` ty_lts t"
  "seg_lts (visit_seg cap s) = resolve_lt cap ` seg_lts s"
  "args_lts (visit_args cap a) = resolve_lt cap ` args_lts a"
  "generic_arg_lts (visit_generic_arg cap g) = resolve_lt cap ` generic_arg_lts g"
  "bound_lts (visit_bound cap b) = resolve_lt cap ` bound_lts b"
proof (induction t and s and a and g and b)
  case (TyPath q p)
  then show ?case by (cases q) (auto simp: image_Un image_UN)
next
  case (Parenthesized ts r)
  then show ?case by (cases r) (auto simp: image_Un image_UN)
qed (auto simp: image_UN resolve_lt_def)

lemma visit_no_elided: "None \<notin> ty_lts (visit_ty cap t)"
  by (auto simp: visit_lts resolve_lt_def)

lemma visit_captures_default: "default_lt \<in> set cap \<Longrightarrow> Some default_lt \<notin> ty_lts (visit_ty cap t)"
  by (auto simp: visit_lts resolve_lt_def split: option.splits if_splits)

lemma visit_keeps_named:
  "l \<noteq> default_lt \<Longrightarrow> Some l \<in> ty_lts t \<Longrightarrow> Some l \<in> ty_lts (visit_ty cap t)"
  by (force simp: visit_lts image_iff)

end
