(* ===== verification/Dyn_Trait_Macro.thy ===== *)
theory Dyn_Trait_Macro
  imports Captured_Lifetimes
begin

text \<open>
  The attribute macro \<open>dyn_trait\<close> of \<open>macros/src/dyn_trait.rs\<close>: from a trait to its dyn-compatible
  version and the blanket implementation. The conversion to Pascal case of the \<open>heck\<close> crate is the
  parameter \<open>pascal\<close>. \<open>parse_quote!\<close> on tokens that do not parse is a panic.
\<close>


section \<open>Options\<close>

record dyn_trait_opts =
  dto_crate :: "path option"
  dto_remote :: "path option"
  dto_name_template :: "string option"

definition default_opts :: dyn_trait_opts where
  "default_opts = \<lparr>dto_crate = None, dto_remote = None, dto_name_template = None\<rparr>"

definition path_keyword :: "ident \<Rightarrow> bool" where
  "path_keyword i \<longleftrightarrow> i \<in> {''crate'', ''self'', ''super'', ''Self''}"

text \<open>
  \<open>trait = ..\<close>: an identifier or a string literal. \<open>peek(syn::Ident)\<close> refuses keywords; what
  follows an identifier is refused by the attribute parser.
\<close>

fun parse_eq_name :: "meta_arg \<Rightarrow> string mres" where
  "parse_eq_name (EqIdent i) =
     (if path_keyword i then bail ''invalid trait name'' else Inr i)"
| "parse_eq_name (EqLitStr s) = Inr s"
| "parse_eq_name (EqPath p) =
     (if p \<noteq> [] \<and> path_keyword (seg_ident (hd p)) then bail ''invalid trait name''
      else Inl (SynError ''expected `,`''))"
| "parse_eq_name (EqPaths ps) = Inl (SynError ''expected `,`'')"
| "parse_eq_name (EqOther s) = bail ''invalid trait name''"
| "parse_eq_name NoArg = Inl (SynError ''expected `=`'')"
| "parse_eq_name (ParenArgs ms) = Inl (SynError ''expected `=`'')"

fun dyn_trait_parse_meta :: "bool \<Rightarrow> dyn_trait_opts \<Rightarrow> nested_meta \<Rightarrow> dyn_trait_opts mres" where
  "dyn_trait_parse_meta goes_on opts (Nested p a) =
     (if is_ident p ''crate''
      then mbind (parse_eq_path a) (\<lambda>q. Inr (opts\<lparr>dto_crate := Some q\<rparr>))
      else if is_ident p ''remote''
      then mbind (parse_eq_path a) (\<lambda>q. Inr (opts\<lparr>dto_remote := Some q\<rparr>))
      else if is_ident p ''trait''
      then mbind (parse_eq_name a) (\<lambda>s. Inr (opts\<lparr>dto_name_template := Some s\<rparr>))
      else bail ''unknown attribute'')"

text \<open>\<open>template.replace("{}", name)\<close>.\<close>

fun replace_braces :: "string \<Rightarrow> string \<Rightarrow> string" where
  "replace_braces (c # d # cs) name =
     (if c = CHR ''{'' \<and> d = CHR ''}'' then name @ replace_braces cs name
      else c # replace_braces (d # cs) name)"
| "replace_braces [c] name = [c]"
| "replace_braces [] name = []"


section \<open>Attributes\<close>

fun require_list :: "attr_meta \<Rightarrow> nested_meta list mres" where
  "require_list (MetaList ms) = Inr ms"
| "require_list MetaPath = Inl (SynError ''expected attribute arguments in parentheses'')"
| "require_list (MetaNameValue a) = Inl (SynError ''expected parentheses'')"

fun attr_of_nested :: "nested_meta \<Rightarrow> attribute" where
  "attr_of_nested (Nested p NoArg) = Attr p MetaPath"
| "attr_of_nested (Nested p (ParenArgs ms)) = Attr p (MetaList ms)"
| "attr_of_nested (Nested p a) = Attr p (MetaNameValue a)"

fun quote_attr :: "nested_meta list \<Rightarrow> attribute mres" where
  "quote_attr [m] = Inr (attr_of_nested m)"
| "quote_attr ms = Inl (MacroPanic ''parse_quote'')"

definition is_dyn_trait_attr :: "attribute \<Rightarrow> bool" where
  "is_dyn_trait_attr a = is_ident (attr_path a) ''dyn_trait''"

text \<open>\<open>#[dyn_trait(attr)]\<close> on the trait stands for \<open>#[attr]\<close> on the generated one.\<close>

definition extract_dyn_trait_attrs :: "item_trait \<Rightarrow> (attribute list \<times> item_trait) mres" where
  "extract_dyn_trait_attrs tr =
     mbind (mmap (\<lambda>a. mbind (require_list (attr_meta_of a)) quote_attr)
                 (filter is_dyn_trait_attr (tr_attrs tr)))
           (\<lambda>extracted. Inr (extracted,
              tr\<lparr>tr_attrs := filter (Not \<circ> is_dyn_trait_attr) (tr_attrs tr)\<rparr>))"

record method_attrs =
  ma_storage :: "path option"
  ma_maybe_sync :: bool

definition default_method_attrs :: method_attrs where
  "default_method_attrs = \<lparr>ma_storage = None, ma_maybe_sync = False\<rparr>"

fun method_attrs_meta :: "bool \<Rightarrow> method_attrs \<Rightarrow> nested_meta \<Rightarrow> method_attrs mres" where
  "method_attrs_meta goes_on attrs (Nested p a) =
     (if is_ident p ''storage''
      then mbind (parse_eq_path a) (\<lambda>q. Inr (attrs\<lparr>ma_storage := Some q\<rparr>))
      else if is_ident p ''maybe_sync''
      then if a = NoArg then Inr (attrs\<lparr>ma_maybe_sync := True\<rparr>)
           else Inl (SynError ''expected `,`'')
      else bail ''unknown attribute'')"

definition rpit_of :: "signature \<Rightarrow> bound list option" where
  "rpit_of sg = Option.bind (return_type sg) as_impl_trait"

definition has_rpit :: "signature \<Rightarrow> bool" where
  "has_rpit sg \<longleftrightarrow> sg_async sg \<or> rpit_of sg \<noteq> None"

fun method_attrs_loop :: "bool \<Rightarrow> method_attrs \<Rightarrow> attribute list \<Rightarrow> method_attrs mres" where
  "method_attrs_loop rpit attrs [] = Inr attrs"
| "method_attrs_loop rpit attrs (a # as) =
     (if \<not> rpit
      then bail ''attribute must be used on a method with Return Position Impl Trait''
      else mbind (require_list (attr_meta_of a)) (\<lambda>ms.
           mbind (parse_metas method_attrs_meta attrs ms) (\<lambda>attrs'.
             method_attrs_loop rpit attrs' as)))"

text \<open>Reads the \<open>dyn_trait\<close> attributes of a method and removes them.\<close>

definition method_attrs_parse :: "trait_item_fn \<Rightarrow> (method_attrs \<times> trait_item_fn) mres" where
  "method_attrs_parse m =
     mbind (method_attrs_loop (has_rpit (fn_sig m)) default_method_attrs
              (filter is_dyn_trait_attr (fn_attrs m)))
           (\<lambda>attrs. Inr (attrs, m\<lparr>fn_attrs := filter (Not \<circ> is_dyn_trait_attr) (fn_attrs m)\<rparr>))"


section \<open>One method\<close>

record dyn_method =
  dm_orig_sig :: signature
  dm_crate :: path
  dm_method :: trait_item_fn
  dm_rpit :: "bound list option"
  dm_storage :: "ident option"

definition desugar_async :: "signature \<Rightarrow> signature" where
  "desugar_async sg =
     (if sg_async sg
      then let output = (case return_type sg of None \<Rightarrow> TyTuple [] | Some t \<Rightarrow> t)
           in sg\<lparr>sg_async := False,
                 sg_output := RType (TyImplTrait [BTrait False []
                   [Seg ''Future'' (AngleBracketed [ArgAssoc ''Output'' output])]])\<rparr>
      else sg)"

fun is_trait_bound :: "bound \<Rightarrow> bool" where
  "is_trait_bound (BTrait m ls p) = True"
| "is_trait_bound (BLifetime l) = False"
| "is_trait_bound (BPreciseCapture cs) = False"
| "is_trait_bound (BVerbatim s) = False"

text \<open>The trait object the method returns: the trait bounds of the opaque type and \<open>'__dyn\<close>.\<close>

definition dyn_ret :: "lifetime list \<Rightarrow> bound list \<Rightarrow> ty" where
  "dyn_ret cap bs =
     TyTraitObject (update_items (visit_bound cap) (filter is_trait_bound bs) @ [BLifetime dyn_lt])"

definition dyn_object_ty :: "path \<Rightarrow> ty \<Rightarrow> ident \<Rightarrow> ty" where
  "dyn_object_ty krate obj storage =
     TyPath None (krate @ [Seg ''DynObject'' (AngleBracketed [ArgType obj, ArgType (ty_ident storage)])])"

definition update_dyn_signature ::
  "path \<Rightarrow> ident list \<Rightarrow> bound list \<Rightarrow> ident \<Rightarrow> signature \<Rightarrow> signature" where
  "update_dyn_signature krate trait_generics bs storage sg =
     (let cap = captured_new bs (sg_generics sg);
          preds = (case g_where (sg_generics sg) of None \<Rightarrow> [] | Some ps \<Rightarrow> ps)
            @ map (\<lambda>p. WPType (ty_ident p) [BLifetime dyn_lt]) trait_generics
            @ [WPType ty_Self [BLifetime dyn_lt]]
      in sg\<lparr>sg_generics := \<lparr>g_params = GPLifetime (LParam dyn_lt [])
               # map (visit_generic_param cap) (g_params (sg_generics sg)),
             g_where = Some preds\<rparr>,
            sg_inputs := map (visit_fn_arg cap) (sg_inputs sg),
            sg_output := RType (dyn_object_ty krate (dyn_ret cap bs) storage)\<rparr>)"

definition storage_ident :: "(string \<Rightarrow> string) \<Rightarrow> ident \<Rightarrow> ident mres" where
  "storage_ident pascal i = format_ident (''__Storage'' @ pascal i)"

definition dyn_method_new ::
  "(string \<Rightarrow> string) \<Rightarrow> path \<Rightarrow> ident list \<Rightarrow> trait_item_fn \<Rightarrow> dyn_method mres" where
  "dyn_method_new pascal krate trait_generics m =
     (let sg = desugar_async (pattern_as_arg_sig (fn_sig m)) in
      case rpit_of sg of
        None \<Rightarrow> Inr \<lparr>dm_orig_sig = fn_sig m, dm_crate = krate,
          dm_method = \<lparr>fn_attrs = fn_attrs m, fn_sig = sg, fn_default = None\<rparr>,
          dm_rpit = None, dm_storage = None\<rparr>
      | Some bs \<Rightarrow> mbind (storage_ident pascal (sg_ident sg)) (\<lambda>storage.
          Inr \<lparr>dm_orig_sig = fn_sig m, dm_crate = krate,
            dm_method = \<lparr>fn_attrs = fn_attrs m,
              fn_sig = update_dyn_signature krate trait_generics bs storage sg, fn_default = None\<rparr>,
            dm_rpit = Some bs, dm_storage = Some storage\<rparr>))"

definition storage_path :: "path \<Rightarrow> ident \<Rightarrow> path" where
  "storage_path krate i = krate @ [Seg ''storage'' NoArgs, Seg i NoArgs]"

definition generic_storage :: "dyn_method \<Rightarrow> path option \<Rightarrow> generic_param option" where
  "generic_storage dm dflt = map_option (\<lambda>storage.
     GPType storage [BTrait False [] (storage_path (dm_crate dm) ''Storage'')]
       (Some (TyPath None (case dflt of Some p \<Rightarrow> p
                           | None \<Rightarrow> storage_path (dm_crate dm) ''DefaultStorage''))))
     (dm_storage dm)"

definition dm_impl_method :: "dyn_method \<Rightarrow> impl_item" where
  "dm_impl_method dm =
     (let call = CallDyn (sg_ident (dm_orig_sig dm)) (fn_args (dm_orig_sig dm));
          block = (if dm_rpit dm \<noteq> None then DynObjectNew call else call)
      in impl_method (fn_sig (dm_method dm)) block)"

definition doc_hidden :: attribute where
  "doc_hidden = Attr (ident_path ''doc'') (MetaList [Nested (ident_path ''hidden'') NoArg])"

definition sync_method :: "dyn_method \<Rightarrow> trait_item_fn mres" where
  "sync_method dm = (case Option.bind (dm_rpit dm) future_output of
       None \<Rightarrow> bail_method ''`maybe_sync` must be used on async methods''
     | Some output \<Rightarrow> mbind (sync_fn (dm_orig_sig dm)) (\<lambda>name.
         Inr \<lparr>fn_attrs = [doc_hidden],
              fn_sig = (dm_orig_sig dm)\<lparr>sg_async := False, sg_ident := name, sg_output := RType output\<rparr>,
              fn_default = Some (LetUnimplemented (drop 1 (fn_args (dm_orig_sig dm))))\<rparr>))"

definition is_sync_item :: "dyn_method \<Rightarrow> trait_item_const mres" where
  "is_sync_item dm = mbind (is_sync_const (dm_orig_sig dm)) (\<lambda>name.
     Inr \<lparr>co_attrs = [doc_hidden], co_name = name, co_ty = ty_ident ''bool'', co_value = Some ''false''\<rparr>)"

definition maybe_sync_signature :: "dyn_method \<Rightarrow> signature mres" where
  "maybe_sync_signature dm = (let sg = fn_sig (dm_method dm) in
     case return_type sg of
       None \<Rightarrow> Inl (MacroPanic ''unwrap'')
     | Some output \<Rightarrow> Inr (sg\<lparr>sg_output :=
         RType (TyPath None (dm_crate dm @ [Seg ''MaybeSync'' (AngleBracketed [ArgType output])]))\<rparr>))"

definition maybe_sync_method :: "dyn_method \<Rightarrow> trait_item_fn mres" where
  "maybe_sync_method dm =
     mbind (maybe_sync_signature dm) (\<lambda>sg. Inr ((dm_method dm)\<lparr>fn_sig := sg\<rparr>))"

definition maybe_sync_impl :: "dyn_method \<Rightarrow> impl_item mres" where
  "maybe_sync_impl dm =
     mbind (is_sync_const (dm_orig_sig dm)) (\<lambda>is_sync.
     mbind (sync_fn (dm_orig_sig dm)) (\<lambda>sync_name.
     mbind (maybe_sync_signature dm) (\<lambda>sg.
       let args = fn_args (dm_orig_sig dm) in
       Inr (impl_method sg
         (IfConst is_sync (MaybeSyncSync (CallDyn sync_name args))
            (MaybeSyncAsync (DynObjectNew (CallDyn (sg_ident (dm_orig_sig dm)) args))))))))"


section \<open>The trait\<close>

record dyn_trait =
  dt_include_trait :: bool
  dt_name :: ident
  dt_crate :: path
  dt_remote :: path
  dt_trait_generics :: "ident list"
  dt_additional :: "trait_item list"
  dt_items :: "trait_item list"
  dt_impl_items :: "impl_item list"
  dt_storages :: "generic_param list"

fun type_param :: "generic_param \<Rightarrow> ident option" where
  "type_param (GPType i bs d) = Some i"
| "type_param (GPLifetime l) = None"
| "type_param (GPConst i t d) = None"

definition dyn_trait_name :: "dyn_trait_opts \<Rightarrow> ident \<Rightarrow> ident mres" where
  "dyn_trait_name opts i =
     format_ident (replace_braces (case dto_name_template opts of Some t \<Rightarrow> t | None \<Rightarrow> ''Dyn{}'') i)"

definition dyn_trait_new :: "item_trait \<Rightarrow> dyn_trait_opts \<Rightarrow> dyn_trait mres" where
  "dyn_trait_new tr opts =
     mbind (dyn_trait_name opts (tr_ident tr)) (\<lambda>name.
     Inr \<lparr>dt_include_trait = (dto_remote opts = None),
          dt_name = name,
          dt_crate = (case dto_crate opts of Some c \<Rightarrow> c | None \<Rightarrow> crate_name),
          dt_remote = (case dto_remote opts of Some r \<Rightarrow> r | None \<Rightarrow> ident_path (tr_ident tr)),
          dt_trait_generics = List.map_filter type_param (g_params (tr_generics tr)),
          dt_additional = [], dt_items = [], dt_impl_items = [], dt_storages = []\<rparr>)"

definition parse_type :: "trait_item_type \<Rightarrow> dyn_trait \<Rightarrow> dyn_trait" where
  "parse_type t dt = dt\<lparr>dt_items := dt_items dt @ [TIType t],
     dt_impl_items := dt_impl_items dt @
       [IIType (ty_name t) (TyPath (Some (ty_ident ''__Dyn'')) (dt_remote dt @ [Seg (ty_name t) NoArgs]))]\<rparr>"

text \<open>The method left in the trait, without its \<open>dyn_trait\<close> attributes, and the new state.\<close>

definition parse_method ::
  "(string \<Rightarrow> string) \<Rightarrow> trait_item_fn \<Rightarrow> dyn_trait \<Rightarrow> (trait_item_fn \<times> dyn_trait) mres" where
  "parse_method pascal m dt =
     mbind (method_attrs_parse m) (\<lambda>(attrs, m').
     mbind (dyn_method_new pascal (dt_crate dt) (dt_trait_generics dt) m') (\<lambda>dm.
     let dt1 = dt\<lparr>dt_storages := dt_storages dt
           @ (case generic_storage dm (ma_storage attrs) of None \<Rightarrow> [] | Some g \<Rightarrow> [g])\<rparr> in
     if ma_maybe_sync attrs
     then mbind (sync_method dm) (\<lambda>sync.
          mbind (is_sync_item dm) (\<lambda>is_sync.
          mbind (maybe_sync_impl dm) (\<lambda>impl.
          mbind (maybe_sync_method dm) (\<lambda>meth.
            Inr (m', dt1\<lparr>dt_additional := dt_additional dt1 @ [TIFn sync, TIConst is_sync],
                         dt_impl_items := dt_impl_items dt1 @ [impl],
                         dt_items := dt_items dt1 @ [TIFn meth]\<rparr>)))))
     else Inr (m', dt1\<lparr>dt_impl_items := dt_impl_items dt1 @ [dm_impl_method dm],
                       dt_items := dt_items dt1 @ [TIFn (dm_method dm)]\<rparr>)))"

text \<open>The loop over the items; whatever is neither a plain type nor dispatchable is left alone.\<close>

fun parse_item ::
  "(string \<Rightarrow> string) \<Rightarrow> trait_item \<Rightarrow> dyn_trait \<Rightarrow> (trait_item \<times> dyn_trait) mres" where
  "parse_item pascal (TIType t) dt =
     Inr (TIType t, if is_not_generic t then parse_type t dt else dt)"
| "parse_item pascal (TIFn m) dt =
     (if is_dispatchable m
      then mbind (parse_method pascal m dt) (\<lambda>(m', dt'). Inr (TIFn m', dt'))
      else Inr (TIFn m, dt))"
| "parse_item pascal (TIConst c) dt = Inr (TIConst c, dt)"
| "parse_item pascal (TIOther s) dt = Inr (TIOther s, dt)"

fun parse_items ::
  "(string \<Rightarrow> string) \<Rightarrow> trait_item list \<Rightarrow> dyn_trait \<Rightarrow> (trait_item list \<times> dyn_trait) mres" where
  "parse_items pascal [] dt = Inr ([], dt)"
| "parse_items pascal (i # is) dt =
     mbind (parse_item pascal i dt) (\<lambda>(i', dt1).
     mbind (parse_items pascal is dt1) (\<lambda>(is', dt2). Inr (i' # is', dt2)))"


section \<open>The output\<close>

text \<open>\<open>split_for_impl\<close>: lifetimes come first; the arguments name the parameters.\<close>

fun strip_default :: "generic_param \<Rightarrow> generic_param" where
  "strip_default (GPType i bs d) = GPType i bs None"
| "strip_default (GPConst i t d) = GPConst i t None"
| "strip_default (GPLifetime l) = GPLifetime l"

fun param_arg :: "generic_param \<Rightarrow> generic_arg" where
  "param_arg (GPType i bs d) = ArgType (ty_ident i)"
| "param_arg (GPConst i t d) = ArgType (ty_ident i)"
| "param_arg (GPLifetime (LParam l bs)) = ArgLifetime l"

definition lifetimes_first :: "generic_param list \<Rightarrow> generic_param list" where
  "lifetimes_first ps = filter is_lifetime_param ps @ filter (Not \<circ> is_lifetime_param) ps"

definition impl_generics :: "generic_param list \<Rightarrow> generic_param list" where
  "impl_generics ps = map strip_default (lifetimes_first ps)"

definition ty_generics_args :: "generic_param list \<Rightarrow> generic_arg list" where
  "ty_generics_args ps = map param_arg (lifetimes_first ps)"

text \<open>\<open>#remote #ty_gen\<close>: no brackets for no arguments; two pairs of brackets do not parse.\<close>

definition path_with_args :: "path \<Rightarrow> generic_arg list \<Rightarrow> path mres" where
  "path_with_args p args =
     (if args = [] then Inr p
      else if p \<noteq> [] \<and> seg_args (last p) = NoArgs
      then Inr (butlast p @ [Seg (seg_ident (last p)) (AngleBracketed args)])
      else Inl (MacroPanic ''parse_quote''))"

text \<open>The header of the generated trait, token by token.\<close>

datatype header_token =
    HVis string | HUnsafe | HTrait | HName ident | HGenerics "generic_param list"
  | HColon | HBounds "bound list" | HWhere "where_pred list"

record dyn_trait_output =
  do_trait :: "item_trait option"
  do_attrs :: "attribute list"
  do_header :: "header_token list"
  do_items :: "trait_item list"
  do_impl_unsafe :: bool
  do_impl_generics :: "generic_param list"
  do_impl_trait :: path
  do_impl_where :: "where_pred list option"
  do_impl_items :: "impl_item list"

fun opt_where :: "where_pred list option \<Rightarrow> header_token list" where
  "opt_where None = []"
| "opt_where (Some ps) = (if ps = [] then [] else [HWhere ps])"

definition trait_header :: "item_trait \<Rightarrow> ident \<Rightarrow> generic_param list \<Rightarrow> header_token list" where
  "trait_header tr name params =
     [HVis (tr_vis tr)] @ (if tr_unsafe tr then [HUnsafe] else []) @ [HTrait, HName name]
     @ (if params = [] then [] else [HGenerics params])
     @ (if tr_supertraits tr = [] then [] else [HBounds (tr_supertraits tr)])
     @ opt_where (g_where (tr_generics tr))"

definition has_dyn_object :: "attribute list \<Rightarrow> bool" where
  "has_dyn_object attrs = list_ex (\<lambda>a. last_segment (attr_path a) ''dyn_object'' \<noteq> None) attrs"

definition dyn_trait_impl ::
  "(string \<Rightarrow> string) \<Rightarrow> item_trait \<Rightarrow> dyn_trait_opts \<Rightarrow> dyn_trait_output mres" where
  "dyn_trait_impl pascal tr0 opts =
     mbind (extract_dyn_trait_attrs tr0) (\<lambda>(attrs, tr1).
     if g_params (tr_generics tr1) \<noteq> [] \<and> has_dyn_object attrs
     then bail ''generic parameters are not supported in combination to `dyn_object`''
     else mbind (dyn_trait_new tr1 opts) (\<lambda>dt0.
       mbind (parse_items pascal (tr_items tr1) dt0) (\<lambda>(items, dt).
       let tr = tr1\<lparr>tr_items := items @ dt_additional dt\<rparr>;
           params = g_params (tr_generics tr);
           dyn_params = params @ dt_storages dt in
       mbind (path_with_args (dt_remote dt) (ty_generics_args params)) (\<lambda>bound.
       mbind (path_with_args (ident_path (dt_name dt)) (ty_generics_args dyn_params)) (\<lambda>impl_trait.
       Inr \<lparr>do_trait = (if dt_include_trait dt then Some tr else None),
            do_attrs = attrs,
            do_header = trait_header tr (dt_name dt) (lifetimes_first dyn_params),
            do_items = dt_items dt,
            do_impl_unsafe = tr_unsafe tr,
            do_impl_generics = impl_generics (dyn_params @ [GPType ''__Dyn'' [BTrait False [] bound] None]),
            do_impl_trait = impl_trait,
            do_impl_where = g_where (tr_generics tr),
            do_impl_items = dt_impl_items dt\<rparr>)))))"

end
