(* ===== verification/Dyn_Trait_Facts.thy ===== *)
theory Dyn_Trait_Facts
  imports Dyn_Trait_Macro
begin

text \<open>
  Lemmas on the \<open>dyn_trait\<close> macro: what one method becomes (dispatchable, not async, no opaque
  return type, one storage parameter), what the loop over the items builds (trait and
  implementation item by item), and what the lifetime visitor leaves of the arguments.
\<close>


section \<open>The visitor keeps the receiver\<close>

lemma visit_ty_Self [simp]: "visit_ty cap t = ty_Self \<longleftrightarrow> t = ty_Self"
proof (cases t)
  case (TyPath q p)
  have "visit_args cap a = NoArgs \<longleftrightarrow> a = NoArgs" for a by (cases a) simp_all
  then have seg: "visit_seg cap s = Seg ''Self'' NoArgs \<longleftrightarrow> s = Seg ''Self'' NoArgs" for s
    by (cases s) simp
  show ?thesis
    by (simp add: TyPath ident_path_def map_eq_Cons_conv seg)
qed (simp_all add: ident_path_def)

lemma last_segment_visit [simp]:
  "last_segment (map (visit_seg cap) p) i = map_option (visit_seg cap) (last_segment p i)"
proof (cases p rule: rev_exhaust)
  case (snoc ys y)
  then show ?thesis by (cases y) (simp add: last_segment_def)
qed (simp add: last_segment_def)

lemma pinned_ref_visit [simp]: "pinned_ref (visit_ty cap t) = None \<longleftrightarrow> pinned_ref t = None"
proof (cases t)
  case (TyPath q p)
  show ?thesis
    unfolding TyPath
    by (auto split: option.splits path_segment.splits path_args.splits list.splits generic_arg.splits
        ty.splits)
qed simp_all

lemma sig_receiver_visit [simp]:
  "sig_receiver (map (visit_fn_arg cap) xs) = map_option (visit_receiver cap) (sig_receiver xs)"
  by (induction xs rule: sig_receiver.induct) simp_all

lemma is_lifetime_param_visit [simp]:
  "is_lifetime_param (visit_generic_param cap p) = is_lifetime_param p"
  by (cases p) simp_all

lemma visit_receiver_reference [simp]:
  "rc_reference (visit_receiver cap r) = None \<longleftrightarrow> rc_reference r = None"
  "rc_mutability (visit_receiver cap r) = rc_mutability r"
  "rc_ty (visit_receiver cap r) = visit_ty cap (rc_ty r)"
  by (simp_all add: visit_receiver_def)


section \<open>One method\<close>

definition dyn_compatible_sig :: "signature \<Rightarrow> bool" where
  "dyn_compatible_sig sg \<longleftrightarrow> has_dyn_trait_receiver sg
     \<and> list_all is_lifetime_param (g_params (sg_generics sg)) \<and> \<not> sg_async sg \<and> rpit_of sg = None"

lemma desugar_async_simps [simp]:
  "sg_ident (desugar_async sg) = sg_ident sg" "sg_generics (desugar_async sg) = sg_generics sg"
  "sg_inputs (desugar_async sg) = sg_inputs sg" "sg_unsafe (desugar_async sg) = sg_unsafe sg"
  "\<not> sg_async (desugar_async sg)"
  by (simp_all add: desugar_async_def Let_def)

lemma rpit_of_desugar [simp]: "rpit_of (desugar_async sg) \<noteq> None \<longleftrightarrow> has_rpit sg"
  by (simp add: desugar_async_def has_rpit_def rpit_of_def Let_def)

lemma rpit_of_desugar_pattern [simp]:
  "rpit_of (desugar_async (pattern_as_arg_sig sg)) = rpit_of (desugar_async sg)"
  by (simp add: rpit_of_def desugar_async_def Let_def)

lemma has_rpit_pattern_as_arg [simp]: "has_rpit (pattern_as_arg_sig sg) = has_rpit sg"
  by (simp add: has_rpit_def rpit_of_def)

lemma update_dyn_signature_simps [simp]:
  "sg_ident (update_dyn_signature krate gs bs st sg) = sg_ident sg"
  "sg_async (update_dyn_signature krate gs bs st sg) = sg_async sg"
  "sg_unsafe (update_dyn_signature krate gs bs st sg) = sg_unsafe sg"
  "sg_inputs (update_dyn_signature krate gs bs st sg)
     = map (visit_fn_arg (captured_new bs (sg_generics sg))) (sg_inputs sg)"
  "sg_output (update_dyn_signature krate gs bs st sg)
     = RType (dyn_object_ty krate (dyn_ret (captured_new bs (sg_generics sg)) bs) st)"
  by (simp_all add: update_dyn_signature_def Let_def)

lemma update_dyn_signature_params:
  "g_params (sg_generics (update_dyn_signature krate gs bs st sg)) = GPLifetime (LParam dyn_lt [])
     # map (visit_generic_param (captured_new bs (sg_generics sg))) (g_params (sg_generics sg))"
  by (simp add: update_dyn_signature_def Let_def)

lemma update_dyn_signature_receiver [simp]:
  "has_dyn_trait_receiver (update_dyn_signature krate gs bs st sg) = has_dyn_trait_receiver sg"
  by (simp add: has_dyn_trait_receiver_def del: not_None_eq split: option.split)

lemma update_dyn_signature_compatible:
  "has_dyn_trait_receiver sg \<Longrightarrow> list_all is_lifetime_param (g_params (sg_generics sg))
    \<Longrightarrow> \<not> sg_async sg \<Longrightarrow> dyn_compatible_sig (update_dyn_signature krate gs bs st sg)"
  by (simp add: dyn_compatible_sig_def update_dyn_signature_params list_all_iff rpit_of_def
      dyn_object_ty_def)

lemma dyn_method_new_ok:
  assumes "dyn_method_new pascal krate gs m = Inr dm" and "is_dispatchable m"
  shows "dm_orig_sig dm = fn_sig m" "dm_crate dm = krate"
    "sg_ident (fn_sig (dm_method dm)) = sg_ident (fn_sig m)"
    "fn_default (dm_method dm) = None"
    "dyn_compatible_sig (fn_sig (dm_method dm))"
    "dm_rpit dm = rpit_of (desugar_async (fn_sig m))"
    "dm_storage dm = (if has_rpit (fn_sig m) then Some (''__Storage'' @ pascal (sg_ident (fn_sig m))) else None)"
    "fn_attrs (dm_method dm) = fn_attrs m"
    "sg_unsafe (fn_sig (dm_method dm)) = sg_unsafe (fn_sig m)"
proof -
  let ?sg = "desugar_async (pattern_as_arg_sig (fn_sig m))"
  have recv: "has_dyn_trait_receiver ?sg" "list_all is_lifetime_param (g_params (sg_generics ?sg))"
    using assms(2) by (auto simp: is_dispatchable_def has_dyn_trait_receiver_def)
  have rpit: "rpit_of ?sg = rpit_of (desugar_async (fn_sig m))"
    by (rule rpit_of_desugar_pattern)
  note defs = dyn_method_new_def storage_ident_def format_ident_def Let_def
  show "dm_orig_sig dm = fn_sig m" "dm_crate dm = krate"
    "sg_ident (fn_sig (dm_method dm)) = sg_ident (fn_sig m)" "fn_default (dm_method dm) = None"
    "dm_rpit dm = rpit_of (desugar_async (fn_sig m))" "fn_attrs (dm_method dm) = fn_attrs m"
    "sg_unsafe (fn_sig (dm_method dm)) = sg_unsafe (fn_sig m)"
    using assms(1) rpit by (auto simp: defs mbind_eq_Inr split: option.splits if_splits)
  show "dyn_compatible_sig (fn_sig (dm_method dm))"
    using assms(1) recv update_dyn_signature_compatible [of ?sg]
    by (auto simp: defs mbind_eq_Inr dyn_compatible_sig_def split: option.splits if_splits)
  show "dm_storage dm = (if has_rpit (fn_sig m) then Some (''__Storage'' @ pascal (sg_ident (fn_sig m))) else None)"
    using assms(1) rpit_of_desugar [of "pattern_as_arg_sig (fn_sig m)"]
    by (auto simp: defs mbind_eq_Inr split: option.splits if_splits)
qed

lemma maybe_sync_signature_ok:
  "maybe_sync_signature dm = Inr sg \<Longrightarrow> dyn_compatible_sig (fn_sig (dm_method dm))
    \<Longrightarrow> dyn_compatible_sig sg \<and> sg_ident sg = sg_ident (fn_sig (dm_method dm))
      \<and> sg_unsafe sg = sg_unsafe (fn_sig (dm_method dm))"
  by (auto simp: maybe_sync_signature_def Let_def dyn_compatible_sig_def has_dyn_trait_receiver_def
      rpit_of_def split: option.splits)


section \<open>What the items become\<close>

text \<open>The body calls the wrapped type's method of that name, every parameter passed on in order.\<close>

fun forwards :: "ident \<Rightarrow> arg_expr list \<Rightarrow> block \<Rightarrow> bool" where
  "forwards i args (CallDyn j as) \<longleftrightarrow> j = i \<and> as = args"
| "forwards i args (DynObjectNew b) \<longleftrightarrow> forwards i args b"
| "forwards i args (MaybeSyncAsync b) \<longleftrightarrow> forwards i args b"
| "forwards i args (IfConst c b1 b2) \<longleftrightarrow> forwards i args b2
     \<and> (\<exists>j. b1 = MaybeSyncSync (CallDyn j args))"
| "forwards i args (MaybeSyncSync b) \<longleftrightarrow> False"
| "forwards i args (LetUnimplemented as) \<longleftrightarrow> False"
| "forwards i args (UserBlock s) \<longleftrightarrow> False"

fun item_implements :: "trait_item \<Rightarrow> impl_item \<Rightarrow> bool" where
  "item_implements (TIFn m) (IIFn sg b) \<longleftrightarrow> fn_sig m = sg \<and> forwards (sg_ident sg) (fn_args sg) b"
| "item_implements (TIType t) (IIType i ty) \<longleftrightarrow> ty_name t = i"
| "item_implements _ _ \<longleftrightarrow> False"

fun dyn_item :: "trait_item \<Rightarrow> bool" where
  "dyn_item (TIFn m) \<longleftrightarrow> is_dispatchable m"
| "dyn_item (TIType t) \<longleftrightarrow> is_not_generic t"
| "dyn_item (TIConst c) \<longleftrightarrow> False"
| "dyn_item (TIOther s) \<longleftrightarrow> False"

text \<open>Fit for a dyn-compatible trait.\<close>

fun dyn_generated :: "trait_item \<Rightarrow> bool" where
  "dyn_generated (TIFn m) \<longleftrightarrow> dyn_compatible_sig (fn_sig m) \<and> fn_default m = None"
| "dyn_generated (TIType t) \<longleftrightarrow> is_not_generic t"
| "dyn_generated (TIConst c) \<longleftrightarrow> False"
| "dyn_generated (TIOther s) \<longleftrightarrow> False"

fun item_storage :: "(string \<Rightarrow> string) \<Rightarrow> trait_item \<Rightarrow> ident option" where
  "item_storage pascal (TIFn m) = (if is_dispatchable m \<and> has_rpit (fn_sig m)
     then Some (''__Storage'' @ pascal (sg_ident (fn_sig m))) else None)"
| "item_storage pascal (TIType t) = None"
| "item_storage pascal (TIConst c) = None"
| "item_storage pascal (TIOther s) = None"

text \<open>The methods with an opaque or async return type.\<close>

fun rpit_name :: "trait_item \<Rightarrow> ident option" where
  "rpit_name (TIFn m) = (if is_dispatchable m \<and> has_rpit (fn_sig m) then Some (sg_ident (fn_sig m)) else None)"
| "rpit_name (TIType t) = None"
| "rpit_name (TIConst c) = None"
| "rpit_name (TIOther s) = None"

lemma item_storage_names:
  "List.map_filter (item_storage pascal) its = map (\<lambda>i. ''__Storage'' @ pascal i) (List.map_filter rpit_name its)"
proof (induction its)
  case (Cons it its)
  have "item_storage pascal it = map_option (\<lambda>i. ''__Storage'' @ pascal i) (rpit_name it)"
    by (cases it) simp_all
  with Cons show ?case by (cases "rpit_name it") (simp_all add: List.map_filter_def)
qed (simp add: List.map_filter_def)

lemma item_storage_distinct:
  "distinct (List.map_filter (item_storage pascal) its) \<longleftrightarrow> distinct (map pascal (List.map_filter rpit_name its))"
  by (simp add: item_storage_names distinct_map inj_on_def)

fun kept_item :: "trait_item \<Rightarrow> trait_item" where
  "kept_item (TIFn m) = TIFn (if is_dispatchable m
     then m\<lparr>fn_attrs := filter (Not \<circ> is_dyn_trait_attr) (fn_attrs m)\<rparr> else m)"
| "kept_item (TIType t) = TIType t"
| "kept_item (TIConst c) = TIConst c"
| "kept_item (TIOther s) = TIOther s"

lemma fn_arg_expr_visit [simp]: "fn_arg_expr (visit_fn_arg cap x) = fn_arg_expr x"
  by (cases x) simp_all

lemma fn_args_update [simp]: "fn_args (update_dyn_signature krate gs bs st sg) = fn_args sg"
  by (simp add: fn_args_def)

lemma fn_args_desugar [simp]: "fn_args (desugar_async sg) = fn_args sg"
  by (simp add: fn_args_def)

lemma dyn_method_new_args:
  "dyn_method_new pascal krate gs m = Inr dm \<Longrightarrow> fn_args (fn_sig (dm_method dm)) = fn_args (fn_sig m)"
  by (auto simp: dyn_method_new_def Let_def mbind_eq_Inr split: option.splits)

lemma maybe_sync_signature_args:
  "maybe_sync_signature dm = Inr sg \<Longrightarrow> fn_args sg = fn_args (fn_sig (dm_method dm))"
  by (auto simp: maybe_sync_signature_def Let_def fn_args_def split: option.splits)

text \<open>What \<open>parse_items\<close> adds to the state.\<close>

definition dt_extend ::
  "trait_item list \<Rightarrow> impl_item list \<Rightarrow> generic_param list \<Rightarrow> trait_item list \<Rightarrow> dyn_trait \<Rightarrow> dyn_trait" where
  "dt_extend ds is gs adds dt = dt\<lparr>dt_items := dt_items dt @ ds, dt_impl_items := dt_impl_items dt @ is,
     dt_storages := dt_storages dt @ gs, dt_additional := dt_additional dt @ adds\<rparr>"

lemma dt_extend_extend [simp]:
  "dt_extend ds2 is2 gs2 as2 (dt_extend ds1 is1 gs1 as1 dt)
    = dt_extend (ds1 @ ds2) (is1 @ is2) (gs1 @ gs2) (as1 @ as2) dt"
  by (simp add: dt_extend_def)

lemma dt_extend_Nil [simp]: "dt_extend [] [] [] [] dt = dt"
  by (simp add: dt_extend_def)

text \<open>The generated items follow the convertible ones in order.\<close>

definition items_result ::
  "(string \<Rightarrow> string) \<Rightarrow> trait_item list \<Rightarrow> trait_item list \<Rightarrow> impl_item list \<Rightarrow> generic_param list \<Rightarrow> bool" where
  "items_result pascal its ds is gs \<longleftrightarrow>
     map trait_item_name ds = map trait_item_name (filter dyn_item its)
     \<and> list_all2 item_implements ds is \<and> list_all dyn_generated ds
     \<and> map type_param gs = map Some (List.map_filter (item_storage pascal) its)"

definition extended :: "(string \<Rightarrow> string) \<Rightarrow> trait_item list \<Rightarrow> dyn_trait \<Rightarrow> dyn_trait \<Rightarrow> bool" where
  "extended pascal its dt dt' \<longleftrightarrow>
     (\<exists>ds is gs adds. dt' = dt_extend ds is gs adds dt \<and> items_result pascal its ds is gs)"

lemma extendedI:
  "dt' = dt_extend ds is gs adds dt \<Longrightarrow> items_result pascal its ds is gs \<Longrightarrow> extended pascal its dt dt'"
  unfolding extended_def by blast

lemma items_result_skip:
  "\<not> dyn_item it \<Longrightarrow> item_storage pascal it = None \<Longrightarrow> items_result pascal [it] [] [] []"
  by (simp add: items_result_def List.map_filter_def)

lemma extended_skip:
  "\<not> dyn_item it \<Longrightarrow> item_storage pascal it = None \<Longrightarrow> extended pascal [it] dt dt"
  by (rule extendedI [of _ "[]" "[]" "[]" "[]"]) (simp_all add: items_result_skip)

lemma items_result_append:
  "items_result pascal its1 ds1 is1 gs1 \<Longrightarrow> items_result pascal its2 ds2 is2 gs2
    \<Longrightarrow> items_result pascal (its1 @ its2) (ds1 @ ds2) (is1 @ is2) (gs1 @ gs2)"
  by (simp add: items_result_def List.map_filter_def list_all2_appendI)

lemma extended_trans:
  assumes "extended pascal its1 dt dt1" and "extended pascal its2 dt1 dt2"
  shows "extended pascal (its1 @ its2) dt dt2"
proof -
  from assms(1) obtain ds1 is1 gs1 as1 where
    1: "dt1 = dt_extend ds1 is1 gs1 as1 dt" "items_result pascal its1 ds1 is1 gs1"
    unfolding extended_def by blast
  from assms(2) obtain ds2 is2 gs2 as2 where
    2: "dt2 = dt_extend ds2 is2 gs2 as2 dt1" "items_result pascal its2 ds2 is2 gs2"
    unfolding extended_def by blast
  show ?thesis
    by (rule extendedI [OF _ items_result_append [OF 1(2) 2(2)]]) (simp add: 1(1) 2(1))
qed

lemma generic_storage_names:
  "map type_param (case generic_storage dm d of None \<Rightarrow> [] | Some g \<Rightarrow> [g])
    = (case dm_storage dm of None \<Rightarrow> [] | Some i \<Rightarrow> [Some i])"
  by (simp add: generic_storage_def split: option.split)

lemma parse_method_cases:
  assumes "parse_method pascal m dt = Inr (m', dt')"
  obtains attrs dm where "method_attrs_parse m = Inr (attrs, m')"
    "dyn_method_new pascal (dt_crate dt) (dt_trait_generics dt) m' = Inr dm"
    "\<not> ma_maybe_sync attrs"
    "dt' = dt_extend [TIFn (dm_method dm)] [dm_impl_method dm]
       (case generic_storage dm (ma_storage attrs) of None \<Rightarrow> [] | Some g \<Rightarrow> [g]) [] dt"
  | attrs dm sync is_sync impl meth where "method_attrs_parse m = Inr (attrs, m')"
    "dyn_method_new pascal (dt_crate dt) (dt_trait_generics dt) m' = Inr dm"
    "ma_maybe_sync attrs" "sync_method dm = Inr sync" "is_sync_item dm = Inr is_sync"
    "maybe_sync_impl dm = Inr impl" "maybe_sync_method dm = Inr meth"
    "dt' = dt_extend [TIFn meth] [impl]
       (case generic_storage dm (ma_storage attrs) of None \<Rightarrow> [] | Some g \<Rightarrow> [g])
       [TIFn sync, TIConst is_sync] dt"
proof -
  from assms obtain attrs m1 where a: "method_attrs_parse m = Inr (attrs, m1)"
    by (auto simp: parse_method_def mbind_eq_Inr)
  from assms a obtain dm where dm: "dyn_method_new pascal (dt_crate dt) (dt_trait_generics dt) m1 = Inr dm"
    by (auto simp: parse_method_def mbind_eq_Inr)
  show thesis
  proof (cases "ma_maybe_sync attrs")
    case True
    with assms a dm show ?thesis
      using that(2) by (auto simp: parse_method_def mbind_eq_Inr Let_def dt_extend_def)
  next
    case False
    with assms a dm show ?thesis
      using that(1) by (auto simp: parse_method_def mbind_eq_Inr Let_def dt_extend_def)
  qed
qed

lemma method_attrs_parse_kept:
  "method_attrs_parse m = Inr (attrs, m')
    \<Longrightarrow> m' = m\<lparr>fn_attrs := filter (Not \<circ> is_dyn_trait_attr) (fn_attrs m)\<rparr>"
  by (auto simp: method_attrs_parse_def mbind_eq_Inr)

lemma is_dispatchable_attrs [simp]: "is_dispatchable (m\<lparr>fn_attrs := as\<rparr>) = is_dispatchable m"
  by (simp add: is_dispatchable_def)

lemma parse_method_result:
  assumes p: "parse_method pascal m dt = Inr (m', dt')" and d: "is_dispatchable m"
  shows "extended pascal [TIFn m] dt dt' \<and> TIFn m' = kept_item (TIFn m)"
  using p
proof (cases rule: parse_method_cases)
  case (1 attrs dm)
  note m' = method_attrs_parse_kept [OF 1(1)]
  note dm = dyn_method_new_ok [OF 1(2)] dyn_method_new_args [OF 1(2)]
  have "items_result pascal [TIFn m] [TIFn (dm_method dm)] [dm_impl_method dm]
      (case generic_storage dm (ma_storage attrs) of None \<Rightarrow> [] | Some g \<Rightarrow> [g])"
    using m' dm d by (simp add: items_result_def List.map_filter_def generic_storage_names
        dm_impl_method_def Let_def impl_method_def)
  with extendedI [OF 1(4)] m' d show ?thesis by simp
next
  case (2 attrs dm sync is_sync impl meth)
  note m' = method_attrs_parse_kept [OF 2(1)]
  note dm = dyn_method_new_ok [OF 2(2)] dyn_method_new_args [OF 2(2)]
  from 2(7) obtain sg where sg: "maybe_sync_signature dm = Inr sg" "meth = (dm_method dm)\<lparr>fn_sig := sg\<rparr>"
    by (auto simp: maybe_sync_method_def mbind_eq_Inr)
  note sgs = maybe_sync_signature_ok [OF sg(1)] maybe_sync_signature_args [OF sg(1)]
  from 2(6) sg(1) obtain c n where
    impl: "impl = IIFn sg (IfConst c (MaybeSyncSync (CallDyn n (fn_args (dm_orig_sig dm))))
      (MaybeSyncAsync (DynObjectNew (CallDyn (sg_ident (dm_orig_sig dm)) (fn_args (dm_orig_sig dm))))))"
    by (auto simp: maybe_sync_impl_def mbind_eq_Inr Let_def impl_method_def)
  have "items_result pascal [TIFn m] [TIFn meth] [impl]
      (case generic_storage dm (ma_storage attrs) of None \<Rightarrow> [] | Some g \<Rightarrow> [g])"
    using m' dm d sg sgs impl
    by (simp add: items_result_def List.map_filter_def generic_storage_names)
  with extendedI [OF 2(8)] m' d show ?thesis by simp
qed

lemma parse_type_extended:
  assumes "is_not_generic t"
  shows "extended pascal [TIType t] dt (parse_type t dt)"
proof (rule extendedI)
  show "parse_type t dt = dt_extend [TIType t] [IIType (ty_name t)
      (TyPath (Some (ty_ident ''__Dyn'')) (dt_remote dt @ [Seg (ty_name t) NoArgs]))] [] [] dt"
    by (simp add: dt_extend_def parse_type_def)
  show "items_result pascal [TIType t] [TIType t] [IIType (ty_name t)
      (TyPath (Some (ty_ident ''__Dyn'')) (dt_remote dt @ [Seg (ty_name t) NoArgs]))] []"
    using assms by (simp add: items_result_def List.map_filter_def)
qed

lemma parse_item_result:
  assumes p: "parse_item pascal it dt = Inr (it', dt')"
  shows "extended pascal [it] dt dt' \<and> it' = kept_item it"
proof (cases it)
  case (TIType t)
  with p parse_type_extended [of t pascal dt] extended_skip [of it pascal dt] show ?thesis
    by (auto split: if_splits)
next
  case (TIFn m)
  with p parse_method_result [of pascal m dt] extended_skip [of it pascal dt] show ?thesis
    by (auto simp: mbind_eq_Inr split: if_splits)
next
  case (TIConst c)
  with p extended_skip [of it pascal dt] show ?thesis by auto
next
  case (TIOther s)
  with p extended_skip [of it pascal dt] show ?thesis by auto
qed

lemma parse_items_result:
  "parse_items pascal its dt = Inr (its', dt') \<Longrightarrow>
    extended pascal its dt dt' \<and> its' = map kept_item its"
proof (induction its arbitrary: dt its')
  case Nil
  have "extended pascal [] dt dt"
    by (rule extendedI [of _ "[]" "[]" "[]" "[]"]) (simp_all add: items_result_def List.map_filter_def)
  with Nil show ?case by simp
next
  case (Cons it its)
  from Cons.prems obtain it1 dt1 its1 where
    p: "parse_item pascal it dt = Inr (it1, dt1)" "parse_items pascal its dt1 = Inr (its1, dt')"
      "its' = it1 # its1"
    by (auto simp: mbind_eq_Inr)
  with parse_item_result [OF p(1)] Cons.IH [OF p(2)] extended_trans [of pascal "[it]" dt dt1 its dt']
  show ?case by simp
qed


section \<open>The whole trait\<close>

lemma dyn_trait_impl_cases:
  assumes "dyn_trait_impl pascal tr opts = Inr out"
  obtains attrs dt0 items dt bound where
    "mmap (\<lambda>a. mbind (require_list (attr_meta_of a)) quote_attr) (filter is_dyn_trait_attr (tr_attrs tr))
      = Inr attrs"
    "g_params (tr_generics tr) = [] \<or> \<not> has_dyn_object attrs"
    "parse_items pascal (tr_items tr) dt0 = Inr (items, dt)"
    "dyn_trait_new (tr\<lparr>tr_attrs := filter (Not \<circ> is_dyn_trait_attr) (tr_attrs tr)\<rparr>) opts = Inr dt0"
    "do_trait out = (if dt_include_trait dt then Some (tr\<lparr>
       tr_attrs := filter (Not \<circ> is_dyn_trait_attr) (tr_attrs tr),
       tr_items := items @ dt_additional dt\<rparr>) else None)"
    "do_attrs out = attrs" "do_items out = dt_items dt" "do_impl_items out = dt_impl_items dt"
    "do_header out = trait_header tr (dt_name dt)
       (lifetimes_first (g_params (tr_generics tr) @ dt_storages dt))"
    "do_impl_generics out = impl_generics (g_params (tr_generics tr) @ dt_storages dt
       @ [GPType ''__Dyn'' [BTrait False [] bound] None])"
proof -
  define tr1 where "tr1 = tr\<lparr>tr_attrs := filter (Not \<circ> is_dyn_trait_attr) (tr_attrs tr)\<rparr>"
  have tr1: "tr_items tr1 = tr_items tr" "tr_generics tr1 = tr_generics tr" by (simp_all add: tr1_def)
  from assms obtain attrs where
    a: "mmap (\<lambda>a. mbind (require_list (attr_meta_of a)) quote_attr) (filter is_dyn_trait_attr (tr_attrs tr))
      = Inr attrs" "extract_dyn_trait_attrs tr = Inr (attrs, tr1)"
    unfolding dyn_trait_impl_def mbind_eq_Inr
    by (auto simp: extract_dyn_trait_attrs_def mbind_eq_Inr tr1_def)
  from assms a(2) have g: "g_params (tr_generics tr) = [] \<or> \<not> has_dyn_object attrs"
    by (auto simp: dyn_trait_impl_def tr1)
  from assms a(2) g obtain dt0 where dt0: "dyn_trait_new tr1 opts = Inr dt0"
    unfolding dyn_trait_impl_def by (cases "dyn_trait_new tr1 opts") (auto simp: tr1)
  from assms a(2) g dt0 obtain items dt where items: "parse_items pascal (tr_items tr) dt0 = Inr (items, dt)"
    unfolding dyn_trait_impl_def by (cases "parse_items pascal (tr_items tr) dt0") (auto simp: tr1)
  define params where "params = g_params (tr_generics tr)"
  define dyn_params where "dyn_params = params @ dt_storages dt"
  from assms a(2) g dt0 items obtain bound impl_trait where
    "path_with_args (dt_remote dt) (ty_generics_args params) = Inr bound"
    "path_with_args (ident_path (dt_name dt)) (ty_generics_args dyn_params) = Inr impl_trait" and
    out: "out = \<lparr>do_trait = (if dt_include_trait dt then Some (tr1\<lparr>tr_items := items @ dt_additional dt\<rparr>) else None),
       do_attrs = attrs,
       do_header = trait_header (tr1\<lparr>tr_items := items @ dt_additional dt\<rparr>) (dt_name dt) (lifetimes_first dyn_params),
       do_items = dt_items dt, do_impl_unsafe = tr_unsafe tr1,
       do_impl_generics = impl_generics (dyn_params @ [GPType ''__Dyn'' [BTrait False [] bound] None]),
       do_impl_trait = impl_trait, do_impl_where = g_where (tr_generics tr1),
       do_impl_items = dt_impl_items dt\<rparr>"
    by (auto simp: dyn_trait_impl_def mbind_eq_Inr Let_def tr1 params_def dyn_params_def)
  have h: "trait_header (tr1\<lparr>tr_items := is\<rparr>) name ps = trait_header tr name ps" for "is" name ps
    by (simp add: trait_header_def tr1_def)
  show thesis
    by (rule that [OF a(1) g items dt0 [unfolded tr1_def], of bound])
      (simp_all add: out h dyn_params_def params_def, simp_all add: tr1_def)
qed

lemma dyn_trait_new_empty:
  "dyn_trait_new tr opts = Inr dt \<Longrightarrow> dt_items dt = [] \<and> dt_impl_items dt = [] \<and> dt_storages dt = []
    \<and> dt_additional dt = [] \<and> dt_include_trait dt = (dto_remote opts = None)
    \<and> dyn_trait_name opts (tr_ident tr) = Inr (dt_name dt)"
  by (auto simp: dyn_trait_new_def mbind_eq_Inr)

lemma dyn_trait_impl_result:
  assumes "dyn_trait_impl pascal tr opts = Inr out"
  shows "\<exists>gs adds name bound.
    items_result pascal (tr_items tr) (do_items out) (do_impl_items out) gs
    \<and> dyn_trait_name opts (tr_ident tr) = Inr name
    \<and> do_header out = trait_header tr name (lifetimes_first (g_params (tr_generics tr) @ gs))
    \<and> do_impl_generics out = impl_generics (g_params (tr_generics tr) @ gs
        @ [GPType ''__Dyn'' [BTrait False [] bound] None])
    \<and> do_trait out = (if dto_remote opts = None then Some (tr\<lparr>
        tr_attrs := filter (Not \<circ> is_dyn_trait_attr) (tr_attrs tr),
        tr_items := map kept_item (tr_items tr) @ adds\<rparr>) else None)"
  using assms
proof (cases rule: dyn_trait_impl_cases)
  case (1 attrs dt0 items dt bound)
  note e = dyn_trait_new_empty [OF 1(4)]
  from parse_items_result [OF 1(3)] obtain ds ims gs adds where
    r: "dt = dt_extend ds ims gs adds dt0" "items_result pascal (tr_items tr) ds ims gs"
      "items = map kept_item (tr_items tr)"
    unfolding extended_def by blast
  have "dt_items dt = ds" "dt_impl_items dt = ims" "dt_storages dt = gs" "dt_additional dt = adds"
    "dt_name dt = dt_name dt0" "dt_include_trait dt = dt_include_trait dt0"
    using r(1) e by (simp_all add: dt_extend_def)
  with 1(5,7,8,9,10) r(2,3) e show ?thesis by (intro exI conjI) auto
qed


section \<open>When a trait is accepted\<close>

definition method_accepted :: "trait_item_fn \<Rightarrow> bool" where
  "method_accepted m = (case method_attrs_parse m of
      Inl e \<Rightarrow> False
    | Inr (attrs, m') \<Rightarrow> ma_maybe_sync attrs \<longrightarrow>
        Option.bind (rpit_of (desugar_async (fn_sig m))) future_output \<noteq> None)"

text \<open>Names that can be put into identifiers.\<close>

definition method_named :: "(string \<Rightarrow> string) \<Rightarrow> trait_item_fn \<Rightarrow> bool" where
  "method_named pascal m \<longleftrightarrow> valid_ident (sg_ident (fn_sig m))
     \<and> list_all ident_char (pascal (sg_ident (fn_sig m)))"

lemma storage_ident_ok:
  "list_all ident_char (pascal i) \<Longrightarrow> storage_ident pascal i = Inr (''__Storage'' @ pascal i)"
  using valid_ident_append [of "''__Storage''" "pascal i"]
  by (simp add: storage_ident_def macro_simps)

lemma dyn_method_new_total:
  "list_all ident_char (pascal (sg_ident (fn_sig m))) \<Longrightarrow> \<exists>dm. dyn_method_new pascal krate gs m = Inr dm"
  by (simp add: dyn_method_new_def Let_def storage_ident_ok split: option.split)

lemma maybe_sync_signature_total:
  "dyn_method_new pascal krate gs m = Inr dm \<Longrightarrow> dm_rpit dm \<noteq> None \<Longrightarrow> \<exists>sg. maybe_sync_signature dm = Inr sg"
  by (auto simp: dyn_method_new_def Let_def mbind_eq_Inr maybe_sync_signature_def split: option.splits)

lemma parse_method_ok_iff:
  assumes n: "method_named pascal m" and d: "is_dispatchable m"
  shows "(\<exists>r. parse_method pascal m dt = Inr r) \<longleftrightarrow> method_accepted m"
proof (cases "method_attrs_parse m")
  case (Inl e)
  then show ?thesis by (simp add: parse_method_def method_accepted_def)
next
  case (Inr am)
  obtain attrs m' where am: "am = (attrs, m')" by (cases am)
  have m': "fn_sig m' = fn_sig m" "is_dispatchable m'"
    using method_attrs_parse_kept [of m attrs m'] Inr am d by auto
  from n m'(1) dyn_method_new_total [of pascal m' "dt_crate dt" "dt_trait_generics dt"] obtain dm where
    dm: "dyn_method_new pascal (dt_crate dt) (dt_trait_generics dt) m' = Inr dm"
    by (auto simp: method_named_def)
  note f = dyn_method_new_ok [OF dm m'(2), unfolded m'(1)]
  have sync: "sync_fn (dm_orig_sig dm) = Inr (sg_ident (fn_sig m) @ ''_sync'')"
    "\<exists>i. is_sync_const (dm_orig_sig dm) = Inr i"
    using n f(1) sync_fn_ok is_sync_const_ok by (auto simp: method_named_def)
  show ?thesis
  proof (cases "Option.bind (dm_rpit dm) future_output")
    case None
    then show ?thesis
      using Inr am dm f(6)
      by (simp add: parse_method_def method_accepted_def Let_def sync_method_def)
  next
    case (Some out_ty)
    then have "dm_rpit dm \<noteq> None" by (cases "dm_rpit dm") auto
    with maybe_sync_signature_total [OF dm] obtain sg where "maybe_sync_signature dm = Inr sg" by auto
    with Some show ?thesis
      using Inr am dm f(6) sync
      by (auto simp: parse_method_def method_accepted_def Let_def sync_method_def is_sync_item_def
          maybe_sync_impl_def maybe_sync_method_def)
  qed
qed

lemma parse_items_ok_iff:
  assumes "\<And>m. TIFn m \<in> set its \<Longrightarrow> is_dispatchable m \<Longrightarrow> method_named pascal m"
  shows "(\<exists>r. parse_items pascal its dt = Inr r)
    \<longleftrightarrow> (\<forall>m. TIFn m \<in> set its \<longrightarrow> is_dispatchable m \<longrightarrow> method_accepted m)"
  using assms
proof (induction its arbitrary: dt)
  case (Cons it its)
  have IH: "(\<exists>r. parse_items pascal its dt = Inr r)
    \<longleftrightarrow> (\<forall>m. TIFn m \<in> set its \<longrightarrow> is_dispatchable m \<longrightarrow> method_accepted m)" for dt
    using Cons by simp
  have split: "(\<exists>r. parse_items pascal (it # its) dt = Inr r)
    \<longleftrightarrow> (\<exists>i dt1. parse_item pascal it dt = Inr (i, dt1) \<and> (\<exists>r. parse_items pascal its dt1 = Inr r))"
    by (fastforce simp: mbind_eq_Inr)
  have first: "(\<exists>i dt1. parse_item pascal it dt = Inr (i, dt1))
    \<longleftrightarrow> (\<forall>m. it = TIFn m \<longrightarrow> is_dispatchable m \<longrightarrow> method_accepted m)"
  proof (cases it)
    case (TIFn m)
    then show ?thesis
      using Cons.prems [of m] parse_method_ok_iff [of pascal m dt]
      by (auto simp: mbind_eq_Inr)
  qed auto
  show ?case unfolding split IH using first by auto
qed simp

text \<open>An async method has the output that \<open>maybe_sync\<close> needs.\<close>

lemma future_output_async:
  "sg_async sg \<Longrightarrow> Option.bind (rpit_of (desugar_async sg)) future_output
    = Some (case return_type sg of None \<Rightarrow> TyTuple [] | Some t \<Rightarrow> t)"
  by (simp add: desugar_async_def rpit_of_def future_output_def List.map_filter_def last_segment_def Let_def)

text \<open>The whole macro: attributes in list form, no generics under \<open>dyn_object\<close>, methods accepted.\<close>

definition plain_remote :: "dyn_trait_opts \<Rightarrow> bool" where
  "plain_remote opts \<longleftrightarrow> (case dto_remote opts of None \<Rightarrow> True | Some r \<Rightarrow> r \<noteq> [] \<and> seg_args (last r) = NoArgs)"

lemma parse_items_remote:
  "parse_items pascal its dt = Inr (its', dt') \<Longrightarrow> dt_remote dt' = dt_remote dt \<and> dt_name dt' = dt_name dt"
  using parse_items_result [of pascal its dt its' dt'] by (auto simp: extended_def dt_extend_def)

lemma path_with_args_total: "p \<noteq> [] \<Longrightarrow> seg_args (last p) = NoArgs \<Longrightarrow> \<exists>q. path_with_args p args = Inr q"
  by (simp add: path_with_args_def)

lemma dyn_trait_impl_ok_iff:
  assumes name: "dyn_trait_name opts (tr_ident tr) = Inr name" and remote: "plain_remote opts"
    and named: "\<And>m. TIFn m \<in> set (tr_items tr) \<Longrightarrow> is_dispatchable m \<Longrightarrow> method_named pascal m"
  shows "(\<exists>out. dyn_trait_impl pascal tr opts = Inr out) \<longleftrightarrow>
    (\<exists>attrs tr1. extract_dyn_trait_attrs tr = Inr (attrs, tr1)
        \<and> (g_params (tr_generics tr) = [] \<or> \<not> has_dyn_object attrs))
    \<and> (\<forall>m. TIFn m \<in> set (tr_items tr) \<longrightarrow> is_dispatchable m \<longrightarrow> method_accepted m)"
    (is "?ok \<longleftrightarrow> ?attrs \<and> ?methods")
proof
  assume ?ok
  then obtain out where out: "dyn_trait_impl pascal tr opts = Inr out" ..
  from out show "?attrs \<and> ?methods"
  proof (cases rule: dyn_trait_impl_cases)
    case (1 attrs dt0 items dt bound)
    from 1(1,2) have ?attrs by (simp add: extract_dyn_trait_attrs_def)
    moreover have ?methods using 1(3) parse_items_ok_iff [OF named, where dt = dt0] by auto
    ultimately show ?thesis by simp
  qed
next
  assume a: "?attrs \<and> ?methods"
  then obtain attrs tr1 where e: "extract_dyn_trait_attrs tr = Inr (attrs, tr1)"
    "g_params (tr_generics tr) = [] \<or> \<not> has_dyn_object attrs" by blast
  have tr1: "tr_generics tr1 = tr_generics tr" "tr_items tr1 = tr_items tr" "tr_ident tr1 = tr_ident tr"
    using e(1) by (auto simp: extract_dyn_trait_attrs_def mbind_eq_Inr)
  obtain dt0 where dt0: "dyn_trait_new tr1 opts = Inr dt0"
    "dt_remote dt0 = (case dto_remote opts of Some r \<Rightarrow> r | None \<Rightarrow> ident_path (tr_ident tr))"
    using name unfolding dyn_trait_new_def tr1(3) by simp
  have "\<exists>r. parse_items pascal (tr_items tr) dt0 = Inr r"
    using a parse_items_ok_iff [OF named, where dt = dt0] by simp
  then obtain items dt where items: "parse_items pascal (tr_items tr) dt0 = Inr (items, dt)" by auto
  have "dt_remote dt \<noteq> [] \<and> seg_args (last (dt_remote dt)) = NoArgs"
    using parse_items_remote [OF items] dt0(2) remote
    by (auto simp: plain_remote_def ident_path_def split: option.splits)
  then obtain bound where "path_with_args (dt_remote dt) (ty_generics_args (g_params (tr_generics tr))) = Inr bound"
    using path_with_args_total by blast
  moreover obtain q where "path_with_args (ident_path (dt_name dt))
      (ty_generics_args (g_params (tr_generics tr) @ dt_storages dt)) = Inr q"
    using path_with_args_total [of "ident_path (dt_name dt)"] by (auto simp: ident_path_def)
  ultimately show ?ok
    using e dt0(1) items by (auto simp: dyn_trait_impl_def tr1 Let_def)
qed

end
