(* ===== verification/Dyn_Object_Macro.thy ===== *)
theory Dyn_Object_Macro
  imports Dyn_Trait_Macro
begin

text \<open>
  The attribute macro \<open>dyn_object\<close> of \<open>macros/src/dyn_object.rs\<close>: from a dyn-compatible trait to
  its vtable structure, the function that fills it for a concrete type, and the implementation of
  the trait on \<open>DynObject\<close>.
\<close>


section \<open>Options\<close>

record dyn_object_opts =
  doo_bounds :: "path list"
  doo_crate :: "path option"
  doo_remote :: "path option"

definition default_object_opts :: dyn_object_opts where
  "default_object_opts = \<lparr>doo_bounds = [], doo_crate = None, doo_remote = None\<rparr>"

text \<open>
  \<open>Punctuated::parse_terminated\<close>: paths with \<open>+\<close> between them up to the end of the whole input, so
  nothing may follow.
\<close>

fun parse_eq_paths :: "bool \<Rightarrow> meta_arg \<Rightarrow> path list mres" where
  "parse_eq_paths goes_on NoArg = Inl (SynError ''expected `=`'')"
| "parse_eq_paths goes_on (ParenArgs ms) = Inl (SynError ''expected `=`'')"
| "parse_eq_paths goes_on (EqLitStr s) = Inl (SynError ''expected identifier'')"
| "parse_eq_paths goes_on (EqOther s) = Inl (SynError ''expected identifier'')"
| "parse_eq_paths goes_on (EqIdent i) =
     (if goes_on then Inl (SynError ''expected `+`'') else Inr [ident_path i])"
| "parse_eq_paths goes_on (EqPath p) = (if goes_on then Inl (SynError ''expected `+`'') else Inr [p])"
| "parse_eq_paths goes_on (EqPaths ps) = (if goes_on then Inl (SynError ''expected `+`'') else Inr ps)"

fun dyn_object_parse_meta :: "bool \<Rightarrow> dyn_object_opts \<Rightarrow> nested_meta \<Rightarrow> dyn_object_opts mres" where
  "dyn_object_parse_meta goes_on opts (Nested p a) =
     (if is_ident p ''bounds''
      then mbind (parse_eq_paths goes_on a) (\<lambda>ps. Inr (opts\<lparr>doo_bounds := ps\<rparr>))
      else if is_ident p ''crate''
      then mbind (parse_eq_path a) (\<lambda>q. Inr (opts\<lparr>doo_crate := Some q\<rparr>))
      else if is_ident p ''remote''
      then mbind (parse_eq_path a) (\<lambda>q. Inr (opts\<lparr>doo_remote := Some q\<rparr>))
      else bail ''unknown attribute'')"


section \<open>Receivers and function pointers\<close>

datatype vtable_receiver = VRef | VMut | VPinned

definition vtable_receiver_new :: "trait_item_fn \<Rightarrow> vtable_receiver mres" where
  "vtable_receiver_new m = (case sig_receiver (sg_inputs (fn_sig m)) of
      None \<Rightarrow> Inl (MacroPanic ''unwrap'')
    | Some r \<Rightarrow> Inr (if rc_reference r = None then VPinned
        else if rc_mutability r then VMut else VRef))"

text \<open>\<open>ReplaceSelfWithDyn\<close>: every path segment \<open>Self\<close> becomes \<open>__Dyn\<close>.\<close>

definition replace_self :: "ident \<Rightarrow> ident" where
  "replace_self i = (if i = ''Self'' then ''__Dyn'' else i)"

primrec replace_ty :: "ty \<Rightarrow> ty"
  and replace_seg :: "path_segment \<Rightarrow> path_segment"
  and replace_args :: "path_args \<Rightarrow> path_args"
  and replace_generic_arg :: "generic_arg \<Rightarrow> generic_arg"
  and replace_bound :: "bound \<Rightarrow> bound" where
  "replace_ty (TyPath q p) = TyPath (map_option replace_ty q) (map replace_seg p)"
| "replace_ty (TyReference lt m t) = TyReference lt m (replace_ty t)"
| "replace_ty (TyImplTrait bs) = TyImplTrait (map replace_bound bs)"
| "replace_ty (TyTraitObject bs) = TyTraitObject (map replace_bound bs)"
| "replace_ty (TyTuple ts) = TyTuple (map replace_ty ts)"
| "replace_ty (TySlice t) = TySlice (replace_ty t)"
| "replace_ty (TyArray t n) = TyArray (replace_ty t) n"
| "replace_ty (TyPtr m t) = TyPtr m (replace_ty t)"
| "replace_ty (TyOther s) = TyOther s"
| "replace_seg (Seg i a) = Seg (replace_self i) (replace_args a)"
| "replace_args NoArgs = NoArgs"
| "replace_args (AngleBracketed gs) = AngleBracketed (map replace_generic_arg gs)"
| "replace_args (Parenthesized ts r) = Parenthesized (map replace_ty ts) (map_option replace_ty r)"
| "replace_generic_arg (ArgLifetime l) = ArgLifetime l"
| "replace_generic_arg (ArgType t) = ArgType (replace_ty t)"
| "replace_generic_arg (ArgAssoc i t) = ArgAssoc i (replace_ty t)"
| "replace_generic_arg (ArgOther s) = ArgOther s"
| "replace_bound (BTrait m ls p) = BTrait m ls (map replace_seg p)"
| "replace_bound (BLifetime l) = BLifetime l"
| "replace_bound (BPreciseCapture cs) = BPreciseCapture cs"
| "replace_bound (BVerbatim s) = BVerbatim s"

fun replace_return :: "return_type \<Rightarrow> return_type" where
  "replace_return RDefault = RDefault"
| "replace_return (RType t) = RType (replace_ty t)"

text \<open>\<open>for<lifetimes> unsafety fn(storage, params) output\<close>\<close>

record fn_pointer =
  fp_lifetimes :: "lifetime list"
  fp_unsafe :: bool
  fp_storage :: ty
  fp_params :: "ty list"
  fp_output :: return_type

definition storage_ref :: "vtable_receiver \<Rightarrow> lifetime option \<Rightarrow> ty" where
  "storage_ref r lt = (case r of
      VRef \<Rightarrow> TyReference lt False (ty_ident ''__Storage'')
    | VMut \<Rightarrow> TyReference lt True (ty_ident ''__Storage'')
    | VPinned \<Rightarrow> TyPath None [Seg ''core'' NoArgs, Seg ''pin'' NoArgs,
        Seg ''Pin'' (AngleBracketed [ArgType (TyReference lt True (ty_ident ''__Storage''))])])"

fun typed_ty :: "fn_arg \<Rightarrow> ty option" where
  "typed_ty (Typed p t) = Some t"
| "typed_ty (Receiver r) = None"

text \<open>The lifetime of the receiver: of the shorthand's reference, or of the pinned one.\<close>

definition receiver_lifetime :: "signature \<Rightarrow> lifetime option mres" where
  "receiver_lifetime sg = (case sig_receiver (sg_inputs sg) of
      None \<Rightarrow> Inl (MacroPanic ''unwrap'')
    | Some r \<Rightarrow> (case rc_reference r of
        Some lt \<Rightarrow> Inr lt
      | None \<Rightarrow> (case pinned_ref (rc_ty r) of
          Some (lt, mt) \<Rightarrow> Inr lt
        | None \<Rightarrow> Inl (MacroPanic ''unwrap''))))"

definition vtable_fn_pointer :: "trait_item_fn \<Rightarrow> bool \<Rightarrow> fn_pointer mres" where
  "vtable_fn_pointer m new_vtable = (let sg = fn_sig m in
     mbind (receiver_lifetime sg) (\<lambda>lt.
     mbind (vtable_receiver_new m) (\<lambda>r.
     let params = List.map_filter typed_ty (sg_inputs sg);
         lifetimes = List.map_filter param_lifetime (g_params (sg_generics sg)) in
     Inr \<lparr>fp_lifetimes = (if new_vtable then lifetimes else []),
          fp_unsafe = sg_unsafe sg,
          fp_storage = storage_ref r lt,
          fp_params = update_items (if new_vtable then replace_ty else id) params,
          fp_output = (if new_vtable then replace_return (sg_output sg) else sg_output sg)\<rparr>)))"


section \<open>The vtable and the implementation\<close>

text \<open>
  A vtable entry: a closure over \<open>__self\<close> and the parameters, cast from its own pointer type to
  \<open>unsafe fn()\<close>; it calls the method of \<open>__Dyn\<close> on \<open>__self.as_..()\<close> with the parameters
  transmuted, and transmutes the result.
\<close>

record vtable_init =
  vi_field :: ident
  vi_fn_ptr :: fn_pointer
  vi_params :: "arg_expr list"
  vi_callee :: ident
  vi_self_as :: vtable_receiver
  vi_args :: "arg_expr list"

text \<open>
  A trait method of \<open>DynObject\<close>: the field of the vtable cast back to a pointer type and called on
  \<open>self.storage..()\<close> and the parameters.
\<close>

record object_method =
  om_sig :: signature
  om_field :: ident
  om_fn_ptr :: fn_pointer
  om_self_as :: vtable_receiver
  om_args :: "arg_expr list"

definition vtable_field :: "trait_item_fn \<Rightarrow> ident" where
  "vtable_field m = sg_ident (fn_sig m)"

definition vtable_method :: "trait_item_fn \<Rightarrow> vtable_init mres" where
  "vtable_method m = (let name = sg_ident (fn_sig m); args = drop 1 (fn_args (fn_sig m)) in
     mbind (vtable_receiver_new m) (\<lambda>r.
     mbind (vtable_fn_pointer m True) (\<lambda>fp.
     Inr \<lparr>vi_field = name, vi_fn_ptr = fp, vi_params = args, vi_callee = name, vi_self_as = r,
          vi_args = args\<rparr>)))"

definition do_impl_method :: "trait_item_fn \<Rightarrow> object_method mres" where
  "do_impl_method m = (let name = sg_ident (fn_sig m); args = drop 1 (fn_args (fn_sig m)) in
     mbind (vtable_receiver_new m) (\<lambda>r.
     mbind (vtable_fn_pointer m False) (\<lambda>fp.
     Inr \<lparr>om_sig = fn_sig m, om_field = name, om_fn_ptr = fp, om_self_as = r, om_args = args\<rparr>)))"

record dyn_object =
  ob_trait :: item_trait
  ob_include_trait :: bool
  ob_crate :: path
  ob_remote :: path
  ob_bounds :: "path list"
  ob_types :: "(ident \<times> trait_item_type) list"
  ob_methods :: "trait_item_fn list"

definition dyn_object_new :: "item_trait \<Rightarrow> dyn_object_opts \<Rightarrow> dyn_object" where
  "dyn_object_new tr opts = \<lparr>ob_trait = tr,
     ob_include_trait = (doo_remote opts = None \<or> has_dyn_object (tr_attrs tr)),
     ob_crate = (case doo_crate opts of Some c \<Rightarrow> c | None \<Rightarrow> crate_name),
     ob_remote = (case doo_remote opts of Some r \<Rightarrow> r | None \<Rightarrow> ident_path (tr_ident tr)),
     ob_bounds = doo_bounds opts, ob_types = [], ob_methods = []\<rparr>"

text \<open>\<open>remote<args> + '__lt + bounds\<close>, as tokens.\<close>

datatype dyn_trait_tokens = DynTraitTokens path "generic_arg list" lifetime "path list"

definition ob_dyn_trait :: "dyn_object \<Rightarrow> dyn_trait_tokens" where
  "ob_dyn_trait ob = DynTraitTokens (ob_remote ob)
     (map param_arg (g_params (tr_generics (ob_trait ob)))
      @ map (\<lambda>(ty_arg, t). ArgAssoc (ty_name t) (ty_ident ty_arg)) (ob_types ob))
     ''__lt'' (ob_bounds ob)"

definition ob_generics :: "dyn_object \<Rightarrow> generic_param list" where
  "ob_generics ob = GPLifetime (LParam ''__lt'' [])
     # map strip_default (g_params (tr_generics (ob_trait ob)))
     @ map (\<lambda>(ty_arg, t). GPType ty_arg (ty_bounds t) None) (ob_types ob)"

definition ob_impl_type :: "ident \<times> trait_item_type \<Rightarrow> ident \<times> ty" where
  "ob_impl_type x = (case x of (ty_param, t) \<Rightarrow> (ty_name t, ty_ident ty_param))"

fun object_item :: "trait_item \<Rightarrow> dyn_object \<Rightarrow> dyn_object mres" where
  "object_item (TIFn m) ob =
     (if is_dispatchable m then Inr (ob\<lparr>ob_methods := ob_methods ob @ [m]\<rparr>)
      else bail_method ''method is not dispatchable'')"
| "object_item (TIType t) ob =
     (if g_params (ty_generics t) \<noteq> [] then bail ''generic associated type is not supported''
      else mbind (format_ident (''__Type'' @ ty_name t)) (\<lambda>ty_arg.
        Inr (ob\<lparr>ob_types := ob_types ob @ [(ty_arg, t)]\<rparr>)))"
| "object_item (TIConst c) ob = bail ''unsupported item''"
| "object_item (TIOther s) ob = bail ''unsupported item''"

fun object_items :: "trait_item list \<Rightarrow> dyn_object \<Rightarrow> dyn_object mres" where
  "object_items [] ob = Inr ob"
| "object_items (i # is) ob = mbind (object_item i ob) (object_items is)"

record dyn_object_output =
  oo_trait :: "item_trait option"
  oo_crate :: path
  oo_fields :: "ident list"
  oo_generics :: "generic_param list"
  oo_dyn_trait :: dyn_trait_tokens
  oo_where :: "where_pred list option"
  oo_inits :: "vtable_init list"
  oo_remote :: "path \<times> generic_arg list"
  oo_types :: "(ident \<times> ty) list"
  oo_methods :: "object_method list"

definition dyn_object_impl :: "item_trait \<Rightarrow> dyn_object_opts \<Rightarrow> dyn_object_output mres" where
  "dyn_object_impl tr opts =
     mbind (object_items (tr_items tr) (dyn_object_new tr opts)) (\<lambda>ob.
     mbind (mmap vtable_method (ob_methods ob)) (\<lambda>inits.
     mbind (mmap do_impl_method (ob_methods ob)) (\<lambda>methods.
     Inr \<lparr>oo_trait = (if ob_include_trait ob then Some tr else None),
          oo_crate = ob_crate ob,
          oo_fields = [''__drop_in_place'', ''__layout''] @ map vtable_field (ob_methods ob),
          oo_generics = ob_generics ob,
          oo_dyn_trait = ob_dyn_trait ob,
          oo_where = g_where (tr_generics tr),
          oo_inits = inits,
          oo_remote = (ob_remote ob, ty_generics_args (g_params (tr_generics tr))),
          oo_types = map ob_impl_type (ob_types ob),
          oo_methods = methods\<rparr>)))"


section \<open>Facts\<close>

lemma dispatchable_receiver:
  assumes "is_dispatchable m"
  obtains r where "sig_receiver (sg_inputs (fn_sig m)) = Some r"
    "rc_reference r \<noteq> None \<or> pinned_ref (rc_ty r) \<noteq> None"
  using assms by (auto simp: is_dispatchable_def has_dyn_trait_receiver_def split: option.splits)

text \<open>The filter makes the \<open>unwrap\<close>s safe.\<close>

lemma vtable_fn_pointer_total:
  assumes "is_dispatchable m"
  shows "\<exists>r. vtable_receiver_new m = Inr r" "\<exists>fp. vtable_fn_pointer m new_vtable = Inr fp"
proof -
  obtain r where "sig_receiver (sg_inputs (fn_sig m)) = Some r"
    "rc_reference r \<noteq> None \<or> pinned_ref (rc_ty r) \<noteq> None"
    by (rule dispatchable_receiver [OF assms])
  then show "\<exists>r. vtable_receiver_new m = Inr r" "\<exists>fp. vtable_fn_pointer m new_vtable = Inr fp"
    by (auto simp: vtable_receiver_new_def vtable_fn_pointer_def receiver_lifetime_def Let_def
        split: option.splits)
qed

lemma vtable_method_total: "is_dispatchable m \<Longrightarrow> \<exists>v. vtable_method m = Inr v"
  using vtable_fn_pointer_total(1) [of m] vtable_fn_pointer_total(2) [of m True] by (auto simp: vtable_method_def Let_def)

lemma do_impl_method_total: "is_dispatchable m \<Longrightarrow> \<exists>v. do_impl_method m = Inr v"
  using vtable_fn_pointer_total(1) [of m] vtable_fn_pointer_total(2) [of m False] by (auto simp: do_impl_method_def Let_def)

lemma mmap_total: "(\<And>x. x \<in> set xs \<Longrightarrow> \<exists>y. f x = Inr y) \<Longrightarrow> \<exists>ys. mmap f xs = Inr ys"
proof (induction xs)
  case (Cons x xs)
  then obtain y ys where "f x = Inr y" "mmap f xs = Inr ys" by (metis list.set_intros)
  then show ?case by simp
qed simp

text \<open>The items the macro takes.\<close>

fun object_item_ok :: "trait_item \<Rightarrow> bool" where
  "object_item_ok (TIFn m) \<longleftrightarrow> is_dispatchable m"
| "object_item_ok (TIType t) \<longleftrightarrow> g_params (ty_generics t) = [] \<and> valid_ident (''__Type'' @ ty_name t)"
| "object_item_ok (TIConst c) \<longleftrightarrow> False"
| "object_item_ok (TIOther s) \<longleftrightarrow> False"

fun item_fn :: "trait_item \<Rightarrow> trait_item_fn option" where
  "item_fn (TIFn m) = Some m"
| "item_fn (TIType t) = None"
| "item_fn (TIConst c) = None"
| "item_fn (TIOther s) = None"

fun item_type :: "trait_item \<Rightarrow> trait_item_type option" where
  "item_type (TIType t) = Some t"
| "item_type (TIFn m) = None"
| "item_type (TIConst c) = None"
| "item_type (TIOther s) = None"

lemma object_item_ok_iff: "(\<exists>ob'. object_item it ob = Inr ob') \<longleftrightarrow> object_item_ok it"
  by (cases it) (auto simp: format_ident_def mbind_eq_Inr)

lemma object_items_ok_iff: "(\<exists>ob'. object_items its ob = Inr ob') \<longleftrightarrow> list_all object_item_ok its"
proof (induction its arbitrary: ob)
  case (Cons it its)
  have "(\<exists>ob'. object_items (it # its) ob = Inr ob')
    \<longleftrightarrow> (\<exists>ob1. object_item it ob = Inr ob1 \<and> (\<exists>ob'. object_items its ob1 = Inr ob'))"
    by (auto simp: mbind_eq_Inr)
  with Cons object_item_ok_iff [of it ob] show ?case by auto
qed simp

lemma object_items_result:
  "object_items its ob = Inr ob' \<Longrightarrow> ob' = ob\<lparr>
     ob_methods := ob_methods ob @ List.map_filter item_fn its,
     ob_types := ob_types ob @ map (\<lambda>t. (''__Type'' @ ty_name t, t)) (List.map_filter item_type its)\<rparr>"
proof (induction its arbitrary: ob)
  case (Cons it its)
  then obtain ob1 where 1: "object_item it ob = Inr ob1" "object_items its ob1 = Inr ob'"
    by (auto simp: mbind_eq_Inr)
  from Cons.IH [OF 1(2)] 1(1) show ?case
    by (cases it) (auto simp: format_ident_def mbind_eq_Inr List.map_filter_def split: if_splits)
qed (simp add: List.map_filter_def)

lemma object_items_dispatchable:
  "object_items its ob = Inr ob' \<Longrightarrow> m \<in> set (List.map_filter item_fn its) \<Longrightarrow> is_dispatchable m"
proof (induction its arbitrary: ob)
  case (Cons it its)
  then show ?case by (cases it) (auto simp: mbind_eq_Inr List.map_filter_def split: if_splits)
qed (simp add: List.map_filter_def)

lemma dyn_object_impl_ok_iff:
  "(\<exists>out. dyn_object_impl tr opts = Inr out) \<longleftrightarrow> list_all object_item_ok (tr_items tr)"
proof
  assume "\<exists>out. dyn_object_impl tr opts = Inr out"
  then show "list_all object_item_ok (tr_items tr)"
    using object_items_ok_iff by (auto simp: dyn_object_impl_def mbind_eq_Inr)
next
  assume "list_all object_item_ok (tr_items tr)"
  then obtain ob where ob: "object_items (tr_items tr) (dyn_object_new tr opts) = Inr ob"
    using object_items_ok_iff by blast
  have m: "\<And>m. m \<in> set (ob_methods ob) \<Longrightarrow> is_dispatchable m"
    using object_items_result [OF ob] object_items_dispatchable [OF ob]
    by (simp add: dyn_object_new_def)
  obtain inits methods where "mmap vtable_method (ob_methods ob) = Inr inits"
    "mmap do_impl_method (ob_methods ob) = Inr methods"
    using mmap_total [of "ob_methods ob" vtable_method] mmap_total [of "ob_methods ob" do_impl_method]
      vtable_method_total do_impl_method_total m by blast
  with ob show "\<exists>out. dyn_object_impl tr opts = Inr out" by (simp add: dyn_object_impl_def)
qed


section \<open>The two sides of a vtable entry\<close>

text \<open>
  A vtable entry is cast from the pointer type of its closure and back to the one of the call. The
  first speaks of \<open>__Dyn\<close>, the second of \<open>Self\<close>, the \<open>DynObject\<close>; both have the associated type
  \<open>X\<close> equal to the parameter \<open>__TypeX\<close>. \<open>resolve_ty s\<close> writes it for \<open>s::X\<close>.
\<close>

fun self_projection :: "ident \<Rightarrow> path \<Rightarrow> ident option" where
  "self_projection s [Seg i NoArgs, Seg x NoArgs] = (if i = s then Some x else None)"
| "self_projection s _ = None"

primrec resolve_ty :: "ident \<Rightarrow> ty \<Rightarrow> ty"
  and resolve_seg :: "ident \<Rightarrow> path_segment \<Rightarrow> path_segment"
  and resolve_args :: "ident \<Rightarrow> path_args \<Rightarrow> path_args"
  and resolve_generic_arg :: "ident \<Rightarrow> generic_arg \<Rightarrow> generic_arg"
  and resolve_bound :: "ident \<Rightarrow> bound \<Rightarrow> bound" where
  "resolve_ty s (TyPath q p) = (case (q, self_projection s p) of
      (None, Some x) \<Rightarrow> ty_ident (''__Type'' @ x)
    | _ \<Rightarrow> TyPath (map_option (resolve_ty s) q) (map (resolve_seg s) p))"
| "resolve_ty s (TyReference lt m t) = TyReference lt m (resolve_ty s t)"
| "resolve_ty s (TyImplTrait bs) = TyImplTrait (map (resolve_bound s) bs)"
| "resolve_ty s (TyTraitObject bs) = TyTraitObject (map (resolve_bound s) bs)"
| "resolve_ty s (TyTuple ts) = TyTuple (map (resolve_ty s) ts)"
| "resolve_ty s (TySlice t) = TySlice (resolve_ty s t)"
| "resolve_ty s (TyArray t n) = TyArray (resolve_ty s t) n"
| "resolve_ty s (TyPtr m t) = TyPtr m (resolve_ty s t)"
| "resolve_ty s (TyOther x) = TyOther x"
| "resolve_seg s (Seg i a) = Seg i (resolve_args s a)"
| "resolve_args s NoArgs = NoArgs"
| "resolve_args s (AngleBracketed gs) = AngleBracketed (map (resolve_generic_arg s) gs)"
| "resolve_args s (Parenthesized ts r) = Parenthesized (map (resolve_ty s) ts) (map_option (resolve_ty s) r)"
| "resolve_generic_arg s (ArgLifetime l) = ArgLifetime l"
| "resolve_generic_arg s (ArgType t) = ArgType (resolve_ty s t)"
| "resolve_generic_arg s (ArgAssoc i t) = ArgAssoc i (resolve_ty s t)"
| "resolve_generic_arg s (ArgOther x) = ArgOther x"
| "resolve_bound s (BTrait m ls p) = BTrait m ls (map (resolve_seg s) p)"
| "resolve_bound s (BLifetime l) = BLifetime l"
| "resolve_bound s (BPreciseCapture cs) = BPreciseCapture cs"
| "resolve_bound s (BVerbatim x) = BVerbatim x"

text \<open>
  Types a dyn-compatible method may have: \<open>Self\<close> only in projections \<open>Self::X\<close>, and the reserved
  name \<open>__Dyn\<close> nowhere.
\<close>

primrec proj_only_ty :: "ty \<Rightarrow> bool"
  and proj_only_seg :: "path_segment \<Rightarrow> bool"
  and proj_only_args :: "path_args \<Rightarrow> bool"
  and proj_only_generic_arg :: "generic_arg \<Rightarrow> bool"
  and proj_only_bound :: "bound \<Rightarrow> bool" where
  "proj_only_ty (TyPath q p) \<longleftrightarrow> (q = None \<and> self_projection ''Self'' p \<notin> {None, Some ''Self''})
     \<or> (list_all id (map proj_only_seg p) \<and> (case map_option proj_only_ty q of None \<Rightarrow> True | Some b \<Rightarrow> b))"
| "proj_only_ty (TyReference lt m t) \<longleftrightarrow> proj_only_ty t"
| "proj_only_ty (TyImplTrait bs) \<longleftrightarrow> list_all id (map proj_only_bound bs)"
| "proj_only_ty (TyTraitObject bs) \<longleftrightarrow> list_all id (map proj_only_bound bs)"
| "proj_only_ty (TyTuple ts) \<longleftrightarrow> list_all id (map proj_only_ty ts)"
| "proj_only_ty (TySlice t) \<longleftrightarrow> proj_only_ty t"
| "proj_only_ty (TyArray t n) \<longleftrightarrow> proj_only_ty t"
| "proj_only_ty (TyPtr m t) \<longleftrightarrow> proj_only_ty t"
| "proj_only_ty (TyOther x) \<longleftrightarrow> True"
| "proj_only_seg (Seg i a) \<longleftrightarrow> i \<noteq> ''Self'' \<and> i \<noteq> ''__Dyn'' \<and> proj_only_args a"
| "proj_only_args NoArgs \<longleftrightarrow> True"
| "proj_only_args (AngleBracketed gs) \<longleftrightarrow> list_all id (map proj_only_generic_arg gs)"
| "proj_only_args (Parenthesized ts r) \<longleftrightarrow> list_all id (map proj_only_ty ts)
     \<and> (case map_option proj_only_ty r of None \<Rightarrow> True | Some b \<Rightarrow> b)"
| "proj_only_generic_arg (ArgLifetime l) \<longleftrightarrow> True"
| "proj_only_generic_arg (ArgType t) \<longleftrightarrow> proj_only_ty t"
| "proj_only_generic_arg (ArgAssoc i t) \<longleftrightarrow> proj_only_ty t"
| "proj_only_generic_arg (ArgOther x) \<longleftrightarrow> True"
| "proj_only_bound (BTrait m ls p) \<longleftrightarrow> list_all id (map proj_only_seg p)"
| "proj_only_bound (BLifetime l) \<longleftrightarrow> True"
| "proj_only_bound (BPreciseCapture cs) \<longleftrightarrow> True"
| "proj_only_bound (BVerbatim x) \<longleftrightarrow> True"

lemma self_projection_Some: "self_projection s p = Some x \<longleftrightarrow> p = [Seg s NoArgs, Seg x NoArgs]"
  by (induction s p rule: self_projection.induct) auto

lemma self_projection_other:
  "list_all proj_only_seg p \<Longrightarrow> s \<in> {''Self'', ''__Dyn''} \<Longrightarrow> self_projection s p = None"
  by (induction s p rule: self_projection.induct) auto

lemma replace_seg_other: "proj_only_seg g \<Longrightarrow> \<exists>a. replace_seg g = Seg (seg_ident g) a"
  by (cases g) (simp add: replace_self_def)

lemma self_projection_replace_other:
  "list_all proj_only_seg p \<Longrightarrow> self_projection ''__Dyn'' (map replace_seg p) = None"
proof (rule ccontr)
  assume p: "list_all proj_only_seg p" and "self_projection ''__Dyn'' (map replace_seg p) \<noteq> None"
  then obtain x where "map replace_seg p = [Seg ''__Dyn'' NoArgs, Seg x NoArgs]"
    by (auto simp: self_projection_Some)
  then obtain g gs where g: "p = g # gs" "replace_seg g = Seg ''__Dyn'' NoArgs" by (cases p) auto
  with p replace_seg_other [of g] have "seg_ident g = ''__Dyn''" by auto
  with p g show False by (cases g) auto
qed

lemma resolve_replace:
  "proj_only_ty t \<Longrightarrow> resolve_ty ''__Dyn'' (replace_ty t) = resolve_ty ''Self'' t"
  "proj_only_seg g \<Longrightarrow> resolve_seg ''__Dyn'' (replace_seg g) = resolve_seg ''Self'' g"
  "proj_only_args a \<Longrightarrow> resolve_args ''__Dyn'' (replace_args a) = resolve_args ''Self'' a"
  "proj_only_generic_arg ga \<Longrightarrow> resolve_generic_arg ''__Dyn'' (replace_generic_arg ga) = resolve_generic_arg ''Self'' ga"
  "proj_only_bound b \<Longrightarrow> resolve_bound ''__Dyn'' (replace_bound b) = resolve_bound ''Self'' b"
proof (induction t and g and a and ga and b)
  case (TyPath q p)
  show ?case
  proof (cases "q = None \<and> self_projection ''Self'' p \<notin> {None, Some ''Self''}")
    case True
    then obtain x where "q = None" "p = [Seg ''Self'' NoArgs, Seg x NoArgs]" "x \<noteq> ''Self''"
      by (auto simp: self_projection_Some)
    then show ?thesis by (simp add: replace_self_def)
  next
    case False
    with TyPath.prems have p: "list_all proj_only_seg p" and q: "\<And>t. q = Some t \<Longrightarrow> proj_only_ty t"
      by (auto simp: list_all_iff split: option.splits)
    have "map (resolve_seg ''__Dyn'' \<circ> replace_seg) p = map (resolve_seg ''Self'') p"
      using p TyPath.IH(2) by (auto simp: list_all_iff)
    moreover have "map_option (resolve_ty ''__Dyn'' \<circ> replace_ty) q = map_option (resolve_ty ''Self'') q"
      using q TyPath.IH(1) by (cases q) auto
    ultimately show ?thesis
      using self_projection_other [OF p] self_projection_replace_other [OF p]
      by (cases q) (simp_all add: comp_def)
  qed
next
  case (Parenthesized ts r)
  then show ?case by (cases r) (auto simp: list_all_iff)
qed (auto simp: list_all_iff replace_self_def)

fun return_ok :: "return_type \<Rightarrow> bool" where
  "return_ok RDefault \<longleftrightarrow> True"
| "return_ok (RType t) \<longleftrightarrow> proj_only_ty t"

fun resolve_return :: "ident \<Rightarrow> return_type \<Rightarrow> return_type" where
  "resolve_return s RDefault = RDefault"
| "resolve_return s (RType t) = RType (resolve_ty s t)"

text \<open>Two pointer types of one ABI, up to the \<open>for<..>\<close>.\<close>

definition same_abi :: "fn_pointer \<Rightarrow> fn_pointer \<Rightarrow> bool" where
  "same_abi made called \<longleftrightarrow> fp_unsafe made = fp_unsafe called \<and> fp_storage made = fp_storage called
     \<and> map (resolve_ty ''__Dyn'') (fp_params made) = map (resolve_ty ''Self'') (fp_params called)
     \<and> resolve_return ''__Dyn'' (fp_output made) = resolve_return ''Self'' (fp_output called)"

definition sig_proj_only :: "signature \<Rightarrow> bool" where
  "sig_proj_only sg \<longleftrightarrow> list_all proj_only_ty (List.map_filter typed_ty (sg_inputs sg))
     \<and> return_ok (sg_output sg)"

lemma vtable_fn_pointer_same_abi:
  assumes "vtable_fn_pointer m True = Inr made" and "vtable_fn_pointer m False = Inr called"
    and "sig_proj_only (fn_sig m)"
  shows "same_abi made called"
proof -
  let ?ps = "List.map_filter typed_ty (sg_inputs (fn_sig m))"
  have f: "fp_unsafe made = fp_unsafe called" "fp_storage made = fp_storage called"
    "fp_params made = map replace_ty ?ps" "fp_params called = ?ps"
    "fp_output made = replace_return (sg_output (fn_sig m))" "fp_output called = sg_output (fn_sig m)"
    using assms(1,2) by (auto simp: vtable_fn_pointer_def Let_def mbind_eq_Inr update_items_def)
  have "resolve_return ''__Dyn'' (replace_return r) = resolve_return ''Self'' r" if "return_ok r" for r
    using that by (cases r) (simp_all add: resolve_replace)
  then show ?thesis
    using f assms(3) by (simp add: same_abi_def sig_proj_only_def resolve_replace list_all_iff)
qed

text \<open>One vtable entry and the method that calls it.\<close>

definition entry_agrees :: "vtable_init \<Rightarrow> object_method \<Rightarrow> bool" where
  "entry_agrees v om \<longleftrightarrow> vi_field v = om_field om \<and> vi_callee v = sg_ident (om_sig om)
     \<and> vi_self_as v = om_self_as om \<and> vi_args v = om_args om \<and> vi_params v = vi_args v
     \<and> (sig_proj_only (om_sig om) \<longrightarrow> same_abi (vi_fn_ptr v) (om_fn_ptr om))"

lemma entries_agree:
  "vtable_method m = Inr v \<Longrightarrow> do_impl_method m = Inr om \<Longrightarrow> entry_agrees v om"
  using vtable_fn_pointer_same_abi [of m]
  by (auto simp: vtable_method_def do_impl_method_def Let_def mbind_eq_Inr entry_agrees_def)

lemma mmap_entries_agree:
  "mmap vtable_method ms = Inr vs \<Longrightarrow> mmap do_impl_method ms = Inr oms
    \<Longrightarrow> list_all2 entry_agrees vs oms \<and> map vi_field vs = map vtable_field ms \<and> map om_sig oms = map fn_sig ms"
proof (induction ms arbitrary: vs oms)
  case (Cons m ms)
  from Cons.prems obtain v vs' om oms' where
    "vtable_method m = Inr v" "mmap vtable_method ms = Inr vs'" "vs = v # vs'"
    "do_impl_method m = Inr om" "mmap do_impl_method ms = Inr oms'" "oms = om # oms'"
    by (auto simp: mbind_eq_Inr)
  moreover have "vi_field v = vtable_field m" "om_sig om = fn_sig m"
    using calculation
    by (auto simp: vtable_method_def do_impl_method_def Let_def mbind_eq_Inr vtable_field_def)
  ultimately show ?case using Cons.IH entries_agree by simp
qed simp

text \<open>The storage pointer that stands for the receiver of a method.\<close>

definition receiver_passed :: "trait_item_fn \<Rightarrow> fn_pointer \<Rightarrow> bool" where
  "receiver_passed m fp \<longleftrightarrow> (case sig_receiver (sg_inputs (fn_sig m)) of
      None \<Rightarrow> False
    | Some r \<Rightarrow> (case rc_reference r of
        Some lt \<Rightarrow> fp_storage fp = TyReference lt (rc_mutability r) (ty_ident ''__Storage'')
      | None \<Rightarrow> (case pinned_ref (rc_ty r) of
          None \<Rightarrow> False
        | Some (lt, mt) \<Rightarrow> fp_storage fp = TyPath None [Seg ''core'' NoArgs, Seg ''pin'' NoArgs,
            Seg ''Pin'' (AngleBracketed [ArgType (TyReference lt True (ty_ident ''__Storage''))])])))"

lemma vtable_fn_pointer_receiver: "vtable_fn_pointer m b = Inr fp \<Longrightarrow> receiver_passed m fp"
  by (auto simp: vtable_fn_pointer_def Let_def mbind_eq_Inr receiver_lifetime_def vtable_receiver_new_def
      storage_ref_def receiver_passed_def split: option.splits if_splits)

lemma mmap_receivers:
  "mmap vtable_method ms = Inr vs \<Longrightarrow> list_all2 (\<lambda>m v. receiver_passed m (vi_fn_ptr v)) ms vs"
  "mmap do_impl_method ms = Inr oms \<Longrightarrow> list_all2 (\<lambda>m om. receiver_passed m (om_fn_ptr om)) ms oms"
  by (auto simp: mmap_eq_Inr vtable_method_def do_impl_method_def Let_def mbind_eq_Inr
      elim!: list_all2_mono intro: vtable_fn_pointer_receiver)

end
