(* ===== verification/Macro_Lib.thy ===== *)
theory Macro_Lib
  imports Dyn_Trait_Facts Dyn_Object_Macro
begin

text \<open>
  The three attribute macros as \<open>macros/src/lib.rs\<close> exports them: the arguments of the attribute
  are parsed first, then the macro runs on the item.
\<close>

definition dyn_trait_macro ::
  "(string \<Rightarrow> string) \<Rightarrow> nested_meta list \<Rightarrow> item_trait \<Rightarrow> dyn_trait_output macro_output" where
  "dyn_trait_macro pascal args item =
     macro_impl (dyn_trait_impl pascal) dyn_trait_parse_meta default_opts item args"

definition sync_macro :: "nested_meta list \<Rightarrow> signature \<times> block \<Rightarrow> impl_item list macro_output" where
  "sync_macro args item = macro_impl (\<lambda>(sg, body) u. sync_impl sg body) unit_parse_meta () item args"

definition dyn_object_macro :: "nested_meta list \<Rightarrow> item_trait \<Rightarrow> dyn_object_output macro_output" where
  "dyn_object_macro args item =
     macro_impl dyn_object_impl dyn_object_parse_meta default_object_opts item args"

end
