(* ===== verification/Dyn_Call.thy ===== *)
theory Dyn_Call
  imports Object
begin

text \<open>
  Method calls through the vtable. A vtable entry is a function pointer erased to
  \<open>unsafe fn()\<close> by a transmute: the closure \<open>|__self, args| __Dyn::m(__self.as_X(), args)\<close>,
  where \<open>as_X\<close> follows the receiver of the method. The trait impl for \<open>DynObject\<close> transmutes it
  back to a pointer whose first parameter is \<open>&__Storage\<close>, \<open>&mut __Storage\<close> or
  \<open>Pin<&mut __Storage>\<close> and calls it on its storage; calling a pointer at another receiver type
  than the one it was made with is undefined.

  The body of the concrete method is the user's: a function from the value to the result and
  the value left behind (also for \<open>&self\<close>, since the type may use interior mutability).
\<close>

datatype receiver = ByRef | ByMut | ByPin

record erased_fn =
  ef_self :: receiver
  ef_method :: string
  ef_dyn :: rtype

fun self_as ::
  "('s, 'y) storage_ops_scheme \<Rightarrow> receiver \<Rightarrow> env \<Rightarrow> rtype \<Rightarrow> nat \<Rightarrow> 's \<Rightarrow> world \<Rightarrow> ptr res" where
  "self_as S ByRef = so_as_ref S"
| "self_as S ByMut = so_as_mut S"
| "self_as S ByPin = so_as_pinned_mut S"

text \<open>Running the closure: borrow the data as \<open>&__Dyn\<close> and so on, run the method on it.\<close>

definition closure_call ::
  "('s, 'y) storage_ops_scheme \<Rightarrow> env \<Rightarrow> nat \<Rightarrow> erased_fn \<Rightarrow> (rtype \<Rightarrow> rval \<Rightarrow> 'r \<times> rval)
    \<Rightarrow> 's \<Rightarrow> (world, 'r \<times> 's) op" where
  "closure_call S E a f body s =
     bnd (gets (self_as S (ef_self f) E (ef_dyn f) a s)) (\<lambda>p.
     bnd (gets (read_ref S E (ef_dyn f) a s p)) (\<lambda>v.
     bnd (write_ref S (ef_dyn f) a s p (snd (body (ef_dyn f) v)))
       (\<lambda>s'. ret (fst (body (ef_dyn f) v), s'))))"

text \<open>The accessor of \<open>DynObject\<close> a trait method takes for its receiver.\<close>

fun storage_for :: "receiver \<Rightarrow> ('s, 'v) dynobj \<Rightarrow> 's" where
  "storage_for ByRef this = obj_storage this"
| "storage_for ByMut this = obj_storage_mut this"
| "storage_for ByPin this = obj_storage_pinned_mut this"

lemma storage_for_eq [simp]: "storage_for k this = storage this"
  by (cases k) simp_all

text \<open>
  The call site: the pointer is used at the receiver type \<open>want\<close> and for the method \<open>m\<close>.
\<close>

definition erased_call ::
  "('s, 'y) storage_ops_scheme \<Rightarrow> env \<Rightarrow> nat \<Rightarrow> receiver \<Rightarrow> string \<Rightarrow> erased_fn
    \<Rightarrow> (rtype \<Rightarrow> rval \<Rightarrow> 'r \<times> rval) \<Rightarrow> ('s, 'v) dynobj \<Rightarrow> (world, 'r \<times> ('s, 'v) dynobj) op" where
  "erased_call S E a want m f body this =
     (if ef_self f \<noteq> want \<or> ef_method f \<noteq> m then throw (UB BadFnPointer)
      else bnd (closure_call S E a f body (storage_for want this))
             (\<lambda>(r, s'). ret (r, this\<lparr>storage := s'\<rparr>)))"

context storage_contract
begin

lemma self_as_ok:
  assumes "rep T v s w" "wf_rtype T" "wf_val E T v" "place_ok S a"
  shows "\<exists>p. self_as S k E T a s w = Ok p \<and> so_ptr_mut S a s = Ok p \<and> read_ref S E T a s p w = Ok v"
  using ref_law [OF assms] by (cases k) auto

text \<open>
  The refinement step of every dynamic call: with the right pointer the call runs the method
  on the stored value, leaves the method's new value in the same place, and touches no block
  of anybody else.
\<close>

lemma erased_call_ok:
  assumes r: "rep T v (storage ob) w" and T: "wf_rtype T" "wf_val E T v" and w: "wf_world w"
    and a: "place_ok S a" and f: "f = \<lparr>ef_self = k, ef_method = m, ef_dyn = T\<rparr>"
    and len: "length (snd (body T v)) = size_of T"
  shows "\<exists>ob' w'. erased_call S E a k m f body ob w = (Ok (fst (body T v), ob'), w')
    \<and> vtable ob' = vtable ob \<and> rep T (snd (body T v)) (storage ob') w' \<and> wf_world w'
    \<and> own T (storage ob') = own T (storage ob) \<and> untouched (own T (storage ob)) w w'
    \<and> so_ptr_mut S a (storage ob') = so_ptr_mut S a (storage ob)"
proof -
  from self_as_ok [OF r T a, of k] obtain p where
    p: "self_as S k E T a (storage ob) w = Ok p" "so_ptr_mut S a (storage ob) = Ok p"
    "read_ref S E T a (storage ob) p w = Ok v" by blast
  from write_law [OF r T(1) w len a p(2)] obtain s' w' where
    s': "write_ref S T a (storage ob) p (snd (body T v)) w = (Ok s', w')" "wf_world w'"
    "rep T (snd (body T v)) s' w'" "own T s' = own T (storage ob)" "so_ptr_mut S a s' = Ok p"
    "untouched (own T (storage ob)) w w'" by blast
  have "closure_call S E a f body (storage ob) w = (Ok (fst (body T v), s'), w')"
    using p s'(1) f by (simp add: closure_call_def bnd_def)
  then have "erased_call S E a k m f body ob w = (Ok (fst (body T v), ob\<lparr>storage := s'\<rparr>), w')"
    using f by (simp add: erased_call_def bnd_def)
  with s' p(2) show ?thesis by auto
qed

lemma erased_call_wrong_receiver:
  "ef_self f \<noteq> k \<Longrightarrow> erased_call S E a k m f body ob w = (UB BadFnPointer, w)"
  by (simp add: erased_call_def)

end

end
