(* ===== verification/Raw_Storage.thy ===== *)
theory Raw_Storage
  imports Storage_Trait
begin

text \<open>
  \<open>storage::Raw<SIZE, ALIGN>\<close> of \<open>src/storage.rs\<close>: data stored in place. The struct is
  \<open>repr(C)\<close>, so its layout is computed by the documented field-by-field algorithm; the
  buffer is \<open>SIZE\<close> possibly uninitialised bytes.
\<close>


section \<open>The struct and its layout\<close>

text \<open>\<open>#[repr(C)]\<close>: fields in order, each at the next multiple of its alignment.\<close>

fun repr_c :: "nat \<Rightarrow> nat \<Rightarrow> layout list \<Rightarrow> nat list \<times> layout" where
  "repr_c off al [] = ([], \<lparr>lsize = round_up off al, lalign = al\<rparr>)"
| "repr_c off al (f # fs) =
     (let o' = round_up off (lalign f);
          r = repr_c (o' + lsize f) (max al (lalign f)) fs
      in (o' # fst r, snd r))"

text \<open>The fields \<open>data\<close>, \<open>_align\<close>, \<open>_not_send_sync\<close> and \<open>_pinned\<close>.\<close>

definition raw_fields :: "nat \<Rightarrow> alignment \<Rightarrow> layout list" where
  "raw_fields SIZE ALIGN =
     [\<lparr>lsize = SIZE, lalign = 1\<rparr>, \<lparr>lsize = 0, lalign = align_val ALIGN\<rparr>,
      \<lparr>lsize = 0, lalign = 1\<rparr>, \<lparr>lsize = 0, lalign = 1\<rparr>]"

definition raw_layout :: "nat \<Rightarrow> alignment \<Rightarrow> layout" where
  "raw_layout SIZE ALIGN = snd (repr_c 0 1 (raw_fields SIZE ALIGN))"

definition raw_data_offset :: "nat \<Rightarrow> alignment \<Rightarrow> nat" where
  "raw_data_offset SIZE ALIGN = hd (fst (repr_c 0 1 (raw_fields SIZE ALIGN)))"

record raw =
  raw_data :: rval

lemma raw_data_offset_0 [simp]: "raw_data_offset SIZE ALIGN = 0"
  by (simp add: raw_data_offset_def raw_fields_def Let_def round_up_def)

lemma raw_layout_align [simp]: "lalign (raw_layout SIZE ALIGN) = align_val ALIGN"
  by (simp add: raw_layout_def raw_fields_def Let_def)

lemma raw_layout_size: "lsize (raw_layout SIZE ALIGN) = round_up SIZE (align_val ALIGN)"
proof -
  have "round_up (round_up SIZE (align_val ALIGN)) (align_val ALIGN) = round_up SIZE (align_val ALIGN)"
    by (rule round_up_id) simp_all
  then show ?thesis
    by (simp add: raw_layout_def raw_fields_def Let_def round_up_id)
qed


lemma raw_layout_bounds:
  "SIZE \<le> lsize (raw_layout SIZE ALIGN)" "lsize (raw_layout SIZE ALIGN) < SIZE + align_val ALIGN"
  "align_val ALIGN dvd lsize (raw_layout SIZE ALIGN)"
  by (simp_all add: raw_layout_size round_up_ge round_up_less)


section \<open>Inherent functions\<close>

definition can_store :: "nat \<Rightarrow> alignment \<Rightarrow> rtype \<Rightarrow> bool" where
  "can_store SIZE ALIGN T \<longleftrightarrow> size_of T \<le> SIZE \<and> align_of T \<le> align_val ALIGN"

text \<open>A larger or more aligned storage holds every type a smaller one holds.\<close>

lemma can_store_mono:
  "can_store SIZE ALIGN T \<Longrightarrow> SIZE \<le> SIZE' \<Longrightarrow> ALIGN \<le> ALIGN' \<Longrightarrow> can_store SIZE' ALIGN' T"
  by (auto simp: can_store_def less_eq_alignment_def)

text \<open>The message of the failed \<open>const\<close> assertion, with and without \<open>const_panic\<close>.\<close>

definition fit_message :: "config \<Rightarrow> nat \<Rightarrow> alignment \<Rightarrow> rtype \<Rightarrow> string" where
  "fit_message cfg SIZE ALIGN T =
     (if const_panic_feature cfg
      then ''object (size='' @ show_nat (size_of T) @ '', align='' @ show_nat (align_of T) @ '')''
        @ '' doesn't fit into Raw<'' @ show_nat SIZE @ '', '' @ show_nat (align_val ALIGN) @ ''> storage''
      else ''assertion failed: Self::can_store::<T>()'')"

text \<open>
  The local \<open>raw\<close> of \<open>new_unchecked\<close> lies at some address aligned for its type; the model
  takes the least aligned one, \<open>ALIGN\<close> itself, so that a write relying on more is misaligned.
\<close>

definition raw_new_unchecked :: "nat \<Rightarrow> alignment \<Rightarrow> rtype \<Rightarrow> rval \<Rightarrow> (world, raw) op" where
  "raw_new_unchecked SIZE ALIGN T data =
     (let base = align_val ALIGN + raw_data_offset SIZE ALIGN;
          raw = \<lparr>raw_data = replicate SIZE Uninit\<rparr>
      in bnd (store T \<lparr>faddr = base, fbytes = raw_data raw\<rparr> (InlineP base) data)
           (\<lambda>bs. ret (raw\<lparr>raw_data := bs\<rparr>)))"

definition raw_new :: "config \<Rightarrow> nat \<Rightarrow> alignment \<Rightarrow> rtype \<Rightarrow> rval \<Rightarrow> (world, raw) op" where
  "raw_new cfg SIZE ALIGN T data =
     (if \<not> can_store SIZE ALIGN T then throw (BuildError (fit_message cfg SIZE ALIGN T))
      else raw_new_unchecked SIZE ALIGN T data)"


section \<open>\<open>impl Storage for Raw\<close>\<close>

definition nonnull_unwrap :: "ptr \<Rightarrow> ptr res" where
  "nonnull_unwrap p =
     (if ptr_addr p = 0 then Panic ''called `Option::unwrap()` on a `None` value'' else Ok p)"

definition raw_ptr :: "nat \<Rightarrow> alignment \<Rightarrow> nat \<Rightarrow> raw \<Rightarrow> ptr res" where
  "raw_ptr SIZE ALIGN a r = nonnull_unwrap (InlineP (a + raw_data_offset SIZE ALIGN))"

definition raw_ptr_mut :: "nat \<Rightarrow> alignment \<Rightarrow> nat \<Rightarrow> raw \<Rightarrow> ptr res" where
  "raw_ptr_mut SIZE ALIGN a r = Ok (InlineP (a + raw_data_offset SIZE ALIGN))"

definition raw_drop_in_place :: "layout \<Rightarrow> raw \<Rightarrow> (world, unit) op" where
  "raw_drop_in_place l r = ret ()"

definition raw_frame :: "nat \<Rightarrow> alignment \<Rightarrow> nat \<Rightarrow> raw \<Rightarrow> frame" where
  "raw_frame SIZE ALIGN a r = \<lparr>faddr = a + raw_data_offset SIZE ALIGN, fbytes = raw_data r\<rparr>"

definition raw_ops :: "config \<Rightarrow> nat \<Rightarrow> alignment \<Rightarrow> raw storage_ops" where
  "raw_ops cfg SIZE ALIGN =
     (let as_mut = default_as_mut (raw_ptr_mut SIZE ALIGN) (raw_frame SIZE ALIGN)
      in \<lparr>so_new = raw_new cfg SIZE ALIGN,
          so_ptr = raw_ptr SIZE ALIGN,
          so_ptr_mut = raw_ptr_mut SIZE ALIGN,
          so_as_ref = default_as_ref (raw_ptr SIZE ALIGN) (raw_frame SIZE ALIGN),
          so_as_mut = as_mut,
          so_as_pinned_mut = default_as_pinned_mut as_mut,
          so_drop_in_place = raw_drop_in_place,
          so_align = lalign (raw_layout SIZE ALIGN),
          so_frame = raw_frame SIZE ALIGN,
          so_put = (\<lambda>bs r. r\<lparr>raw_data := bs\<rparr>)\<rparr>)"

lemma raw_ops_simps [simp]:
  "so_new (raw_ops cfg SIZE ALIGN) = raw_new cfg SIZE ALIGN"
  "so_ptr (raw_ops cfg SIZE ALIGN) = raw_ptr SIZE ALIGN"
  "so_ptr_mut (raw_ops cfg SIZE ALIGN) = raw_ptr_mut SIZE ALIGN"
  "so_as_ref (raw_ops cfg SIZE ALIGN) = default_as_ref (raw_ptr SIZE ALIGN) (raw_frame SIZE ALIGN)"
  "so_as_mut (raw_ops cfg SIZE ALIGN) = default_as_mut (raw_ptr_mut SIZE ALIGN) (raw_frame SIZE ALIGN)"
  "so_as_pinned_mut (raw_ops cfg SIZE ALIGN)
     = default_as_pinned_mut (default_as_mut (raw_ptr_mut SIZE ALIGN) (raw_frame SIZE ALIGN))"
  "so_drop_in_place (raw_ops cfg SIZE ALIGN) = raw_drop_in_place"
  "so_align (raw_ops cfg SIZE ALIGN) = align_val ALIGN"
  "so_frame (raw_ops cfg SIZE ALIGN) = raw_frame SIZE ALIGN"
  "so_put (raw_ops cfg SIZE ALIGN) = (\<lambda>bs r. r\<lparr>raw_data := bs\<rparr>)"
  by (simp_all add: raw_ops_def Let_def)


section \<open>\<open>Raw\<close> keeps the contract\<close>

definition raw_rep :: "nat \<Rightarrow> alignment \<Rightarrow> rtype \<Rightarrow> rval \<Rightarrow> raw \<Rightarrow> world \<Rightarrow> bool" where
  "raw_rep SIZE ALIGN T v r w \<longleftrightarrow> can_store SIZE ALIGN T \<and> length (raw_data r) = SIZE
     \<and> length v = size_of T \<and> take (size_of T) (raw_data r) = v"

definition raw_own :: "rtype \<Rightarrow> raw \<Rightarrow> nat set" where
  "raw_own T r = {}"

lemma align_dvd_ALIGN: "wf_rtype T \<Longrightarrow> can_store SIZE ALIGN T \<Longrightarrow> align_of T dvd align_val ALIGN"
  by (auto simp: wf_layout_def can_store_def intro: pow2_le_dvd)

lemma raw_ptr_ok:
  assumes "wf_rtype T" "can_store SIZE ALIGN T" "0 < a" "align_val ALIGN dvd a"
  shows "ptr_ok T (InlineP a)"
  using align_dvd_ALIGN [OF assms(1,2)] assms(3,4)
  by (auto simp: ptr_ok_def intro: dvd_trans)

lemma raw_new_unchecked_ok:
  assumes "wf_rtype T" "length v = size_of T" "can_store SIZE ALIGN T"
  shows "raw_new_unchecked SIZE ALIGN T v w
    = (Ok \<lparr>raw_data = v @ replicate (SIZE - size_of T) Uninit\<rparr>, w)"
proof -
  have "ptr_ok T (InlineP (align_val ALIGN))"
    by (rule raw_ptr_ok [OF assms(1,3)]) simp_all
  with assms(2,3) show ?thesis
    by (auto simp: raw_new_unchecked_def Let_def store_def can_store_def bnd_def)
qed

lemma raw_load:
  assumes "raw_rep SIZE ALIGN T v r w" "wf_rtype T" "wf_val E T v" "0 < a" "align_val ALIGN dvd a"
  shows "load E T (raw_frame SIZE ALIGN a r) (InlineP a) w = Ok v"
  using assms raw_ptr_ok [of T SIZE ALIGN a]
  by (cases "size_of T = 0")
    (auto simp: raw_rep_def load_def raw_frame_def wf_val_def can_store_def)

lemma raw_write:
  assumes "raw_rep SIZE ALIGN T v r w" "wf_rtype T" "length u = size_of T" "0 < a" "align_val ALIGN dvd a"
  shows "store T (raw_frame SIZE ALIGN a r) (InlineP a) u w
    = (Ok (u @ drop (length u) (raw_data r)), w)"
  using assms raw_ptr_ok [of T SIZE ALIGN a]
  by (auto simp: raw_rep_def store_def raw_frame_def can_store_def)

interpretation raw: storage_contract "raw_ops cfg SIZE ALIGN" "can_store SIZE ALIGN"
    "raw_rep SIZE ALIGN" raw_own
  for cfg SIZE ALIGN
proof (unfold_locales, goal_cases)
  case (1 T v w)
  then show ?case
    by (auto simp: raw_new_def raw_new_unchecked_ok raw_rep_def raw_own_def can_store_def)
next
  case (2 T v s w E a)
  then have "load E T (raw_frame SIZE ALIGN a s) (InlineP a) w = Ok v"
    by (intro raw_load) (auto simp: place_ok_def)
  with 2 show ?case
    by (auto simp: raw_ptr_def raw_ptr_mut_def nonnull_unwrap_def place_ok_def read_ref_def
        default_as_ref_def default_as_mut_def default_as_pinned_mut_def ref_to_def)
next
  case (3 T v s w u a p)
  then have p: "p = InlineP a" by (simp add: raw_ptr_mut_def)
  from 3 have "store T (raw_frame SIZE ALIGN a s) (InlineP a) u w
      = (Ok (u @ drop (length u) (raw_data s)), w)"
    by (intro raw_write) (auto simp: place_ok_def)
  with 3 p show ?case
    by (auto simp: write_ref_def bnd_def raw_rep_def raw_own_def raw_ptr_mut_def can_store_def)
next
  case (4 T v s w)
  then show ?case by (simp add: raw_drop_in_place_def raw_own_def)
next
  case (5 T v s w w')
  then show ?case by (simp add: raw_rep_def)
next
  case (6 T v s w)
  show ?case by (simp add: raw_own_def)
next
  case (7 T v s w)
  then show ?case by (simp add: raw_rep_def)
qed

text \<open>The storage never touches the heap, whatever is stored.\<close>

lemma raw_new_world: "snd (raw_new cfg SIZE ALIGN T v w) = w"
  by (auto simp: raw_new_def raw_new_unchecked_def Let_def store_def bnd_def
      split: res.splits prod.splits if_splits)

text \<open>Skipping the assertion is undefined for a type that does not fit.\<close>

lemma raw_new_unchecked_unfit:
  assumes "wf_rtype T" "length v = size_of T" "size_of T \<noteq> 0" "\<not> can_store SIZE ALIGN T"
  shows "is_ub (fst (raw_new_unchecked SIZE ALIGN T v w))"
proof -
  have "\<not> align_of T dvd align_val ALIGN" if "\<not> align_of T \<le> align_val ALIGN"
    using that by (meson align_val_pos dvd_imp_le)
  with assms show ?thesis
    by (auto simp: raw_new_unchecked_def Let_def store_def can_store_def ptr_ok_def bnd_def)
qed

end
