(* ===== verification/Box_Storage.thy ===== *)
theory Box_Storage
  imports Raw_Storage
begin

text \<open>
  \<open>storage::Box\<close> of \<open>src/storage.rs\<close>, the type-erased box, with its \<open>FromBox\<close> and \<open>Storage\<close>
  impls. It forgets the type of its content; \<open>drop_in_place\<close> gets the layout back from the
  vtable and must not free for a zero-sized one.
\<close>


section \<open>The type and its operations\<close>

datatype erased_box = Box ptr

definition box_from_box :: "rtype \<Rightarrow> ptr \<Rightarrow> (world, erased_box) op" where
  "box_from_box T data = bnd (throw (nonnull_unwrap data)) (\<lambda>p. ret (Box p))"

definition box_new :: "rtype \<Rightarrow> rval \<Rightarrow> (world, erased_box) op" where
  "box_new T data = bnd (std_box_new T data) (box_from_box T)"

fun box_ptr :: "nat \<Rightarrow> erased_box \<Rightarrow> ptr res" where
  "box_ptr a (Box p) = Ok p"

fun box_ptr_mut :: "nat \<Rightarrow> erased_box \<Rightarrow> ptr res" where
  "box_ptr_mut a (Box p) = Ok p"

fun box_drop_in_place :: "layout \<Rightarrow> erased_box \<Rightarrow> (world, unit) op" where
  "box_drop_in_place l (Box p) = (if lsize l \<noteq> 0 then dealloc (ptr_addr p) l else ret ())"

text \<open>The box itself holds no data bytes: nothing may be read inline.\<close>

definition box_frame :: "nat \<Rightarrow> erased_box \<Rightarrow> frame" where
  "box_frame a b = \<lparr>faddr = a, fbytes = []\<rparr>"

definition box_ops :: "config \<Rightarrow> erased_box from_box_ops" where
  "box_ops cfg =
     (let as_mut = default_as_mut box_ptr_mut box_frame
      in \<lparr>so_new = box_new,
          so_ptr = box_ptr,
          so_ptr_mut = box_ptr_mut,
          so_as_ref = default_as_ref box_ptr box_frame,
          so_as_mut = as_mut,
          so_as_pinned_mut = default_as_pinned_mut as_mut,
          so_drop_in_place = box_drop_in_place,
          so_align = align_val (usize_align cfg),
          so_frame = box_frame,
          so_put = (\<lambda>bs b. b),
          so_from_box = (\<lambda>E. box_from_box)\<rparr>)"

lemma box_ops_simps [simp]:
  "so_new (box_ops cfg) = box_new"
  "so_ptr (box_ops cfg) = box_ptr"
  "so_ptr_mut (box_ops cfg) = box_ptr_mut"
  "so_as_ref (box_ops cfg) = default_as_ref box_ptr box_frame"
  "so_as_mut (box_ops cfg) = default_as_mut box_ptr_mut box_frame"
  "so_as_pinned_mut (box_ops cfg) = default_as_pinned_mut (default_as_mut box_ptr_mut box_frame)"
  "so_drop_in_place (box_ops cfg) = box_drop_in_place"
  "so_align (box_ops cfg) = align_val (usize_align cfg)"
  "so_frame (box_ops cfg) = box_frame"
  "so_put (box_ops cfg) = (\<lambda>bs b. b)"
  "so_from_box (box_ops cfg) = (\<lambda>E. box_from_box)"
  by (simp_all add: box_ops_def Let_def)


section \<open>\<open>Box\<close> keeps the contract\<close>

fun box_rep :: "rtype \<Rightarrow> rval \<Rightarrow> erased_box \<Rightarrow> world \<Rightarrow> bool" where
  "box_rep T v (Box p) w \<longleftrightarrow> boxed T v p w \<and> length v = size_of T"

fun box_owns :: "rtype \<Rightarrow> erased_box \<Rightarrow> nat set" where
  "box_owns T (Box p) = box_own T p"

abbreviation box_fits :: "rtype \<Rightarrow> bool" where
  "box_fits T \<equiv> True"

lemma box_from_box_ok: "boxed T v p w \<Longrightarrow> box_from_box T p w = (Ok (Box p), w)"
  using boxed_HeapP [of T v p w]
  by (auto simp: box_from_box_def nonnull_unwrap_def boxed_def bnd_def)

lemma box_new_ok:
  assumes "wf_world w" "wf_rtype T" "length v = size_of T"
  shows "\<exists>b w'. box_new T v w = (Ok b, w') \<and> wf_world w' \<and> box_rep T v b w'
    \<and> frees (box_owns T b) w' w"
proof -
  from std_box_new_spec [OF assms] obtain p w' where
    p: "std_box_new T v w = (Ok p, w')" "wf_world w'" "boxed T v p w'" "frees (box_own T p) w' w"
    by blast
  from p(1) box_from_box_ok [OF p(3)] have "box_new T v w = (Ok (Box p), w')"
    by (simp add: box_new_def)
  with p assms show ?thesis by auto
qed

lemma box_load: "box_rep T v b w \<Longrightarrow> wf_val E T v \<Longrightarrow> box_ptr a b = Ok p \<Longrightarrow> load E T fr p w = Ok v"
  by (cases b) (auto intro: boxed_load)

lemma boxed_store:
  assumes "boxed T v p w" and "wf_world w" and "length u = size_of T" and "length v = size_of T"
  shows "\<exists>w'. store T fr p u w = (Ok (fbytes fr), w') \<and> wf_world w' \<and> boxed T u p w'
    \<and> untouched (box_own T p) w w'"
proof (cases "size_of T = 0")
  case True
  with assms show ?thesis
    using boxed_ptr_ok [OF assms(1)] boxed_HeapP [OF assms(1)]
    by (auto simp: store_def boxed_def)
next
  case False
  from boxed_HeapP [OF assms(1)] obtain a where p: "p = HeapP a" by blast
  with assms(1) False have a: "a \<noteq> 0" "align_of T dvd a" "blocks w a = Some (tlayout T, v)"
    by (simp_all add: boxed_def)
  define w' where "w' = w\<lparr>blocks := (blocks w)(a \<mapsto> (tlayout T, u))\<rparr>"
  have run: "store T fr p u w = (Ok (fbytes fr), w')"
    using False p a assms(3,4) boxed_ptr_ok [OF assms(1)] by (auto simp: store_def w'_def)
  have wf: "wf_world w'"
    unfolding w'_def using assms(3,4) by (intro wf_world_update [OF assms(2) a(3)]) simp
  have dom: "dom (blocks w') = dom (blocks w)" using a(3) by (auto simp: w'_def)
  have "untouched (box_own T p) w w'"
    using False p dom by (auto simp: untouched_def box_own_def w'_def)
  with run wf False p a show ?thesis by (auto simp: boxed_def w'_def)
qed

lemma box_drop_ok:
  assumes "box_rep T v b w" and "wf_world w"
  shows "\<exists>w'. box_drop_in_place (tlayout T) b w = (Ok (), w') \<and> wf_world w' \<and> frees (box_owns T b) w w'"
proof (cases "size_of T = 0")
  case True
  with assms show ?thesis by (cases b) (auto simp: box_own_def)
next
  case False
  from assms(1) obtain a where b: "b = Box (HeapP a)" "boxed T v (HeapP a) w"
    by (cases b) (auto dest: boxed_HeapP)
  with False have "blocks w a = Some (tlayout T, v)" by (simp add: boxed_def)
  from dealloc_spec [OF assms(2) this] False b show ?thesis
    by (auto simp: box_own_def)
qed

interpretation box: from_box_contract "box_ops cfg" box_fits box_rep box_owns
  for cfg
proof (unfold_locales, goal_cases)
  case (1 T v w)
  with box_new_ok show ?case by simp
next
  case (2 T v s w E a)
  then show ?case
    by (cases s) (auto simp: read_ref_def default_as_ref_def default_as_mut_def
        default_as_pinned_mut_def ref_to_def boxed_load)
next
  case (3 T v s w u a p)
  then have s: "s = Box p" "boxed T v p w" "length v = size_of T" by (cases s; simp)+
  from boxed_store [OF s(2) 3(3,4) s(3)] obtain w' where
    "store T (box_frame a s) p u w = (Ok (fbytes (box_frame a s)), w')" "wf_world w'"
    "boxed T u p w'" "untouched (box_own T p) w w'" by blast
  with s 3(4) show ?case by (simp add: write_ref_def)
next
  case (4 T v s w)
  with box_drop_ok show ?case by simp
next
  case (5 T v s w w')
  then show ?case by (cases s) (auto intro: boxed_frame)
next
  case (6 T v s w)
  then show ?case by (cases s) (auto dest!: box_own_dom)
next
  case (7 T v s w)
  then show ?case by (cases s) simp
next
  case (8 T v p w E)
  then show ?case
    by (auto simp: box_from_box_ok wf_val_length)
qed

end
