(* ===== verification/Raw_Or_Box.thy ===== *)
theory Raw_Or_Box
  imports Box_Storage
begin

text \<open>
  \<open>storage::RawOrBox<SIZE, ALIGN>\<close> and \<open>DefaultStorage\<close> of \<open>src/storage.rs\<close>: in place when the
  type fits, boxed otherwise. \<open>as_ref\<close>/\<open>as_mut\<close> are overridden with a match whose last arm is
  \<open>unreachable_unchecked\<close>: reaching it is undefined behaviour.
\<close>


section \<open>The enum and its operations\<close>

datatype raw_or_box = InnerRaw raw | InnerBox erased_box

text \<open>
  Where the compiler puts the payload of the \<open>Raw\<close> variant: some multiple of the payload's
  alignment, chosen by the configuration. Without \<open>alloc\<close> the enum has one variant.
\<close>

definition rob_payload_offset :: "config \<Rightarrow> nat \<Rightarrow> alignment \<Rightarrow> nat" where
  "rob_payload_offset cfg SIZE ALIGN = rob_payload_units cfg SIZE ALIGN * align_val ALIGN"

definition rob_align :: "config \<Rightarrow> alignment \<Rightarrow> nat" where
  "rob_align cfg ALIGN =
     (if alloc_feature cfg then max (align_val ALIGN) (align_val (usize_align cfg)) else align_val ALIGN)"

definition rob_new_raw :: "config \<Rightarrow> nat \<Rightarrow> alignment \<Rightarrow> rtype \<Rightarrow> rval \<Rightarrow> (world, raw_or_box) op" where
  "rob_new_raw cfg SIZE ALIGN T data = bnd (raw_new cfg SIZE ALIGN T data) (\<lambda>r. ret (InnerRaw r))"

definition rob_new :: "config \<Rightarrow> nat \<Rightarrow> alignment \<Rightarrow> rtype \<Rightarrow> rval \<Rightarrow> (world, raw_or_box) op" where
  "rob_new cfg SIZE ALIGN T data =
     (if alloc_feature cfg
      then if can_store SIZE ALIGN T
           then bnd (raw_new_unchecked SIZE ALIGN T data) (\<lambda>r. ret (InnerRaw r))
           else bnd (box_new T data) (\<lambda>b. ret (InnerBox b))
      else bnd (raw_new cfg SIZE ALIGN T data) (\<lambda>r. ret (InnerRaw r)))"

definition rob_from_box :: "config \<Rightarrow> nat \<Rightarrow> alignment \<Rightarrow> env \<Rightarrow> rtype \<Rightarrow> ptr \<Rightarrow> (world, raw_or_box) op" where
  "rob_from_box cfg SIZE ALIGN E T data =
     (if can_store SIZE ALIGN T
      then bnd (std_box_unbox E T data) (\<lambda>v. rob_new cfg SIZE ALIGN T v)
      else bnd (box_from_box T data) (\<lambda>b. ret (InnerBox b)))"

fun rob_ptr :: "config \<Rightarrow> nat \<Rightarrow> alignment \<Rightarrow> nat \<Rightarrow> raw_or_box \<Rightarrow> ptr res" where
  "rob_ptr cfg SIZE ALIGN a (InnerRaw s) =
     so_ptr (raw_ops cfg SIZE ALIGN) (a + rob_payload_offset cfg SIZE ALIGN) s"
| "rob_ptr cfg SIZE ALIGN a (InnerBox s) = so_ptr (box_ops cfg) a s"

fun rob_ptr_mut :: "config \<Rightarrow> nat \<Rightarrow> alignment \<Rightarrow> nat \<Rightarrow> raw_or_box \<Rightarrow> ptr res" where
  "rob_ptr_mut cfg SIZE ALIGN a (InnerRaw s) =
     so_ptr_mut (raw_ops cfg SIZE ALIGN) (a + rob_payload_offset cfg SIZE ALIGN) s"
| "rob_ptr_mut cfg SIZE ALIGN a (InnerBox s) = so_ptr_mut (box_ops cfg) a s"

fun rob_as_ref ::
  "config \<Rightarrow> nat \<Rightarrow> alignment \<Rightarrow> env \<Rightarrow> rtype \<Rightarrow> nat \<Rightarrow> raw_or_box \<Rightarrow> world \<Rightarrow> ptr res" where
  "rob_as_ref cfg SIZE ALIGN E T a (InnerRaw s) w =
     (if can_store SIZE ALIGN T
      then so_as_ref (raw_ops cfg SIZE ALIGN) E T (a + rob_payload_offset cfg SIZE ALIGN) s w
      else UB UnreachableReached)"
| "rob_as_ref cfg SIZE ALIGN E T a (InnerBox s) w =
     (if \<not> can_store SIZE ALIGN T then so_as_ref (box_ops cfg) E T a s w
      else UB UnreachableReached)"

fun rob_as_mut ::
  "config \<Rightarrow> nat \<Rightarrow> alignment \<Rightarrow> env \<Rightarrow> rtype \<Rightarrow> nat \<Rightarrow> raw_or_box \<Rightarrow> world \<Rightarrow> ptr res" where
  "rob_as_mut cfg SIZE ALIGN E T a (InnerRaw s) w =
     (if can_store SIZE ALIGN T
      then so_as_mut (raw_ops cfg SIZE ALIGN) E T (a + rob_payload_offset cfg SIZE ALIGN) s w
      else UB UnreachableReached)"
| "rob_as_mut cfg SIZE ALIGN E T a (InnerBox s) w =
     (if \<not> can_store SIZE ALIGN T then so_as_mut (box_ops cfg) E T a s w
      else UB UnreachableReached)"

fun rob_drop_in_place :: "config \<Rightarrow> nat \<Rightarrow> alignment \<Rightarrow> layout \<Rightarrow> raw_or_box \<Rightarrow> (world, unit) op" where
  "rob_drop_in_place cfg SIZE ALIGN l (InnerRaw s) = so_drop_in_place (raw_ops cfg SIZE ALIGN) l s"
| "rob_drop_in_place cfg SIZE ALIGN l (InnerBox s) = so_drop_in_place (box_ops cfg) l s"

fun rob_frame :: "config \<Rightarrow> nat \<Rightarrow> alignment \<Rightarrow> nat \<Rightarrow> raw_or_box \<Rightarrow> frame" where
  "rob_frame cfg SIZE ALIGN a (InnerRaw s) =
     so_frame (raw_ops cfg SIZE ALIGN) (a + rob_payload_offset cfg SIZE ALIGN) s"
| "rob_frame cfg SIZE ALIGN a (InnerBox s) = so_frame (box_ops cfg) a s"

fun rob_put :: "rval \<Rightarrow> raw_or_box \<Rightarrow> raw_or_box" where
  "rob_put bs (InnerRaw s) = InnerRaw (s\<lparr>raw_data := bs\<rparr>)"
| "rob_put bs (InnerBox s) = InnerBox s"

text \<open>\<open>as_pinned_mut\<close> is not overridden: the provided body calls the overridden \<open>as_mut\<close>.\<close>

definition rob_ops :: "config \<Rightarrow> nat \<Rightarrow> alignment \<Rightarrow> raw_or_box from_box_ops" where
  "rob_ops cfg SIZE ALIGN =
     \<lparr>so_new = rob_new cfg SIZE ALIGN,
      so_ptr = rob_ptr cfg SIZE ALIGN,
      so_ptr_mut = rob_ptr_mut cfg SIZE ALIGN,
      so_as_ref = rob_as_ref cfg SIZE ALIGN,
      so_as_mut = rob_as_mut cfg SIZE ALIGN,
      so_as_pinned_mut = default_as_pinned_mut (rob_as_mut cfg SIZE ALIGN),
      so_drop_in_place = rob_drop_in_place cfg SIZE ALIGN,
      so_align = rob_align cfg ALIGN,
      so_frame = rob_frame cfg SIZE ALIGN,
      so_put = rob_put,
      so_from_box = rob_from_box cfg SIZE ALIGN\<rparr>"

lemma rob_ops_simps [simp]:
  "so_new (rob_ops cfg SIZE ALIGN) = rob_new cfg SIZE ALIGN"
  "so_ptr (rob_ops cfg SIZE ALIGN) = rob_ptr cfg SIZE ALIGN"
  "so_ptr_mut (rob_ops cfg SIZE ALIGN) = rob_ptr_mut cfg SIZE ALIGN"
  "so_as_ref (rob_ops cfg SIZE ALIGN) = rob_as_ref cfg SIZE ALIGN"
  "so_as_mut (rob_ops cfg SIZE ALIGN) = rob_as_mut cfg SIZE ALIGN"
  "so_as_pinned_mut (rob_ops cfg SIZE ALIGN) = default_as_pinned_mut (rob_as_mut cfg SIZE ALIGN)"
  "so_drop_in_place (rob_ops cfg SIZE ALIGN) = rob_drop_in_place cfg SIZE ALIGN"
  "so_align (rob_ops cfg SIZE ALIGN) = rob_align cfg ALIGN"
  "so_frame (rob_ops cfg SIZE ALIGN) = rob_frame cfg SIZE ALIGN"
  "so_put (rob_ops cfg SIZE ALIGN) = rob_put"
  "so_from_box (rob_ops cfg SIZE ALIGN) = rob_from_box cfg SIZE ALIGN"
  by (simp_all add: rob_ops_def)

text \<open>\<open>type DefaultStorage = RawOrBox<{ 128 * size_of::<usize>() }>\<close>\<close>

definition default_storage :: "config \<Rightarrow> raw_or_box from_box_ops" where
  "default_storage cfg = rob_ops cfg (128 * usize_size cfg) (usize_align cfg)"


section \<open>\<open>RawOrBox\<close> keeps the contract\<close>

definition rob_fits :: "config \<Rightarrow> nat \<Rightarrow> alignment \<Rightarrow> rtype \<Rightarrow> bool" where
  "rob_fits cfg SIZE ALIGN T \<longleftrightarrow> alloc_feature cfg \<or> can_store SIZE ALIGN T"

fun rob_rep :: "nat \<Rightarrow> alignment \<Rightarrow> rtype \<Rightarrow> rval \<Rightarrow> raw_or_box \<Rightarrow> world \<Rightarrow> bool" where
  "rob_rep SIZE ALIGN T v (InnerRaw s) w \<longleftrightarrow> raw_rep SIZE ALIGN T v s w"
| "rob_rep SIZE ALIGN T v (InnerBox s) w \<longleftrightarrow> \<not> can_store SIZE ALIGN T \<and> box_rep T v s w"

fun rob_own :: "rtype \<Rightarrow> raw_or_box \<Rightarrow> nat set" where
  "rob_own T (InnerRaw s) = raw_own T s"
| "rob_own T (InnerBox s) = box_owns T s"

lemma raw_rep_can_store: "raw_rep SIZE ALIGN T v s w \<Longrightarrow> can_store SIZE ALIGN T"
  by (simp add: raw_rep_def)

lemma rob_place_raw:
  "place_ok (rob_ops cfg SIZE ALIGN) a
    \<Longrightarrow> place_ok (raw_ops cfg SIZE ALIGN) (a + rob_payload_offset cfg SIZE ALIGN)"
  using pow2_dvd_max [of "align_val ALIGN" "align_val (usize_align cfg)"]
  by (auto simp: place_ok_def rob_align_def rob_payload_offset_def split: if_splits
      intro!: dvd_add dvd_trans [of "align_val ALIGN" "max (align_val ALIGN) (align_val (usize_align cfg))"])

lemma rob_place_box: "place_ok (rob_ops cfg SIZE ALIGN) a \<Longrightarrow> alloc_feature cfg \<Longrightarrow> place_ok (box_ops cfg) a"
  using pow2_dvd_max [of "align_val (usize_align cfg)" "align_val ALIGN"]
  by (auto simp: place_ok_def rob_align_def max.commute intro: dvd_trans)

lemma rob_new_ok:
  assumes "wf_rtype T" "length v = size_of T" "rob_fits cfg SIZE ALIGN T" "wf_world w"
  shows "\<exists>s w'. rob_new cfg SIZE ALIGN T v w = (Ok s, w') \<and> wf_world w'
    \<and> rob_rep SIZE ALIGN T v s w' \<and> frees (rob_own T s) w' w"
proof (cases "can_store SIZE ALIGN T")
  case True
  with raw.new_law [OF assms(1,2) True assms(4), of cfg] obtain r w' where
    r: "raw_new cfg SIZE ALIGN T v w = (Ok r, w')" "wf_world w'" "raw_rep SIZE ALIGN T v r w'"
    "frees (raw_own T r) w' w" by auto
  with True have "rob_new cfg SIZE ALIGN T v w = (Ok (InnerRaw r), w')"
    by (simp add: rob_new_def raw_new_def)
  with r show ?thesis by auto
next
  case False
  with assms(3) have "alloc_feature cfg" by (simp add: rob_fits_def)
  moreover from box_new_ok [OF assms(4,1,2)] obtain b w' where
    "box_new T v w = (Ok b, w')" "wf_world w'" "box_rep T v b w'" "frees (box_owns T b) w' w" by blast
  ultimately show ?thesis using False by (auto simp: rob_new_def)
qed

lemma rob_ref_ok:
  assumes "rob_rep SIZE ALIGN T v s w" "wf_rtype T" "wf_val E T v" "place_ok (rob_ops cfg SIZE ALIGN) a"
  shows "\<exists>p. rob_ptr cfg SIZE ALIGN a s = Ok p \<and> rob_ptr_mut cfg SIZE ALIGN a s = Ok p
    \<and> rob_as_ref cfg SIZE ALIGN E T a s w = Ok p \<and> rob_as_mut cfg SIZE ALIGN E T a s w = Ok p
    \<and> load E T (rob_frame cfg SIZE ALIGN a s) p w = Ok v"
proof (cases s)
  case (InnerRaw r)
  with assms(1) have r: "raw_rep SIZE ALIGN T v r w" by simp
  from raw.ref_law [OF r assms(2,3) rob_place_raw [OF assms(4)]] raw_rep_can_store [OF r] InnerRaw
  show ?thesis by (auto simp: read_ref_def)
next
  case (InnerBox b)
  with assms(1) show ?thesis
    using assms(3) by (cases b) (auto simp: default_as_ref_def default_as_mut_def ref_to_def boxed_load)
qed

lemma rob_write_ok:
  assumes "rob_rep SIZE ALIGN T v s w" "wf_rtype T" "wf_world w" "length u = size_of T"
    and a: "place_ok (rob_ops cfg SIZE ALIGN) a" and p: "rob_ptr_mut cfg SIZE ALIGN a s = Ok p"
  shows "\<exists>s' w'. write_ref (rob_ops cfg SIZE ALIGN) T a s p u w = (Ok s', w') \<and> wf_world w'
    \<and> rob_rep SIZE ALIGN T u s' w' \<and> rob_own T s' = rob_own T s
    \<and> rob_ptr_mut cfg SIZE ALIGN a s' = Ok p \<and> untouched (rob_own T s) w w'"
proof (cases s)
  case (InnerRaw r)
  let ?a = "a + rob_payload_offset cfg SIZE ALIGN"
  from InnerRaw assms(1) p have r: "raw_rep SIZE ALIGN T v r w"
    and "so_ptr_mut (raw_ops cfg SIZE ALIGN) ?a r = Ok p" by simp_all
  from raw.write_law [OF r assms(2-4) rob_place_raw [OF a] this(2)] obtain r' w' where
    r': "write_ref (raw_ops cfg SIZE ALIGN) T ?a r p u w = (Ok r', w')" "wf_world w'"
    "raw_rep SIZE ALIGN T u r' w'" "so_ptr_mut (raw_ops cfg SIZE ALIGN) ?a r' = Ok p"
    "raw_own T r' = raw_own T r" "untouched (raw_own T r) w w'" by blast
  from r'(1) InnerRaw have "write_ref (rob_ops cfg SIZE ALIGN) T a s p u w = (Ok (InnerRaw r'), w')"
    by (auto simp: write_ref_def bnd_def split: prod.splits res.splits)
  with r' InnerRaw show ?thesis by auto
next
  case (InnerBox b)
  with assms(1) p have b: "b = Box p" "boxed T v p w" "length v = size_of T" "\<not> can_store SIZE ALIGN T"
    by (cases b; simp)+
  from boxed_store [OF b(2) assms(3,4) b(3)] obtain w' where
    "store T (box_frame a b) p u w = (Ok (fbytes (box_frame a b)), w')" "wf_world w'"
    "boxed T u p w'" "untouched (box_own T p) w w'" by blast
  with b InnerBox assms(4) show ?thesis by (simp add: write_ref_def)
qed

lemma rob_drop_ok:
  assumes "rob_rep SIZE ALIGN T v s w" and "wf_world w"
  shows "\<exists>w'. rob_drop_in_place cfg SIZE ALIGN (tlayout T) s w = (Ok (), w') \<and> wf_world w'
    \<and> frees (rob_own T s) w w'"
proof (cases s)
  case (InnerRaw r)
  with assms show ?thesis by (simp add: raw_drop_in_place_def raw_own_def)
next
  case (InnerBox b)
  with assms box_drop_ok [of T v b w] show ?thesis by simp
qed

lemma rob_from_box_ok:
  assumes "boxed T v p w" "wf_rtype T" "wf_val E T v" "wf_world w"
  shows "\<exists>s w'. rob_from_box cfg SIZE ALIGN E T p w = (Ok s, w') \<and> wf_world w'
    \<and> rob_rep SIZE ALIGN T v s w' \<and> rob_own T s \<inter> (dom (blocks w) - box_own T p) = {}
    \<and> blocks w' |` (- rob_own T s) = blocks w |` (- box_own T p) \<and> dropped w' = dropped w"
proof (cases "can_store SIZE ALIGN T")
  case True
  from std_box_unbox_spec [OF assms(4,1,3)] obtain w1 where
    w1: "std_box_unbox E T p w = (Ok v, w1)" "wf_world w1" "frees (box_own T p) w w1" by blast
  from raw_new_unchecked_ok [OF assms(2) wf_val_length [OF assms(3)] True, of w1]
  have "rob_new cfg SIZE ALIGN T v w1 = (Ok (InnerRaw \<lparr>raw_data = v @ replicate (SIZE - size_of T) Uninit\<rparr>), w1)"
    using True by (simp add: rob_new_def raw_new_def)
  with True w1 wf_val_length [OF assms(3)] show ?thesis
    by (auto simp: rob_from_box_def raw_rep_def raw_own_def can_store_def frees_def restrict_map_def)
next
  case False
  with assms box_from_box_ok [OF assms(1)] show ?thesis
    by (auto simp: rob_from_box_def wf_val_length)
qed

interpretation rob: from_box_contract "rob_ops cfg SIZE ALIGN" "rob_fits cfg SIZE ALIGN"
    "rob_rep SIZE ALIGN" rob_own
  for cfg SIZE ALIGN
proof (unfold_locales, goal_cases)
  case (1 T v w)
  with rob_new_ok show ?case by simp
next
  case (2 T v s w E a)
  with rob_ref_ok [OF 2] show ?case by (simp add: default_as_pinned_mut_def read_ref_def)
next
  case (3 T v s w u a p)
  with rob_write_ok [of SIZE ALIGN T v s w u cfg a p] show ?case by simp
next
  case (4 T v s w)
  with rob_drop_ok show ?case by simp
next
  case (5 T v s w w')
  then show ?case
    by (cases s) (auto intro: raw.rep_frame box.rep_frame)
next
  case (6 T v s w)
  then show ?case by (cases s) (auto simp: raw_own_def dest: box.own_dom)
next
  case (7 T v s w)
  then show ?case by (cases s) (auto dest: raw.rep_length box.rep_length)
next
  case (8 T v p w E)
  with rob_from_box_ok [OF 8] show ?case by simp
qed


section \<open>The variant is decided by the type alone\<close>

lemma rob_variant: "rob_rep SIZE ALIGN T v s w \<Longrightarrow> (\<exists>r. s = InnerRaw r) \<longleftrightarrow> can_store SIZE ALIGN T"
  by (cases s) (auto simp: raw_rep_def)

end
