(* ===== verification/Iterator_Impl.thy ===== *)
theory Iterator_Impl
  imports Dyn_Call Raw_Or_Box
begin

text \<open>
  The \<open>Iterator\<close> part of \<open>src/impls.rs\<close>: the vtable of \<open>dyn Iterator<Item = I>\<close> and
  \<open>impl Iterator for DynObject\<close>, which forwards \<open>next\<close>, \<open>size_hint\<close> and \<open>nth\<close>.
\<close>

record 'i iter_impl =
  it_next :: "rtype \<Rightarrow> rval \<Rightarrow> 'i option res \<times> rval"
  it_size_hint :: "rtype \<Rightarrow> rval \<Rightarrow> (nat \<times> nat option) res \<times> rval"
  it_nth :: "nat \<Rightarrow> rtype \<Rightarrow> rval \<Rightarrow> 'i option res \<times> rval"

record iterator_vtable = vtable +
  iv_next :: erased_fn
  iv_size_hint :: erased_fn
  iv_nth :: erased_fn

text \<open>\<open>DynTrait\<close> for \<open>dyn Iterator\<close>.\<close>

definition iterator_dyn_trait :: "iterator_vtable dyn_trait_ops" where
  "iterator_dyn_trait = \<lparr>dt_drop_in_place_fn = (\<lambda>vtable. vt_drop_in_place vtable),
     dt_layout = (\<lambda>vtable. vt_layout vtable)\<rparr>"

lemma iterator_dyn_trait: "reads_fields iterator_dyn_trait"
  by (simp add: reads_fields_def iterator_dyn_trait_def drop_in_place_fn_def [abs_def] layout_fn_def [abs_def])

definition iterator_vt :: "rtype \<Rightarrow> iterator_vtable" where
  "iterator_vt T = \<lparr>vt_drop_in_place = DROP_IN_PLACE_FN T, vt_layout = tlayout T,
     iv_next = \<lparr>ef_self = ByMut, ef_method = ''next'', ef_dyn = T\<rparr>,
     iv_size_hint = \<lparr>ef_self = ByRef, ef_method = ''size_hint'', ef_dyn = T\<rparr>,
     iv_nth = \<lparr>ef_self = ByMut, ef_method = ''nth'', ef_dyn = T\<rparr>\<rparr>"

interpretation iterator_vtable: vtable_contract iterator_vt
  by unfold_locales (simp_all add: iterator_vt_def layout_fn_def drop_in_place_fn_def)

definition iterator_next ::
  "('s, 'y) storage_ops_scheme \<Rightarrow> env \<Rightarrow> 'i iter_impl \<Rightarrow> nat \<Rightarrow> ('s, iterator_vtable) dynobj
    \<Rightarrow> (world, 'i option res \<times> ('s, iterator_vtable) dynobj) op" where
  "iterator_next S E impl a this =
     erased_call S E a ByMut ''next'' (iv_next (obj_vtable this)) (it_next impl) this"

definition iterator_size_hint ::
  "('s, 'y) storage_ops_scheme \<Rightarrow> env \<Rightarrow> 'i iter_impl \<Rightarrow> nat \<Rightarrow> ('s, iterator_vtable) dynobj
    \<Rightarrow> (world, (nat \<times> nat option) res \<times> ('s, iterator_vtable) dynobj) op" where
  "iterator_size_hint S E impl a this =
     erased_call S E a ByRef ''size_hint'' (iv_size_hint (obj_vtable this)) (it_size_hint impl) this"

definition iterator_nth ::
  "('s, 'y) storage_ops_scheme \<Rightarrow> env \<Rightarrow> 'i iter_impl \<Rightarrow> nat \<Rightarrow> nat \<Rightarrow> ('s, iterator_vtable) dynobj
    \<Rightarrow> (world, 'i option res \<times> ('s, iterator_vtable) dynobj) op" where
  "iterator_nth S E impl a n this =
     erased_call S E a ByMut ''nth'' (iv_nth (obj_vtable this)) (it_nth impl n) this"


section \<open>A client: any sequence of calls\<close>

datatype iter_op = Next | Size_Hint | Nth nat

datatype 'i iter_out = Item "'i option res" | Hint "(nat \<times> nat option) res"

fun iter_dyn ::
  "('s, 'y) storage_ops_scheme \<Rightarrow> env \<Rightarrow> 'i iter_impl \<Rightarrow> nat \<Rightarrow> iter_op \<Rightarrow> ('s, iterator_vtable) dynobj
    \<Rightarrow> (world, 'i iter_out \<times> ('s, iterator_vtable) dynobj) op" where
  "iter_dyn S E impl a Next this = bnd (iterator_next S E impl a this) (\<lambda>(r, t). ret (Item r, t))"
| "iter_dyn S E impl a Size_Hint this =
     bnd (iterator_size_hint S E impl a this) (\<lambda>(r, t). ret (Hint r, t))"
| "iter_dyn S E impl a (Nth n) this = bnd (iterator_nth S E impl a n this) (\<lambda>(r, t). ret (Item r, t))"

fun iter_direct :: "'i iter_impl \<Rightarrow> rtype \<Rightarrow> iter_op \<Rightarrow> rval \<Rightarrow> 'i iter_out \<times> rval" where
  "iter_direct impl T Next v = map_prod Item id (it_next impl T v)"
| "iter_direct impl T Size_Hint v = map_prod Hint id (it_size_hint impl T v)"
| "iter_direct impl T (Nth n) v = map_prod Item id (it_nth impl n T v)"

fun iter_dyn_run ::
  "('s, 'y) storage_ops_scheme \<Rightarrow> env \<Rightarrow> 'i iter_impl \<Rightarrow> nat \<Rightarrow> iter_op list \<Rightarrow> ('s, iterator_vtable) dynobj
    \<Rightarrow> (world, 'i iter_out list \<times> ('s, iterator_vtable) dynobj) op" where
  "iter_dyn_run S E impl a [] this = ret ([], this)"
| "iter_dyn_run S E impl a (x # xs) this =
     bnd (iter_dyn S E impl a x this) (\<lambda>(r, t).
     bnd (iter_dyn_run S E impl a xs t) (\<lambda>(rs, t'). ret (r # rs, t')))"

fun iter_direct_run :: "'i iter_impl \<Rightarrow> rtype \<Rightarrow> iter_op list \<Rightarrow> rval \<Rightarrow> 'i iter_out list \<times> rval" where
  "iter_direct_run impl T [] v = ([], v)"
| "iter_direct_run impl T (x # xs) v =
     (let (r, v') = iter_direct impl T x v; (rs, v'') = iter_direct_run impl T xs v' in (r # rs, v''))"

text \<open>The user's methods leave a value of their type behind.\<close>

definition iter_closed :: "env \<Rightarrow> rtype \<Rightarrow> 'i iter_impl \<Rightarrow> bool" where
  "iter_closed E T impl \<longleftrightarrow> (\<forall>x v. wf_val E T v \<longrightarrow> wf_val E T (snd (iter_direct impl T x v)))"

sublocale storage_contract \<subseteq> iter: dyn_object S fits rep own iterator_vt
  by unfold_locales

context storage_contract
begin

lemma iter_dyn_ok:
  assumes r: "obj_rep rep iterator_vt T v ob w" and T: "wf_rtype T" "wf_val E T v" and w: "wf_world w"
    and a: "place_ok S a" and c: "iter_closed E T impl"
  shows "\<exists>ob' w'. iter_dyn S E impl a x ob w = (Ok (fst (iter_direct impl T x v), ob'), w')
    \<and> obj_rep rep iterator_vt T (snd (iter_direct impl T x v)) ob' w' \<and> wf_world w'
    \<and> own T (storage ob') = own T (storage ob) \<and> untouched (own T (storage ob)) w w'"
proof -
  have len: "length (snd (iter_direct impl T y v)) = size_of T" for y
    using c T(2) by (auto simp: iter_closed_def wf_val_def)
  note call = erased_call_ok [OF iter.obj_rep_storage [OF r] T w a]
  from r have vt: "vtable ob = iterator_vt T" by (simp add: obj_rep_def)
  show ?thesis
  proof (cases x)
    case Next
    from call [of "iv_next (vtable ob)" ByMut "''next''" "it_next impl"] len [of Next] r Next
    show ?thesis by (auto simp: iterator_next_def obj_rep_def vt iterator_vt_def bnd_def)
  next
    case Size_Hint
    from call [of "iv_size_hint (vtable ob)" ByRef "''size_hint''" "it_size_hint impl"]
      len [of Size_Hint] r Size_Hint
    show ?thesis by (auto simp: iterator_size_hint_def obj_rep_def vt iterator_vt_def bnd_def)
  next
    case (Nth n)
    from call [of "iv_nth (vtable ob)" ByMut "''nth''" "it_nth impl n"] len [of "Nth n"] r Nth
    show ?thesis by (auto simp: iterator_nth_def obj_rep_def vt iterator_vt_def bnd_def)
  qed
qed

lemma iter_dyn_run_ok:
  assumes "obj_rep rep iterator_vt T v ob w" and T: "wf_rtype T" and "wf_val E T v" and "wf_world w"
    and a: "place_ok S a" and c: "iter_closed E T impl"
  shows "\<exists>ob' w'. iter_dyn_run S E impl a xs ob w = (Ok (fst (iter_direct_run impl T xs v), ob'), w')
    \<and> obj_rep rep iterator_vt T (snd (iter_direct_run impl T xs v)) ob' w' \<and> wf_world w'"
  using assms(1,3,4)
proof (induction xs arbitrary: v ob w)
  case Nil
  then show ?case by simp
next
  case (Cons x xs)
  from iter_dyn_ok [OF Cons.prems(1) T Cons.prems(2,3) a c, of x] obtain ob1 w1 where
    s: "iter_dyn S E impl a x ob w = (Ok (fst (iter_direct impl T x v), ob1), w1)"
    "obj_rep rep iterator_vt T (snd (iter_direct impl T x v)) ob1 w1" "wf_world w1" by blast
  have "wf_val E T (snd (iter_direct impl T x v))"
    using c Cons.prems(2) by (simp add: iter_closed_def)
  from Cons.IH [OF s(2) this s(3)] obtain ob2 w2 where
    t: "iter_dyn_run S E impl a xs ob1 w1
      = (Ok (fst (iter_direct_run impl T xs (snd (iter_direct impl T x v))), ob2), w2)"
    "obj_rep rep iterator_vt T (snd (iter_direct_run impl T xs (snd (iter_direct impl T x v)))) ob2 w2"
    "wf_world w2" by blast
  with s(1) show ?case by (auto simp: bnd_def split: prod.splits)
qed

end

end
