(* ===== verification/Future_Impl.thy ===== *)
theory Future_Impl
  imports Dyn_Call Raw_Or_Box
begin

text \<open>
  The \<open>Future\<close> part of \<open>src/impls.rs\<close>: the vtable of \<open>dyn Future<Output = O>\<close> (and of
  \<open>dyn Future<Output = O> + Send\<close>, whose code is the same) and \<open>impl Future for DynObject\<close>.

  The concrete future is the user's: \<open>poll_impl T v cx\<close> is the outcome of \<open>T::poll\<close> on the
  value \<open>v\<close> with context \<open>cx\<close>, and the value it leaves.
\<close>

datatype 'o poll = Ready 'o | Pending

type_synonym ('c, 'o) poll_impl = "rtype \<Rightarrow> rval \<Rightarrow> 'c \<Rightarrow> 'o poll res \<times> rval"

record future_vtable = vtable +
  fv_poll :: erased_fn

text \<open>\<open>DynTrait\<close> for \<open>dyn Future\<close>.\<close>

definition future_dyn_trait :: "future_vtable dyn_trait_ops" where
  "future_dyn_trait = \<lparr>dt_drop_in_place_fn = (\<lambda>vtable. vt_drop_in_place vtable),
     dt_layout = (\<lambda>vtable. vt_layout vtable)\<rparr>"

lemma future_dyn_trait: "reads_fields future_dyn_trait"
  by (simp add: reads_fields_def future_dyn_trait_def drop_in_place_fn_def [abs_def] layout_fn_def [abs_def])

definition future_vt :: "rtype \<Rightarrow> future_vtable" where
  "future_vt T = \<lparr>vt_drop_in_place = DROP_IN_PLACE_FN T, vt_layout = tlayout T,
     fv_poll = \<lparr>ef_self = ByPin, ef_method = ''poll'', ef_dyn = T\<rparr>\<rparr>"

interpretation future_vtable: vtable_contract future_vt
  by unfold_locales (simp_all add: future_vt_def layout_fn_def drop_in_place_fn_def)

definition future_poll ::
  "('s, 'y) storage_ops_scheme \<Rightarrow> env \<Rightarrow> ('c, 'o) poll_impl \<Rightarrow> nat \<Rightarrow> 'c
    \<Rightarrow> ('s, future_vtable) dynobj \<Rightarrow> (world, 'o poll res \<times> ('s, future_vtable) dynobj) op" where
  "future_poll S E poll_impl a cx this =
     erased_call S E a ByPin ''poll'' (fv_poll (obj_vtable this)) (\<lambda>T v. poll_impl T v cx) this"

text \<open>The copy for \<open>dyn Future<Output = O> + Send\<close>.\<close>

text \<open>\<open>DynTrait\<close> for \<open>dyn Future + Send\<close>.\<close>

definition future_send_dyn_trait :: "future_vtable dyn_trait_ops" where
  "future_send_dyn_trait = \<lparr>dt_drop_in_place_fn = (\<lambda>vtable. vt_drop_in_place vtable),
     dt_layout = (\<lambda>vtable. vt_layout vtable)\<rparr>"

lemma future_send_dyn_trait: "reads_fields future_send_dyn_trait"
  by (simp add: reads_fields_def future_send_dyn_trait_def drop_in_place_fn_def [abs_def] layout_fn_def [abs_def])

definition future_send_vt :: "rtype \<Rightarrow> future_vtable" where
  "future_send_vt T = \<lparr>vt_drop_in_place = DROP_IN_PLACE_FN T, vt_layout = tlayout T,
     fv_poll = \<lparr>ef_self = ByPin, ef_method = ''poll'', ef_dyn = T\<rparr>\<rparr>"

definition future_send_poll ::
  "('s, 'y) storage_ops_scheme \<Rightarrow> env \<Rightarrow> ('c, 'o) poll_impl \<Rightarrow> nat \<Rightarrow> 'c
    \<Rightarrow> ('s, future_vtable) dynobj \<Rightarrow> (world, 'o poll res \<times> ('s, future_vtable) dynobj) op" where
  "future_send_poll S E poll_impl a cx this =
     erased_call S E a ByPin ''poll'' (fv_poll (obj_vtable this)) (\<lambda>T v. poll_impl T v cx) this"

lemma future_send_same: "future_send_vt T = future_vt T" "future_send_poll = future_poll"
  by (simp_all add: future_send_vt_def future_vt_def fun_eq_iff future_send_poll_def future_poll_def)

text \<open>Polling with one context after another, through the object and on the value itself.\<close>

fun dyn_polls ::
  "('s, 'y) storage_ops_scheme \<Rightarrow> env \<Rightarrow> ('c, 'o) poll_impl \<Rightarrow> nat \<Rightarrow> 'c list
    \<Rightarrow> ('s, future_vtable) dynobj \<Rightarrow> (world, 'o poll res list \<times> ('s, future_vtable) dynobj) op" where
  "dyn_polls S E poll_impl a [] this = ret ([], this)"
| "dyn_polls S E poll_impl a (cx # cxs) this =
     bnd (future_poll S E poll_impl a cx this) (\<lambda>(r, this').
     bnd (dyn_polls S E poll_impl a cxs this') (\<lambda>(rs, this''). ret (r # rs, this'')))"

fun direct_polls :: "('c, 'o) poll_impl \<Rightarrow> rtype \<Rightarrow> 'c list \<Rightarrow> rval \<Rightarrow> 'o poll res list \<times> rval" where
  "direct_polls poll_impl T [] v = ([], v)"
| "direct_polls poll_impl T (cx # cxs) v =
     (let (r, v') = poll_impl T v cx; (rs, v'') = direct_polls poll_impl T cxs v' in (r # rs, v''))"

text \<open>The user's method leaves a value of its type behind.\<close>

definition poll_closed :: "env \<Rightarrow> rtype \<Rightarrow> ('c, 'o) poll_impl \<Rightarrow> bool" where
  "poll_closed E T poll_impl \<longleftrightarrow> (\<forall>v cx. wf_val E T v \<longrightarrow> wf_val E T (snd (poll_impl T v cx)))"

sublocale storage_contract \<subseteq> fut: dyn_object S fits rep own future_vt
  by unfold_locales

context storage_contract
begin

lemma future_poll_ok:
  assumes r: "obj_rep rep future_vt T v ob w" and T: "wf_rtype T" "wf_val E T v" and w: "wf_world w"
    and a: "place_ok S a" and c: "poll_closed E T poll_impl"
  shows "\<exists>ob' w'. future_poll S E poll_impl a cx ob w = (Ok (fst (poll_impl T v cx), ob'), w')
    \<and> obj_rep rep future_vt T (snd (poll_impl T v cx)) ob' w' \<and> wf_world w'
    \<and> own T (storage ob') = own T (storage ob) \<and> untouched (own T (storage ob)) w w'
    \<and> so_ptr_mut S a (storage ob') = so_ptr_mut S a (storage ob)"
proof -
  have len: "length (snd (poll_impl T v cx)) = size_of T"
    using c T(2) by (auto simp: poll_closed_def wf_val_def)
  from r have f: "fv_poll (vtable ob) = \<lparr>ef_self = ByPin, ef_method = ''poll'', ef_dyn = T\<rparr>"
    by (simp add: obj_rep_def future_vt_def)
  from erased_call_ok [OF fut.obj_rep_storage [OF r] T w a f, where body = "\<lambda>T v. poll_impl T v cx"] len r
  show ?thesis unfolding future_poll_def obj_rep_def by auto
qed

lemma dyn_polls_ok:
  assumes "obj_rep rep future_vt T v ob w" and T: "wf_rtype T" and "wf_val E T v" and "wf_world w"
    and a: "place_ok S a" and c: "poll_closed E T poll_impl"
  shows "\<exists>ob' w'. dyn_polls S E poll_impl a cxs ob w
      = (Ok (fst (direct_polls poll_impl T cxs v), ob'), w')
    \<and> obj_rep rep future_vt T (snd (direct_polls poll_impl T cxs v)) ob' w' \<and> wf_world w'
    \<and> own T (storage ob') = own T (storage ob) \<and> untouched (own T (storage ob)) w w'
    \<and> so_ptr_mut S a (storage ob') = so_ptr_mut S a (storage ob)"
  using assms(1,3,4)
proof (induction cxs arbitrary: v ob w)
  case Nil
  then show ?case by simp
next
  case (Cons cx cxs)
  from future_poll_ok [OF Cons.prems(1) T Cons.prems(2,3) a c, of cx] obtain ob1 w1 where
    s: "future_poll S E poll_impl a cx ob w = (Ok (fst (poll_impl T v cx), ob1), w1)"
    "obj_rep rep future_vt T (snd (poll_impl T v cx)) ob1 w1" "wf_world w1"
    "own T (storage ob1) = own T (storage ob)" "untouched (own T (storage ob)) w w1"
    "so_ptr_mut S a (storage ob1) = so_ptr_mut S a (storage ob)" by blast
  have "wf_val E T (snd (poll_impl T v cx))"
    using c Cons.prems(2) by (simp add: poll_closed_def)
  from Cons.IH [OF s(2) this s(3)] obtain ob2 w2 where
    t: "dyn_polls S E poll_impl a cxs ob1 w1
      = (Ok (fst (direct_polls poll_impl T cxs (snd (poll_impl T v cx))), ob2), w2)"
    "obj_rep rep future_vt T (snd (direct_polls poll_impl T cxs (snd (poll_impl T v cx)))) ob2 w2"
    "wf_world w2" "own T (storage ob2) = own T (storage ob1)" "untouched (own T (storage ob1)) w1 w2"
    "so_ptr_mut S a (storage ob2) = so_ptr_mut S a (storage ob1)" by blast
  have "dyn_polls S E poll_impl a (cx # cxs) ob w
      = (Ok (fst (direct_polls poll_impl T (cx # cxs) v), ob2), w2)"
    using s(1) t(1) by (simp add: bnd_def split: prod.splits)
  moreover have "untouched (own T (storage ob)) w w2"
    using untouched_trans [OF s(5)] t(5) s(4) by simp
  ultimately show ?case using s(4,6) t(2-4,6) by (simp add: case_prod_beta)
qed

lemma direct_polls_closed:
  "poll_closed E T poll_impl \<Longrightarrow> wf_val E T v \<Longrightarrow> wf_val E T (snd (direct_polls poll_impl T cxs v))"
proof (induction cxs arbitrary: v)
  case (Cons cx cxs)
  then have "wf_val E T (snd (poll_impl T v cx))" by (simp add: poll_closed_def)
  from Cons.IH [OF Cons.prems(1) this] show ?case by (simp add: case_prod_beta)
qed simp

text \<open>The whole life of a future in an object: stored, polled, dropped.\<close>

lemma new_polls_drop:
  assumes T: "wf_rtype T" "wf_val E T v" "fits T" and w: "wf_world w" and a: "place_ok S a"
    and c: "poll_closed E T poll_impl"
    and quiet: "\<And>u. wf_val E T u \<Longrightarrow> tneeds_drop T \<Longrightarrow> \<not> drop_panics E T u"
  shows "\<exists>ob w1 ob' w2 w3. dyn_new S future_vt T v w = (Ok ob, w1)
    \<and> dyn_polls S E poll_impl a cxs ob w1 = (Ok (fst (direct_polls poll_impl T cxs v), ob'), w2)
    \<and> dyn_drop S E a ob' w2 = (Ok (), w3) \<and> wf_world w3 \<and> blocks w3 = blocks w
    \<and> dropped w3 = dropped w @ drop_trace T (snd (direct_polls poll_impl T cxs v))"
proof -
  let ?u = "snd (direct_polls poll_impl T cxs v)"
  from fut.new_ok [OF T(1) wf_val_length [OF T(2)] T(3) w] obtain ob w1 where
    1: "dyn_new S future_vt T v w = (Ok ob, w1)" "wf_world w1" "obj_rep rep future_vt T v ob w1"
    "frees (own T (storage ob)) w1 w" by blast
  from dyn_polls_ok [OF 1(3) T(1,2) 1(2) a c] obtain ob' w2 where
    2: "dyn_polls S E poll_impl a cxs ob w1 = (Ok (fst (direct_polls poll_impl T cxs v), ob'), w2)"
    "obj_rep rep future_vt T ?u ob' w2" "wf_world w2"
    "own T (storage ob') = own T (storage ob)" "untouched (own T (storage ob)) w1 w2" by blast
  have u: "wf_val E T ?u" using c T(2) by (rule direct_polls_closed)
  from fut.drop_ok [OF 2(2) T(1) u a 2(3)] quiet [OF u] obtain w3 where
    3: "dyn_drop S E a ob' w2 = (Ok (), w3)" "after_drop (own T (storage ob)) T ?u w2 w3"
    unfolding 2(4) by blast
  have "blocks w2 |` (- own T (storage ob)) = blocks w1 |` (- own T (storage ob))"
    using 2(5) by (auto simp: untouched_def restrict_map_def fun_eq_iff)
  with 1 2 3 show ?thesis by (auto simp: after_drop_def frees_def untouched_def)
qed

end

end
