(* ===== verification/Maybe_Sync.thy ===== *)
theory Maybe_Sync
  imports Future_Impl
begin

text \<open>
  \<open>MaybeSync\<close> of \<open>src/lib.rs\<close>: a future with a synchronous shortcut. The wrapped future is
  the user's: \<open>poll_fut f cx\<close> is the outcome of its \<open>poll\<close> and the future it leaves.
\<close>

datatype ('f, 'o) maybe_sync = Sync 'o | Async 'f | SyncPolled

text \<open>
  \<open>take_sync\<close>: \<open>mem::replace\<close> puts \<open>SyncPolled\<close> first, then matches what was there; any
  other variant is \<open>unreachable_unchecked\<close>.
\<close>

definition take_sync :: "(('f, 'o) maybe_sync, 'o) op" where
  "take_sync = (\<lambda>self. case self of
      Sync res \<Rightarrow> (Ok res, SyncPolled)
    | _ \<Rightarrow> (UB UnreachableReached, SyncPolled))"

definition maybe_sync_poll ::
  "('f \<Rightarrow> 'c \<Rightarrow> 'o poll res \<times> 'f) \<Rightarrow> 'c \<Rightarrow> (('f, 'o) maybe_sync, 'o poll) op" where
  "maybe_sync_poll poll_fut cx = (\<lambda>self. case self of
      Sync _ \<Rightarrow> bnd take_sync (\<lambda>res. ret (Ready res)) self
    | Async fut \<Rightarrow> (let (r, fut') = poll_fut fut cx in (r, Async fut'))
    | SyncPolled \<Rightarrow> (Panic ''future polled after completion'', SyncPolled))"

fun maybe_sync_polls ::
  "('f \<Rightarrow> 'c \<Rightarrow> 'o poll res \<times> 'f) \<Rightarrow> 'c list \<Rightarrow> ('f, 'o) maybe_sync \<Rightarrow> 'o poll res list \<times> ('f, 'o) maybe_sync" where
  "maybe_sync_polls poll_fut [] self = ([], self)"
| "maybe_sync_polls poll_fut (cx # cxs) self =
     (let (r, self') = maybe_sync_poll poll_fut cx self;
          (rs, self'') = maybe_sync_polls poll_fut cxs self'
      in (r # rs, self''))"

fun fut_polls :: "('f \<Rightarrow> 'c \<Rightarrow> 'o poll res \<times> 'f) \<Rightarrow> 'c list \<Rightarrow> 'f \<Rightarrow> 'o poll res list \<times> 'f" where
  "fut_polls poll_fut [] f = ([], f)"
| "fut_polls poll_fut (cx # cxs) f =
     (let (r, f') = poll_fut f cx; (rs, f'') = fut_polls poll_fut cxs f' in (r # rs, f''))"

lemma maybe_sync_poll_Sync [simp]:
  "maybe_sync_poll poll_fut cx (Sync o') = (Ok (Ready o'), SyncPolled)"
  by (simp add: maybe_sync_poll_def take_sync_def bnd_def)

lemma maybe_sync_poll_SyncPolled [simp]:
  "maybe_sync_poll poll_fut cx SyncPolled = (Panic ''future polled after completion'', SyncPolled)"
  by (simp add: maybe_sync_poll_def)

lemma maybe_sync_poll_Async [simp]:
  "maybe_sync_poll poll_fut cx (Async f) = map_prod id Async (poll_fut f cx)"
  by (simp add: maybe_sync_poll_def split: prod.splits)

lemma maybe_sync_polls_Async:
  "maybe_sync_polls poll_fut cxs (Async f) = map_prod id Async (fut_polls poll_fut cxs f)"
  by (induction cxs arbitrary: f) (simp_all add: Let_def split: prod.splits)

lemma maybe_sync_polls_SyncPolled:
  "maybe_sync_polls poll_fut cxs SyncPolled
    = (replicate (length cxs) (Panic ''future polled after completion''), SyncPolled)"
  by (induction cxs) (simp_all add: Let_def)

text \<open>\<open>core::future::Ready\<close>: yields its value once, then panics.\<close>

fun ready_poll :: "'o option \<Rightarrow> 'c \<Rightarrow> 'o poll res \<times> 'o option" where
  "ready_poll (Some x) cx = (Ok (Ready x), None)"
| "ready_poll None cx = (Panic ''`Ready` polled after completion'', None)"

end
