(* ===== verification/Macro_Runtime.thy ===== *)
theory Macro_Runtime
  imports Macro_Lib Iterator_Impl Maybe_Sync
begin

text \<open>
  What the generated code does when it runs: the vtable a \<open>dyn_object\<close> expansion builds, as the
  objects of \<open>Object\<close> and \<open>Dyn_Call\<close> use it, the expansions behind the \<open>Future\<close> and \<open>Iterator\<close>
  implementations of \<open>src/impls.rs\<close>, and the body of a \<open>maybe_sync\<close> method.
\<close>


section \<open>Generated vtables\<close>

fun receiver_of :: "vtable_receiver \<Rightarrow> receiver" where
  "receiver_of VRef = ByRef"
| "receiver_of VMut = ByMut"
| "receiver_of VPinned = ByPin"

record generated_vtable = vtable +
  gv_entries :: "(ident \<times> erased_fn) list"

definition erased_entry :: "rtype \<Rightarrow> vtable_init \<Rightarrow> erased_fn" where
  "erased_entry T v = \<lparr>ef_self = receiver_of (vi_self_as v), ef_method = vi_callee v, ef_dyn = T\<rparr>"

definition generated_vt :: "vtable_init list \<Rightarrow> rtype \<Rightarrow> generated_vtable" where
  "generated_vt inits T = \<lparr>vt_drop_in_place = DROP_IN_PLACE_FN T, vt_layout = tlayout T,
     gv_entries = map (\<lambda>v. (vi_field v, erased_entry T v)) inits\<rparr>"

interpretation generated_vtable: vtable_contract "generated_vt inits" for inits
  by unfold_locales (simp_all add: generated_vt_def layout_fn_def drop_in_place_fn_def)

text \<open>The body of a generated trait method: read the field, cast it, call it on the storage.\<close>

definition generated_call ::
  "('s, 'y) storage_ops_scheme \<Rightarrow> env \<Rightarrow> nat \<Rightarrow> object_method \<Rightarrow> (rtype \<Rightarrow> rval \<Rightarrow> 'r \<times> rval)
    \<Rightarrow> ('s, generated_vtable) dynobj \<Rightarrow> (world, 'r \<times> ('s, generated_vtable) dynobj) op" where
  "generated_call S E a om body this =
     (case map_of (gv_entries (vtable this)) (om_field om) of
        None \<Rightarrow> throw (UB BadFnPointer)
      | Some f \<Rightarrow> erased_call S E a (receiver_of (om_self_as om)) (sg_ident (om_sig om)) f body this)"

sublocale storage_contract \<subseteq> gen: dyn_object S fits rep own "generated_vt inits" for inits
  by unfold_locales

text \<open>The entries, by name.\<close>

lemma entries_same_fields: "list_all2 entry_agrees vs oms \<Longrightarrow> map vi_field vs = map om_field oms"
  by (induction rule: list_all2_induct) (simp_all add: entry_agrees_def)

lemma entries_lookup:
  "list_all2 entry_agrees vs oms \<Longrightarrow> distinct (map vi_field vs) \<Longrightarrow> om \<in> set oms \<Longrightarrow>
    map_of (map (\<lambda>v. (vi_field v, erased_entry T v)) vs) (om_field om)
      = Some \<lparr>ef_self = receiver_of (om_self_as om), ef_method = sg_ident (om_sig om), ef_dyn = T\<rparr>"
proof (induction vs oms rule: list_all2_induct)
  case (Cons v vs om' oms)
  then show ?case
  proof (cases "om = om'")
    case False
    with Cons.prems have om: "om \<in> set oms" by simp
    then obtain v' where "v' \<in> set vs" "vi_field v' = om_field om"
      using entries_same_fields [OF Cons.hyps(2)] by (metis image_eqI image_iff list.set_map)
    with Cons.prems have "vi_field v \<noteq> om_field om" by (force simp: image_iff)
    with Cons.IH Cons.prems om show ?thesis by simp
  qed (simp add: entry_agrees_def erased_entry_def)
qed simp

lemma dyn_object_impl_entries:
  assumes "dyn_object_impl tr opts = Inr out"
  shows "list_all2 entry_agrees (oo_inits out) (oo_methods out)"
    "map vi_field (oo_inits out) = map vtable_field (List.map_filter item_fn (tr_items tr))"
    "oo_fields out = [''__drop_in_place'', ''__layout''] @ map vi_field (oo_inits out)"
    "map om_sig (oo_methods out) = map fn_sig (List.map_filter item_fn (tr_items tr))"
    "list_all2 (\<lambda>m v. receiver_passed m (vi_fn_ptr v)) (List.map_filter item_fn (tr_items tr)) (oo_inits out)"
    "list_all2 (\<lambda>m om. receiver_passed m (om_fn_ptr om)) (List.map_filter item_fn (tr_items tr)) (oo_methods out)"
proof -
  from assms obtain ob where ob: "object_items (tr_items tr) (dyn_object_new tr opts) = Inr ob"
    "mmap vtable_method (ob_methods ob) = Inr (oo_inits out)"
    "mmap do_impl_method (ob_methods ob) = Inr (oo_methods out)"
    "oo_fields out = [''__drop_in_place'', ''__layout''] @ map vtable_field (ob_methods ob)"
    by (auto simp: dyn_object_impl_def mbind_eq_Inr)
  have m: "ob_methods ob = List.map_filter item_fn (tr_items tr)"
    using object_items_result [OF ob(1)] by (simp add: dyn_object_new_def)
  note e = mmap_entries_agree [OF ob(2,3)] mmap_receivers(1) [OF ob(2)] mmap_receivers(2) [OF ob(3)]
  show "list_all2 entry_agrees (oo_inits out) (oo_methods out)"
    "map vi_field (oo_inits out) = map vtable_field (List.map_filter item_fn (tr_items tr))"
    "oo_fields out = [''__drop_in_place'', ''__layout''] @ map vi_field (oo_inits out)"
    "map om_sig (oo_methods out) = map fn_sig (List.map_filter item_fn (tr_items tr))"
    "list_all2 (\<lambda>m v. receiver_passed m (vi_fn_ptr v)) (List.map_filter item_fn (tr_items tr)) (oo_inits out)"
    "list_all2 (\<lambda>m om. receiver_passed m (om_fn_ptr om)) (List.map_filter item_fn (tr_items tr)) (oo_methods out)"
    using e ob(4) m by simp_all
qed

context storage_contract
begin

lemma generated_call_ok:
  assumes out: "dyn_object_impl tr opts = Inr out" and om: "om \<in> set (oo_methods out)"
    and d: "distinct (map vtable_field (List.map_filter item_fn (tr_items tr)))"
    and ob: "vtable ob = generated_vt (oo_inits out) T" and r: "rep T v (storage ob) w"
    and T: "wf_rtype T" "wf_val E T v" and w: "wf_world w" and a: "place_ok S a"
    and len: "length (snd (body T v)) = size_of T"
  shows "\<exists>ob' w'. generated_call S E a om body ob w = (Ok (fst (body T v), ob'), w')
    \<and> vtable ob' = vtable ob \<and> rep T (snd (body T v)) (storage ob') w' \<and> wf_world w'
    \<and> own T (storage ob') = own T (storage ob) \<and> untouched (own T (storage ob)) w w'"
proof -
  note e = dyn_object_impl_entries [OF out]
  have "map_of (gv_entries (vtable ob)) (om_field om)
      = Some \<lparr>ef_self = receiver_of (om_self_as om), ef_method = sg_ident (om_sig om), ef_dyn = T\<rparr>"
    using entries_lookup [OF e(1) _ om, of T] d e(2) by (simp add: ob generated_vt_def)
  then show ?thesis
    using erased_call_ok [where body = body, OF r T w a refl len,
        of "receiver_of (om_self_as om)" "sg_ident (om_sig om)"]
    by (auto simp: generated_call_def)
qed

end


section \<open>The traits of \<open>src/impls.rs\<close>\<close>

definition pin_mut_self :: ty where
  "pin_mut_self = TyPath None [Seg ''core'' NoArgs, Seg ''pin'' NoArgs,
     Seg ''Pin'' (AngleBracketed [ArgType (TyReference None True ty_Self)])]"

definition context_ty :: ty where
  "context_ty = TyReference None True (TyPath None [Seg ''core'' NoArgs, Seg ''task'' NoArgs,
     Seg ''Context'' (AngleBracketed [ArgLifetime ''_''])])"

definition self_assoc :: "ident \<Rightarrow> ty" where
  "self_assoc x = TyPath None [Seg ''Self'' NoArgs, Seg x NoArgs]"

definition plain_sig :: "ident \<Rightarrow> fn_arg list \<Rightarrow> return_type \<Rightarrow> signature" where
  "plain_sig i args out_ty = \<lparr>sg_async = False, sg_unsafe = False, sg_ident = i,
     sg_generics = no_generics, sg_inputs = args, sg_output = out_ty\<rparr>"

definition plain_trait :: "ident \<Rightarrow> trait_item list \<Rightarrow> item_trait" where
  "plain_trait i items = \<lparr>tr_attrs = [], tr_vis = '''', tr_unsafe = False, tr_ident = i,
     tr_generics = no_generics, tr_supertraits = [], tr_items = items\<rparr>"

definition plain_type :: "ident \<Rightarrow> trait_item" where
  "plain_type i = TIType \<lparr>ty_attrs = [], ty_name = i, ty_generics = no_generics, ty_bounds = [], ty_default = None\<rparr>"

definition plain_fn :: "signature \<Rightarrow> trait_item" where
  "plain_fn sg = TIFn \<lparr>fn_attrs = [], fn_sig = sg, fn_default = None\<rparr>"

definition ref_self :: "bool \<Rightarrow> fn_arg" where
  "ref_self m = Receiver \<lparr>rc_reference = Some None, rc_mutability = m, rc_ty = TyReference None m ty_Self\<rparr>"

definition future_trait :: item_trait where
  "future_trait = plain_trait ''Future'' [plain_type ''Output'',
     plain_fn (plain_sig ''poll''
       [Receiver \<lparr>rc_reference = None, rc_mutability = False, rc_ty = pin_mut_self\<rparr>,
        Typed (PatIdent False False ''cx'' None) context_ty]
       (RType (TyPath None [Seg ''core'' NoArgs, Seg ''task'' NoArgs,
          Seg ''Poll'' (AngleBracketed [ArgType (self_assoc ''Output'')])])))]"

definition option_of :: "ty \<Rightarrow> ty" where
  "option_of t = TyPath None [Seg ''Option'' (AngleBracketed [ArgType t])]"

definition iterator_trait :: item_trait where
  "iterator_trait = plain_trait ''Iterator'' [plain_type ''Item'',
     plain_fn (plain_sig ''next'' [ref_self True] (RType (option_of (self_assoc ''Item'')))),
     plain_fn (plain_sig ''size_hint'' [ref_self False]
       (RType (TyTuple [ty_ident ''usize'', option_of (ty_ident ''usize'')]))),
     plain_fn (plain_sig ''nth'' [ref_self True, Typed (PatIdent False False ''n'' None) (ty_ident ''usize'')]
       (RType (option_of (self_assoc ''Item''))))]"

definition remote_opts :: "ident \<Rightarrow> path list \<Rightarrow> dyn_object_opts" where
  "remote_opts i bounds = \<lparr>doo_bounds = bounds, doo_crate = Some (ident_path ''crate''),
     doo_remote = Some (ident_path i)\<rparr>"

lemmas trait_example_defs =
  future_trait_def iterator_trait_def plain_trait_def plain_type_def plain_fn_def plain_sig_def
  no_generics_def ref_self_def pin_mut_self_def context_ty_def self_assoc_def option_of_def ident_path_def

lemmas expansion_simps =
  trait_example_defs macro_simps dyn_object_impl_def remote_opts_def dyn_object_new_def is_dispatchable_def
  has_dyn_trait_receiver_def last_segment_def vtable_method_def do_impl_method_def vtable_receiver_new_def
  vtable_fn_pointer_def receiver_lifetime_def Let_def generated_vt_def erased_entry_def

lemma future_expansion:
  "dyn_object_impl future_trait (remote_opts ''Future'' bounds) = Inr out
    \<Longrightarrow> gv_entries (generated_vt (oo_inits out) T) = [(''poll'', fv_poll (future_vt T))]
      \<and> map (\<lambda>om. (om_field om, receiver_of (om_self_as om))) (oo_methods out) = [(''poll'', ByPin)]"
  by (auto simp: expansion_simps future_vt_def)

lemma iterator_expansion:
  "dyn_object_impl iterator_trait (remote_opts ''Iterator'' bounds) = Inr out
    \<Longrightarrow> gv_entries (generated_vt (oo_inits out) T)
        = [(''next'', iv_next (iterator_vt T)), (''size_hint'', iv_size_hint (iterator_vt T)),
           (''nth'', iv_nth (iterator_vt T))]
      \<and> map (\<lambda>om. (om_field om, receiver_of (om_self_as om))) (oo_methods out)
        = [(''next'', ByMut), (''size_hint'', ByRef), (''nth'', ByMut)]"
  by (auto simp: expansion_simps iterator_vt_def)


section \<open>The body of a method that returns a \<open>DynObject\<close>\<close>

text \<open>
  Running \<open>DynObject::new(__Dyn::method(args))\<close>: \<open>call\<close> is what the method of the wrapped type
  returns, a value of its opaque type.
\<close>

fun eval_dyn_object ::
  "('s, 'y) storage_ops_scheme \<Rightarrow> (rtype \<Rightarrow> 'v) \<Rightarrow> (ident \<Rightarrow> arg_expr list \<Rightarrow> rtype \<times> rval)
    \<Rightarrow> block \<Rightarrow> (world, ('s, 'v) dynobj) op option" where
  "eval_dyn_object S vt call (DynObjectNew (CallDyn i args)) =
     Some (case call i args of (T, v) \<Rightarrow> dyn_new S vt T v)"
| "eval_dyn_object S vt call _ = None"

text \<open>What a method with an opaque return type becomes, without \<open>maybe_sync\<close>.\<close>

lemma rpit_items:
  assumes p: "parse_method pascal m dt = Inr (m', dt')" and attrs: "method_attrs_parse m = Inr (attrs, m')"
    and ms: "\<not> ma_maybe_sync attrs" and r: "has_rpit (fn_sig m)" and d: "is_dispatchable m"
  shows "\<exists>sg. dt_impl_items dt' = dt_impl_items dt
    @ [IIFn sg (DynObjectNew (CallDyn (sg_ident (fn_sig m)) (fn_args (fn_sig m))))]"
  using p
proof (cases rule: parse_method_cases)
  case (1 attrs' dm)
  note m' = method_attrs_parse_kept [OF 1(1)]
  have "is_dispatchable m'" using m' d by auto
  from dyn_method_new_ok(1,6) [OF 1(2) this] m' rpit_of_desugar [of "fn_sig m"] r
  have "dm_orig_sig dm = fn_sig m" "dm_rpit dm \<noteq> None" by simp_all
  with 1(4) show ?thesis by (simp add: dt_extend_def dm_impl_method_def Let_def impl_method_def)
next
  case (2 attrs' dm sync is_sync impl meth)
  with attrs ms show ?thesis by simp
qed


section \<open>The body of a \<open>maybe_sync\<close> method\<close>

text \<open>
  Running it: \<open>consts\<close> gives the associated constants of the wrapped type, \<open>sync_call\<close> and
  \<open>async_call\<close> its methods, the second with the future put into a \<open>DynObject\<close>.
\<close>

fun eval_maybe_sync ::
  "(ident \<Rightarrow> bool) \<Rightarrow> (ident \<Rightarrow> arg_expr list \<Rightarrow> 'o) \<Rightarrow> (ident \<Rightarrow> arg_expr list \<Rightarrow> 'f)
    \<Rightarrow> block \<Rightarrow> ('f, 'o) maybe_sync option" where
  "eval_maybe_sync consts sync_call async_call (IfConst c b1 b2) =
     eval_maybe_sync consts sync_call async_call (if consts c then b1 else b2)"
| "eval_maybe_sync consts sync_call async_call (MaybeSyncSync (CallDyn i args)) =
     Some (Sync (sync_call i args))"
| "eval_maybe_sync consts sync_call async_call (MaybeSyncAsync (DynObjectNew (CallDyn i args))) =
     Some (Async (async_call i args))"
| "eval_maybe_sync consts sync_call async_call _ = None"

fun impl_const :: "impl_item \<Rightarrow> (ident \<times> string) option" where
  "impl_const (IIConst i t v) = Some (i, v)"
| "impl_const (IIFn sg b) = None"
| "impl_const (IIType i t) = None"

fun trait_const :: "trait_item \<Rightarrow> (ident \<times> string) option" where
  "trait_const (TIConst c) = map_option (\<lambda>v. (co_name c, v)) (co_value c)"
| "trait_const (TIFn m) = None"
| "trait_const (TIType t) = None"
| "trait_const (TIOther s) = None"

text \<open>An associated constant: of the implementation, else the trait's default.\<close>

definition assoc_true :: "impl_item list \<Rightarrow> trait_item list \<Rightarrow> ident \<Rightarrow> bool" where
  "assoc_true impls defaults i =
     ((map_of (List.map_filter trait_const defaults) ++ map_of (List.map_filter impl_const impls)) i
       = Some ''true'')"

fun impl_fn :: "impl_item \<Rightarrow> (signature \<times> block) option" where
  "impl_fn (IIFn sg b) = Some (sg, b)"
| "impl_fn (IIConst i t v) = None"
| "impl_fn (IIType i t) = None"

text \<open>What one \<open>maybe_sync\<close> method adds to the expansion.\<close>

lemma maybe_sync_items:
  assumes p: "parse_method pascal m dt = Inr (m', dt')" and attrs: "method_attrs_parse m = Inr (attrs, m')"
    and ms: "ma_maybe_sync attrs" and n: "valid_ident (sg_ident (fn_sig m))"
  shows "\<exists>meth sync out_ty. let i = sg_ident (fn_sig m); args = fn_args (fn_sig m) in
    Option.bind (rpit_of (desugar_async (fn_sig m))) future_output = Some out_ty
    \<and> dt_additional dt' = dt_additional dt @ [TIFn sync,
        TIConst \<lparr>co_attrs = [doc_hidden], co_name = to_uppercase i @ ''_IS_SYNC'',
          co_ty = ty_ident ''bool'', co_value = Some ''false''\<rparr>]
    \<and> fn_sig sync = (fn_sig m)\<lparr>sg_async := False, sg_ident := i @ ''_sync'', sg_output := RType out_ty\<rparr>
    \<and> dt_items dt' = dt_items dt @ [TIFn meth]
    \<and> dt_impl_items dt' = dt_impl_items dt @ [IIFn (fn_sig meth)
        (IfConst (to_uppercase i @ ''_IS_SYNC'')
          (MaybeSyncSync (CallDyn (i @ ''_sync'') args))
          (MaybeSyncAsync (DynObjectNew (CallDyn i args))))]"
  using p
proof (cases rule: parse_method_cases)
  case (1 attrs' dm)
  with attrs ms show ?thesis by simp
next
  case (2 attrs' dm sync is_sync impl meth)
  note m' = method_attrs_parse_kept [OF 2(1)]
  have dm: "dm_orig_sig dm = fn_sig m" "dm_rpit dm = rpit_of (desugar_async (fn_sig m))"
  proof -
    have r: "rpit_of (desugar_async (pattern_as_arg_sig sg)) = rpit_of (desugar_async sg)" for sg
      by (simp add: rpit_of_def desugar_async_def Let_def)
    show "dm_orig_sig dm = fn_sig m" "dm_rpit dm = rpit_of (desugar_async (fn_sig m))"
      using 2(2) m' r by (auto simp: dyn_method_new_def Let_def mbind_eq_Inr split: option.splits)
  qed
  note names = sync_fn_ok [OF n] is_sync_const_ok [OF n]
  from 2(4) dm names obtain out_ty where o: "Option.bind (rpit_of (desugar_async (fn_sig m))) future_output = Some out_ty"
    "fn_sig sync = (fn_sig m)\<lparr>sg_async := False, sg_ident := sg_ident (fn_sig m) @ ''_sync'', sg_output := RType out_ty\<rparr>"
    by (auto simp: sync_method_def mbind_eq_Inr split: option.splits)
  from 2(7) obtain sg where sg: "maybe_sync_signature dm = Inr sg" "fn_sig meth = sg"
    by (auto simp: maybe_sync_method_def mbind_eq_Inr)
  show ?thesis
    using 2(5,6,8) dm names o sg
    by (auto simp: is_sync_item_def maybe_sync_impl_def dt_extend_def Let_def impl_method_def)
qed

end
