(* ===== verification/Any_Impl.thy ===== *)
theory Any_Impl
  imports Dyn_Call Raw_Or_Box
begin

text \<open>
  The \<open>any_impl!\<close> macro of \<open>src/impls.rs\<close>, instantiated for \<open>dyn Any\<close>, \<open>dyn Any + Send\<close> and
  \<open>dyn Any + Send + Sync\<close>: a vtable with the \<open>TypeId\<close> as a field, and the downcasts, which
  compare it before they touch the storage.
\<close>


section \<open>The vtable\<close>

record any_vtable = vtable +
  av_type_id :: type_id

text \<open>\<open>DynTrait\<close> for \<open>dyn Any\<close>.\<close>

definition any_dyn_trait :: "any_vtable dyn_trait_ops" where
  "any_dyn_trait = \<lparr>dt_drop_in_place_fn = (\<lambda>vtable. vt_drop_in_place vtable),
     dt_layout = (\<lambda>vtable. vt_layout vtable)\<rparr>"

lemma any_dyn_trait: "reads_fields any_dyn_trait"
  by (simp add: reads_fields_def any_dyn_trait_def drop_in_place_fn_def [abs_def] layout_fn_def [abs_def])

definition any_vt :: "rtype \<Rightarrow> any_vtable" where
  "any_vt T = \<lparr>vt_drop_in_place = DROP_IN_PLACE_FN T, vt_layout = tlayout T,
     av_type_id = type_id_of T\<rparr>"

interpretation any_vtable: vtable_contract any_vt
  by unfold_locales (simp_all add: any_vt_def layout_fn_def drop_in_place_fn_def)

lemma any_vt_type_id [simp]: "av_type_id (any_vt T) = type_id_of T"
  by (simp add: any_vt_def)


section \<open>Downcasts\<close>

definition any_type_id :: "('s, any_vtable) dynobj \<Rightarrow> type_id" where
  "any_type_id this = av_type_id (obj_vtable this)"

definition any_is :: "('s, any_vtable) dynobj \<Rightarrow> rtype \<Rightarrow> bool" where
  "any_is this T \<longleftrightarrow> any_type_id this = type_id_of T"

definition downcast_ref ::
  "('s, 'y) storage_ops_scheme \<Rightarrow> env \<Rightarrow> rtype \<Rightarrow> nat \<Rightarrow> ('s, any_vtable) dynobj \<Rightarrow> world \<Rightarrow> ptr option res" where
  "downcast_ref S E T a this w =
     (if any_is this T then map_res Some (so_as_ref S E T a (obj_storage this) w) else Ok None)"

definition downcast_mut ::
  "('s, 'y) storage_ops_scheme \<Rightarrow> env \<Rightarrow> rtype \<Rightarrow> nat \<Rightarrow> ('s, any_vtable) dynobj \<Rightarrow> world \<Rightarrow> ptr option res" where
  "downcast_mut S E T a this w =
     (if any_is this T then map_res Some (so_as_mut S E T a (obj_storage_mut this) w) else Ok None)"

text \<open>
  \<open>Result<T, Self>\<close>: \<open>Inr\<close> is the value moved out (\<open>self\<close> sits in a \<open>ManuallyDrop\<close>, so its own
  \<open>Drop\<close> does not run), \<open>Inl\<close> the object handed back.
\<close>

definition downcast ::
  "('s, 'y) storage_ops_scheme \<Rightarrow> env \<Rightarrow> rtype \<Rightarrow> nat \<Rightarrow> ('s, any_vtable) dynobj
    \<Rightarrow> (world, ('s, any_vtable) dynobj + rval) op" where
  "downcast S E T a this =
     (if any_is this T
      then bnd (throw (so_ptr_mut S a (obj_storage_mut this))) (\<lambda>p.
           bnd (gets (read_ref S E T a (obj_storage_mut this) p)) (\<lambda>obj.
           bnd (so_drop_in_place S (tlayout T) (obj_storage_mut this)) (\<lambda>_. ret (Inr obj))))
      else ret (Inl this))"

sublocale storage_contract \<subseteq> any: dyn_object S fits rep own any_vt
  by unfold_locales

context storage_contract
begin

lemma any_is_iff: "obj_rep rep any_vt T v ob w \<Longrightarrow> any_is ob U \<longleftrightarrow> T = U"
  by (simp add: obj_rep_def any_is_def any_type_id_def)

lemma downcast_ref_hit:
  assumes "obj_rep rep any_vt T v ob w" "wf_rtype T" "wf_val E T v" "place_ok S a"
  shows "\<exists>p. downcast_ref S E T a ob w = Ok (Some p) \<and> downcast_mut S E T a ob w = Ok (Some p)
    \<and> read_ref S E T a (storage ob) p w = Ok v"
  using ref_law [OF any.obj_rep_storage [OF assms(1)] assms(2-4)] any_is_iff [OF assms(1), of T]
  by (auto simp: downcast_ref_def downcast_mut_def)

lemma downcast_ref_miss:
  assumes "obj_rep rep any_vt T v ob w" "T \<noteq> U"
  shows "downcast_ref S E U a ob w = Ok None" "downcast_mut S E U a ob w = Ok None"
  using any_is_iff [OF assms(1), of U] assms(2)
  by (simp_all add: downcast_ref_def downcast_mut_def)

text \<open>Moving the value out frees the storage and does not drop the value.\<close>

lemma downcast_hit:
  assumes "obj_rep rep any_vt T v ob w" "wf_rtype T" "wf_val E T v" "place_ok S a" "wf_world w"
  shows "\<exists>w'. downcast S E T a ob w = (Ok (Inr v), w') \<and> wf_world w' \<and> frees (own T (storage ob)) w w'"
proof -
  from ref_law [OF any.obj_rep_storage [OF assms(1)] assms(2-4)] obtain p where
    p: "so_ptr_mut S a (storage ob) = Ok p" "read_ref S E T a (storage ob) p w = Ok v" by blast
  from drop_law [OF any.obj_rep_storage [OF assms(1)] assms(5)] obtain w' where
    "so_drop_in_place S (tlayout T) (storage ob) w = (Ok (), w')" "wf_world w'"
    "frees (own T (storage ob)) w w'" by blast
  with p any_is_iff [OF assms(1), of T] show ?thesis
    by (auto simp: downcast_def bnd_def)
qed

lemma downcast_miss:
  assumes "obj_rep rep any_vt T v ob w" "T \<noteq> U"
  shows "downcast S E U a ob w = (Ok (Inl ob), w)"
  using any_is_iff [OF assms(1), of U] assms(2) by (simp add: downcast_def)

text \<open>A downcast never misreads the storage, whatever type it asks for.\<close>

lemma downcast_no_ub:
  assumes "obj_rep rep any_vt T v ob w" "wf_rtype T" "wf_val E T v" "place_ok S a" "wf_world w"
  shows "\<not> is_ub (fst (downcast S E U a ob w))" "\<not> is_ub (downcast_ref S E U a ob w)"
    "\<not> is_ub (downcast_mut S E U a ob w)"
  using downcast_hit [OF assms] downcast_miss [OF assms(1), of U] downcast_ref_hit [OF assms(1-4)]
    downcast_ref_miss [OF assms(1), of U]
  by (cases "T = U"; force)+

text \<open>Round trip: what went in comes out, and the heap is as before.\<close>

lemma new_downcast:
  assumes "wf_rtype T" "wf_val E T v" "fits T" "wf_world w" "place_ok S a"
  shows "\<exists>ob w' w''. dyn_new S any_vt T v w = (Ok ob, w') \<and> downcast S E T a ob w' = (Ok (Inr v), w'')
    \<and> blocks w'' = blocks w \<and> dropped w'' = dropped w"
proof -
  from any.new_ok [OF assms(1) wf_val_length [OF assms(2)] assms(3,4)] obtain ob w' where
    ob: "dyn_new S any_vt T v w = (Ok ob, w')" "wf_world w'" "obj_rep rep any_vt T v ob w'"
    "frees (own T (storage ob)) w' w" by blast
  from downcast_hit [OF ob(3) assms(1,2,5) ob(2)] obtain w'' where
    "downcast S E T a ob w' = (Ok (Inr v), w'')" "frees (own T (storage ob)) w' w''" by blast
  with ob show ?thesis by (auto simp: frees_def)
qed

end

sublocale from_box_contract \<subseteq> any_fb: dyn_object_from_box S fits rep own any_vt
  by unfold_locales

end
