(* ===== verification/Client_Programs.thy ===== *)
theory Client_Programs
  imports Object_Programs Macro_Runtime Any_Impl
begin

text \<open>
  The programs of \<open>Object_Programs\<close> for \<open>dyn Any\<close>, whose methods are the downcasts of \<open>any_impl!\<close>,
  and for every trait that \<open>dyn_object\<close> accepts, whose methods are the generated ones. Each is a
  client of any storage (without \<open>from_box\<close>) and of any storage that has \<open>from_box\<close>.
\<close>


section \<open>\<open>dyn Any\<close>\<close>

datatype any_op = Take rtype | Read rtype | Write rtype rval | Is rtype

datatype any_out = Val "rval option" | Flag bool

text \<open>\<open>downcast\<close>, \<open>*downcast_ref()\<close>, \<open>*downcast_mut() = u\<close> and \<open>is\<close>.\<close>

fun use_any :: "('s, 'y) storage_ops_scheme \<Rightarrow> ('s, any_vtable, any_op, any_out) object_op" where
  "use_any S E (Take U) k ob w = (case downcast S E U k ob w of
      (Ok (Inr v), w') \<Rightarrow> (Ok (Val (Some v)), None, w')
    | (Ok (Inl ob'), w') \<Rightarrow> (Ok (Val None), Some ob', w')
    | (r, w') \<Rightarrow> (map_res (\<lambda>_. Val None) r, None, w'))"
| "use_any S E (Read U) k ob w = (case downcast_ref S E U k ob w of
      Ok (Some p) \<Rightarrow> (map_res (\<lambda>v. Val (Some v)) (read_ref S E U k (storage ob) p w), Some ob, w)
    | r \<Rightarrow> (map_res (\<lambda>_. Val None) r, Some ob, w))"
| "use_any S E (Write U u) k ob w = (case downcast_mut S E U k ob w of
      Ok (Some p) \<Rightarrow> (case write_ref S U k (storage ob) p u w of
          (Ok s, w') \<Rightarrow> (Ok (Flag True), Some (ob\<lparr>storage := s\<rparr>), w')
        | (r, w') \<Rightarrow> (map_res (\<lambda>_. Flag False) r, Some ob, w'))
    | r \<Rightarrow> (map_res (\<lambda>_. Flag False) r, Some ob, w))"
| "use_any S E (Is U) k ob w = (Ok (Flag (any_is ob U)), Some ob, w)"

fun value_any :: "(any_op, any_out) value_op" where
  "value_any (Take U) T v = (if U = T then (Ok (Val (Some v)), None) else (Ok (Val None), Some v))"
| "value_any (Read U) T v = (Ok (Val (if U = T then Some v else None)), Some v)"
| "value_any (Write U u) T v = (if U = T then (Ok (Flag True), Some u) else (Ok (Flag False), Some v))"
| "value_any (Is U) T v = (Ok (Flag (U = T)), Some v)"

fun any_use_ok :: "env \<Rightarrow> any_op \<Rightarrow> bool" where
  "any_use_ok E (Write U u) \<longleftrightarrow> wf_val E U u"
| "any_use_ok E c \<longleftrightarrow> True"

text \<open>A method that leaves the object as it is.\<close>

lemma op_agrees_same:
  "obj_rep rep vt T v ob w \<Longrightarrow> wf_val E T v \<Longrightarrow> wf_world w \<Longrightarrow> op_agrees rep own vt E T ob w (Some v) (Some ob) w"
  by (simp add: op_agrees_def)

context storage_contract
begin

lemma write_any:
  assumes o: "obj_rep rep any_vt T v ob w" "wf_rtype T" "wf_val E T v" and w: "wf_world w"
    and k: "place_ok S k" and u: "wf_val E T u"
  shows "\<exists>x w'. use_any S E (Write T u) k ob w = (Ok (Flag True), x, w')
    \<and> op_agrees rep own any_vt E T ob w (Some u) x w'"
proof -
  from downcast_ref_hit [OF o k] obtain q where q: "downcast_mut S E T k ob w = Ok (Some q)" by blast
  from ref_law [OF any.obj_rep_storage [OF o(1)] o(2,3) k] q have "so_ptr_mut S k (storage ob) = Ok q"
    by (auto simp: downcast_mut_def split: if_splits)
  from write_law [OF any.obj_rep_storage [OF o(1)] o(2) w wf_val_length [OF u] k this] obtain s w' where
    s: "write_ref S T k (storage ob) q u w = (Ok s, w')" "wf_world w'" "rep T u s w'"
    "own T s = own T (storage ob)" "untouched (own T (storage ob)) w w'" by blast
  with o(1) q u show ?thesis by (simp add: op_agrees_def obj_rep_def)
qed

lemma use_any_agrees:
  assumes c: "any_use_ok E c" and o: "obj_rep rep any_vt T v ob w" "wf_rtype T" "wf_val E T v"
    and w: "wf_world w" and k: "place_ok S k"
  shows "\<exists>x w'. use_any S E c k ob w = (fst (value_any c T v), x, w')
    \<and> op_agrees rep own any_vt E T ob w (snd (value_any c T v)) x w'"
proof -
  note same = op_agrees_same [OF o(1,3) w]
  show ?thesis
  proof (cases c)
    case (Take U)
    show ?thesis
    proof (cases "U = T")
      case True
      with downcast_hit [OF o k w] Take show ?thesis by (auto simp: op_agrees_def)
    next
      case False
      with downcast_miss [OF o(1), of U E k] Take same show ?thesis by simp
    qed
  next
    case (Read U)
    with downcast_ref_hit [OF o k] downcast_ref_miss [OF o(1), of U] same show ?thesis
      by (cases "U = T") auto
  next
    case (Write U u)
    with write_any [OF o w k, of u] downcast_ref_miss [OF o(1), of U] c same show ?thesis
      by (cases "U = T") auto
  next
    case (Is U)
    with any_is_iff [OF o(1), of U] same show ?thesis by auto
  qed
qed

end

sublocale storage_contract \<subseteq> any_client:
  object_client S fits rep own any_vt no_from_box False "use_any S" value_any any_use_ok
  by unfold_locales (simp, (rule use_any_agrees; assumption))

sublocale from_box_contract \<subseteq> any_box_client:
  object_client S fits rep own any_vt "dyn_from_box S any_vt" True "use_any S" value_any any_use_ok
  by unfold_locales (rule any_fb.from_box_ok use_any_agrees; assumption)+


section \<open>Traits of \<open>dyn_object\<close>\<close>

text \<open>
  A use names a method of the expansion and its arguments; \<open>bodies\<close> has what the types of the
  program implement the trait with, and may panic. The type variable of the arguments is whatever
  the program passes besides \<open>self\<close>.
\<close>

type_synonym ('x, 'r) method_bodies = "ident \<Rightarrow> 'x \<Rightarrow> rtype \<Rightarrow> rval \<Rightarrow> 'r res \<times> rval"

definition use_trait ::
  "('s, 'y) storage_ops_scheme \<Rightarrow> ('x, 'r) method_bodies
    \<Rightarrow> ('s, generated_vtable, object_method \<times> 'x, 'r) object_op" where
  "use_trait S bodies E c k ob w =
     (case generated_call S E k (fst c) (bodies (sg_ident (om_sig (fst c))) (snd c)) ob w of
        (Ok (r, ob'), w') \<Rightarrow> (r, Some ob', w')
      | (Panic s, w') \<Rightarrow> (Panic s, Some ob, w')
      | (UB u, w') \<Rightarrow> (UB u, Some ob, w')
      | (BuildError s, w') \<Rightarrow> (BuildError s, Some ob, w'))"

definition value_trait :: "('x, 'r) method_bodies \<Rightarrow> (object_method \<times> 'x, 'r) value_op" where
  "value_trait bodies c T v = map_prod id Some (bodies (sg_ident (om_sig (fst c))) (snd c) T v)"

text \<open>The expansion of a trait with distinct method names, as Rust asks.\<close>

definition expansion_of :: "item_trait \<Rightarrow> dyn_object_opts \<Rightarrow> dyn_object_output \<Rightarrow> bool" where
  "expansion_of tr opts out \<longleftrightarrow> dyn_object_impl tr opts = Inr out
     \<and> distinct (map vtable_field (List.map_filter item_fn (tr_items tr)))"

definition bodies_closed :: "env \<Rightarrow> ('x, 'r) method_bodies \<Rightarrow> bool" where
  "bodies_closed E bodies \<longleftrightarrow> (\<forall>m x T v. wf_val E T v \<longrightarrow> wf_val E T (snd (bodies m x T v)))"

definition trait_use_ok ::
  "('x, 'r) method_bodies \<Rightarrow> item_trait \<Rightarrow> dyn_object_opts \<Rightarrow> dyn_object_output \<Rightarrow> env \<Rightarrow> object_method \<times> 'x \<Rightarrow> bool" where
  "trait_use_ok bodies tr opts out E c \<longleftrightarrow>
     expansion_of tr opts out \<and> bodies_closed E bodies \<and> fst c \<in> set (oo_methods out)"

context storage_contract
begin

lemma use_trait_agrees:
  assumes c: "trait_use_ok bodies tr opts out E c"
    and o: "obj_rep rep (generated_vt (oo_inits out)) T v ob w" "wf_rtype T" "wf_val E T v"
    and w: "wf_world w" and k: "place_ok S k"
  shows "\<exists>x w'. use_trait S bodies E c k ob w = (fst (value_trait bodies c T v), x, w')
    \<and> op_agrees rep own (generated_vt (oo_inits out)) E T ob w (snd (value_trait bodies c T v)) x w'"
proof -
  let ?body = "bodies (sg_ident (om_sig (fst c))) (snd c)"
  from c have e: "dyn_object_impl tr opts = Inr out" "fst c \<in> set (oo_methods out)"
    "distinct (map vtable_field (List.map_filter item_fn (tr_items tr)))"
    by (simp_all add: trait_use_ok_def expansion_of_def)
  from c o(3) have u: "wf_val E T (snd (?body T v))" by (simp add: trait_use_ok_def bodies_closed_def)
  from generated_call_ok [where body = ?body, OF e _ _ o(2,3) w k wf_val_length [OF u], of ob] o(1)
  obtain ob' w' where
    r: "generated_call S E k (fst c) ?body ob w = (Ok (fst (?body T v), ob'), w')"
    "vtable ob' = vtable ob" "rep T (snd (?body T v)) (storage ob') w'" "wf_world w'"
    "own T (storage ob') = own T (storage ob)" "untouched (own T (storage ob)) w w'"
    by (auto simp: obj_rep_def)
  with o(1) u show ?thesis
    by (auto simp: use_trait_def value_trait_def op_agrees_def obj_rep_def)
qed

end

sublocale storage_contract \<subseteq> trait_client:
  object_client S fits rep own "generated_vt (oo_inits out)" no_from_box False
    "use_trait S bodies" "value_trait bodies" "trait_use_ok bodies tr opts out"
  for bodies :: "('x, 'r) method_bodies" and tr opts out
  by unfold_locales (simp, (rule use_trait_agrees; assumption))

sublocale from_box_contract \<subseteq> gen_fb: dyn_object_from_box S fits rep own "generated_vt inits" for inits
  by unfold_locales

sublocale from_box_contract \<subseteq> trait_box_client:
  object_client S fits rep own "generated_vt (oo_inits out)" "dyn_from_box S (generated_vt (oo_inits out))" True
    "use_trait S bodies" "value_trait bodies" "trait_use_ok bodies tr opts out"
  for bodies :: "('x, 'r) method_bodies" and tr opts out
  by unfold_locales (rule gen_fb.from_box_ok use_trait_agrees; assumption)+


section \<open>What a program sees of a storage\<close>

definition any_program ::
  "('s, 'y) storage_ops_scheme \<Rightarrow> ('s, any_vtable) box_op \<Rightarrow> env \<Rightarrow> (nat \<Rightarrow> nat) \<Rightarrow> any_op cmd list
    \<Rightarrow> any_out obs res list \<times> (rtype \<times> rval) list" where
  "any_program S fb E addr cs = observed (run_prog S any_vt fb (use_any S) E addr cs init_mach)"

definition any_spec :: "env \<Rightarrow> any_op cmd list \<Rightarrow> any_out obs res list \<times> (rtype \<times> rval) list" where
  "any_spec E cs = spec_observed (spec_prog value_any E cs init_amach)"

definition trait_program ::
  "('s, 'y) storage_ops_scheme \<Rightarrow> ('s, generated_vtable) box_op \<Rightarrow> dyn_object_output \<Rightarrow> ('x, 'r) method_bodies
    \<Rightarrow> env \<Rightarrow> (nat \<Rightarrow> nat) \<Rightarrow> (object_method \<times> 'x) cmd list \<Rightarrow> 'r obs res list \<times> (rtype \<times> rval) list" where
  "trait_program S fb out bodies E addr cs =
     observed (run_prog S (generated_vt (oo_inits out)) fb (use_trait S bodies) E addr cs init_mach)"

definition trait_spec ::
  "('x, 'r) method_bodies \<Rightarrow> env \<Rightarrow> (object_method \<times> 'x) cmd list \<Rightarrow> 'r obs res list \<times> (rtype \<times> rval) list" where
  "trait_spec bodies E cs = spec_observed (spec_prog (value_trait bodies) E cs init_amach)"

lemma raw_place_of_rob: "place_ok (rob_ops cfg SIZE ALIGN) a \<Longrightarrow> place_ok (raw_ops cfg SIZE ALIGN) a"
  using pow2_dvd_max [of "align_val ALIGN" "align_val (usize_align cfg)"]
  by (auto simp: place_ok_def rob_align_def intro: dvd_trans)

lemma rob_any_program:
  assumes "list_all (cmd_ok E (rob_fits cfg SIZE ALIGN) (alloc_feature cfg) any_use_ok) cs"
    and "\<And>i. place_ok (rob_ops cfg SIZE ALIGN) (addr i)"
  shows "any_program (rob_ops cfg SIZE ALIGN) (dyn_from_box (rob_ops cfg SIZE ALIGN) any_vt) E addr cs = any_spec E cs"
  unfolding any_program_def any_spec_def
  by (rule rob.any_box_client.prog_observed [OF cmd_ok_mono [OF assms(1)] assms(2)]) simp_all

lemma box_any_program:
  assumes "list_all (cmd_ok E fits (alloc_feature cfg) any_use_ok) cs"
    and "\<And>i. place_ok (box_ops cfg) (addr i)"
  shows "any_program (box_ops cfg) (dyn_from_box (box_ops cfg) any_vt) E addr cs = any_spec E cs"
  unfolding any_program_def any_spec_def
  by (rule box.any_box_client.prog_observed [OF cmd_ok_mono [OF assms(1)] assms(2)]) simp_all

lemma raw_any_program:
  assumes "list_all (cmd_ok E (can_store SIZE ALIGN) False any_use_ok) cs"
    and "\<And>i. place_ok (raw_ops cfg SIZE ALIGN) (addr i)"
  shows "any_program (raw_ops cfg SIZE ALIGN) no_from_box E addr cs = any_spec E cs"
  unfolding any_program_def any_spec_def
  by (rule raw.any_client.prog_observed [OF assms])

text \<open>Calls of methods that the expansion has.\<close>

definition calls_of :: "dyn_object_output \<Rightarrow> env \<Rightarrow> object_method \<times> 'x \<Rightarrow> bool" where
  "calls_of out E c \<longleftrightarrow> fst c \<in> set (oo_methods out)"

lemma rob_trait_program:
  assumes "expansion_of tr opts out" "bodies_closed E bodies"
    and "list_all (cmd_ok E (rob_fits cfg SIZE ALIGN) (alloc_feature cfg) (calls_of out)) cs"
    and "\<And>i. place_ok (rob_ops cfg SIZE ALIGN) (addr i)"
  shows "trait_program (rob_ops cfg SIZE ALIGN) (dyn_from_box (rob_ops cfg SIZE ALIGN) (generated_vt (oo_inits out)))
      out bodies E addr cs = trait_spec bodies E cs"
  unfolding trait_program_def trait_spec_def
  by (rule rob.trait_box_client.prog_observed [where tr = tr and opts = opts, OF cmd_ok_mono [OF assms(3)] assms(4)])
    (use assms(1,2) in \<open>simp_all add: trait_use_ok_def calls_of_def\<close>)

lemma box_trait_program:
  assumes "expansion_of tr opts out" "bodies_closed E bodies"
    and "list_all (cmd_ok E fits (alloc_feature cfg) (calls_of out)) cs"
    and "\<And>i. place_ok (box_ops cfg) (addr i)"
  shows "trait_program (box_ops cfg) (dyn_from_box (box_ops cfg) (generated_vt (oo_inits out)))
      out bodies E addr cs = trait_spec bodies E cs"
  unfolding trait_program_def trait_spec_def
  by (rule box.trait_box_client.prog_observed [where tr = tr and opts = opts, OF cmd_ok_mono [OF assms(3)] assms(4)])
    (use assms(1,2) in \<open>simp_all add: trait_use_ok_def calls_of_def\<close>)

lemma raw_trait_program:
  assumes "expansion_of tr opts out" "bodies_closed E bodies"
    and "list_all (cmd_ok E (can_store SIZE ALIGN) False (calls_of out)) cs"
    and "\<And>i. place_ok (raw_ops cfg SIZE ALIGN) (addr i)"
  shows "trait_program (raw_ops cfg SIZE ALIGN) no_from_box out bodies E addr cs = trait_spec bodies E cs"
  unfolding trait_program_def trait_spec_def
  by (rule raw.trait_client.prog_observed [where tr = tr and opts = opts, OF cmd_ok_mono [OF assms(3)] assms(4)])
    (use assms(1,2) in \<open>simp_all add: trait_use_ok_def calls_of_def\<close>)

end
