(* ===== verification/Lifecycle.thy ===== *)
theory Lifecycle
  imports Any_Impl "HOL-Library.Multiset"
begin

text \<open>
  Any safe program over \<open>DynObject<dyn Any, S>\<close> variables as a transition system: it creates
  objects, from values or from boxes, drops them (with the panic of a destructor caught), moves them between variables,
  downcasts by value, mutates through \<open>downcast_mut\<close>, and overwrites slots with \<open>insert\<close>.
  The steps call the model's operations; the invariant says that each variable holds a value of
  the type its vtable names, that no two share an allocation, and that every value that needs
  dropping is live, dropped or moved out, each exactly once.

  Variable \<open>i\<close> lives at the address \<open>addr i\<close>. \<open>created\<close> and \<open>taken\<close> are ghost state.
\<close>

record 's sys =
  heap :: world
  vars :: "nat \<Rightarrow> ('s, any_vtable) dynobj option"
  created :: "rtype multiset"
  taken :: "rtype multiset"

definition init_sys :: "'s sys" where
  "init_sys = \<lparr>heap = empty_world, vars = Map.empty, created = {#}, taken = {#}\<rparr>"

inductive client_step ::
  "('s, 'y) from_box_ops_scheme \<Rightarrow> (rtype \<Rightarrow> bool) \<Rightarrow> env \<Rightarrow> (nat \<Rightarrow> nat) \<Rightarrow> 's sys \<Rightarrow> 's sys \<Rightarrow> bool"
  for S fits E addr where
  step_new: "vars s i = None \<Longrightarrow> wf_rtype T \<Longrightarrow> wf_val E T v \<Longrightarrow> fits T \<Longrightarrow>
     dyn_new S any_vt T v (heap s) = (Ok ob, w') \<Longrightarrow>
     client_step S fits E addr s
       (s\<lparr>heap := w', vars := (vars s)(i \<mapsto> ob), created := add_mset T (created s)\<rparr>)"
| step_from_box: "vars s i = None \<Longrightarrow> wf_rtype T \<Longrightarrow> wf_val E T v \<Longrightarrow>
     std_box_new T v (heap s) = (Ok p, w1) \<Longrightarrow> dyn_from_box S any_vt E T p w1 = (Ok ob, w') \<Longrightarrow>
     client_step S fits E addr s
       (s\<lparr>heap := w', vars := (vars s)(i \<mapsto> ob), created := add_mset T (created s)\<rparr>)"
| step_drop: "vars s i = Some ob \<Longrightarrow> dyn_drop S E (addr i) ob (heap s) = (r, w') \<Longrightarrow>
     client_step S fits E addr s (s\<lparr>heap := w', vars := (vars s)(i := None)\<rparr>)"
| step_move: "vars s i = Some ob \<Longrightarrow> vars s j = None \<Longrightarrow>
     client_step S fits E addr s (s\<lparr>vars := (vars s)(i := None, j \<mapsto> ob)\<rparr>)"
| step_take: "vars s i = Some ob \<Longrightarrow> downcast S E T (addr i) ob (heap s) = (Ok (Inr v), w') \<Longrightarrow>
     client_step S fits E addr s
       (s\<lparr>heap := w', vars := (vars s)(i := None), taken := add_mset T (taken s)\<rparr>)"
| step_keep: "vars s i = Some ob \<Longrightarrow> downcast S E T (addr i) ob (heap s) = (Ok (Inl ob'), w') \<Longrightarrow>
     client_step S fits E addr s (s\<lparr>heap := w', vars := (vars s)(i \<mapsto> ob')\<rparr>)"
| step_mutate: "vars s i = Some ob \<Longrightarrow> downcast_mut S E T (addr i) ob (heap s) = Ok (Some p) \<Longrightarrow>
     wf_val E T u \<Longrightarrow> write_ref S T (addr i) (storage ob) p u (heap s) = (Ok st', w') \<Longrightarrow>
     client_step S fits E addr s (s\<lparr>heap := w', vars := (vars s)(i \<mapsto> ob\<lparr>storage := st'\<rparr>)\<rparr>)"
| step_insert: "wf_rtype T \<Longrightarrow> wf_val E T v \<Longrightarrow> fits T \<Longrightarrow>
     dyn_insert S any_vt E T (addr i) (vars s i) v (heap s) = (r, this', w') \<Longrightarrow>
     client_step S fits E addr s
       (s\<lparr>heap := w', vars := (vars s)(i := this'), created := add_mset T (created s)\<rparr>)"

inductive reachable ::
  "('s, 'y) from_box_ops_scheme \<Rightarrow> (rtype \<Rightarrow> bool) \<Rightarrow> env \<Rightarrow> (nat \<Rightarrow> nat) \<Rightarrow> 's sys \<Rightarrow> bool"
  for S fits E addr where
  start: "reachable S fits E addr init_sys"
| step: "reachable S fits E addr s \<Longrightarrow> client_step S fits E addr s s' \<Longrightarrow> reachable S fits E addr s'"


section \<open>The invariant\<close>

text \<open>The concrete type of an object, read off its vtable.\<close>

fun obj_type :: "('s, any_vtable) dynobj \<Rightarrow> rtype" where
  "obj_type ob = (case av_type_id (vtable ob) of TypeId T \<Rightarrow> T)"

lemma obj_type_rep: "obj_rep rep any_vt T v ob w \<Longrightarrow> obj_type ob = T"
  by (simp add: obj_rep_def type_id_of_def)

definition owned :: "(rtype \<Rightarrow> 's \<Rightarrow> nat set) \<Rightarrow> ('s, any_vtable) dynobj option \<Rightarrow> nat set" where
  "owned own x = (case x of None \<Rightarrow> {} | Some ob \<Rightarrow> own (obj_type ob) (storage ob))"

definition slot_ok ::
  "(rtype \<Rightarrow> rval \<Rightarrow> 's \<Rightarrow> world \<Rightarrow> bool) \<Rightarrow> env \<Rightarrow> ('s, any_vtable) dynobj option \<Rightarrow> world \<Rightarrow> bool" where
  "slot_ok rep E x w \<longleftrightarrow> (case x of None \<Rightarrow> True
     | Some ob \<Rightarrow> wf_rtype (obj_type ob)
         \<and> (\<exists>v. wf_val E (obj_type ob) v \<and> obj_rep rep any_vt (obj_type ob) v ob w))"

definition live_types :: "(nat \<Rightarrow> ('s, any_vtable) dynobj option) \<Rightarrow> rtype multiset" where
  "live_types vs = image_mset (\<lambda>i. obj_type (the (vs i))) (mset_set (dom vs))"

definition dropping :: "rtype multiset \<Rightarrow> rtype multiset" where
  "dropping M = filter_mset tneeds_drop M"

definition dropped_types :: "world \<Rightarrow> rtype multiset" where
  "dropped_types w = image_mset fst (mset (dropped w))"

definition heap_inv ::
  "(rtype \<Rightarrow> rval \<Rightarrow> 's \<Rightarrow> world \<Rightarrow> bool) \<Rightarrow> (rtype \<Rightarrow> 's \<Rightarrow> nat set) \<Rightarrow> env \<Rightarrow> 's sys \<Rightarrow> bool" where
  "heap_inv rep own E s \<longleftrightarrow> wf_world (heap s) \<and> finite (dom (vars s))
     \<and> (\<forall>i. slot_ok rep E (vars s i) (heap s))
     \<and> (\<forall>i j. i \<noteq> j \<longrightarrow> owned own (vars s i) \<inter> owned own (vars s j) = {})"

definition exact_heap :: "(rtype \<Rightarrow> 's \<Rightarrow> nat set) \<Rightarrow> 's sys \<Rightarrow> bool" where
  "exact_heap own s \<longleftrightarrow> dom (blocks (heap s)) = (\<Union>i. owned own (vars s i))"

definition balanced :: "'s sys \<Rightarrow> bool" where
  "balanced s \<longleftrightarrow> dropping (created s)
     = dropping (live_types (vars s)) + dropped_types (heap s) + dropping (taken s)"

lemma owned_simps [simp]:
  "owned own None = {}" "owned own (Some ob) = own (obj_type ob) (storage ob)"
  by (simp_all add: owned_def)

lemma slot_ok_None [simp]: "slot_ok rep E None w"
  by (simp add: slot_ok_def)

lemma slot_ok_SomeI:
  "obj_rep rep any_vt T v ob w \<Longrightarrow> wf_rtype T \<Longrightarrow> wf_val E T v \<Longrightarrow> slot_ok rep E (Some ob) w"
  using obj_type_rep [of rep T v ob w] by (auto simp: slot_ok_def)

lemma slot_ok_SomeE:
  assumes "slot_ok rep E (Some ob) w"
  obtains T v where "obj_type ob = T" "wf_rtype T" "wf_val E T v" "obj_rep rep any_vt T v ob w"
  using assms by (auto simp: slot_ok_def)

lemma dropping_simps [simp]:
  "dropping (M + N) = dropping M + dropping N" "dropping {#} = {#}"
  "dropping (add_mset T M) = (if tneeds_drop T then add_mset T (dropping M) else dropping M)"
  by (simp_all add: dropping_def)

lemma dropped_types_trace:
  "dropped w' = dropped w @ drop_trace T v \<Longrightarrow> dropped_types w' = dropped_types w + dropping {#T#}"
  by (simp add: dropped_types_def drop_trace_def)

lemma live_types_insert:
  "finite (dom vs) \<Longrightarrow> vs i = None \<Longrightarrow> live_types (vs(i \<mapsto> ob)) = add_mset (obj_type ob) (live_types vs)"
proof -
  assume fin: "finite (dom vs)" and none: "vs i = None"
  then have "mset_set (dom (vs(i \<mapsto> ob))) = add_mset i (mset_set (dom vs))"
    by (simp add: domIff)
  moreover have "image_mset (\<lambda>j. obj_type (the ((vs(i \<mapsto> ob)) j))) (mset_set (dom vs))
      = image_mset (\<lambda>j. obj_type (the (vs j))) (mset_set (dom vs))"
    using none fin by (intro image_mset_cong) (auto simp: domIff)
  ultimately show ?thesis by (simp add: live_types_def)
qed

lemma live_types_remove:
  assumes "finite (dom vs)" "vs i = Some ob"
  shows "live_types vs = add_mset (obj_type ob) (live_types (vs(i := None)))"
proof -
  have "live_types ((vs(i := None))(i \<mapsto> ob)) = add_mset (obj_type ob) (live_types (vs(i := None)))"
    using assms(1) by (intro live_types_insert) auto
  moreover have "(vs(i := None))(i \<mapsto> ob) = vs" using assms(2) by auto
  ultimately show ?thesis by simp
qed

lemma live_types_update:
  assumes "finite (dom vs)" "vs i = Some ob" "obj_type ob' = obj_type ob"
  shows "live_types (vs(i \<mapsto> ob')) = live_types vs"
  using live_types_remove [OF assms(1,2)] live_types_insert [of "vs(i := None)" i ob'] assms
  by simp


text \<open>
  What a step does to one slot \<open>i\<close> (every step but a move): the premises of the update lemma,
  and how the ghost counts change.
\<close>

definition slot_effect ::
  "(rtype \<Rightarrow> rval \<Rightarrow> 's \<Rightarrow> world \<Rightarrow> bool) \<Rightarrow> (rtype \<Rightarrow> 's \<Rightarrow> nat set) \<Rightarrow> env \<Rightarrow> 's sys \<Rightarrow> 's sys \<Rightarrow> nat \<Rightarrow> ('s, any_vtable) dynobj option \<Rightarrow> bool" where
  "slot_effect rep own E s s' i x \<longleftrightarrow> vars s' = (vars s)(i := x) \<and> wf_world (heap s')
     \<and> slot_ok rep E x (heap s')
     \<and> owned own x \<inter> (dom (blocks (heap s)) - owned own (vars s i)) = {}
     \<and> (\<forall>a. a \<in> dom (blocks (heap s)) \<and> a \<notin> owned own (vars s i) \<longrightarrow>
            blocks (heap s') a = blocks (heap s) a)
     \<and> ((\<forall>T v. \<not> drop_panics E T v) \<longrightarrow>
          dom (blocks (heap s')) = (dom (blocks (heap s)) - owned own (vars s i)) \<union> owned own x)"


context storage_contract
begin

lemma slot_own_dom: "slot_ok rep E x w \<Longrightarrow> owned own x \<subseteq> dom (blocks w)"
  by (cases x) (auto elim!: slot_ok_SomeE dest!: any.obj_rep_storage own_dom)

lemma slot_frame:
  assumes "slot_ok rep E x w" "\<And>a. a \<in> owned own x \<Longrightarrow> blocks w' a = blocks w a"
  shows "slot_ok rep E x w'"
proof (cases x)
  case (Some ob)
  with assms(1) obtain T v where
    o: "obj_type ob = T" "wf_rtype T" "wf_val E T v" "obj_rep rep any_vt T v ob w"
    by (auto elim: slot_ok_SomeE)
  have "obj_rep rep any_vt T v ob w'"
    using o(4) by (rule any.obj_rep_frame) (use assms(2) Some o(1) in simp)
  with o Some show ?thesis by (auto intro: slot_ok_SomeI)
qed simp

lemma fresh_new:
  assumes "heap_inv rep own E s" "A \<inter> (dom (blocks (heap s)) - owned own (vars s i)) = {}" "j \<noteq> i"
  shows "A \<inter> owned own (vars s j) = {}"
proof -
  have "owned own (vars s j) \<subseteq> dom (blocks (heap s))"
    using assms(1) slot_own_dom unfolding heap_inv_def by blast
  moreover have "owned own (vars s j) \<inter> owned own (vars s i) = {}"
    using assms(1,3) unfolding heap_inv_def by blast
  ultimately show ?thesis using assms(2) by blast
qed

text \<open>
  The one update lemma: slot \<open>i\<close> changes from its old content to \<open>x\<close>, and the heap changes
  only in blocks the old content owned or blocks \<open>x\<close> newly owns.
\<close>

lemma heap_inv_update:
  assumes inv: "heap_inv rep own E s" and w': "wf_world w'" and x: "slot_ok rep E x w'"
    and new: "\<And>j. j \<noteq> i \<Longrightarrow> owned own x \<inter> owned own (vars s j) = {}"
    and other: "\<And>a. a \<in> dom (blocks (heap s)) \<Longrightarrow> a \<notin> owned own (vars s i) \<Longrightarrow>
        blocks w' a = blocks (heap s) a"
    and s': "heap s' = w'" "vars s' = (vars s)(i := x)"
  shows "heap_inv rep own E s'"
proof -
  have dom: "owned own (vars s j) \<subseteq> dom (blocks (heap s))" for j
    using inv slot_own_dom unfolding heap_inv_def by blast
  have disj: "owned own (vars s j) \<inter> owned own (vars s k) = {}" if "j \<noteq> k" for j k
    using inv that unfolding heap_inv_def by blast
  have slot: "slot_ok rep E (vars s j) w'" if "j \<noteq> i" for j
  proof (rule slot_frame)
    show "slot_ok rep E (vars s j) (heap s)" using inv by (simp add: heap_inv_def)
    show "blocks w' a = blocks (heap s) a" if "a \<in> owned own (vars s j)" for a
      using that other dom [of j] disj [OF \<open>j \<noteq> i\<close>] by blast
  qed
  have fin: "finite (dom (vars s'))"
    using inv s'(2) unfolding heap_inv_def by (simp add: finite_subset [of _ "insert i (dom (vars s))"])
  have "owned own (vars s' j) \<inter> owned own (vars s' k) = {}" if "j \<noteq> k" for j k
    using disj [OF that] new that s'(2) by (cases "j = i"; cases "k = i") (auto simp: Int_commute)
  with fin w' x slot s' show ?thesis by (auto simp: heap_inv_def)
qed

lemma exact_heap_update:
  assumes "exact_heap own s" and inv: "heap_inv rep own E s"
    and dom: "dom (blocks w') = (dom (blocks (heap s)) - owned own (vars s i)) \<union> owned own x"
    and s': "heap s' = w'" "vars s' = (vars s)(i := x)"
  shows "exact_heap own s'"
proof -
  have disj: "owned own (vars s j) \<inter> owned own (vars s i) = {}" if "j \<noteq> i" for j
    using inv that unfolding heap_inv_def by blast
  have "(\<Union>j. owned own (vars s' j)) = (\<Union>j\<in>- {i}. owned own (vars s j)) \<union> owned own x"
    unfolding s' by (auto split: if_splits)
  moreover have "(\<Union>j\<in>- {i}. owned own (vars s j)) = (\<Union>j. owned own (vars s j)) - owned own (vars s i)"
    using disj by auto
  ultimately show ?thesis
    using assms(1) dom s' unfolding exact_heap_def by simp
qed

lemma slot_effect_inv: "heap_inv rep own E s \<Longrightarrow> slot_effect rep own E s s' i x \<Longrightarrow> heap_inv rep own E s'"
  by (rule heap_inv_update [of E s "heap s'" x i s']) (auto simp: slot_effect_def dest: fresh_new)

lemma slot_effect_exact:
  "heap_inv rep own E s \<Longrightarrow> exact_heap own s \<Longrightarrow> slot_effect rep own E s s' i x
    \<Longrightarrow> (\<And>T v. \<not> drop_panics E T v) \<Longrightarrow> exact_heap own s'"
  by (rule exact_heap_update [of s E "heap s'" i x s']) (auto simp: slot_effect_def)

lemma heap_inv_slot: "heap_inv rep own E s \<Longrightarrow> slot_ok rep E (vars s i) (heap s)"
  by (simp add: heap_inv_def)

lemma heap_inv_wf: "heap_inv rep own E s \<Longrightarrow> wf_world (heap s)"
  by (simp add: heap_inv_def)

lemma heap_inv_finite: "heap_inv rep own E s \<Longrightarrow> finite (dom (vars s))"
  by (simp add: heap_inv_def)

lemma heap_inv_object:
  assumes "heap_inv rep own E s" "vars s i = Some ob"
  obtains T v where "obj_type ob = T" "wf_rtype T" "wf_val E T v" "obj_rep rep any_vt T v ob (heap s)"
  using heap_inv_slot [OF assms(1), of i] assms(2) by (auto elim: slot_ok_SomeE)

lemma dom_of_frees: "frees A w w' \<Longrightarrow> dom (blocks w') = dom (blocks w) - A"
  by (auto simp: frees_def restrict_map_def split: if_splits)

lemma dom_of_unfrees: "frees A w' w \<Longrightarrow> dom (blocks w') = dom (blocks w) \<union> A"
  by (auto simp: frees_def restrict_map_def split: if_splits)

text \<open>A slot that was empty gets an object in blocks that were free.\<close>

lemma effect_fresh:
  assumes i: "vars s i = None" and T: "wf_rtype T" "wf_val E T v"
    and ob: "wf_world w'" "obj_rep rep any_vt T v ob w'" "frees (own T (storage ob)) w' (heap s)"
    and s': "heap s' = w'" "vars s' = (vars s)(i \<mapsto> ob)"
  shows "slot_effect rep own E s s' i (Some ob) \<and> dropped w' = dropped (heap s) \<and> obj_type ob = T"
proof -
  have ty: "obj_type ob = T" using ob(2) by (rule obj_type_rep)
  have "blocks w' a = blocks (heap s) a" if "a \<in> dom (blocks (heap s))" for a
    using frees_blocks [OF ob(3), of a] frees_fresh [OF ob(3)] that by (metis disjoint_iff)
  with ob ty i s' T dom_of_unfrees [OF ob(3)] frees_fresh [OF ob(3)] show ?thesis
    unfolding slot_effect_def by (auto intro: slot_ok_SomeI simp: frees_def)
qed

lemma effect_new:
  assumes inv: "heap_inv rep own E s" and i: "vars s i = None"
    and T: "wf_rtype T" "wf_val E T v" "fits T"
    and run: "dyn_new S any_vt T v (heap s) = (Ok ob, w')"
    and s': "heap s' = w'" "vars s' = (vars s)(i \<mapsto> ob)"
  shows "slot_effect rep own E s s' i (Some ob) \<and> dropped w' = dropped (heap s) \<and> obj_type ob = T"
proof -
  from any.new_ok [OF T(1) wf_val_length [OF T(2)] T(3) heap_inv_wf [OF inv]] run
  have "wf_world w'" "obj_rep rep any_vt T v ob w'" "frees (own T (storage ob)) w' (heap s)"
    by auto
  then show ?thesis by (rule effect_fresh [OF i T(1,2) _ _ _ s'])
qed

lemma effect_drop:
  assumes inv: "heap_inv rep own E s" and i: "vars s i = Some ob" and a: "place_ok S a"
    and run: "dyn_drop S E a ob (heap s) = (r, w')"
    and s': "heap s' = w'" "vars s' = (vars s)(i := None)"
  shows "slot_effect rep own E s s' i None \<and> \<not> is_ub r
    \<and> dropped_types w' = dropped_types (heap s) + dropping {#obj_type ob#}"
proof -
  from heap_inv_object [OF inv i] obtain T v where
    o: "obj_type ob = T" "wf_rtype T" "wf_val E T v" "obj_rep rep any_vt T v ob (heap s)" .
  show ?thesis
  proof (cases "tneeds_drop T \<and> drop_panics E T v")
    case True
    with any.drop_panic [OF o(4,2,3) a] run
    have "r = Panic ''drop''" "w' = log_drop T v (heap s)" by auto
    with True o(1) i s' heap_inv_wf [OF inv] show ?thesis
      by (auto simp: slot_effect_def dropped_types_def)
  next
    case False
    with any.drop_ok [OF o(4,2,3) a heap_inv_wf [OF inv]] run
    have w': "r = Ok ()" "after_drop (own T (storage ob)) T v (heap s) w'" by auto
    then have "dom (blocks w') = dom (blocks (heap s)) - own T (storage ob)"
      by (auto simp: after_drop_def restrict_map_def split: if_splits)
    with w' o(1) i s' dropped_types_trace [of w' "heap s" T v] show ?thesis
      by (auto simp: slot_effect_def after_drop_def)
  qed
qed

lemma effect_take:
  assumes inv: "heap_inv rep own E s" and i: "vars s i = Some ob" and a: "place_ok S a"
    and run: "downcast S E T a ob (heap s) = (Ok (Inr v), w')"
    and s': "heap s' = w'" "vars s' = (vars s)(i := None)"
  shows "slot_effect rep own E s s' i None \<and> dropped w' = dropped (heap s) \<and> obj_type ob = T"
proof -
  from heap_inv_object [OF inv i] obtain U u where
    o: "obj_type ob = U" "wf_rtype U" "wf_val E U u" "obj_rep rep any_vt U u ob (heap s)" .
  have TU: "T = U"
    using downcast_miss [OF o(4)] run by (cases "U = T") auto
  with downcast_hit [OF o(4,2,3) a heap_inv_wf [OF inv]] run
  have w': "wf_world w'" "frees (own U (storage ob)) (heap s) w'" by auto
  with TU o(1) i s' dom_of_frees [OF w'(2)] frees_blocks [OF w'(2)] show ?thesis
    by (auto simp: slot_effect_def frees_def)
qed

lemma effect_keep:
  assumes inv: "heap_inv rep own E s" and i: "vars s i = Some ob" and a: "place_ok S a"
    and run: "downcast S E T a ob (heap s) = (Ok (Inl ob'), w')"
  shows "ob' = ob \<and> w' = heap s"
proof -
  from heap_inv_object [OF inv i] obtain U u where
    o: "obj_type ob = U" "wf_rtype U" "wf_val E U u" "obj_rep rep any_vt U u ob (heap s)" .
  have "T \<noteq> U" using downcast_hit [OF o(4,2,3) a heap_inv_wf [OF inv]] run by auto
  with downcast_miss [OF o(4)] run show ?thesis by auto
qed

lemma effect_mutate:
  assumes inv: "heap_inv rep own E s" and i: "vars s i = Some ob" and a: "place_ok S a"
    and p: "downcast_mut S E T a ob (heap s) = Ok (Some p)" and u: "wf_val E T u"
    and run: "write_ref S T a (storage ob) p u (heap s) = (Ok st', w')"
    and s': "heap s' = w'" "vars s' = (vars s)(i \<mapsto> ob\<lparr>storage := st'\<rparr>)"
  shows "slot_effect rep own E s s' i (Some (ob\<lparr>storage := st'\<rparr>)) \<and> dropped w' = dropped (heap s)"
proof -
  from heap_inv_object [OF inv i] obtain U v where
    o: "obj_type ob = U" "wf_rtype U" "wf_val E U v" "obj_rep rep any_vt U v ob (heap s)" .
  have TU: "T = U" using downcast_ref_miss(2) [OF o(4)] p by (cases "U = T") auto
  from downcast_ref_hit [OF o(4,2,3) a] ref_law [OF any.obj_rep_storage [OF o(4)] o(2,3) a] p TU
  have "so_ptr_mut S a (storage ob) = Ok p"
    by (auto simp: downcast_mut_def split: if_splits)
  from write_law [OF any.obj_rep_storage [OF o(4)] o(2) heap_inv_wf [OF inv] _ a this, of u] u TU run
  have w': "wf_world w'" "rep U u st' w'" "own U st' = own U (storage ob)"
    "untouched (own U (storage ob)) (heap s) w'" by (auto simp: wf_val_length)
  have rep': "obj_rep rep any_vt U u (ob\<lparr>storage := st'\<rparr>) w'"
    using w'(2) o(4) by (simp add: obj_rep_def)
  have "own U (storage ob) \<subseteq> dom (blocks (heap s))"
    using own_dom [OF any.obj_rep_storage [OF o(4)]] .
  with w' o TU u i s' slot_ok_SomeI [OF rep' o(2)] obj_type_rep [OF rep'] show ?thesis
    by (auto simp: slot_effect_def untouched_def)
qed

lemma effect_insert_empty:
  assumes inv: "heap_inv rep own E s" and i: "vars s i = None" and a: "place_ok S a"
    and T: "wf_rtype T" "wf_val E T v" "fits T"
    and run: "dyn_insert S any_vt E T a None v (heap s) = (r, this', w')"
    and s': "heap s' = w'" "vars s' = (vars s)(i := this')"
  shows "\<exists>ob. this' = Some ob \<and> \<not> is_ub r \<and> slot_effect rep own E s s' i (Some ob)
    \<and> obj_type ob = T \<and> dropped w' = dropped (heap s)"
proof -
  from any.insert_empty [OF T heap_inv_wf [OF inv] a] run obtain p ob where
    ob: "r = Ok p" "this' = Some ob" "wf_world w'" "obj_rep rep any_vt T v ob w'"
    "frees (own T (storage ob)) w' (heap s)" by auto
  have ty: "obj_type ob = T" using ob(4) by (rule obj_type_rep)
  have "blocks w' b = blocks (heap s) b" if "b \<in> dom (blocks (heap s))" for b
    using frees_blocks [OF ob(5), of b] frees_fresh [OF ob(5)] that by (metis disjoint_iff)
  with ob ty i s' T dom_of_unfrees [OF ob(5)] frees_fresh [OF ob(5)] show ?thesis
    unfolding slot_effect_def by (auto intro: slot_ok_SomeI simp: frees_def)
qed

text \<open>Restriction equalities read as facts about single blocks and about domains.\<close>

lemma restrict_eq_blocks:
  assumes "b' |` (- N) = b |` (- old)" "a \<in> dom b" "a \<notin> old" "N \<inter> dom b = {}"
  shows "b' a = b a"
  using fun_cong [OF assms(1), of a] assms(2-4) by (auto simp: restrict_map_def split: if_splits)

lemma restrict_eq_dom:
  assumes "b' |` (- N) = b |` (- old)" "N \<subseteq> dom b'" "N \<inter> dom b = {}"
  shows "dom b' = (dom b - old) \<union> N"
proof -
  have "dom b' - N = dom b - old"
    using arg_cong [OF assms(1), of dom] by (auto simp: dom_restrict)
  with assms(2) show ?thesis by blast
qed

lemma effect_insert_full:
  assumes inv: "heap_inv rep own E s" and i: "vars s i = Some ob0" and a: "place_ok S a"
    and T: "wf_rtype T" "wf_val E T v" "fits T"
    and run: "dyn_insert S any_vt E T a (Some ob0) v (heap s) = (r, this', w')"
    and s': "heap s' = w'" "vars s' = (vars s)(i := this')"
  shows "\<exists>ob. this' = Some ob \<and> \<not> is_ub r \<and> slot_effect rep own E s s' i (Some ob)
    \<and> obj_type ob = T \<and> dropped_types w' = dropped_types (heap s) + dropping {#obj_type ob0#}"
proof -
  from heap_inv_object [OF inv i] obtain U u where
    o: "obj_type ob0 = U" "wf_rtype U" "wf_val E U u" "obj_rep rep any_vt U u ob0 (heap s)" .
  show ?thesis
  proof (cases "tneeds_drop U \<and> drop_panics E U u")
    case True
    with any.insert_panic [OF o(4,2,3) _ _ T heap_inv_wf [OF inv] a] run obtain ob where
      res: "r = Panic ''drop''" "this' = Some ob" "wf_world w'" "obj_rep rep any_vt T v ob w'"
      "own T (storage ob) \<inter> dom (blocks (heap s)) = {}"
      "blocks w' |` (- own T (storage ob)) = blocks (heap s)" "dropped w' = dropped (heap s) @ [(U, u)]" by auto
    have ty: "obj_type ob = T" using res(4) by (rule obj_type_rep)
    have other: "blocks w' b = blocks (heap s) b" if "b \<in> dom (blocks (heap s))" for b
      using fun_cong [OF res(6), of b] that res(5) by (force simp: restrict_map_def split: if_splits)
    have "slot_effect rep own E s s' i (Some ob)"
      unfolding slot_effect_def
      using res(2,3,5) s' ty other slot_ok_SomeI [OF res(4) T(1,2)] True
      by auto
    with res(1,2,7) ty o(1) True show ?thesis
      by (auto simp: dropped_types_def)
  next
    case False
    with any.insert_ok [OF o(4,2,3) _ T heap_inv_wf [OF inv] a] run obtain p ob where
      res: "r = Ok p" "this' = Some ob" "wf_world w'" "obj_rep rep any_vt T v ob w'"
      "own T (storage ob) \<inter> dom (blocks (heap s)) = {}"
      "blocks w' |` (- own T (storage ob)) = blocks (heap s) |` (- own U (storage ob0))"
      "dropped w' = dropped (heap s) @ drop_trace U u" by auto
    have ty: "obj_type ob = T" using res(4) by (rule obj_type_rep)
    have sub: "own T (storage ob) \<subseteq> dom (blocks w')"
      using own_dom [OF any.obj_rep_storage [OF res(4)]] .
    have "slot_effect rep own E s s' i (Some ob)"
      unfolding slot_effect_def
      using res(2,3,5) s' ty o(1) i slot_ok_SomeI [OF res(4) T(1,2)]
        restrict_eq_blocks [OF res(6) _ _ res(5)] restrict_eq_dom [OF res(6) sub res(5)]
      by auto
    with res ty o(1) dropped_types_trace [OF res(7)] show ?thesis by auto
  qed
qed


section \<open>Every step keeps the invariant\<close>

lemma step_move_inv:
  assumes inv: "heap_inv rep own E s" and i: "vars s i = Some ob" and j: "vars s j = None"
    and s': "heap s' = heap s" "vars s' = (vars s)(i := None, j \<mapsto> ob)"
  shows "heap_inv rep own E s'" "live_types (vars s') = live_types (vars s)"
    "exact_heap own s \<Longrightarrow> exact_heap own s'"
proof -
  define s1 where "s1 = s\<lparr>vars := (vars s)(i := None)\<rparr>"
  have ij: "i \<noteq> j" using i j by auto
  have inv1: "heap_inv rep own E s1"
    by (rule heap_inv_update [OF inv heap_inv_wf [OF inv], of None i]) (simp_all add: s1_def)
  have slot: "slot_ok rep E (Some ob) (heap s)" using heap_inv_slot [OF inv, of i] i by simp
  have disj: "owned own (Some ob) \<inter> owned own (vars s1 k) = {}" for k
  proof (cases "k = i")
    case True
    then show ?thesis by (simp add: s1_def)
  next
    case False
    with inv have "owned own (vars s i) \<inter> owned own (vars s k) = {}"
      unfolding heap_inv_def by blast
    with False i show ?thesis by (simp add: s1_def)
  qed
  show "heap_inv rep own E s'"
    by (rule heap_inv_update [OF inv1 _ slot, where i = j])
      (use disj s' heap_inv_wf [OF inv] in \<open>simp_all add: s1_def\<close>)
  have fin: "finite (dom ((vars s)(i := None)))" using heap_inv_finite [OF inv] by simp
  show "live_types (vars s') = live_types (vars s)"
    using live_types_remove [OF heap_inv_finite [OF inv] i] live_types_insert [OF fin, of j ob] j s'(2)
    by simp
  have "(\<Union>k. owned own (vars s' k)) = (\<Union>k. owned own (vars s k))"
  proof (intro equalityI subsetI)
    fix a assume "a \<in> (\<Union>k. owned own (vars s' k))"
    then obtain k where "a \<in> owned own (vars s' k)" by blast
    then have "a \<in> owned own (vars s (if k = j then i else k))"
      using s'(2) i by (auto split: if_splits)
    then show "a \<in> (\<Union>k. owned own (vars s k))" by blast
  next
    fix a assume "a \<in> (\<Union>k. owned own (vars s k))"
    then obtain k where k: "a \<in> owned own (vars s k)" by blast
    with j have "k \<noteq> j" by auto
    with k have "a \<in> owned own (vars s' (if k = i then j else k))"
      using s'(2) i ij by (auto split: if_splits)
    then show "a \<in> (\<Union>k. owned own (vars s' k))" by blast
  qed
  then show "exact_heap own s \<Longrightarrow> exact_heap own s'" using s'(1) by (simp add: exact_heap_def)
qed

end


section \<open>Reachable states\<close>

context from_box_contract
begin

lemma effect_from_box:
  assumes inv: "heap_inv rep own E s" and i: "vars s i = None" and T: "wf_rtype T" "wf_val E T v"
    and bx: "std_box_new T v (heap s) = (Ok p, w1)"
    and run: "dyn_from_box S any_vt E T p w1 = (Ok ob, w')"
    and s': "heap s' = w'" "vars s' = (vars s)(i \<mapsto> ob)"
  shows "slot_effect rep own E s s' i (Some ob) \<and> dropped w' = dropped (heap s) \<and> obj_type ob = T"
proof -
  from std_box_new_spec [OF heap_inv_wf [OF inv] T(1) wf_val_length [OF T(2)]] bx
  have p: "wf_world w1" "boxed T v p w1" "frees (box_own T p) w1 (heap s)" by auto
  from any_fb.from_box_ok [OF p(2) T p(1)] run
  have ob: "wf_world w'" "obj_rep rep any_vt T v ob w'"
    "own T (storage ob) \<inter> (dom (blocks w1) - box_own T p) = {}"
    "blocks w' |` (- own T (storage ob)) = blocks w1 |` (- box_own T p)" "dropped w' = dropped w1"
    by auto
  have "frees (own T (storage ob)) w' (heap s)"
    using ob(3-5) p(3) own_dom [OF any.obj_rep_storage [OF ob(2)]] by (auto simp: frees_def)
  with ob(1,2) show ?thesis by (rule effect_fresh [OF i T _ _ _ s'])
qed

lemma client_step_inv:
  assumes "client_step S fits E addr s s'" and a: "\<And>i. place_ok S (addr i)"
    and inv: "heap_inv rep own E s" and bal: "balanced s"
  shows "heap_inv rep own E s' \<and> balanced s'
    \<and> ((\<forall>T v. \<not> drop_panics E T v) \<and> exact_heap own s \<longrightarrow> exact_heap own s')"
  using assms(1)
proof cases
  case (step_new i T v ob w')
  have e: "slot_effect rep own E s s' i (Some ob) \<and> dropped w' = dropped (heap s) \<and> obj_type ob = T"
    by (rule effect_new [OF inv step_new(2-6)]) (simp_all add: step_new(1))
  with slot_effect_inv [OF inv] slot_effect_exact [OF inv] bal step_new
    live_types_insert [OF heap_inv_finite [OF inv] step_new(2), of ob]
  show ?thesis by (auto simp: balanced_def dropped_types_def)
next
  case (step_from_box i T v p w1 ob w')
  have e: "slot_effect rep own E s s' i (Some ob) \<and> dropped w' = dropped (heap s) \<and> obj_type ob = T"
    by (rule effect_from_box [OF inv step_from_box(2-6)]) (simp_all add: step_from_box(1))
  with slot_effect_inv [OF inv] slot_effect_exact [OF inv] bal step_from_box
    live_types_insert [OF heap_inv_finite [OF inv] step_from_box(2), of ob]
  show ?thesis by (auto simp: balanced_def dropped_types_def)
next
  case (step_drop i ob r w')
  have e: "slot_effect rep own E s s' i None \<and> \<not> is_ub r
    \<and> dropped_types w' = dropped_types (heap s) + dropping {#obj_type ob#}"
    by (rule effect_drop [OF inv step_drop(2) a step_drop(3)]) (simp_all add: step_drop(1))
  with slot_effect_inv [OF inv] slot_effect_exact [OF inv] bal step_drop
    live_types_remove [OF heap_inv_finite [OF inv] step_drop(2)]
  show ?thesis by (auto simp: balanced_def)
next
  case (step_move i ob j)
  with step_move_inv [OF inv step_move(2,3), of s'] bal show ?thesis
    by (simp add: balanced_def)
next
  case (step_take i ob T v w')
  have e: "slot_effect rep own E s s' i None \<and> dropped w' = dropped (heap s) \<and> obj_type ob = T"
    by (rule effect_take [OF inv step_take(2) a step_take(3)]) (simp_all add: step_take(1))
  with slot_effect_inv [OF inv] slot_effect_exact [OF inv] bal step_take
    live_types_remove [OF heap_inv_finite [OF inv] step_take(2)]
  show ?thesis by (auto simp: balanced_def dropped_types_def)
next
  case (step_keep i ob T ob' w')
  have "ob' = ob \<and> w' = heap s"
    by (rule effect_keep [OF inv step_keep(2) a step_keep(3)])
  then have "s' = s" using step_keep by (simp add: fun_upd_idem)
  with inv bal show ?thesis by simp
next
  case (step_mutate i ob T p u st' w')
  have e: "slot_effect rep own E s s' i (Some (ob\<lparr>storage := st'\<rparr>)) \<and> dropped w' = dropped (heap s)"
    by (rule effect_mutate [OF inv step_mutate(2) a step_mutate(3-5)]) (simp_all add: step_mutate(1))
  have "obj_type (ob\<lparr>storage := st'\<rparr>) = obj_type ob" by simp
  with e slot_effect_inv [OF inv] slot_effect_exact [OF inv] bal step_mutate
    live_types_update [OF heap_inv_finite [OF inv] step_mutate(2)]
  show ?thesis by (auto simp: balanced_def dropped_types_def)
next
  case (step_insert T v i r this' w')
  show ?thesis
  proof (cases "vars s i")
    case None
    have "\<exists>ob. this' = Some ob \<and> \<not> is_ub r \<and> slot_effect rep own E s s' i (Some ob)
      \<and> obj_type ob = T \<and> dropped w' = dropped (heap s)"
      by (rule effect_insert_empty [OF inv None a step_insert(2-4)])
        (use step_insert None in simp_all)
    with slot_effect_inv [OF inv] slot_effect_exact [OF inv] bal step_insert
      live_types_insert [OF heap_inv_finite [OF inv] None]
    show ?thesis by (auto simp: balanced_def dropped_types_def)
  next
    case (Some ob0)
    have "\<exists>ob. this' = Some ob \<and> \<not> is_ub r \<and> slot_effect rep own E s s' i (Some ob)
      \<and> obj_type ob = T \<and> dropped_types w' = dropped_types (heap s) + dropping {#obj_type ob0#}"
      by (rule effect_insert_full [OF inv Some a step_insert(2-4)])
        (use step_insert Some in simp_all)
    with slot_effect_inv [OF inv] slot_effect_exact [OF inv] bal step_insert
      live_types_remove [OF heap_inv_finite [OF inv] Some]
      live_types_insert [of "(vars s)(i := None)" i] heap_inv_finite [OF inv]
    show ?thesis by (auto simp: balanced_def)
  qed
qed

lemma init_inv: "heap_inv rep own E init_sys" "balanced init_sys" "exact_heap own init_sys"
  by (simp_all add: heap_inv_def balanced_def exact_heap_def init_sys_def live_types_def
      dropped_types_def empty_world_def [symmetric]) (simp_all add: empty_world_def)

lemma reachable_inv:
  assumes "reachable S fits E addr s" and a: "\<And>i. place_ok S (addr i)"
  shows "heap_inv rep own E s \<and> balanced s
    \<and> ((\<forall>T v. \<not> drop_panics E T v) \<longrightarrow> exact_heap own s)"
  using assms(1)
proof induction
  case start
  show ?case using init_inv by blast
next
  case (step s s')
  with client_step_inv [OF step.hyps(2) a] show ?case by blast
qed

text \<open>No operation a safe client can call next is undefined.\<close>

lemma inv_no_ub:
  assumes inv: "heap_inv rep own E s" and a: "place_ok S a" and i: "vars s i = Some ob"
  shows "\<not> is_ub (fst (dyn_drop S E a ob (heap s)))"
    "\<not> is_ub (fst (downcast S E T a ob (heap s)))"
    "\<not> is_ub (downcast_ref S E T a ob (heap s))"
    "\<not> is_ub (downcast_mut S E T a ob (heap s))"
proof -
  from heap_inv_object [OF inv i] obtain U u where
    o: "wf_rtype U" "wf_val E U u" "obj_rep rep any_vt U u ob (heap s)" by metis
  show "\<not> is_ub (fst (dyn_drop S E a ob (heap s)))"
    by (rule any.drop_no_ub [OF o(3,1,2) a heap_inv_wf [OF inv]])
  show "\<not> is_ub (fst (downcast S E T a ob (heap s)))" "\<not> is_ub (downcast_ref S E T a ob (heap s))"
    "\<not> is_ub (downcast_mut S E T a ob (heap s))"
    by (rule downcast_no_ub [OF o(3,1,2) a heap_inv_wf [OF inv]])+
qed

lemma inv_insert_no_ub:
  assumes inv: "heap_inv rep own E s" and a: "place_ok S a"
    and T: "wf_rtype T" "wf_val E T v" "fits T"
  shows "\<not> is_ub (fst (dyn_insert S any_vt E T a (vars s i) v (heap s)))"
proof -
  obtain r x w' where run: "dyn_insert S any_vt E T a (vars s i) v (heap s) = (r, x, w')"
    by (metis surj_pair)
  define s' where "s' = s\<lparr>heap := w', vars := (vars s)(i := x)\<rparr>"
  have s': "heap s' = w'" "vars s' = (vars s)(i := x)" by (simp_all add: s'_def)
  have "\<not> is_ub r"
  proof (cases "vars s i")
    case None
    with effect_insert_empty [OF inv None a T _ s'] run show ?thesis by auto
  next
    case (Some ob)
    with effect_insert_full [OF inv Some a T _ s'] run show ?thesis by auto
  qed
  with run show ?thesis by simp
qed

lemma inv_create_no_ub:
  assumes inv: "heap_inv rep own E s" and T: "wf_rtype T" "wf_val E T v"
  shows "fits T \<Longrightarrow> \<not> is_ub (fst (dyn_new S any_vt T v (heap s)))"
    "\<not> is_ub (fst (bnd (std_box_new T v) (dyn_from_box S any_vt E T) (heap s)))"
proof -
  assume "fits T"
  with any.new_ok [OF T(1) wf_val_length [OF T(2)] _ heap_inv_wf [OF inv]]
  show "\<not> is_ub (fst (dyn_new S any_vt T v (heap s)))" by auto
next
  from std_box_new_spec [OF heap_inv_wf [OF inv] T(1) wf_val_length [OF T(2)]] obtain p w1 where
    p: "std_box_new T v (heap s) = (Ok p, w1)" "wf_world w1" "boxed T v p w1" by blast
  from any_fb.from_box_ok [OF p(3) T p(2)] p(1)
  show "\<not> is_ub (fst (bnd (std_box_new T v) (dyn_from_box S any_vt E T) (heap s)))"
    by (auto simp: bnd_def)
qed

lemma inv_empty_heap:
  assumes "exact_heap own s" "balanced s" "vars s = Map.empty"
  shows "blocks (heap s) = Map.empty"
    "dropping (created s) = dropped_types (heap s) + dropping (taken s)"
  using assms by (simp_all add: exact_heap_def balanced_def live_types_def)

lemma steps_reachable:
  "(client_step S fits E addr)\<^sup>*\<^sup>* s s' \<Longrightarrow> reachable S fits E addr s \<Longrightarrow> reachable S fits E addr s'"
  by (induction rule: rtranclp_induct) (auto intro: reachable.step)

text \<open>A client can always drop what it has left, one variable after another.\<close>

lemma drain_steps:
  "finite (dom (vars s)) \<Longrightarrow> \<exists>s'. (client_step S fits E addr)\<^sup>*\<^sup>* s s' \<and> vars s' = Map.empty"
proof (induction "card (dom (vars s))" arbitrary: s)
  case 0
  then show ?case by auto
next
  case (Suc n)
  then obtain i where "i \<in> dom (vars s)" by (metis all_not_in_conv card.empty nat.distinct(1))
  then obtain ob where i: "vars s i = Some ob" by blast
  obtain r w' where "dyn_drop S E (addr i) ob (heap s) = (r, w')" by (metis surj_pair)
  with i have step: "client_step S fits E addr s (s\<lparr>heap := w', vars := (vars s)(i := None)\<rparr>)"
    by (rule client_step.step_drop)
  have "n = card (dom ((vars s)(i := None)))" using Suc.hyps(2) Suc.prems i by (simp add: domI)
  with Suc.hyps(1) [of "s\<lparr>heap := w', vars := (vars s)(i := None)\<rparr>"] Suc.prems obtain s' where
    "(client_step S fits E addr)\<^sup>*\<^sup>* (s\<lparr>heap := w', vars := (vars s)(i := None)\<rparr>) s'" "vars s' = Map.empty"
    by auto
  with step show ?case by (blast intro: converse_rtranclp_into_rtranclp)
qed

end

end
