(* ===== verification/Examples.thy ===== *)
theory Examples
  imports Client_Programs Lifecycle
begin

text \<open>
  Concrete inputs for the properties: a 64-bit target, a small inline storage, a word-sized type
  without drop glue, a three-word type with drop glue (boxed in that storage), a run of a client,
  and the \<open>Callback\<close> trait of the documentation.
\<close>


section \<open>Runtime\<close>

definition cfg64 :: config where
  "cfg64 = \<lparr>alloc_feature = True, const_panic_feature = False, usize_size = 8,
     usize_align = Log2 3, rob_payload_units = (\<lambda>s a. 1)\<rparr>"

definition T_usize :: rtype where
  "T_usize = \<lparr>tname = ''usize'', tlayout = \<lparr>lsize = 8, lalign = 8\<rparr>, tneeds_drop = False\<rparr>"

definition T_vec :: rtype where
  "T_vec = \<lparr>tname = ''Vec<u8>'', tlayout = \<lparr>lsize = 24, lalign = 8\<rparr>, tneeds_drop = True\<rparr>"

definition E_quiet :: env where
  "E_quiet = \<lparr>valid = (\<lambda>T v. True), drop_panics = (\<lambda>T v. False)\<rparr>"

definition E_loud :: env where
  "E_loud = \<lparr>valid = (\<lambda>T v. True), drop_panics = (\<lambda>T v. True)\<rparr>"

definition v_usize :: rval where "v_usize = replicate 8 (Byte 7)"
definition u_usize :: rval where "u_usize = replicate 8 (Byte 9)"
definition v_vec :: rval where "v_vec = replicate 24 (Byte 1)"

abbreviation rob16 :: "raw_or_box from_box_ops" where
  "rob16 \<equiv> rob_ops cfg64 16 (Log2 3)"

lemma pow2_8 [simp]: "pow2 8"
  by (simp add: pow2.simps)

lemma wf_example_types [simp]: "wf_rtype T_usize" "wf_rtype T_vec"
  by (simp_all add: wf_layout_def T_usize_def T_vec_def)

lemma example_sizes [simp]:
  "size_of T_usize = 8" "size_of T_vec = 24" "align_of T_usize = 8" "align_of T_vec = 8"
  "tneeds_drop T_usize = False" "tneeds_drop T_vec = True" "T_usize \<noteq> T_vec" "T_vec \<noteq> T_usize"
  by (simp_all add: T_usize_def T_vec_def)

lemma example_values [simp]:
  "wf_val E_quiet T_usize v_usize" "wf_val E_quiet T_usize u_usize" "wf_val E_quiet T_vec v_vec"
  "wf_val E_loud T_usize v_usize" "wf_val E_loud T_usize u_usize" "wf_val E_loud T_vec v_vec"
  "length v_usize = 8" "length u_usize = 8" "length v_vec = 24"
  "\<not> drop_panics E_quiet T v" "drop_panics E_loud T v" "v_usize \<noteq> u_usize" "u_usize \<noteq> v_usize"
  by (simp_all add: wf_val_def E_quiet_def E_loud_def v_usize_def u_usize_def v_vec_def)

lemma example_config [simp]:
  "alloc_feature cfg64" "usize_size cfg64 = 8" "align_val (usize_align cfg64) = 8"
  "align_val (Log2 3) = 8" "usize_align cfg64 = Log2 3"
  by (simp_all add: cfg64_def)

lemma example_can_store [simp]:
  "can_store 16 (Log2 3) T_usize" "\<not> can_store 16 (Log2 3) T_vec"
  "rob_fits cfg64 16 (Log2 3) T"
  by (simp_all add: can_store_def rob_fits_def)

lemma example_place [simp]: "place_ok rob16 8" "place_ok rob16 (8 * Suc i)"
  by (simp_all add: place_ok_def rob_align_def)

declare rob_new_def [op_simps] box_new_def [op_simps] std_box_new_def [op_simps] allocate_def [op_simps]
  box_from_box_def [op_simps] nonnull_unwrap_def [op_simps] dyn_new_def [op_simps] dyn_drop_def [op_simps]
  drop_in_place_fn_def [op_simps] layout_fn_def [op_simps] DROP_IN_PLACE_FN_def [op_simps]
  drop_glue_def [op_simps] load_def [op_simps] ptr_ok_def [op_simps] box_frame_def [op_simps]
  dealloc_def [op_simps] log_drop_def [op_simps] Let_def [op_simps]

text \<open>The three-word value goes to the heap, to the first block.\<close>

definition vec_world :: world where
  "vec_world = \<lparr>brk = 32, blocks = [8 \<mapsto> (tlayout T_vec, v_vec)], dropped = []\<rparr>"

definition vec_box :: raw_or_box where
  "vec_box = InnerBox (Box (HeapP 8))"

lemma vec_new: "rob_new cfg64 16 (Log2 3) T_vec v_vec empty_world = (Ok vec_box, vec_world)"
  by (simp add: op_simps round_up_def empty_world_def vec_box_def vec_world_def)

lemma wf_vec_world [simp]: "wf_world vec_world"
  by (auto simp: wf_world_def vec_world_def split: if_splits)

lemma vec_rep [simp]: "rob_rep 16 (Log2 3) T_vec v_vec vec_box vec_world"
  by (simp add: vec_box_def boxed_def vec_world_def)

lemma vec_dyn_new:
  "dyn_new rob16 vt T_vec v_vec empty_world = (Ok \<lparr>storage = vec_box, vtable = vt T_vec\<rparr>, vec_world)"
  by (simp add: dyn_new_def vec_new)

lemma vec_obj [simp]:
  "obj_rep (rob_rep 16 (Log2 3)) vt T_vec v_vec \<lparr>storage = vec_box, vtable = vt T_vec\<rparr> vec_world"
  by (simp add: obj_rep_def)

text \<open>A word goes in place.\<close>

definition usize_raw :: raw_or_box where
  "usize_raw = InnerRaw \<lparr>raw_data = v_usize @ replicate 8 Uninit\<rparr>"

lemma usize_obj [simp]:
  "obj_rep (rob_rep 16 (Log2 3)) vt T_usize v_usize \<lparr>storage = usize_raw, vtable = vt T_usize\<rparr> w"
  by (simp add: obj_rep_def usize_raw_def raw_rep_def)

text \<open>A client that creates one object, and then drops it.\<close>

definition addr8 :: "nat \<Rightarrow> nat" where
  "addr8 i = 8 * Suc i"

definition sys_one :: "raw_or_box sys" where
  "sys_one = \<lparr>heap = vec_world, vars = [0 \<mapsto> \<lparr>storage = vec_box, vtable = any_vt T_vec\<rparr>],
     created = {#T_vec#}, taken = {#}\<rparr>"

definition sys_two :: "raw_or_box sys" where
  "sys_two = \<lparr>heap = \<lparr>brk = 32, blocks = Map.empty, dropped = [(T_vec, v_vec)]\<rparr>, vars = Map.empty,
     created = {#T_vec#}, taken = {#}\<rparr>"

lemma addr8_place [simp]: "place_ok rob16 (addr8 i)"
  by (simp add: addr8_def place_ok_def rob_align_def)

lemma reach_one: "reachable rob16 (rob_fits cfg64 16 (Log2 3)) E_quiet addr8 sys_one"
proof (rule reachable.step [OF reachable.start])
  have "client_step rob16 (rob_fits cfg64 16 (Log2 3)) E_quiet addr8 s
      (s\<lparr>heap := vec_world, vars := (vars s)(0 \<mapsto> \<lparr>storage = vec_box, vtable = any_vt T_vec\<rparr>),
        created := add_mset T_vec (created s)\<rparr>)" if "s = init_sys" for s
    by (rule client_step.step_new [where v = v_vec])
      (simp_all add: init_sys_def vec_dyn_new that)
  from this [OF refl] show "client_step rob16 (rob_fits cfg64 16 (Log2 3)) E_quiet addr8 init_sys sys_one"
    by (simp add: sys_one_def init_sys_def)
qed

lemma vec_drop:
  "dyn_drop rob16 E_quiet a \<lparr>storage = vec_box, vtable = any_vt T_vec\<rparr> vec_world
    = (Ok (), \<lparr>brk = 32, blocks = Map.empty, dropped = [(T_vec, v_vec)]\<rparr>)"
proof -
  have "dom [8 \<mapsto> (tlayout T_vec, v_vec)] = {8}" by simp
  have "Map.empty = ([8 \<mapsto> (tlayout T_vec, v_vec)])(8 := None)" by (simp add: fun_eq_iff)
  then show ?thesis
    by (simp add: op_simps any_vt_def vec_box_def vec_world_def wf_val_valid)
qed

lemma reach_two: "reachable rob16 (rob_fits cfg64 16 (Log2 3)) E_quiet addr8 sys_two"
proof (rule reachable.step [OF reach_one])
  have "client_step rob16 (rob_fits cfg64 16 (Log2 3)) E_quiet addr8 sys_one
    (sys_one\<lparr>heap := \<lparr>brk = 32, blocks = Map.empty, dropped = [(T_vec, v_vec)]\<rparr>,
      vars := (vars sys_one)(0 := None)\<rparr>)"
    by (rule client_step.step_drop [where r = "Ok ()"]) (simp add: sys_one_def, simp add: sys_one_def, rule vec_drop)
  then show "client_step rob16 (rob_fits cfg64 16 (Log2 3)) E_quiet addr8 sys_one sys_two"
    by (simp add: sys_one_def sys_two_def)
qed


text \<open>
  A program over two variables, with a destructor that panics: the value goes to the heap in
  \<open>RawOrBox\<close>, the word that replaces it in place.
\<close>

definition prog_example :: "any_op cmd list" where
  "prog_example = [New 0 T_vec v_vec, Use 0 (Read T_usize), Move 0 1, Insert 1 T_usize v_usize,
     Use 1 (Write T_usize u_usize), Use 1 (Is T_vec), Use 1 (Take T_usize), Drop 1]"

lemma prog_example_ok:
  "list_all (cmd_ok E_loud (rob_fits cfg64 16 (Log2 3)) (alloc_feature cfg64) any_use_ok) prog_example"
  by (simp add: prog_example_def)

lemma prog_example_spec:
  "any_spec E_loud prog_example = ([Ok Done, Ok (Got (Val None)), Ok Done, Panic ''drop'', Ok (Got (Flag True)),
     Ok (Got (Flag False)), Ok (Got (Val (Some u_usize))), Ok Rejected], [(T_vec, v_vec)])"
  by (simp add: any_spec_def spec_observed_def prog_example_def init_amach_def drop_result_def drop_trace_def)

text \<open>One that stays in place, for \<open>Raw\<close>, and one over a generated trait, whose method may panic.\<close>

definition prog_in_place :: "any_op cmd list" where
  "prog_in_place = [New 0 T_usize v_usize, Use 0 (Read T_usize), Drop 0]"

lemma prog_in_place_ok:
  "list_all (cmd_ok E_quiet (can_store 16 (Log2 3)) False any_use_ok) prog_in_place"
  "list_all (cmd_ok E_quiet (rob_fits cfg64 16 (Log2 3)) (alloc_feature cfg64) any_use_ok) prog_in_place"
  by (simp_all add: prog_in_place_def)

lemma prog_in_place_spec:
  "any_spec E_quiet prog_in_place = ([Ok Done, Ok (Got (Val (Some v_usize))), Ok Done], [])"
  by (simp add: any_spec_def spec_observed_def prog_in_place_def init_amach_def drop_result_def drop_trace_def)

definition flip_bodies :: "(unit, rval) method_bodies" where
  "flip_bodies m x T v = (if v = u_usize then Panic m else Ok v, if T = T_usize then u_usize else v)"

lemma flip_closed: "bodies_closed E_loud flip_bodies"
  by (simp add: bodies_closed_def flip_bodies_def)

definition call_twice :: "object_method \<Rightarrow> (object_method \<times> unit) cmd list" where
  "call_twice om = [From_Box 0 T_usize v_usize, Use 0 (om, ()), Move 0 1, Use 1 (om, ()), New 0 T_vec v_vec, Drop 0]"

lemma call_twice_ok:
  "om \<in> set (oo_methods out) \<Longrightarrow>
    list_all (cmd_ok E_loud (rob_fits cfg64 16 (Log2 3)) (alloc_feature cfg64) (calls_of out)) (call_twice om)"
  by (simp add: call_twice_def calls_of_def)

lemma call_twice_spec:
  "trait_spec flip_bodies E_loud (call_twice om) = ([Ok Done, Ok (Got v_usize), Ok Done,
     Panic (sg_ident (om_sig om)), Ok Done, Panic ''drop''], [(T_vec, v_vec)])"
  by (simp add: trait_spec_def spec_observed_def call_twice_def value_trait_def flip_bodies_def
      init_amach_def drop_result_def drop_trace_def)


section \<open>Macros\<close>

text \<open>
  \<open>trait Callback { #[dyn_trait(maybe_sync)] async fn call(&self, arg: &str); type Arg;
  fn iter<'a>(&'a mut self) -> impl Iterator<Item = u8>; fn generic<T>(&self, t: T); }\<close>
\<close>

definition pascal_ex :: "string \<Rightarrow> string" where
  "pascal_ex s = (if s = ''call'' then ''Call'' else if s = ''iter'' then ''Iter'' else ''Generic'')"

definition call_fn :: trait_item_fn where
  "call_fn = \<lparr>fn_attrs = [Attr (ident_path ''dyn_trait'') (MetaList [Nested (ident_path ''maybe_sync'') NoArg])],
     fn_sig = \<lparr>sg_async = True, sg_unsafe = False, sg_ident = ''call'', sg_generics = no_generics,
       sg_inputs = [ref_self False,
         Typed (PatIdent False False ''arg'' None) (TyReference None False (ty_ident ''str''))],
       sg_output = RDefault\<rparr>, fn_default = None\<rparr>"

definition iter_fn :: trait_item_fn where
  "iter_fn = \<lparr>fn_attrs = [],
     fn_sig = \<lparr>sg_async = False, sg_unsafe = False, sg_ident = ''iter'',
       sg_generics = \<lparr>g_params = [GPLifetime (LParam ''a'' [])], g_where = None\<rparr>,
       sg_inputs = [Receiver \<lparr>rc_reference = Some (Some ''a''), rc_mutability = True,
         rc_ty = TyReference (Some ''a'') True ty_Self\<rparr>],
       sg_output = RType (TyImplTrait [BTrait False []
         [Seg ''Iterator'' (AngleBracketed [ArgAssoc ''Item'' (ty_ident ''u8'')])]])\<rparr>, fn_default = None\<rparr>"

definition generic_fn :: trait_item_fn where
  "generic_fn = \<lparr>fn_attrs = [],
     fn_sig = \<lparr>sg_async = False, sg_unsafe = False, sg_ident = ''generic'',
       sg_generics = \<lparr>g_params = [GPType ''T'' [] None], g_where = None\<rparr>,
       sg_inputs = [ref_self False, Typed (PatIdent False False ''t'' None) (ty_ident ''T'')],
       sg_output = RDefault\<rparr>, fn_default = None\<rparr>"

definition callback_trait :: item_trait where
  "callback_trait = plain_trait ''Callback'' [TIFn call_fn, plain_type ''Arg'', TIFn iter_fn, TIFn generic_fn]"

lemmas callback_defs =
  call_fn_def iter_fn_def generic_fn_def plain_trait_def plain_type_def no_generics_def ref_self_def
  ident_path_def pascal_ex_def

lemma callback_dispatchable [simp]:
  "is_dispatchable call_fn" "is_dispatchable iter_fn" "\<not> is_dispatchable generic_fn"
  by (simp_all add: is_dispatchable_def has_dyn_trait_receiver_def callback_defs)

lemma callback_idents [simp]:
  "sg_ident (fn_sig call_fn) = ''call''" "sg_ident (fn_sig iter_fn) = ''iter''"
  "sg_ident (fn_sig generic_fn) = ''generic''" "pascal_ex ''call'' = ''Call''" "pascal_ex ''iter'' = ''Iter''"
  by (simp_all add: callback_defs)

lemma plain_type_simps [simp]:
  "trait_item_name (plain_type i) = Some i" "dyn_item (plain_type i)" "kept_item (plain_type i) = plain_type i"
  "item_storage f (plain_type i) = None" "TIFn m \<noteq> plain_type i"
  by (simp_all add: plain_type_def is_not_generic_def no_generics_def)

lemma callback_rpit [simp]: "has_rpit (fn_sig call_fn)" "has_rpit (fn_sig iter_fn)"
  by (simp_all add: has_rpit_def rpit_of_def callback_defs)

lemma callback_attrs [simp]:
  "kept_item (TIFn call_fn) = TIFn (call_fn\<lparr>fn_attrs := []\<rparr>)" "kept_item (TIFn iter_fn) = TIFn iter_fn"
  "kept_item (TIFn generic_fn) = TIFn generic_fn"
proof -
  have "filter (Not \<circ> is_dyn_trait_attr) (fn_attrs call_fn) = []"
    by (simp add: call_fn_def is_dyn_trait_attr_def is_ident_def ident_path_def)
  then show "kept_item (TIFn call_fn) = TIFn (call_fn\<lparr>fn_attrs := []\<rparr>)" by simp
  show "kept_item (TIFn iter_fn) = TIFn iter_fn" "kept_item (TIFn generic_fn) = TIFn generic_fn"
    by (simp_all add: iter_fn_def)
qed

lemma callback_items [simp]:
  "tr_items callback_trait = [TIFn call_fn, plain_type ''Arg'', TIFn iter_fn, TIFn generic_fn]"
  "tr_attrs callback_trait = []" "tr_generics callback_trait = no_generics"
  "tr_ident callback_trait = ''Callback''" "tr_supertraits callback_trait = []"
  by (simp_all add: callback_trait_def plain_trait_def)

lemma callback_named [simp]: "method_named pascal_ex call_fn" "method_named pascal_ex iter_fn"
  by (simp_all add: method_named_def callback_defs macro_simps)

lemma call_attrs:
  "method_attrs_parse call_fn = Inr (\<lparr>ma_storage = None, ma_maybe_sync = True\<rparr>, call_fn\<lparr>fn_attrs := []\<rparr>)"
  by (simp add: method_attrs_parse_def callback_defs has_rpit_def default_method_attrs_def
      is_dyn_trait_attr_def is_ident_def)

lemma callback_accepted [simp]: "method_accepted call_fn" "method_accepted iter_fn"
proof -
  show "method_accepted call_fn"
    using future_output_async [of "fn_sig call_fn"]
    by (simp add: method_accepted_def call_attrs) (simp add: call_fn_def)
  show "method_accepted iter_fn"
    by (simp add: method_accepted_def method_attrs_parse_def callback_defs default_method_attrs_def)
qed

lemma callback_name: "dyn_trait_name default_opts ''Callback'' = Inr ''DynCallback''"
  by (simp add: dyn_trait_name_def default_opts_def macro_simps)

text \<open>The state \<open>dyn_trait\<close> starts from.\<close>

definition callback_dt :: dyn_trait where
  "callback_dt = \<lparr>dt_include_trait = True, dt_name = ''DynCallback'', dt_crate = crate_name,
     dt_remote = ident_path ''Callback'', dt_trait_generics = [], dt_additional = [], dt_items = [],
     dt_impl_items = [], dt_storages = []\<rparr>"

lemma callback_expands: "\<exists>out. dyn_trait_impl pascal_ex callback_trait default_opts = Inr out"
proof -
  have named: "method_named pascal_ex m" if "TIFn m \<in> set (tr_items callback_trait)" "is_dispatchable m" for m
    using that by (auto simp: plain_type_def)
  have "plain_remote default_opts" by (simp add: plain_remote_def default_opts_def)
  with callback_name dyn_trait_impl_ok_iff [of default_opts callback_trait "''DynCallback''" pascal_ex]
    named show ?thesis
    by (auto simp: extract_dyn_trait_attrs_def plain_type_def no_generics_def)
qed

end
