(* ===== verification/Opaque_Types.thy ===== *)
theory Opaque_Types
  imports Dyn_Trait_Facts
begin

text \<open>
  Where \<open>impl Trait\<close> is left in the trait that \<open>dyn_trait\<close> generates. The macro replaces an opaque
  type only when it is the whole return type; the lemmas follow \<open>impl_free\<close>, the absence of opaque
  types, through the transformations of a signature.
\<close>

primrec impl_free_ty :: "ty \<Rightarrow> bool"
  and impl_free_seg :: "path_segment \<Rightarrow> bool"
  and impl_free_args :: "path_args \<Rightarrow> bool"
  and impl_free_arg :: "generic_arg \<Rightarrow> bool"
  and impl_free_bound :: "bound \<Rightarrow> bool" where
  "impl_free_ty (TyPath q p) \<longleftrightarrow> pred_option id (map_option impl_free_ty q) \<and> list_all id (map impl_free_seg p)"
| "impl_free_ty (TyReference lt m t) \<longleftrightarrow> impl_free_ty t"
| "impl_free_ty (TyImplTrait bs) \<longleftrightarrow> False"
| "impl_free_ty (TyTraitObject bs) \<longleftrightarrow> list_all id (map impl_free_bound bs)"
| "impl_free_ty (TyTuple ts) \<longleftrightarrow> list_all id (map impl_free_ty ts)"
| "impl_free_ty (TySlice t) \<longleftrightarrow> impl_free_ty t"
| "impl_free_ty (TyArray t n) \<longleftrightarrow> impl_free_ty t"
| "impl_free_ty (TyPtr m t) \<longleftrightarrow> impl_free_ty t"
| "impl_free_ty (TyOther s) \<longleftrightarrow> True"
| "impl_free_seg (Seg i a) \<longleftrightarrow> impl_free_args a"
| "impl_free_args NoArgs \<longleftrightarrow> True"
| "impl_free_args (AngleBracketed gs) \<longleftrightarrow> list_all id (map impl_free_arg gs)"
| "impl_free_args (Parenthesized ts r) \<longleftrightarrow>
     list_all id (map impl_free_ty ts) \<and> pred_option id (map_option impl_free_ty r)"
| "impl_free_arg (ArgLifetime l) \<longleftrightarrow> True"
| "impl_free_arg (ArgType t) \<longleftrightarrow> impl_free_ty t"
| "impl_free_arg (ArgAssoc i t) \<longleftrightarrow> impl_free_ty t"
| "impl_free_arg (ArgOther s) \<longleftrightarrow> True"
| "impl_free_bound (BTrait m ls p) \<longleftrightarrow> list_all id (map impl_free_seg p)"
| "impl_free_bound (BLifetime l) \<longleftrightarrow> True"
| "impl_free_bound (BPreciseCapture cs) \<longleftrightarrow> True"
| "impl_free_bound (BVerbatim s) \<longleftrightarrow> True"

fun impl_free_input :: "fn_arg \<Rightarrow> bool" where
  "impl_free_input (Receiver r) \<longleftrightarrow> impl_free_ty (rc_ty r)"
| "impl_free_input (Typed p t) \<longleftrightarrow> impl_free_ty t"

fun impl_free_return :: "return_type \<Rightarrow> bool" where
  "impl_free_return RDefault \<longleftrightarrow> True"
| "impl_free_return (RType t) \<longleftrightarrow> impl_free_ty t"

definition impl_free_sig :: "signature \<Rightarrow> bool" where
  "impl_free_sig sg \<longleftrightarrow> list_all impl_free_input (sg_inputs sg) \<and> impl_free_return (sg_output sg)"

text \<open>The original signature has opaque types only as its whole return type.\<close>

definition opaque_return_only :: "signature \<Rightarrow> bool" where
  "opaque_return_only sg \<longleftrightarrow> list_all impl_free_input (sg_inputs sg)
     \<and> (case rpit_of (desugar_async sg) of
          Some bs \<Rightarrow> list_all impl_free_bound (filter is_trait_bound bs)
        | None \<Rightarrow> impl_free_return (sg_output sg))"

lemma impl_free_visit [simp]:
  "impl_free_ty (visit_ty cap t) = impl_free_ty t"
  "impl_free_seg (visit_seg cap s) = impl_free_seg s"
  "impl_free_args (visit_args cap a) = impl_free_args a"
  "impl_free_arg (visit_generic_arg cap g) = impl_free_arg g"
  "impl_free_bound (visit_bound cap b) = impl_free_bound b"
proof (induction t and s and a and g and b)
  case (TyPath q p)
  then show ?case by (cases q) (auto simp: list_all_iff)
next
  case (Parenthesized ts r)
  then show ?case by (cases r) (auto simp: list_all_iff)
qed (auto simp: list_all_iff)

lemma impl_free_input_visit [simp]: "impl_free_input (visit_fn_arg cap x) = impl_free_input x"
  by (cases x) (simp_all add: visit_receiver_def)

lemma impl_free_input_pattern [simp]: "impl_free_input (pattern_as_arg_input x) = impl_free_input x"
  by (cases x) simp_all

lemma impl_free_inputs_map [simp]:
  "list_all impl_free_input (map (visit_fn_arg cap) xs) = list_all impl_free_input xs"
  "list_all impl_free_input (map pattern_as_arg_input xs) = list_all impl_free_input xs"
  "list_all impl_free_input (map (visit_fn_arg cap \<circ> pattern_as_arg_input) xs) = list_all impl_free_input xs"
  by (simp_all add: list_all_iff)

lemma impl_free_dyn_object_ty:
  "impl_free_ty (dyn_object_ty krate obj st) \<longleftrightarrow> list_all impl_free_seg krate \<and> impl_free_ty obj"
  by (auto simp: dyn_object_ty_def ident_path_def list_all_iff)

lemma impl_free_dyn_ret:
  "impl_free_ty (dyn_ret cap bs) \<longleftrightarrow> list_all impl_free_bound (filter is_trait_bound bs)"
  by (simp add: dyn_ret_def update_items_def list_all_iff)

lemma desugar_async_output:
  "rpit_of (desugar_async sg) = None \<Longrightarrow> sg_output (desugar_async sg) = sg_output sg"
  using rpit_of_desugar [of sg] by (auto simp: has_rpit_def desugar_async_def)

lemma impl_free_dyn_method:
  assumes "dyn_method_new pascal krate gs m = Inr dm" and "list_all impl_free_seg krate"
  shows "impl_free_sig (fn_sig (dm_method dm)) \<longleftrightarrow> opaque_return_only (fn_sig m)"
proof (cases "rpit_of (desugar_async (fn_sig m))")
  case None
  then have "fn_sig (dm_method dm) = desugar_async (pattern_as_arg_sig (fn_sig m))"
    using assms(1) by (auto simp: dyn_method_new_def Let_def)
  moreover have "sg_output (desugar_async (pattern_as_arg_sig (fn_sig m))) = sg_output (fn_sig m)"
    using None desugar_async_output [of "pattern_as_arg_sig (fn_sig m)"] by simp
  ultimately show ?thesis using None by (simp add: impl_free_sig_def opaque_return_only_def)
next
  case (Some bs)
  then obtain st where "fn_sig (dm_method dm)
      = update_dyn_signature krate gs bs st (desugar_async (pattern_as_arg_sig (fn_sig m)))"
    using assms(1) by (auto simp: dyn_method_new_def Let_def mbind_eq_Inr)
  with Some assms(2) show ?thesis
    by (simp add: impl_free_sig_def opaque_return_only_def impl_free_dyn_object_ty impl_free_dyn_ret)
qed

lemma impl_free_maybe_sync:
  assumes "maybe_sync_signature dm = Inr sg" and "list_all impl_free_seg (dm_crate dm)"
  shows "impl_free_sig sg \<longleftrightarrow> impl_free_sig (fn_sig (dm_method dm))"
proof -
  from assms(1) obtain out_ty where o: "sg_output (fn_sig (dm_method dm)) = RType out_ty"
    "sg = (fn_sig (dm_method dm))\<lparr>sg_output := RType (TyPath None
       (dm_crate dm @ [Seg ''MaybeSync'' (AngleBracketed [ArgType out_ty])]))\<rparr>"
    by (auto simp: maybe_sync_signature_def Let_def split: option.splits return_type.splits)
  with assms(2) show ?thesis by (simp add: impl_free_sig_def list_all_iff)
qed

lemma parse_method_impl_free:
  assumes p: "parse_method pascal m dt = Inr (m', dt')" and krate: "list_all impl_free_seg (dt_crate dt)"
  shows "\<exists>meth. dt_items dt' = dt_items dt @ [TIFn meth]
    \<and> (impl_free_sig (fn_sig meth) \<longleftrightarrow> opaque_return_only (fn_sig m))"
  using p
proof (cases rule: parse_method_cases)
  case (1 attrs dm)
  with impl_free_dyn_method [OF 1(2) krate] method_attrs_parse_kept [OF 1(1)] show ?thesis
    by (auto simp: dt_extend_def)
next
  case (2 attrs dm sync is_sync impl meth)
  have c: "dm_crate dm = dt_crate dt"
    using 2(2) by (auto simp: dyn_method_new_def Let_def mbind_eq_Inr split: option.splits)
  from 2(7) obtain sg where "maybe_sync_signature dm = Inr sg" "fn_sig meth = sg"
    by (auto simp: maybe_sync_method_def mbind_eq_Inr)
  with impl_free_maybe_sync [of dm sg] c krate impl_free_dyn_method [OF 2(2) krate]
    method_attrs_parse_kept [OF 2(1)] 2(8) show ?thesis
    by (auto simp: dt_extend_def)
qed

text \<open>The loop over the items, and the whole macro.\<close>

fun item_impl_free :: "trait_item \<Rightarrow> bool" where
  "item_impl_free (TIFn m) \<longleftrightarrow> impl_free_sig (fn_sig m)"
| "item_impl_free (TIType t) \<longleftrightarrow> True"
| "item_impl_free (TIConst c) \<longleftrightarrow> True"
| "item_impl_free (TIOther s) \<longleftrightarrow> True"

fun item_opaque_return_only :: "trait_item \<Rightarrow> bool" where
  "item_opaque_return_only (TIFn m) \<longleftrightarrow> is_dispatchable m \<longrightarrow> opaque_return_only (fn_sig m)"
| "item_opaque_return_only (TIType t) \<longleftrightarrow> True"
| "item_opaque_return_only (TIConst c) \<longleftrightarrow> True"
| "item_opaque_return_only (TIOther s) \<longleftrightarrow> True"

lemma parse_method_crate:
  "parse_method pascal m dt = Inr (m', dt') \<Longrightarrow> dt_crate dt' = dt_crate dt"
  by (erule parse_method_cases) (simp_all add: dt_extend_def)

lemma parse_item_impl_free:
  assumes "parse_item pascal it dt = Inr (it', dt')" and "list_all impl_free_seg (dt_crate dt)"
  shows "dt_crate dt' = dt_crate dt \<and> (\<exists>ds. dt_items dt' = dt_items dt @ ds
    \<and> (list_all item_impl_free ds \<longleftrightarrow> item_opaque_return_only it))"
proof (cases it)
  case (TIFn m)
  show ?thesis
  proof (cases "is_dispatchable m")
    case True
    with assms(1) TIFn obtain m' where "parse_method pascal m dt = Inr (m', dt')"
      by (auto simp: mbind_eq_Inr)
    with parse_method_impl_free [OF this assms(2)] parse_method_crate [OF this] True TIFn
    show ?thesis by auto
  qed (use assms TIFn in auto)
qed (use assms in \<open>auto simp: parse_type_def split: if_splits\<close>)

lemma parse_items_impl_free:
  "parse_items pascal its dt = Inr (its', dt') \<Longrightarrow> list_all impl_free_seg (dt_crate dt) \<Longrightarrow>
    \<exists>ds. dt_items dt' = dt_items dt @ ds
      \<and> (list_all item_impl_free ds \<longleftrightarrow> list_all item_opaque_return_only its)"
proof (induction its arbitrary: dt its')
  case (Cons it its)
  from Cons.prems(1) obtain it' dt1 its1 where
    1: "parse_item pascal it dt = Inr (it', dt1)" and 2: "parse_items pascal its dt1 = Inr (its1, dt')"
    by (auto simp: mbind_eq_Inr)
  from parse_item_impl_free [OF 1 Cons.prems(2)] obtain ds where
    "dt_crate dt1 = dt_crate dt" "dt_items dt1 = dt_items dt @ ds"
    "list_all item_impl_free ds \<longleftrightarrow> item_opaque_return_only it" by blast
  with Cons.IH [OF 2] Cons.prems(2) show ?case by auto
qed simp

lemma dyn_trait_impl_opaque:
  assumes "dyn_trait_impl pascal tr opts = Inr out"
    and "list_all impl_free_seg (case dto_crate opts of Some c \<Rightarrow> c | None \<Rightarrow> crate_name)"
  shows "list_all item_impl_free (do_items out) \<longleftrightarrow> list_all item_opaque_return_only (tr_items tr)"
  using assms(1)
proof (cases rule: dyn_trait_impl_cases)
  case (1 attrs dt0 items dt bound)
  from 1(4) assms(2) have "dt_items dt0 = []" "list_all impl_free_seg (dt_crate dt0)"
    by (auto simp: dyn_trait_new_def mbind_eq_Inr)
  with parse_items_impl_free [OF 1(3)] 1 show ?thesis by auto
qed

end
