(* ===== verification/Macro_Properties.thy ===== *)
theory Macro_Properties
  imports Examples Opaque_Types
begin

text \<open>
  The properties of the procedural macros. \<open>pascal\<close> is the case conversion of the \<open>heck\<close> crate;
  the examples expand the \<open>Callback\<close> trait of \<open>Examples\<close>.
\<close>


section \<open>\<open>dyn_trait\<close>\<close>

text \<open>
  C20: the generated trait and its blanket implementation fit together: they have the items of
  the original trait that are dispatchable methods or plain associated types, in the same order,
  and each item of the implementation has the name and, for a method, the signature of the
  trait's and forwards every argument to the wrapped type's method.
\<close>
theorem dyn_trait_coherent:
  assumes "dyn_trait_impl pascal tr opts = Inr out"
  shows "map trait_item_name (do_items out) = map trait_item_name (filter dyn_item (tr_items tr))
    \<and> list_all2 item_implements (do_items out) (do_impl_items out)"
  using dyn_trait_impl_result [OF assms] by (auto simp: items_result_def)

theorem dyn_trait_coherent_witness:
  "\<exists>out. dyn_trait_impl pascal_ex callback_trait default_opts = Inr out
    \<and> map trait_item_name (do_items out) = [Some ''call'', Some ''Arg'', Some ''iter'']
    \<and> list_all2 item_implements (do_items out) (do_impl_items out)"
proof -
  obtain out where out: "dyn_trait_impl pascal_ex callback_trait default_opts = Inr out"
    using callback_expands ..
  from dyn_trait_coherent [OF out] out show ?thesis
    by auto
qed



text \<open>
  C22: the generated trait has, after the original parameters, one storage parameter for each
  dispatchable method with an opaque or async return type, named after the method and in the
  order of the methods; the implementation has the same ones and then the wrapped type. Their
  names are distinct only if the names of these methods are in Pascal case.
\<close>
theorem dyn_trait_storages:
  assumes "dyn_trait_impl pascal tr opts = Inr out"
  shows "\<exists>gs name bound. map type_param gs = map Some (List.map_filter (item_storage pascal) (tr_items tr))
    \<and> (distinct (map type_param gs) \<longleftrightarrow> distinct (map pascal (List.map_filter rpit_name (tr_items tr))))
    \<and> do_header out = trait_header tr name (lifetimes_first (g_params (tr_generics tr) @ gs))
    \<and> do_impl_generics out = impl_generics (g_params (tr_generics tr) @ gs
        @ [GPType ''__Dyn'' [BTrait False [] bound] None])"
proof -
  from dyn_trait_impl_result [OF assms] obtain gs name bound where
    "items_result pascal (tr_items tr) (do_items out) (do_impl_items out) gs"
    "do_header out = trait_header tr name (lifetimes_first (g_params (tr_generics tr) @ gs))"
    "do_impl_generics out = impl_generics (g_params (tr_generics tr) @ gs
        @ [GPType ''__Dyn'' [BTrait False [] bound] None])" by blast
  moreover have "distinct (map Some xs) \<longleftrightarrow> distinct xs" for xs :: "ident list" by (simp add: distinct_map)
  ultimately show ?thesis by (auto simp: items_result_def item_storage_distinct)
qed

theorem dyn_trait_storages_witness:
  "\<exists>out gs name. dyn_trait_impl pascal_ex callback_trait default_opts = Inr out
    \<and> map type_param gs = [Some ''__StorageCall'', Some ''__StorageIter'']
    \<and> do_header out = trait_header callback_trait name (lifetimes_first gs)"
proof -
  obtain out where out: "dyn_trait_impl pascal_ex callback_trait default_opts = Inr out"
    using callback_expands ..
  have "List.map_filter (item_storage pascal_ex) (tr_items callback_trait) = [''__StorageCall'', ''__StorageIter'']"
    by (simp add: List.map_filter_def)
  moreover obtain gs name where
    "map type_param gs = map Some (List.map_filter (item_storage pascal_ex) (tr_items callback_trait))"
    "do_header out = trait_header callback_trait name (lifetimes_first (g_params (tr_generics callback_trait) @ gs))"
    using dyn_trait_storages [OF out] by blast
  ultimately have "map type_param gs = [Some ''__StorageCall'', Some ''__StorageIter'']"
    "do_header out = trait_header callback_trait name (lifetimes_first gs)"
    by (simp_all only: callback_items no_generics_def generics.simps append.simps list.map)
  with out show ?thesis by (intro exI conjI)
qed



text \<open>
  C24: the original trait is emitted, unless \<open>remote\<close> is given, with every item it had, in
  order and unchanged but for the \<open>dyn_trait\<close> attributes of its dispatchable methods, followed by
  the additional items of \<open>maybe_sync\<close>.
\<close>
theorem dyn_trait_keeps_items:
  assumes "dyn_trait_impl pascal tr opts = Inr out"
  shows "if dto_remote opts = None
    then \<exists>adds. do_trait out = Some (tr\<lparr>
        tr_attrs := filter (Not \<circ> is_dyn_trait_attr) (tr_attrs tr),
        tr_items := map kept_item (tr_items tr) @ adds\<rparr>)
    else do_trait out = None"
proof -
  from dyn_trait_impl_result [OF assms] obtain adds where
    "do_trait out = (if dto_remote opts = None then Some (tr\<lparr>
        tr_attrs := filter (Not \<circ> is_dyn_trait_attr) (tr_attrs tr),
        tr_items := map kept_item (tr_items tr) @ adds\<rparr>) else None)" by blast
  then show ?thesis by auto
qed

theorem dyn_trait_keeps_items_witness:
  "\<exists>out adds. dyn_trait_impl pascal_ex callback_trait default_opts = Inr out
    \<and> map_option tr_items (do_trait out)
      = Some ([TIFn (call_fn\<lparr>fn_attrs := []\<rparr>), plain_type ''Arg'', TIFn iter_fn, TIFn generic_fn] @ adds)"
proof -
  obtain out where out: "dyn_trait_impl pascal_ex callback_trait default_opts = Inr out"
    using callback_expands ..
  then show ?thesis
    using dyn_trait_keeps_items [OF out]
    by (auto simp: default_opts_def simp del: kept_item.simps)
qed

text \<open>The lifetimes of an argument's type.\<close>

fun arg_lts :: "fn_arg \<Rightarrow> lifetime option set" where
  "arg_lts (Receiver r) = set_option (rc_reference r) \<union> ty_lts (rc_ty r)"
| "arg_lts (Typed p t) = ty_lts t"



lemma arg_lts_pattern [simp]: "arg_lts (pattern_as_arg_input a) = arg_lts a"
  by (cases a) simp_all




section \<open>\<open>maybe_sync\<close> and \<open>sync\<close>\<close>

lemma impl_const_absent:
  "c \<notin> impl_item_name ` set impls \<Longrightarrow> map_of (List.map_filter impl_const impls) c = None"
proof (induction impls)
  case (Cons x xs)
  then show ?case by (cases x) (auto simp: List.map_filter_def)
qed (simp add: List.map_filter_def)

text \<open>What \<open>#[sync]\<close> adds to an implementation block.\<close>

lemma sync_impl_items:
  "sync_impl sg b = Inr items \<Longrightarrow> valid_ident (sg_ident sg) \<Longrightarrow> sg_async sg \<and> items = [IIFn sg b,
     IIFn (sg\<lparr>sg_async := False, sg_ident := sg_ident sg @ ''_sync''\<rparr>) b,
     IIConst (to_uppercase (sg_ident sg) @ ''_IS_SYNC'') (ty_ident ''bool'') ''true'']"
  using sync_fn_ok [of sg] is_sync_const_ok [of sg] by (auto simp: sync_impl_def split: if_splits)

lemma assoc_true_sync:
  "c \<notin> impl_item_name ` set rest \<Longrightarrow> assoc_true (rest @ [IIFn sg b, IIFn sg1 b, IIConst c t ''true'']) adds c"
  using impl_const_absent [of c rest] by (simp add: assoc_true_def List.map_filter_def map_add_def)

lemma assoc_true_default:
  "c \<notin> impl_item_name ` set impls \<Longrightarrow>
    \<not> assoc_true impls [TIFn f, TIConst \<lparr>co_attrs = as, co_name = c, co_ty = t, co_value = Some ''false''\<rparr>] c"
  using impl_const_absent [of c impls] by (simp add: assoc_true_def List.map_filter_def map_add_def)

text \<open>
  C26: what the body of a \<open>maybe_sync\<close> method does for a type implementing the trait. If the
  type's method is annotated with \<open>sync\<close> (its implementation block has the items \<open>sync_impl\<close>
  expands to), the body calls the synchronous copy and returns \<open>MaybeSync::Sync\<close>; if the block
  does not define the announcing constant, it calls the async method and returns
  \<open>MaybeSync::Async\<close> of the future in a \<open>DynObject\<close>. All arguments are passed on.
\<close>
theorem maybe_sync_dispatch:
  assumes "parse_method pascal m dt = Inr (m', dt')" "method_attrs_parse m = Inr (attrs, m')"
    and "ma_maybe_sync attrs" "valid_ident (sg_ident (fn_sig m))"
  shows "let i = sg_ident (fn_sig m); args = fn_args (fn_sig m); c = to_uppercase i @ ''_IS_SYNC'' in
    \<exists>adds sg body. dt_additional dt' = dt_additional dt @ adds
    \<and> dt_impl_items dt' = dt_impl_items dt @ [IIFn sg body]
    \<and> (\<forall>sg' b items rest. sync_impl sg' b = Inr items \<longrightarrow> sg_ident sg' = i
        \<longrightarrow> c \<notin> impl_item_name ` set rest
        \<longrightarrow> eval_maybe_sync (assoc_true (rest @ items) adds) sync_call async_call body
            = Some (Sync (sync_call (i @ ''_sync'') args)))
    \<and> (\<forall>impls. c \<notin> impl_item_name ` set impls
        \<longrightarrow> eval_maybe_sync (assoc_true impls adds) sync_call async_call body
            = Some (Async (async_call i args)))"
proof -
  let ?i = "sg_ident (fn_sig m)" and ?args = "fn_args (fn_sig m)"
  let ?c = "to_uppercase ?i @ ''_IS_SYNC''"
  obtain meth :: trait_item_fn and sync where
    adds: "dt_additional dt' = dt_additional dt @ [TIFn sync, TIConst \<lparr>co_attrs = [doc_hidden],
      co_name = ?c, co_ty = ty_ident ''bool'', co_value = Some ''false''\<rparr>]" and
    impl: "dt_impl_items dt' = dt_impl_items dt @ [IIFn (fn_sig meth) (IfConst ?c
      (MaybeSyncSync (CallDyn (?i @ ''_sync'') ?args)) (MaybeSyncAsync (DynObjectNew (CallDyn ?i ?args))))]"
    using maybe_sync_items [OF assms] unfolding Let_def by blast
  show ?thesis
    unfolding Let_def
  proof (intro exI conjI allI impI, rule adds, rule impl, goal_cases)
    case (1 sg' b items rest)
    with sync_impl_items [OF 1(1)] assms(4) show ?case by (simp add: assoc_true_sync)
  next
    case (2 impls)
    then show ?case by (simp add: assoc_true_default)
  qed
qed

theorem maybe_sync_dispatch_witness:
  "\<exists>m' dt' adds sg body. parse_method pascal_ex call_fn callback_dt = Inr (m', dt')
    \<and> dt_impl_items dt' = dt_impl_items callback_dt @ [IIFn sg body]
    \<and> eval_maybe_sync (assoc_true [IIFn (fn_sig call_fn) (UserBlock ''{}'')] adds)
        (\<lambda>i args. i) (\<lambda>i args. i) body = Some (Async ''call'')"
proof -
  obtain m' dt' where p: "parse_method pascal_ex call_fn callback_dt = Inr (m', dt')"
    using parse_method_ok_iff [OF callback_named(1) callback_dispatchable(1), of callback_dt] callback_accepted(1)
    by auto
  have m': "m' = call_fn\<lparr>fn_attrs := []\<rparr>"
    using p call_attrs by (auto simp: parse_method_def mbind_eq_Inr Let_def split: if_splits)
  have "valid_ident (sg_ident (fn_sig call_fn))" using callback_named(1) by (simp add: method_named_def)
  from maybe_sync_dispatch [OF p _ _ this, of "\<lparr>ma_storage = None, ma_maybe_sync = True\<rparr>"
      "\<lambda>i args. i" "\<lambda>i args. i"] obtain adds sg body where
    "dt_impl_items dt' = dt_impl_items callback_dt @ [IIFn sg body]"
    "\<forall>impls. to_uppercase ''call'' @ ''_IS_SYNC'' \<notin> impl_item_name ` set impls
        \<longrightarrow> eval_maybe_sync (assoc_true impls adds) (\<lambda>i args. i) (\<lambda>i args. i) body = Some (Async ''call'')"
    by (auto simp: m' call_attrs Let_def)
  moreover have "to_uppercase ''call'' @ ''_IS_SYNC'' \<notin> impl_item_name ` set [IIFn (fn_sig call_fn) (UserBlock ''{}'')]"
    by (simp add: to_uppercase_def upper_char.simps)
  ultimately show ?thesis using p by blast
qed

text \<open>
  C27: on an async method the \<open>maybe_sync\<close> attribute of the trait and the \<open>sync\<close> attribute of an
  implementation agree: the method and the constant that \<open>sync\<close> adds to the implementation are
  the ones that \<open>maybe_sync\<close> declared in the trait, with the same parameters and generics; the
  declared return type is the async output, \<open>()\<close> where none is written.
\<close>
theorem sync_copy_matches:
  assumes "parse_method pascal m dt = Inr (m', dt')" "method_attrs_parse m = Inr (attrs, m')"
    and "ma_maybe_sync attrs" "valid_ident (sg_ident (fn_sig m))" "sg_async (fn_sig m)"
  shows "\<exists>decl const sg'. dt_additional dt' = dt_additional dt @ [TIFn decl, TIConst const]
    \<and> sync_impl (fn_sig m) b = Inr [IIFn (fn_sig m) b, IIFn sg' b, IIConst (co_name const) (co_ty const) ''true'']
    \<and> fn_sig decl = sg'\<lparr>sg_output := RType (case return_type (fn_sig m) of None \<Rightarrow> TyTuple [] | Some t \<Rightarrow> t)\<rparr>"
proof -
  let ?i = "sg_ident (fn_sig m)"
  obtain decl :: trait_item_fn where
    "dt_additional dt' = dt_additional dt @ [TIFn decl, TIConst \<lparr>co_attrs = [doc_hidden],
      co_name = to_uppercase ?i @ ''_IS_SYNC'', co_ty = ty_ident ''bool'', co_value = Some ''false''\<rparr>]"
    "fn_sig decl = (fn_sig m)\<lparr>sg_async := False, sg_ident := ?i @ ''_sync'',
       sg_output := RType (case return_type (fn_sig m) of None \<Rightarrow> TyTuple [] | Some t \<Rightarrow> t)\<rparr>"
    using maybe_sync_items [OF assms(1-4)] future_output_async [OF assms(5)] unfolding Let_def by auto
  moreover have "sync_impl (fn_sig m) b = Inr [IIFn (fn_sig m) b,
      IIFn ((fn_sig m)\<lparr>sg_async := False, sg_ident := ?i @ ''_sync''\<rparr>) b,
      IIConst (to_uppercase ?i @ ''_IS_SYNC'') (ty_ident ''bool'') ''true'']"
    using assms(4,5) by (simp add: sync_impl_def sync_fn_ok is_sync_const_ok)
  ultimately show ?thesis by auto
qed

theorem sync_copy_matches_witness:
  "\<exists>m' dt' decl const. parse_method pascal_ex call_fn callback_dt = Inr (m', dt')
    \<and> dt_additional dt' = [TIFn decl, TIConst const] \<and> sg_output (fn_sig decl) = RType (TyTuple [])"
proof -
  obtain m' dt' where p: "parse_method pascal_ex call_fn callback_dt = Inr (m', dt')"
    using parse_method_ok_iff [OF callback_named(1) callback_dispatchable(1), of callback_dt] callback_accepted(1)
    by auto
  have m': "m' = call_fn\<lparr>fn_attrs := []\<rparr>"
    using p call_attrs by (auto simp: parse_method_def mbind_eq_Inr Let_def split: if_splits)
  have v: "valid_ident (sg_ident (fn_sig call_fn))" "sg_async (fn_sig call_fn)"
    "return_type (fn_sig call_fn) = None"
    using callback_named(1) by (simp_all add: method_named_def call_fn_def)
  from sync_copy_matches [OF p _ _ v(1,2), of "\<lparr>ma_storage = None, ma_maybe_sync = True\<rparr>" "UserBlock []"]
  obtain decl const sg' where "dt_additional dt' = dt_additional callback_dt @ [TIFn decl, TIConst const]"
    "fn_sig decl = sg'\<lparr>sg_output := RType (TyTuple [])\<rparr>"
    by (auto simp: m' call_attrs v(3) simp del: return_type.simps)
  then show ?thesis using p by (auto simp: callback_dt_def)
qed

text \<open>
  C28: where opaque types are left. No method of the generated trait mentions \<open>impl Trait\<close> exactly
  when every dispatchable method of the original one has \<open>impl Trait\<close> only as its whole return
  type, with none in its bounds: an opaque argument or a nested opaque type is copied as it is.
\<close>
theorem dyn_trait_opaque_types:
  assumes "dyn_trait_impl pascal tr opts = Inr out"
    and "list_all impl_free_seg (case dto_crate opts of Some c \<Rightarrow> c | None \<Rightarrow> crate_name)"
  shows "list_all item_impl_free (do_items out) \<longleftrightarrow> list_all item_opaque_return_only (tr_items tr)"
  using assms by (rule dyn_trait_impl_opaque)

theorem dyn_trait_opaque_types_witness:
  "\<exists>out. dyn_trait_impl pascal_ex callback_trait default_opts = Inr out \<and> list_all item_impl_free (do_items out)"
proof -
  obtain out where out: "dyn_trait_impl pascal_ex callback_trait default_opts = Inr out"
    using callback_expands ..
  have "list_all item_opaque_return_only (tr_items callback_trait)"
    by (simp add: opaque_return_only_def rpit_of_def desugar_async_def callback_defs)
  with dyn_trait_opaque_types [OF out] out show ?thesis by (simp add: default_opts_def crate_name_def)
qed

text \<open>The grammar of a trait header: \<open>vis [unsafe] trait name [<..>] [: bounds] [where ..]\<close>.\<close>

fun take_vis :: "header_token list \<Rightarrow> header_token list option" where
  "take_vis (HVis v # ts) = Some ts"
| "take_vis ts = None"

fun skip_unsafe :: "header_token list \<Rightarrow> header_token list" where
  "skip_unsafe (HUnsafe # ts) = ts"
| "skip_unsafe ts = ts"

fun take_trait :: "header_token list \<Rightarrow> header_token list option" where
  "take_trait (HTrait # ts) = Some ts"
| "take_trait ts = None"

fun take_name :: "header_token list \<Rightarrow> header_token list option" where
  "take_name (HName i # ts) = Some ts"
| "take_name ts = None"

fun skip_generics :: "header_token list \<Rightarrow> header_token list" where
  "skip_generics (HGenerics ps # ts) = ts"
| "skip_generics ts = ts"

fun take_bounds :: "header_token list \<Rightarrow> header_token list option" where
  "take_bounds (HBounds bs # ts) = Some ts"
| "take_bounds ts = None"

fun skip_supertraits :: "header_token list \<Rightarrow> header_token list option" where
  "skip_supertraits (HColon # ts) = take_bounds ts"
| "skip_supertraits ts = Some ts"

fun skip_where :: "header_token list \<Rightarrow> header_token list" where
  "skip_where (HWhere ps # ts) = ts"
| "skip_where ts = ts"

definition header_parses :: "header_token list \<Rightarrow> bool" where
  "header_parses ts \<longleftrightarrow>
     Option.bind (take_vis ts) (\<lambda>ts1.
     Option.bind (take_trait (skip_unsafe ts1)) (\<lambda>ts2.
     Option.bind (take_name ts2) (\<lambda>ts3.
     Option.bind (skip_supertraits (skip_generics ts3)) (\<lambda>ts4.
       Some (skip_where ts4 = []))))) = Some True"

lemma trait_header_parses: "header_parses (trait_header tr name ps) \<longleftrightarrow> tr_supertraits tr = []"
  by (cases "g_where (tr_generics tr)") (auto simp: header_parses_def trait_header_def)

text \<open>
  C29: the generated trait has a well-formed header exactly when the original trait has no
  supertraits: the macro writes the bounds after the name without the colon.
\<close>
theorem dyn_trait_header:
  assumes "dyn_trait_impl pascal tr opts = Inr out"
  shows "header_parses (do_header out) \<longleftrightarrow> tr_supertraits tr = []"
  using dyn_trait_impl_result [OF assms] by (auto simp: trait_header_parses)

theorem dyn_trait_header_witness:
  "\<exists>out. dyn_trait_impl pascal_ex callback_trait default_opts = Inr out \<and> header_parses (do_header out)"
  using callback_expands dyn_trait_header [of pascal_ex callback_trait default_opts] by auto


section \<open>\<open>dyn_object\<close>\<close>

text \<open>
  C30: \<open>dyn_object\<close> accepts a trait exactly when each of its items is a dispatchable method or an
  associated type without parameters (whose name can follow \<open>__Type\<close>). In particular the
  \<open>unwrap\<close>s on the receiver never panic.
\<close>
theorem dyn_object_accepts:
  "(\<exists>out. dyn_object_impl tr opts = Inr out) \<longleftrightarrow> list_all object_item_ok (tr_items tr)"
  by (rule dyn_object_impl_ok_iff)

text \<open>
  C31: the expansion of \<open>dyn_object\<close> is consistent: the vtable's fields are the drop function, the
  layout and one field per method; each is initialised once, in order; and the method that uses
  a field goes through the same receiver, passes the same arguments, and casts the pointer back
  to the type it was made with, up to \<open>for<..>\<close> and with \<open>Self::X\<close> and \<open>__Dyn::X\<close> read as the
  vtable's parameter for \<open>X\<close> (for signatures that mention \<open>Self\<close> only so).
\<close>
theorem dyn_object_consistent:
  assumes "dyn_object_impl tr opts = Inr out"
  shows "oo_fields out = [''__drop_in_place'', ''__layout''] @ map vi_field (oo_inits out)
    \<and> map om_sig (oo_methods out) = map fn_sig (List.map_filter item_fn (tr_items tr))
    \<and> list_all2 entry_agrees (oo_inits out) (oo_methods out)"
  using dyn_object_impl_entries [OF assms] by simp

lemma future_iterator_ok:
  "list_all object_item_ok (tr_items future_trait)" "list_all object_item_ok (tr_items iterator_trait)"
  by (simp_all add: trait_example_defs is_dispatchable_def has_dyn_trait_receiver_def last_segment_def
      macro_simps)

theorem dyn_object_consistent_witness:
  "\<exists>out. dyn_object_impl future_trait default_object_opts = Inr out
    \<and> list_all2 entry_agrees (oo_inits out) (oo_methods out)"
  using dyn_object_impl_ok_iff [of future_trait default_object_opts] future_iterator_ok(1)
    dyn_object_consistent by blast


lemma generated_object_item_ok:
  assumes "dyn_generated it" "trait_item_name it = Some i" "valid_ident i"
  shows "object_item_ok it"
proof (cases it)
  case (TIFn m)
  with assms show ?thesis by (simp add: dyn_compatible_sig_def is_dispatchable_def)
next
  case (TIType t)
  have "list_all ident_char i" using assms(3) by (simp add: valid_ident_def)
  then have "valid_ident (''__Type'' @ i)"
    by (rule valid_ident_append [rotated]) (simp add: macro_simps)
  with TIType assms show ?thesis by (simp add: is_not_generic_def)
qed (use assms in simp_all)

text \<open>
  C33: the two macros compose: whatever trait \<open>dyn_trait\<close> generates, \<open>dyn_object\<close> applied to it
  (with \<open>#[dyn_trait(dyn_object)]\<close>) accepts it, for any options.
\<close>
theorem dyn_object_after_dyn_trait:
  assumes "dyn_trait_impl pascal tr opts = Inr out"
    and "\<And>it i. it \<in> set (tr_items tr) \<Longrightarrow> trait_item_name it = Some i \<Longrightarrow> valid_ident i"
    and "tr_items gen = do_items out"
  shows "\<exists>obj. dyn_object_impl gen object_opts = Inr obj"
proof -
  from dyn_trait_impl_result [OF assms(1)] have
    names: "map trait_item_name (do_items out) = map trait_item_name (filter dyn_item (tr_items tr))" and
    gen: "list_all dyn_generated (do_items out)" by (auto simp: items_result_def)
  have "object_item_ok it" if it: "it \<in> set (do_items out)" for it
  proof -
    have g: "dyn_generated it" using gen it by (simp add: list_all_iff)
    then obtain i where i: "trait_item_name it = Some i" by (cases it) auto
    have "trait_item_name it \<in> trait_item_name ` set (filter dyn_item (tr_items tr))"
      using it names by (metis image_eqI list.set_map)
    with i assms(2) have "valid_ident i" by auto
    with g i show ?thesis by (rule generated_object_item_ok)
  qed
  then show ?thesis using dyn_object_impl_ok_iff [of gen object_opts] by (simp add: assms(3) list_all_iff)
qed

theorem dyn_object_after_dyn_trait_witness:
  "\<exists>out obj. dyn_trait_impl pascal_ex callback_trait default_opts = Inr out
    \<and> dyn_object_impl (callback_trait\<lparr>tr_items := do_items out\<rparr>) default_object_opts = Inr obj"
proof -
  obtain out where out: "dyn_trait_impl pascal_ex callback_trait default_opts = Inr out"
    using callback_expands ..
  have v: "valid_ident ''call''" "valid_ident ''iter''" "valid_ident ''generic''" "valid_ident ''Arg''"
    by (simp_all add: macro_simps)
  have "valid_ident i" if "it \<in> set (tr_items callback_trait)" "trait_item_name it = Some i" for it i
    using that v by auto
  from dyn_object_after_dyn_trait [OF out this] out show ?thesis by simp
qed

section \<open>Receivers and arguments\<close>

text \<open>
  C34: the pointer that stands for the receiver of a method in the vtable, both where the entry is
  made and where it is called: for \<open>&self\<close> and \<open>&mut self\<close> the reference to the storage with the same
  lifetime and mutability, and for any pinned reference, the shared one included, a mutable
  pinned reference to the storage.
\<close>
theorem dyn_object_receivers:
  assumes "dyn_object_impl tr opts = Inr out"
  shows "list_all2 (\<lambda>m v. receiver_passed m (vi_fn_ptr v)) (List.map_filter item_fn (tr_items tr)) (oo_inits out)
    \<and> list_all2 (\<lambda>m om. receiver_passed m (om_fn_ptr om)) (List.map_filter item_fn (tr_items tr)) (oo_methods out)"
  using dyn_object_impl_entries(5,6) [OF assms] by simp

theorem dyn_object_receivers_witness:
  "\<exists>out v. dyn_object_impl future_trait default_object_opts = Inr out \<and> oo_inits out = [v]
    \<and> fp_storage (vi_fn_ptr v) = TyPath None [Seg ''core'' NoArgs, Seg ''pin'' NoArgs,
        Seg ''Pin'' (AngleBracketed [ArgType (TyReference None True (ty_ident ''__Storage''))])]"
proof -
  obtain out where out: "dyn_object_impl future_trait default_object_opts = Inr out"
    using dyn_object_impl_ok_iff [of future_trait default_object_opts] future_iterator_ok(1) by auto
  have "List.map_filter item_fn (tr_items future_trait) = [the (item_fn (tr_items future_trait ! 1))]"
    by (simp add: trait_example_defs List.map_filter_def)
  with dyn_object_receivers [OF out] obtain v where
    "oo_inits out = [v]" "receiver_passed (the (item_fn (tr_items future_trait ! 1))) (vi_fn_ptr v)"
    by (auto simp: list_all2_Cons1)
  with out show ?thesis by (auto simp: receiver_passed_def trait_example_defs last_segment_def)
qed





section \<open>What the filter lets through\<close>

text \<open>A method with an \<open>impl Trait\<close> argument passes for dispatchable, though it is generic.\<close>

lemma dispatchable_with_impl_argument:
  "is_dispatchable \<lparr>fn_attrs = [], fn_sig = plain_sig ''f'' [ref_self False,
     Typed (PatIdent False False ''g'' None) (TyImplTrait [BTrait False [] (ident_path ''Debug'')])] RDefault,
     fn_default = None\<rparr>"
  by (simp add: is_dispatchable_def has_dyn_trait_receiver_def plain_sig_def ref_self_def no_generics_def)

end
