(* ===== verification/Unit_Tests.thy ===== *)
theory Unit_Tests
  imports Any_Impl Maybe_Sync
begin

text \<open>
  The unit tests inside the crate's modules, as programs over the model: the storage tests of
  \<open>src/storage.rs\<close>, the \<open>dyn Any\<close> test of \<open>src/impls.rs\<close> and the \<open>MaybeSync\<close> tests of
  \<open>src/lib.rs\<close>. A failed assertion is a panic. The lemmas show that they pass, for every storage
  that keeps its contract.
\<close>

definition assert_that :: "bool \<Rightarrow> (world, unit) op" where
  "assert_that b = (if b then ret () else throw (Panic ''assertion failed''))"

lemma assert_that_True [simp]: "assert_that True = ret ()"
  by (simp add: assert_that_def)

text \<open>The vtable of \<open>dyn Test\<close>, a trait without methods.\<close>

definition test_vt :: "rtype \<Rightarrow> vtable" where
  "test_vt T = \<lparr>vt_drop_in_place = DROP_IN_PLACE_FN T, vt_layout = tlayout T\<rparr>"

interpretation test_vtable: vtable_contract test_vt
  by unfold_locales (simp_all add: test_vt_def layout_fn_def drop_in_place_fn_def)

sublocale storage_contract \<subseteq> tst: dyn_object S fits rep own test_vt
  by unfold_locales


section \<open>The tests\<close>

text \<open>\<open>check_variant\<close>: the array \<open>[0, 1, .., N - 1]\<close> of bytes in a \<open>RawOrBox<8>\<close>.\<close>

definition array_ty :: "nat \<Rightarrow> rtype" where
  "array_ty N = \<lparr>tname = ''[u8; '' @ show_nat N @ '']'', tlayout = \<lparr>lsize = N, lalign = 1\<rparr>, tneeds_drop = False\<rparr>"

definition array_val :: "nat \<Rightarrow> rval" where
  "array_val N = map (\<lambda>i. Byte (of_nat i)) [0..<N]"

fun is_raw :: "raw_or_box \<Rightarrow> bool" where
  "is_raw (InnerRaw r) = True"
| "is_raw (InnerBox b) = False"

definition check_variant ::
  "config \<Rightarrow> env \<Rightarrow> nat \<Rightarrow> nat \<Rightarrow> (raw_or_box \<Rightarrow> bool) \<Rightarrow> (world, unit) op" where
  "check_variant cfg E a N variant =
     (let S = rob_ops cfg 8 (usize_align cfg) in
      bnd (dyn_new S test_vt (array_ty N) (array_val N)) (\<lambda>ob.
      bnd (assert_that (variant (storage ob))) (\<lambda>_.
      bnd (throw (so_ptr S a (storage ob))) (\<lambda>p.
      bnd (gets (read_ref S E (array_ty N) a (storage ob) p)) (\<lambda>v.
      bnd (assert_that (v = array_val N)) (\<lambda>_. dyn_drop S E a ob))))))"

text \<open>
  \<open>check_drop\<close>: \<open>SetDropped\<close> holds a reference to a flag that its destructor sets, asserting that
  it was not set. The flag is read off the log: it is set by the runs of the glue after \<open>start\<close>.
\<close>

definition drop_runs :: "rtype \<Rightarrow> rval \<Rightarrow> world \<Rightarrow> nat" where
  "drop_runs T v w = count_list (dropped w) (T, v)"

definition check_drop ::
  "('s, 'y) storage_ops_scheme \<Rightarrow> env \<Rightarrow> nat \<Rightarrow> rtype \<Rightarrow> rval \<Rightarrow> (world, unit) op" where
  "check_drop S E a T v =
     bnd (gets (\<lambda>w. Ok (drop_runs T v w))) (\<lambda>start.
     bnd (dyn_new S test_vt T v) (\<lambda>ob.
     bnd (throw (so_ptr S a (storage ob))) (\<lambda>p.
     bnd (gets (read_ref S E T a (storage ob) p)) (\<lambda>u.
     bnd (assert_that (u = v)) (\<lambda>_.
     bnd (gets (\<lambda>w. Ok (drop_runs T v w))) (\<lambda>before.
     bnd (assert_that (before = start)) (\<lambda>_.
     bnd (dyn_drop S E a ob) (\<lambda>_.
     bnd (gets (\<lambda>w. Ok (drop_runs T v w))) (\<lambda>after. assert_that (after = Suc start))))))))))"

text \<open>\<open>check_dst\<close>: \<open>()\<close>, which has no size.\<close>

definition unit_ty :: rtype where
  "unit_ty = \<lparr>tname = ''()'', tlayout = \<lparr>lsize = 0, lalign = 1\<rparr>, tneeds_drop = False\<rparr>"

definition check_dst :: "('s, 'y) storage_ops_scheme \<Rightarrow> env \<Rightarrow> nat \<Rightarrow> (world, unit) op" where
  "check_dst S E a = bnd (dyn_new S test_vt unit_ty []) (dyn_drop S E a)"

text \<open>\<open>Option::unwrap\<close> and \<open>Result::unwrap\<close>/\<open>unwrap_err\<close>.\<close>

fun unwrap :: "'a option \<Rightarrow> 'a res" where
  "unwrap (Some x) = Ok x"
| "unwrap None = Panic ''called `Option::unwrap()` on a `None` value''"

fun unwrap_ok :: "'e + 'a \<Rightarrow> 'a res" where
  "unwrap_ok (Inr x) = Ok x"
| "unwrap_ok (Inl e) = Panic ''called `Result::unwrap()` on an `Err` value''"

fun unwrap_err :: "'e + 'a \<Rightarrow> 'e res" where
  "unwrap_err (Inl e) = Ok e"
| "unwrap_err (Inr x) = Panic ''called `Result::unwrap_err()` on an `Ok` value''"

text \<open>
  \<open>storage_interior_mutability\<close>: a write through the shared reference of \<open>downcast_ref\<close> (of a
  \<open>RefCell\<close>) is what \<open>downcast\<close> takes out.
\<close>

definition check_interior ::
  "('s, 'y) storage_ops_scheme \<Rightarrow> env \<Rightarrow> nat \<Rightarrow> rtype \<Rightarrow> rval \<Rightarrow> rval \<Rightarrow> (world, unit) op" where
  "check_interior S E a T v u =
     bnd (dyn_new S any_vt T v) (\<lambda>obj.
     bnd (gets (downcast_ref S E T a obj)) (\<lambda>r.
     bnd (throw (unwrap r)) (\<lambda>p.
     bnd (write_ref S T a (storage obj) p u) (\<lambda>s.
     bnd (downcast S E T a (obj\<lparr>storage := s\<rparr>)) (\<lambda>d.
     bnd (throw (unwrap_ok d)) (\<lambda>x. assert_that (x = u)))))))"

text \<open>
  The first part of \<open>any_test!\<close>: a \<open>bool\<close> (type \<open>T\<close>, from \<open>v\<close> to \<open>u\<close>) asked for as \<open>()\<close> (type \<open>U\<close>)
  and as what it is. \<open>storage\<close> in the source is the object that \<open>downcast\<close> hands back.
\<close>

definition any_test ::
  "('s, 'y) storage_ops_scheme \<Rightarrow> env \<Rightarrow> nat \<Rightarrow> rtype \<Rightarrow> rtype \<Rightarrow> rval \<Rightarrow> rval \<Rightarrow> (world, unit) op" where
  "any_test S E a T U v u =
     bnd (dyn_new S any_vt T v) (\<lambda>any.
     bnd (gets (downcast_ref S E U a any)) (\<lambda>r1.
     bnd (assert_that (r1 = None)) (\<lambda>_.
     bnd (gets (downcast_ref S E T a any)) (\<lambda>r2.
     bnd (throw (unwrap r2)) (\<lambda>p2.
     bnd (gets (read_ref S E T a (storage any) p2)) (\<lambda>x2.
     bnd (assert_that (x2 = v)) (\<lambda>_.
     bnd (gets (downcast_mut S E U a any)) (\<lambda>r3.
     bnd (assert_that (r3 = None)) (\<lambda>_.
     bnd (gets (downcast_mut S E T a any)) (\<lambda>r4.
     bnd (throw (unwrap r4)) (\<lambda>p4.
     bnd (write_ref S T a (storage any) p4 u) (\<lambda>s.
     bnd (downcast S E U a (any\<lparr>storage := s\<rparr>)) (\<lambda>d5.
     bnd (throw (unwrap_err d5)) (\<lambda>any'.
     bnd (downcast S E T a any') (\<lambda>d6.
     bnd (throw (unwrap_ok d6)) (\<lambda>x6. assert_that (x6 = u)))))))))))))))))"

text \<open>\<open>FutureExt::now_or_never\<close>: one poll.\<close>

fun now_or_never :: "'o poll res \<times> 'f \<Rightarrow> 'o option res \<times> 'f" where
  "now_or_never (Ok (Ready x), f) = (Ok (Some x), f)"
| "now_or_never (Ok Pending, f) = (Ok None, f)"
| "now_or_never (Panic s, f) = (Panic s, f)"
| "now_or_never (UB u, f) = (UB u, f)"
| "now_or_never (BuildError s, f) = (BuildError s, f)"

definition maybe_sync_test :: "nat option res list" where
  "maybe_sync_test = map (\<lambda>ms. fst (now_or_never (maybe_sync_poll ready_poll () ms))) [Sync 42, Async (Some 42)]"

definition polled_after_completion_test :: "nat option res list" where
  "polled_after_completion_test =
     (let (r1, ms1) = now_or_never (maybe_sync_poll ready_poll () (Sync 42));
          (r2, ms2) = now_or_never (maybe_sync_poll ready_poll () ms1)
      in [r1, r2])"


section \<open>They pass\<close>

context storage_contract
begin

lemma check_drop_ok:
  assumes T: "wf_rtype T" "wf_val E T v" "fits T" and w: "wf_world w" and a: "place_ok S a"
    and d: "tneeds_drop T" "\<not> drop_panics E T v"
  shows "\<exists>w'. check_drop S E a T v w = (Ok (), w') \<and> blocks w' = blocks w"
proof -
  from tst.new_ok [OF T(1) wf_val_length [OF T(2)] T(3) w] obtain ob w1 where
    ob: "dyn_new S test_vt T v w = (Ok ob, w1)" "wf_world w1" "obj_rep rep test_vt T v ob w1"
    "frees (own T (storage ob)) w1 w" by blast
  from ref_law [OF tst.obj_rep_storage [OF ob(3)] T(1,2) a] obtain p where
    p: "so_ptr S a (storage ob) = Ok p" "read_ref S E T a (storage ob) p w1 = Ok v" by blast
  from tst.drop_ok [OF ob(3) T(1,2) a ob(2)] d obtain w2 where
    w2: "dyn_drop S E a ob w1 = (Ok (), w2)" "after_drop (own T (storage ob)) T v w1 w2" by blast
  have "drop_runs T v w1 = drop_runs T v w" "drop_runs T v w2 = Suc (drop_runs T v w)"
    using ob(4) w2(2) d(1) by (simp_all add: drop_runs_def frees_def after_drop_def drop_trace_def)
  with ob p w2 show ?thesis
    by (auto simp: check_drop_def after_drop_def frees_def)
qed

lemma check_dst_ok:
  assumes "wf_val E unit_ty []" "fits unit_ty" "wf_world w" "place_ok S a"
  shows "\<exists>w'. check_dst S E a w = (Ok (), w') \<and> blocks w' = blocks w"
proof -
  have "wf_rtype unit_ty" "\<not> tneeds_drop unit_ty"
    by (simp_all add: unit_ty_def wf_layout_def pow2.simps)
  with tst.new_drop [OF _ assms] show ?thesis by (auto simp: check_dst_def)
qed

text \<open>A write through a reference obtained from a downcast.\<close>

lemma downcast_write:
  assumes r: "obj_rep rep any_vt T v ob w" and T: "wf_rtype T" "wf_val E T v" "wf_val E T u"
    and w: "wf_world w" and a: "place_ok S a"
  shows "\<exists>p s w'. downcast_ref S E T a ob w = Ok (Some p) \<and> downcast_mut S E T a ob w = Ok (Some p)
    \<and> read_ref S E T a (storage ob) p w = Ok v \<and> write_ref S T a (storage ob) p u w = (Ok s, w')
    \<and> wf_world w' \<and> obj_rep rep any_vt T u (ob\<lparr>storage := s\<rparr>) w' \<and> own T s = own T (storage ob)
    \<and> untouched (own T (storage ob)) w w'"
proof -
  from downcast_ref_hit [OF r T(1,2) a] obtain p where
    p: "downcast_ref S E T a ob w = Ok (Some p)" "downcast_mut S E T a ob w = Ok (Some p)"
    "read_ref S E T a (storage ob) p w = Ok v" by blast
  from any_is_iff [OF r, of T] p(2) have m: "so_as_mut S E T a (storage ob) w = Ok p"
    by (simp add: downcast_mut_def)
  from ref_law [OF any.obj_rep_storage [OF r] T(1,2) a] m have "so_ptr_mut S a (storage ob) = Ok p" by auto
  from write_law [OF any.obj_rep_storage [OF r] T(1) w wf_val_length [OF T(3)] a this] r p show ?thesis
    by (auto simp: obj_rep_def)
qed

lemma any_test_ok:
  assumes T: "wf_rtype T" "wf_val E T v" "wf_val E T u" "fits T" and U: "U \<noteq> T"
    and w: "wf_world w" and a: "place_ok S a"
  shows "\<exists>w'. any_test S E a T U v u w = (Ok (), w') \<and> blocks w' = blocks w"
    "\<exists>w'. check_interior S E a T v u w = (Ok (), w') \<and> blocks w' = blocks w"
proof -
  from any.new_ok [OF T(1) wf_val_length [OF T(2)] T(4) w] obtain ob w1 where
    ob: "dyn_new S any_vt T v w = (Ok ob, w1)" "wf_world w1" "obj_rep rep any_vt T v ob w1"
    "frees (own T (storage ob)) w1 w" by blast
  from downcast_write [OF ob(3) T(1-3) ob(2) a] obtain p s w2 where
    p: "downcast_ref S E T a ob w1 = Ok (Some p)" "downcast_mut S E T a ob w1 = Ok (Some p)"
    "read_ref S E T a (storage ob) p w1 = Ok v" "write_ref S T a (storage ob) p u w1 = (Ok s, w2)"
    "wf_world w2" "obj_rep rep any_vt T u (ob\<lparr>storage := s\<rparr>) w2" "own T s = own T (storage ob)"
    "untouched (own T (storage ob)) w1 w2" by blast
  from downcast_hit [OF p(6) T(1,3) a p(5)] p(7) obtain w3 where
    w3: "downcast S E T a (ob\<lparr>storage := s\<rparr>) w2 = (Ok (Inr u), w3)" "frees (own T (storage ob)) w2 w3"
    by auto
  have "blocks w2 |` (- own T (storage ob)) = blocks w1 |` (- own T (storage ob))"
    using p(8) by (auto simp: untouched_def restrict_map_def fun_eq_iff)
  then have heap: "blocks w3 = blocks w" using w3(2) ob(4) by (simp add: frees_def)
  have miss: "downcast_ref S E U a ob w1 = Ok None" "downcast_mut S E U a ob w1 = Ok None"
    "downcast S E U a (ob\<lparr>storage := s\<rparr>) w2 = (Ok (Inl (ob\<lparr>storage := s\<rparr>)), w2)"
    using downcast_ref_miss [OF ob(3)] downcast_miss [OF p(6)] U by simp_all
  show "\<exists>w'. any_test S E a T U v u w = (Ok (), w') \<and> blocks w' = blocks w"
    "\<exists>w'. check_interior S E a T v u w = (Ok (), w') \<and> blocks w' = blocks w"
    using ob(1) p(1-4) w3(1) miss heap by (simp_all add: any_test_def check_interior_def)
qed

end

lemma array_wf: "wf_rtype (array_ty N)" "length (array_val N) = size_of (array_ty N)"
  by (simp_all add: array_ty_def array_val_def wf_layout_def pow2.simps)

lemma check_variant_ok:
  assumes "alloc_feature cfg" "wf_val E (array_ty N) (array_val N)" "wf_world w"
    and a: "place_ok (rob_ops cfg 8 (usize_align cfg)) a"
  shows "\<exists>w'. check_variant cfg E a N (\<lambda>s. is_raw s \<longleftrightarrow> N \<le> 8) w = (Ok (), w') \<and> blocks w' = blocks w"
proof -
  have fits: "rob_fits cfg 8 (usize_align cfg) (array_ty N)" using assms(1) by (simp add: rob_fits_def)
  from rob.tst.new_ok [OF array_wf fits assms(3)] obtain ob w1 where
    ob: "dyn_new (rob_ops cfg 8 (usize_align cfg)) test_vt (array_ty N) (array_val N) w = (Ok ob, w1)"
    "wf_world w1" "obj_rep (rob_rep 8 (usize_align cfg)) test_vt (array_ty N) (array_val N) ob w1"
    "frees (rob_own (array_ty N) (storage ob)) w1 w" by blast
  note rep = rob.tst.obj_rep_storage [OF ob(3)]
  have "is_raw (storage ob) \<longleftrightarrow> can_store 8 (usize_align cfg) (array_ty N)"
    using rob_variant [OF rep] by (cases "storage ob") auto
  also have "\<dots> \<longleftrightarrow> N \<le> 8" using align_val_pos [of "usize_align cfg"] by (simp add: can_store_def array_ty_def Suc_le_eq)
  finally have raw: "is_raw (storage ob) \<longleftrightarrow> N \<le> 8" .
  from rob_ref_ok [OF rep array_wf(1) assms(2) a] obtain p where
    p: "rob_ptr cfg 8 (usize_align cfg) a (storage ob) = Ok p"
    "load E (array_ty N) (rob_frame cfg 8 (usize_align cfg) a (storage ob)) p w1 = Ok (array_val N)" by blast
  have "\<not> tneeds_drop (array_ty N)" by (simp add: array_ty_def)
  with rob.tst.drop_ok [OF ob(3) array_wf(1) assms(2) a ob(2)] obtain w2 where
    "dyn_drop (rob_ops cfg 8 (usize_align cfg)) E a ob w1 = (Ok (), w2)"
    "after_drop (rob_own (array_ty N) (storage ob)) (array_ty N) (array_val N) w1 w2" by blast
  with ob(1,4) raw p show ?thesis
    by (auto simp: check_variant_def Let_def read_ref_def after_drop_def frees_def)
qed

lemma maybe_sync_tests_pass:
  "maybe_sync_test = [Ok (Some 42), Ok (Some 42)]"
  "polled_after_completion_test = [Ok (Some 42), Panic ''future polled after completion'']"
  by (simp_all add: maybe_sync_test_def polled_after_completion_test_def)

end
