(* ===== verification/Crate_Examples.thy ===== *)
theory Crate_Examples
  imports Examples Unit_Tests
begin

text \<open>
  The programs that come with the crate, as inputs of the model: the macro invocations of
  \<open>tests/compilation/errors.rs\<close>, with the messages its \<open>errors.stderr\<close> expects,
  and the two programs of \<open>examples\<close>. All names converted to Pascal case here are
  single lower-case words, which \<open>capitalize\<close> converts.
\<close>

fun capitalize :: "string \<Rightarrow> string" where
  "capitalize [] = []"
| "capitalize (c # cs) = upper_char c # cs"


section \<open>\<open>tests/compilation/errors.rs\<close>\<close>

abbreviation flag :: "ident \<Rightarrow> nested_meta" where
  "flag i \<equiv> Nested (ident_path i) NoArg"

abbreviation unparsed :: "ident \<Rightarrow> nested_meta" where
  "unparsed i \<equiv> Nested (ident_path i) (EqOther ''?'')"

definition dyn_trait_attr :: "nested_meta list \<Rightarrow> attribute" where
  "dyn_trait_attr ms = Attr (ident_path ''dyn_trait'') (MetaList ms)"

text \<open>\<open>trait name { attrs [async] fn method(&self) -> out_ty; }\<close>\<close>

definition method_trait :: "ident \<Rightarrow> attribute list \<Rightarrow> bool \<Rightarrow> return_type \<Rightarrow> item_trait" where
  "method_trait name attrs asyncness out_ty = plain_trait name [TIFn
     \<lparr>fn_attrs = attrs, fn_sig = (plain_sig ''method'' [ref_self False] out_ty)\<lparr>sg_async := asyncness\<rparr>,
      fn_default = None\<rparr>]"

definition impl_of :: "ident \<Rightarrow> path_args \<Rightarrow> return_type" where
  "impl_of i args = RType (TyImplTrait [BTrait False [] [Seg i args]])"

text \<open>The arguments of \<open>#[dyn_trait(..)]\<close>, the trait, and the expected message.\<close>

definition error_tests :: "(nested_meta list \<times> item_trait \<times> string) list" where
  "error_tests =
     [([flag ''unknown''], method_trait ''UnknownAttribute'' [] False RDefault, ''unknown attribute''),
      ([flag ''trait''], method_trait ''RenameWithoutEqual'' [] False RDefault, ''expected `=`''),
      ([unparsed ''trait''], method_trait ''InvalidRename'' [] False RDefault, ''invalid trait name''),
      ([flag ''remote''], method_trait ''RemoteWithoutEqual'' [] False RDefault, ''expected `=`''),
      ([unparsed ''remote''], method_trait ''InvalidRemote'' [] False RDefault, ''expected identifier''),
      ([], method_trait ''AttributeOnNormalMethod'' [dyn_trait_attr []] False RDefault,
        ''attribute must be used on a method with Return Position Impl Trait''),
      ([], method_trait ''StorageWithoutEqual'' [dyn_trait_attr [flag ''storage'']] True RDefault,
        ''expected `=`''),
      ([], method_trait ''InvalidStorage'' [dyn_trait_attr [unparsed ''storage'']] True RDefault,
        ''expected identifier''),
      ([], method_trait ''TrySyncOnNonAsyncMethod'' [dyn_trait_attr [flag ''maybe_sync'']] False
          (impl_of ''Iterator'' (AngleBracketed [ArgAssoc ''Item'' (TyTuple [])])),
        ''`maybe_sync` must be used on async methods''),
      ([], method_trait ''TrySyncOnDummyFuture'' [dyn_trait_attr [flag ''maybe_sync'']] False
          (impl_of ''Future'' NoArgs), ''`maybe_sync` must be used on async methods''),
      ([], method_trait ''TrySyncOnDummyFuture2'' [dyn_trait_attr [flag ''maybe_sync'']] False
          (impl_of ''Future'' (AngleBracketed [ArgAssoc ''Item'' (TyTuple [])])),
        ''`maybe_sync` must be used on async methods''),
      ([], method_trait ''UnknownAttribute2'' [dyn_trait_attr [flag ''unknown'']] False RDefault,
        ''attribute must be used on a method with Return Position Impl Trait'')]"

fun error_test_ok :: "nested_meta list \<times> item_trait \<times> string \<Rightarrow> bool" where
  "error_test_ok (args, item, msg) \<longleftrightarrow> dyn_trait_macro capitalize args item = CompileError msg"

text \<open>\<open>#[sync] fn method(&self) {}\<close>\<close>

definition sync_error_item :: "signature \<times> block" where
  "sync_error_item = (plain_sig ''method'' [ref_self False] RDefault, UserBlock [])"


section \<open>\<open>examples/no_macro.rs\<close>\<close>

definition str_ref :: "lifetime option \<Rightarrow> ty" where
  "str_ref lt = TyReference lt False (ty_ident ''str'')"

text \<open>\<open>Future<Output = ()> + Send\<close>\<close>

definition unit_future :: "bound list" where
  "unit_future = [BTrait False [] [Seg ''Future'' (AngleBracketed [ArgAssoc ''Output'' (TyTuple [])])],
     BTrait False [] (ident_path ''Send'')]"

definition arg_of :: "ty \<Rightarrow> fn_arg" where
  "arg_of t = Typed (PatIdent False False ''arg'' None) t"

text \<open>\<open>trait Callback { attrs fn call(&self, arg: &str) -> impl Future<Output = ()> + Send; }\<close>\<close>

definition callback_call :: "attribute list \<Rightarrow> trait_item_fn" where
  "callback_call attrs = \<lparr>fn_attrs = attrs, fn_sig = plain_sig ''call'' [ref_self False, arg_of (str_ref None)]
     (RType (TyImplTrait unit_future)), fn_default = None\<rparr>"

definition callback :: "attribute list \<Rightarrow> attribute list \<Rightarrow> item_trait" where
  "callback trait_attrs call_attrs =
     (plain_trait ''Callback'' [TIFn (callback_call call_attrs)])\<lparr>tr_attrs := trait_attrs\<rparr>"

text \<open>
  The hand-written \<open>DynCallback\<close>: the names the author chose (a lifetime, a storage parameter, the
  path of \<open>DynObject\<close>) and the further where clause are parameters.
\<close>

definition hand_signature :: "lifetime \<Rightarrow> ident \<Rightarrow> path \<Rightarrow> where_pred list option \<Rightarrow> signature" where
  "hand_signature lt st krate preds =
     (plain_sig ''call'' [Receiver \<lparr>rc_reference = Some (Some lt), rc_mutability = False,
          rc_ty = TyReference (Some lt) False ty_Self\<rparr>, arg_of (str_ref (Some lt))]
        (RType (dyn_object_ty krate (TyTraitObject (unit_future @ [BLifetime lt])) st)))
      \<lparr>sg_generics := \<lparr>g_params = [GPLifetime (LParam lt [])], g_where = preds\<rparr>\<rparr>"

definition hand_storage :: "ident \<Rightarrow> ty option \<Rightarrow> generic_param" where
  "hand_storage st dflt = GPType st [BTrait False [] (storage_path crate_name ''Storage'')] dflt"

definition hand_header :: "ident \<Rightarrow> header_token list" where
  "hand_header st = [HVis '''', HTrait, HName ''DynCallback'',
     HGenerics [hand_storage st (Some (TyPath None (storage_path crate_name ''DefaultStorage'')))]]"

definition hand_wrapped :: "ident \<Rightarrow> generic_param" where
  "hand_wrapped d = GPType d [BTrait False [] (ident_path ''Callback'')] None"

definition hand_impl :: "lifetime \<Rightarrow> ident \<Rightarrow> path \<Rightarrow> where_pred list option \<Rightarrow> impl_item" where
  "hand_impl lt st krate preds = IIFn (hand_signature lt st krate preds)
     (DynObjectNew (CallDyn ''call'' [SelfArg, PatArg (PatIdent False False ''arg'' None)]))"

lemmas no_macro_defs =
  callback_def callback_call_def plain_trait_def plain_sig_def no_generics_def ref_self_def arg_of_def
  str_ref_def unit_future_def ident_path_def hand_signature_def hand_storage_def hand_header_def
  hand_wrapped_def hand_impl_def

lemmas dyn_trait_defs =
  dyn_trait_macro_def macro_impl_def default_opts_def dyn_trait_impl_def extract_dyn_trait_attrs_def
  dyn_trait_new_def dyn_trait_name_def is_dispatchable_def has_dyn_trait_receiver_def parse_method_def
  method_attrs_parse_def default_method_attrs_def dyn_method_new_def pattern_as_arg_sig_def rpit_of_def
  desugar_async_def has_rpit_def storage_ident_def update_dyn_signature_def captured_new_def dyn_ret_def
  update_items_def generic_storage_def dm_impl_method_def impl_method_def fn_args_def path_with_args_def
  ty_generics_args_def lifetimes_first_def impl_generics_def trait_header_def is_dyn_trait_attr_def
  is_ident_def visit_receiver_def dyn_object_ty_def storage_path_def crate_name_def List.map_filter_def
  Let_def

lemma capitalize_call [simp]: "upper_char CHR ''c'' = CHR ''C''" "to_uppercase ''call'' = ''CALL''"
  by code_simp+

lemma call_idents [simp]:
  "valid_ident ''call''" "format_ident ''__StorageCall'' = Inr ''__StorageCall''" "format_ident ''DynCallback'' = Inr ''DynCallback''"
  "format_ident ''call_sync'' = Inr ''call_sync''" "format_ident ''CALL_IS_SYNC'' = Inr ''CALL_IS_SYNC''"
  by (simp_all add: macro_simps)

text \<open>The macro's version.\<close>

definition dyn_preds :: "where_pred list option" where
  "dyn_preds = Some [WPType ty_Self [BLifetime dyn_lt]]"

lemma no_macro_expansion:
  "\<exists>out. dyn_trait_macro capitalize [] (callback [] []) = Expanded out
    \<and> do_items out = [TIFn \<lparr>fn_attrs = [], fn_sig = hand_signature dyn_lt ''__StorageCall'' crate_name dyn_preds,
        fn_default = None\<rparr>]
    \<and> do_impl_items out = [hand_impl dyn_lt ''__StorageCall'' crate_name dyn_preds]
    \<and> do_header out = hand_header ''__StorageCall''
    \<and> do_impl_generics out = [hand_storage ''__StorageCall'' None, hand_wrapped ''__Dyn'']"
  by (simp add: dyn_trait_defs no_macro_defs dyn_preds_def)


section \<open>\<open>examples/async_callback.rs\<close>\<close>

text \<open>\<open>dyn_utils::storage::Raw<128>\<close>\<close>

definition raw_128 :: path where
  "raw_128 = crate_name @ [Seg ''storage'' NoArgs, Seg ''Raw'' (AngleBracketed [ArgOther ''128''])]"

definition dyn_object_path :: path where
  "dyn_object_path = crate_name @ [Seg ''dyn_object'' NoArgs]"

definition async_callback :: item_trait where
  "async_callback = callback [dyn_trait_attr [Nested dyn_object_path NoArg]]
     [dyn_trait_attr [flag ''maybe_sync''],
      dyn_trait_attr [Nested (ident_path ''storage'') (EqPath raw_128)]]"

text \<open>\<open>#[dyn_utils::sync] async fn call(&self, arg: &str) { println!(..) }\<close>\<close>

definition hello_call :: "signature \<times> block" where
  "hello_call = ((plain_sig ''call'' [ref_self False, arg_of (str_ref None)] RDefault)\<lparr>sg_async := True\<rparr>,
     UserBlock ''println!'')"

text \<open>
  \<open>callback.call("world").now_or_never()\<close>: the traits are expanded, and the method of the generated
  trait runs on \<open>HelloCallback\<close>, whose methods are \<open>sync_call\<close> and \<open>async_call\<close>.
\<close>

definition async_callback_main ::
  "(ident \<Rightarrow> arg_expr list \<Rightarrow> 'o) \<Rightarrow> (ident \<Rightarrow> arg_expr list \<Rightarrow> 'f) \<Rightarrow> ('f \<Rightarrow> 'c \<Rightarrow> 'o poll res \<times> 'f) \<Rightarrow> 'c
    \<Rightarrow> 'o option res option" where
  "async_callback_main sync_call async_call poll_fut cx =
     (case (dyn_trait_macro capitalize [] async_callback, sync_macro [] hello_call) of
        (Expanded out, Expanded items) \<Rightarrow>
          (case (do_trait out, do_impl_items out) of
             (Some tr, [IIFn sg body]) \<Rightarrow>
               map_option (\<lambda>ms. fst (now_or_never (maybe_sync_poll poll_fut cx ms)))
                 (eval_maybe_sync (assoc_true items (tr_items tr)) sync_call async_call body)
           | _ \<Rightarrow> None)
      | _ \<Rightarrow> None)"

definition maybe_sync_output :: "signature \<Rightarrow> signature" where
  "maybe_sync_output sg = sg\<lparr>sg_output := (case sg_output sg of RDefault \<Rightarrow> RDefault
     | RType t \<Rightarrow> RType (TyPath None (crate_name @ [Seg ''MaybeSync'' (AngleBracketed [ArgType t])])))\<rparr>"

lemmas async_callback_defs =
  async_callback_def raw_128_def dyn_object_path_def dyn_trait_attr_def hello_call_def maybe_sync_output_def
  sync_method_def is_sync_item_def maybe_sync_signature_def maybe_sync_method_def maybe_sync_impl_def
  sync_fn_def is_sync_const_def future_output_def last_segment_def has_dyn_object_def doc_hidden_def
  sync_macro_def sync_impl_def

lemma async_callback_expansion:
  "\<exists>out tr sync is_sync. dyn_trait_macro capitalize [] async_callback = Expanded out
    \<and> do_attrs out = [Attr dyn_object_path MetaPath]
    \<and> do_items out = [TIFn \<lparr>fn_attrs = [],
        fn_sig = maybe_sync_output (hand_signature dyn_lt ''__StorageCall'' crate_name dyn_preds),
        fn_default = None\<rparr>]
    \<and> do_header out = [HVis '''', HTrait, HName ''DynCallback'',
        HGenerics [hand_storage ''__StorageCall'' (Some (TyPath None raw_128))]]
    \<and> do_impl_generics out = [hand_storage ''__StorageCall'' None, hand_wrapped ''__Dyn'']
    \<and> do_trait out = Some tr
    \<and> tr_items tr = [TIFn (callback_call []), TIFn sync,
        TIConst \<lparr>co_attrs = [doc_hidden], co_name = ''CALL_IS_SYNC'', co_ty = ty_ident ''bool'', co_value = Some ''false''\<rparr>]
    \<and> do_impl_items out = [IIFn (maybe_sync_output (hand_signature dyn_lt ''__StorageCall'' crate_name dyn_preds))
        (let args = [SelfArg, PatArg (PatIdent False False ''arg'' None)]
         in IfConst ''CALL_IS_SYNC'' (MaybeSyncSync (CallDyn ''call_sync'' args))
           (MaybeSyncAsync (DynObjectNew (CallDyn ''call'' args))))]"
  by (simp add: dyn_trait_defs no_macro_defs dyn_preds_def async_callback_defs)

lemma hello_expansion:
  "\<exists>sg b. sync_macro [] hello_call = Expanded [IIFn (fst hello_call) b, IIFn sg b,
      IIConst ''CALL_IS_SYNC'' (ty_ident ''bool'') ''true'']"
  by (simp add: dyn_trait_defs no_macro_defs async_callback_defs)

lemma async_callback_runs:
  "async_callback_main sync_call async_call poll_fut cx
    = Some (Ok (Some (sync_call ''call_sync'' [SelfArg, PatArg (PatIdent False False ''arg'' None)])))"
  using async_callback_expansion hello_expansion
  by (elim exE conjE) (simp add: async_callback_main_def assoc_true_def List.map_filter_def Let_def)

text \<open>\<open>dyn_object\<close>, which \<open>#[dyn_trait(dyn_utils::dyn_object)]\<close> puts on the generated trait.\<close>

lemma async_callback_object:
  "\<exists>obj. dyn_object_macro [] (plain_trait ''DynCallback'' [TIFn \<lparr>fn_attrs = [],
        fn_sig = maybe_sync_output (hand_signature dyn_lt ''__StorageCall'' crate_name dyn_preds),
        fn_default = None\<rparr>]) = Expanded obj
    \<and> oo_fields obj = [''__drop_in_place'', ''__layout'', ''call'']
    \<and> map (\<lambda>v. (vi_callee v, vi_self_as v)) (oo_inits obj) = [(''call'', VRef)]"
  by (simp add: dyn_object_macro_def macro_impl_def default_object_opts_def dyn_object_impl_def
      dyn_object_new_def is_dispatchable_def has_dyn_trait_receiver_def vtable_method_def do_impl_method_def
      vtable_receiver_new_def vtable_fn_pointer_def receiver_lifetime_def vtable_field_def
      maybe_sync_output_def no_macro_defs List.map_filter_def Let_def fn_args_def)


section \<open>The invalid invocations\<close>

lemma method_idents [simp]:
  "upper_char CHR ''m'' = CHR ''M''" "format_ident ''__StorageMethod'' = Inr ''__StorageMethod''"
  by (code_simp, simp add: macro_simps)

lemma error_tests_pass: "list_all error_test_ok error_tests"
  by (simp add: error_tests_def method_trait_def impl_of_def dyn_trait_defs no_macro_defs async_callback_defs
      valid_ident_def format_ident_def macro_simps)

end
