(* ===== verification/Object_Traits.thy ===== *)
theory Object_Traits
  imports Macro_Runtime
begin

text \<open>
  The marker and \<open>Debug\<close> implementations of \<open>DynObject\<close> (\<open>src/object.rs\<close>), and what they rest on:
  the auto traits the storages of \<open>src/storage.rs\<close> have by their fields, the bound on the concrete
  type in each \<open>unsafe impl Vtable\<close> (\<open>src/impls.rs\<close>, \<open>macros/src/dyn_object.rs\<close>), and a step
  relation of a client that shares objects between threads and moves them out of pins.

  Which user types are \<open>Send\<close>, \<open>Sync\<close> or \<open>Unpin\<close> is the users' affair: \<open>has m T\<close> is a parameter.
\<close>


section \<open>Auto traits by fields\<close>

datatype marker = MSend | MSync | MUnpin

text \<open>
  The field types of the crate's structures. \<open>Foreign ms\<close> is a type given by the markers it has: a
  generic parameter, or \<open>elain::Align<N>\<close>.
\<close>

datatype field_ty =
    Byte_Ty
  | Raw_Pointer
  | Non_Null
  | Unsafe_Cell field_ty
  | Maybe_Uninit field_ty
  | Array_Of field_ty
  | Phantom_Data field_ty
  | Phantom_Pinned
  | Shared_Ref field_ty
  | Foreign "marker set"
  | Fields "field_ty list"

text \<open>The auto traits of the language and of \<open>core\<close>.\<close>

fun auto_is :: "marker \<Rightarrow> field_ty \<Rightarrow> bool" where
  "auto_is m Byte_Ty \<longleftrightarrow> True"
| "auto_is m Raw_Pointer \<longleftrightarrow> m = MUnpin"
| "auto_is m Non_Null \<longleftrightarrow> m = MUnpin"
| "auto_is m (Unsafe_Cell t) \<longleftrightarrow> m \<noteq> MSync \<and> auto_is m t"
| "auto_is m (Maybe_Uninit t) \<longleftrightarrow> auto_is m t"
| "auto_is m (Array_Of t) \<longleftrightarrow> auto_is m t"
| "auto_is m (Phantom_Data t) \<longleftrightarrow> auto_is m t"
| "auto_is m Phantom_Pinned \<longleftrightarrow> m \<noteq> MUnpin"
| "auto_is m (Shared_Ref t) \<longleftrightarrow> m = MUnpin \<or> auto_is MSync t"
| "auto_is m (Foreign ms) \<longleftrightarrow> m \<in> ms"
| "auto_is m (Fields ts) \<longleftrightarrow> list_all (auto_is m) ts"

definition raw_ty :: "marker set \<Rightarrow> field_ty" where
  "raw_ty align = Fields [Unsafe_Cell (Maybe_Uninit (Array_Of Byte_Ty)), Foreign align,
     Phantom_Data Raw_Pointer, Phantom_Pinned]"

definition box_ty :: field_ty where
  "box_ty = Fields [Non_Null]"

text \<open>The payloads of both variants; without \<open>alloc\<close> there is one.\<close>

definition rob_ty :: "config \<Rightarrow> marker set \<Rightarrow> field_ty" where
  "rob_ty cfg align = Fields (if alloc_feature cfg then [raw_ty align, box_ty] else [raw_ty align])"

text \<open>No storage is \<open>Send\<close> or \<open>Sync\<close>; \<open>Box\<close> alone is \<open>Unpin\<close>, as its data does not move with it.\<close>

lemma storage_markers:
  "\<not> auto_is m (raw_ty align)" "auto_is m box_ty \<longleftrightarrow> m = MUnpin" "\<not> auto_is m (rob_ty cfg align)"
  by (cases m; simp add: raw_ty_def box_ty_def rob_ty_def)+

text \<open>The fields of \<open>DynObject\<close>: a storage, \<open>&'static Dyn::Vtable\<close> and \<open>PhantomData<Dyn>\<close>.\<close>

definition dynobj_ty :: "marker set \<Rightarrow> marker set \<Rightarrow> field_ty \<Rightarrow> field_ty" where
  "dynobj_ty dyn vt S = Fields [S, Shared_Ref (Foreign vt), Phantom_Data (Foreign dyn)]"

text \<open>
  The explicit implementations, which take the place of the automatic ones: each asks the marker of
  \<open>Dyn\<close> and nothing of the storage.
\<close>

fun dyn_object_is :: "marker \<Rightarrow> marker set \<Rightarrow> field_ty \<Rightarrow> bool" where
  "dyn_object_is MSend dyn S \<longleftrightarrow> MSend \<in> dyn"
| "dyn_object_is MSync dyn S \<longleftrightarrow> MSync \<in> dyn"
| "dyn_object_is MUnpin dyn S \<longleftrightarrow> MUnpin \<in> dyn"

lemma dyn_object_is_iff [simp]: "dyn_object_is m dyn S \<longleftrightarrow> m \<in> dyn"
  by (cases m) simp_all

text \<open>Without them no object over \<open>Raw\<close> or \<open>RawOrBox\<close> would have any marker.\<close>

lemma markers_need_impls:
  "\<not> auto_is m (dynobj_ty dyn vt (rob_ty cfg align))" "\<not> auto_is m (dynobj_ty dyn vt (raw_ty align))"
  by (simp_all add: dynobj_ty_def storage_markers)


section \<open>The \<open>Vtable\<close> implementations\<close>

text \<open>
  \<open>unsafe impl<__Dyn: bound> Vtable<__Dyn> for dyn object\<close>, by the markers on each side. An object
  is made of a \<open>T\<close> only through one (\<open>DynObject::new\<close> and \<open>from_box\<close> ask \<open>Dyn: Vtable<T>\<close>).
\<close>

record vtable_impl =
  vi_object :: "marker set"
  vi_bound :: "marker set"

definition admits :: "(marker \<Rightarrow> rtype \<Rightarrow> bool) \<Rightarrow> vtable_impl \<Rightarrow> rtype \<Rightarrow> bool" where
  "admits has vi T \<longleftrightarrow> (\<forall>m\<in>vi_bound vi. has m T)"

text \<open>\<open>any_impl!($dyn_any)\<close>, whose bound is \<open>Any\<close> whatever \<open>$dyn_any\<close> is, and its three uses.\<close>

definition any_impl :: "marker set \<Rightarrow> vtable_impl" where
  "any_impl dyn_any = \<lparr>vi_object = dyn_any, vi_bound = {}\<rparr>"

definition any_uses :: "vtable_impl list" where
  "any_uses = [any_impl {}, any_impl {MSend}, any_impl {MSend, MSync}]"

definition future_impl :: vtable_impl where
  "future_impl = \<lparr>vi_object = {}, vi_bound = {}\<rparr>"

definition future_send_impl :: vtable_impl where
  "future_send_impl = \<lparr>vi_object = {MSend}, vi_bound = {MSend}\<rparr>"

definition iterator_impl :: vtable_impl where
  "iterator_impl = \<lparr>vi_object = {}, vi_bound = {}\<rparr>"

text \<open>
  Expansions of \<open>dyn_object\<close>: the same tokens stand on both sides. A marker is there when a bound
  names it or a supertrait of the trait gives it (\<open>supers\<close>).
\<close>

definition marker_named :: "path \<Rightarrow> marker option" where
  "marker_named p = (if p = [] then None else
     let i = seg_ident (last p) in
     if i = ''Send'' then Some MSend else if i = ''Sync'' then Some MSync
     else if i = ''Unpin'' then Some MUnpin else None)"

fun tokens_markers :: "(path \<Rightarrow> marker set) \<Rightarrow> dyn_trait_tokens \<Rightarrow> marker set" where
  "tokens_markers supers (DynTraitTokens p args lt bounds) =
     supers p \<union> set (List.map_filter marker_named bounds)"

definition expansion_impl :: "(path \<Rightarrow> marker set) \<Rightarrow> dyn_object_output \<Rightarrow> vtable_impl" where
  "expansion_impl supers out = \<lparr>vi_object = tokens_markers supers (oo_dyn_trait out),
     vi_bound = tokens_markers supers (oo_dyn_trait out)\<rparr>"

lemma expansion_markers:
  "dyn_object_impl tr opts = Inr out \<Longrightarrow> vi_object (expansion_impl supers out) =
    supers (case doo_remote opts of Some r \<Rightarrow> r | None \<Rightarrow> ident_path (tr_ident tr))
    \<union> set (List.map_filter marker_named (doo_bounds opts))"
  by (auto simp: dyn_object_impl_def mbind_eq_Inr expansion_impl_def ob_dyn_trait_def
      dyn_object_new_def split: option.splits dest!: object_items_result)


section \<open>A client with threads\<close>

text \<open>
  An object, with the markers its value was used by: \<open>MSend\<close> once it has gone to another thread,
  \<open>MSync\<close> once another thread has had a reference to it, \<open>MUnpin\<close> once it was moved after a pin.
\<close>

record shared =
  sh_type :: rtype
  sh_thread :: nat
  sh_pinned :: bool
  sh_uses :: "marker set"

definition mark_used :: "marker \<Rightarrow> shared \<Rightarrow> shared" where
  "mark_used m ob = ob\<lparr>sh_uses := insert m (sh_uses ob)\<rparr>"

inductive share_step ::
  "(marker \<Rightarrow> rtype \<Rightarrow> bool) \<Rightarrow> vtable_impl \<Rightarrow> field_ty \<Rightarrow> shared list \<Rightarrow> shared list \<Rightarrow> bool"
  for has vi S where
  share_new: "admits has vi T \<Longrightarrow>
    share_step has vi S obs (obs @ [\<lparr>sh_type = T, sh_thread = t, sh_pinned = False, sh_uses = {}\<rparr>])"
| share_send: "\<lbrakk> i < length obs; dyn_object_is MSend (vi_object vi) S; t \<noteq> sh_thread (obs ! i) \<rbrakk> \<Longrightarrow>
    share_step has vi S obs (obs[i := mark_used MSend (obs ! i)\<lparr>sh_thread := t\<rparr>])"
| share_ref: "\<lbrakk> i < length obs; dyn_object_is MSync (vi_object vi) S; t \<noteq> sh_thread (obs ! i) \<rbrakk> \<Longrightarrow>
    share_step has vi S obs (obs[i := mark_used MSync (obs ! i)])"
| share_pin: "i < length obs \<Longrightarrow> share_step has vi S obs (obs[i := (obs ! i)\<lparr>sh_pinned := True\<rparr>])"
| share_unpin: "\<lbrakk> i < length obs; sh_pinned (obs ! i); dyn_object_is MUnpin (vi_object vi) S \<rbrakk> \<Longrightarrow>
    share_step has vi S obs (obs[i := mark_used MUnpin (obs ! i)\<lparr>sh_pinned := False\<rparr>])"
| share_drop: "i < length obs \<Longrightarrow> share_step has vi S obs (take i obs @ drop (Suc i) obs)"

text \<open>Every use of a value is one its type allows.\<close>

definition uses_allowed :: "(marker \<Rightarrow> rtype \<Rightarrow> bool) \<Rightarrow> shared \<Rightarrow> bool" where
  "uses_allowed has ob \<longleftrightarrow> (\<forall>m\<in>sh_uses ob. has m (sh_type ob))"

definition sound_impl :: "vtable_impl \<Rightarrow> bool" where
  "sound_impl vi \<longleftrightarrow> (\<forall>has S obs. (share_step has vi S)\<^sup>*\<^sup>* [] obs \<longrightarrow> list_all (uses_allowed has) obs)"

definition share_inv :: "(marker \<Rightarrow> rtype \<Rightarrow> bool) \<Rightarrow> vtable_impl \<Rightarrow> shared \<Rightarrow> bool" where
  "share_inv has vi ob \<longleftrightarrow> admits has vi (sh_type ob) \<and> sh_uses ob \<subseteq> vi_object vi"

lemma share_step_inv:
  assumes "share_step has vi S obs obs'" "list_all (share_inv has vi) obs"
  shows "list_all (share_inv has vi) obs'"
proof -
  have upd: "list_all (share_inv has vi) (obs[i := ob])" if "share_inv has vi ob" for i ob
    using assms(2) that set_update_subset_insert [of obs i ob] by (auto simp: list_all_iff)
  have at: "share_inv has vi (obs ! i)" if "i < length obs" for i
    using assms(2) that by (simp add: list_all_length)
  from assms(1) show ?thesis
  proof (cases rule: share_step.cases)
    case (share_drop i)
    with assms(2) show ?thesis by (auto simp: list_all_iff dest: in_set_takeD in_set_dropD)
  qed (use assms(2) at in \<open>auto simp: share_inv_def mark_used_def intro!: upd\<close>)
qed

lemma share_reach_inv: "(share_step has vi S)\<^sup>*\<^sup>* [] obs \<Longrightarrow> list_all (share_inv has vi) obs"
  by (induction rule: rtranclp_induct) (auto intro: share_step_inv)

text \<open>A client can exercise every marker the object has, whatever the value is.\<close>

lemma share_uses:
  assumes "admits has vi T" "m \<in> vi_object vi"
  shows "\<exists>ob. (share_step has vi S)\<^sup>*\<^sup>* [] [ob] \<and> sh_type ob = T \<and> sh_uses ob = {m}"
proof -
  let ?o = "\<lparr>sh_type = T, sh_thread = 0, sh_pinned = False, sh_uses = {}\<rparr>"
  let ?p = "?o\<lparr>sh_pinned := True\<rparr>"
  note steps = share_step.share_send [of 0 "[?o]" vi S 1 has] share_step.share_ref [of 0 "[?o]" vi S 1 has]
    share_step.share_pin [of 0 "[?o]" has vi S] share_step.share_unpin [of 0 "[?p]" vi S has]
  have new: "(share_step has vi S)\<^sup>*\<^sup>* [] [?o]"
    using share_step.share_new [OF assms(1), of S "[]" 0] by (simp add: r_into_rtranclp)
  show ?thesis
  proof (cases m)
    case MSend
    with assms(2) steps(1) show ?thesis
      by (intro exI [of _ "mark_used MSend ?o\<lparr>sh_thread := 1\<rparr>"])
        (simp add: mark_used_def rtranclp.rtrancl_into_rtrancl [OF new])
  next
    case MSync
    with assms(2) steps(2) show ?thesis
      by (intro exI [of _ "mark_used MSync ?o"])
        (simp add: mark_used_def rtranclp.rtrancl_into_rtrancl [OF new])
  next
    case MUnpin
    have "(share_step has vi S)\<^sup>*\<^sup>* [] [?p]"
      using steps(3) by (simp add: rtranclp.rtrancl_into_rtrancl [OF new])
    with MUnpin assms(2) steps(4) show ?thesis
      by (intro exI [of _ "mark_used MUnpin ?p\<lparr>sh_pinned := False\<rparr>"])
        (simp add: mark_used_def rtranclp.rtrancl_into_rtrancl)
  qed
qed

text \<open>An implementation is sound exactly when its bound asks every marker of the object.\<close>

lemma sound_impl_iff: "sound_impl vi \<longleftrightarrow> vi_object vi \<subseteq> vi_bound vi"
proof
  assume s: "sound_impl vi"
  show "vi_object vi \<subseteq> vi_bound vi"
  proof
    fix m assume m: "m \<in> vi_object vi"
    let ?has = "\<lambda>m' (T :: rtype). m' \<in> vi_bound vi"
    have "admits ?has vi T" for T by (simp add: admits_def)
    from share_uses [OF this m] obtain ob where
      ob: "(share_step ?has vi box_ty)\<^sup>*\<^sup>* [] [ob]" "sh_uses ob = {m}" by blast
    have "list_all (uses_allowed ?has) [ob]" using s ob(1) unfolding sound_impl_def by blast
    with ob(2) show "m \<in> vi_bound vi" by (simp add: uses_allowed_def)
  qed
next
  assume "vi_object vi \<subseteq> vi_bound vi"
  then have "share_inv has vi ob \<Longrightarrow> uses_allowed has ob" for has ob
    by (auto simp: share_inv_def uses_allowed_def admits_def)
  then show "sound_impl vi"
    unfolding sound_impl_def using share_reach_inv by (metis list_all_iff)
qed


section \<open>\<open>Debug\<close>\<close>

text \<open>
  \<open>f.debug_struct("DynObject").field("inner", ..).field("vtable", ..).finish()\<close>, as \<open>{:?}\<close> prints it,
  given how the storage and the vtable print.
\<close>

definition debug_dynobj :: "('s \<Rightarrow> string) \<Rightarrow> ('v \<Rightarrow> string) \<Rightarrow> ('s, 'v) dynobj \<Rightarrow> string" where
  "debug_dynobj fmt_s fmt_v this =
     ''DynObject { inner: '' @ fmt_s (storage this) @ '', vtable: '' @ fmt_v (vtable this) @ '' }''"

end
