(* ===== verification/Doc_Examples.thy ===== *)
theory Doc_Examples
  imports Crate_Examples Object_Traits
begin

text \<open>
  The examples in the documentation of \<open>src/macros.rs\<close> and \<open>src/lib.rs\<close>, as inputs of the macros.
\<close>


section \<open>\<open>dyn_object\<close>\<close>

text \<open>
  \<open>#[dyn_object] #[dyn_object(bounds = Send)] trait Callback { fn call(&self, arg: &str); }\<close>. The
  first attribute runs on the trait that still carries the second, and emits it again.
\<close>

definition bounds_send :: "nested_meta list" where
  "bounds_send = [Nested (ident_path ''bounds'') (EqIdent ''Send'')]"

definition object_callback :: "attribute list \<Rightarrow> item_trait" where
  "object_callback attrs = (plain_trait ''Callback'' [TIFn \<lparr>fn_attrs = [],
     fn_sig = plain_sig ''call'' [ref_self False, arg_of (str_ref None)] RDefault, fn_default = None\<rparr>])
     \<lparr>tr_attrs := attrs\<rparr>"

lemmas dyn_object_defs =
  dyn_object_macro_def macro_impl_def default_object_opts_def dyn_object_impl_def dyn_object_new_def
  is_dispatchable_def has_dyn_trait_receiver_def vtable_method_def do_impl_method_def
  vtable_receiver_new_def vtable_fn_pointer_def receiver_lifetime_def vtable_field_def ob_dyn_trait_def
  ob_impl_type_def has_dyn_object_def last_segment_def List.map_filter_def Let_def fn_args_def is_ident_def

lemma object_callback_twice:
  assumes "attrs = [Attr (ident_path ''dyn_object'') (MetaList bounds_send)]"
  shows "\<exists>out1 out2. dyn_object_macro [] (object_callback attrs) = Expanded out1
    \<and> oo_trait out1 = Some (object_callback attrs)
    \<and> dyn_object_macro bounds_send (object_callback []) = Expanded out2
    \<and> oo_trait out2 = Some (object_callback [])
    \<and> vi_object (expansion_impl (\<lambda>p. {}) out1) = {} \<and> vi_object (expansion_impl (\<lambda>p. {}) out2) = {MSend}"
  using assms
  by (simp add: dyn_object_defs object_callback_def bounds_send_def no_macro_defs expansion_impl_def marker_named_def)

text \<open>
  \<open>#[dyn_trait(trait = DynCallback)] #[dyn_trait(dyn_utils::dyn_object)] trait Callback\<close> with
  a type parameter \<open>T\<close> (the example that must not compile) or an associated type \<open>Arg\<close>, the type
  of \<open>arg\<close>.
\<close>

definition trait_DynCallback :: "nested_meta list" where
  "trait_DynCallback = [Nested (ident_path ''trait'') (EqIdent ''DynCallback'')]"

definition call_with :: "ty \<Rightarrow> trait_item" where
  "call_with t = TIFn \<lparr>fn_attrs = [], fn_sig = plain_sig ''call'' [ref_self False, arg_of t]
     (RType (TyImplTrait unit_future)), fn_default = None\<rparr>"

definition generic_callback :: item_trait where
  "generic_callback = (plain_trait ''Callback'' [call_with (ty_ident ''T'')])
     \<lparr>tr_attrs := [dyn_trait_attr [Nested dyn_object_path NoArg]],
      tr_generics := \<lparr>g_params = [GPType ''T'' [] None], g_where = None\<rparr>\<rparr>"

definition assoc_callback :: item_trait where
  "assoc_callback = (plain_trait ''Callback'' [plain_type ''Arg'', call_with (self_assoc ''Arg'')])
     \<lparr>tr_attrs := [dyn_trait_attr [Nested dyn_object_path NoArg]]\<rparr>"

lemmas doc_example_defs =
  dyn_trait_defs no_macro_defs async_callback_defs generic_callback_def assoc_callback_def call_with_def
  trait_DynCallback_def plain_type_def self_assoc_def

lemma DynCallback_no_keyword [simp]: "\<not> path_keyword ''DynCallback''"
  by code_simp

lemma generic_callback_refused:
  "dyn_trait_macro capitalize trait_DynCallback generic_callback
    = CompileError ''generic parameters are not supported in combination to `dyn_object`''"
  by (simp add: doc_example_defs)

lemma assoc_callback_expansion:
  "\<exists>out obj. dyn_trait_macro capitalize trait_DynCallback assoc_callback = Expanded out
    \<and> do_attrs out = [Attr dyn_object_path MetaPath]
    \<and> dyn_object_macro [] (plain_trait ''DynCallback'' (do_items out)) = Expanded obj
    \<and> map fst (oo_types obj) = [''Arg''] \<and> oo_fields obj = [''__drop_in_place'', ''__layout'', ''call'']"
  by (simp add: doc_example_defs dyn_object_defs parse_type_def is_not_generic_def macro_simps)


text \<open>
  \<open>bounds\<close> reads the rest of the attribute as paths separated by \<open>+\<close>, so an option after it
  is a compile error, whatever the item; as the last one it is what \<open>dyn_object\<close> runs with.
\<close>
lemma bounds_come_last:
  "dyn_object_macro (Nested (ident_path ''bounds'') (EqPaths ps) # m # ms) item = CompileError ''expected `+`''
  \<and> dyn_object_macro [Nested (ident_path ''remote'') (EqPath r), Nested (ident_path ''bounds'') (EqPaths ps)] item
    = to_compile_error (dyn_object_impl item (default_object_opts\<lparr>doo_remote := Some r, doo_bounds := ps\<rparr>))"
  by (simp add: dyn_object_macro_def macro_impl_def is_ident_def ident_path_def)


section \<open>\<open>dyn_trait\<close> and \<open>sync\<close>\<close>

text \<open>The example of \<open>dyn_trait\<close> is the trait of \<open>examples/async_callback.rs\<close> with the name given.\<close>

definition dyn_trait_example :: "nested_meta list \<times> item_trait" where
  "dyn_trait_example = (trait_DynCallback, async_callback)"

lemma named_callback_expansion:
  "dyn_trait_macro capitalize (fst dyn_trait_example) (snd dyn_trait_example)
    = dyn_trait_macro capitalize [] async_callback"
  by (simp add: doc_example_defs dyn_trait_example_def)

text \<open>
  The example of \<open>sync\<close>: \<open>maybe_sync\<close> with the default storage, and the annotated implementation.
\<close>

definition sync_callback :: item_trait where
  "sync_callback = callback [] [dyn_trait_attr [flag ''maybe_sync'']]"

lemma sync_callback_expansion:
  "\<exists>out tr items sg b. dyn_trait_macro capitalize [] sync_callback = Expanded out
    \<and> do_header out = hand_header ''__StorageCall'' \<and> do_trait out = Some tr
    \<and> do_impl_items out = [IIFn sg b] \<and> sync_macro [] hello_call = Expanded items
    \<and> eval_maybe_sync (assoc_true items (tr_items tr)) sync_call async_call b
      = Some (Sync (sync_call ''call_sync'' [SelfArg, PatArg (PatIdent False False ''arg'' None)]))
    \<and> eval_maybe_sync (assoc_true [IIFn (fst hello_call) (snd hello_call)] (tr_items tr)) sync_call async_call b
      = Some (Async (async_call ''call'' [SelfArg, PatArg (PatIdent False False ''arg'' None)]))"
  by (simp add: doc_example_defs sync_callback_def assoc_true_def)


section \<open>\<open>src/lib.rs\<close>\<close>

text \<open>
  The version of \<open>DynCallback\<close> written by hand there has no storage parameter: the storage of
  \<open>DynObject\<close> is left to its default.
\<close>

definition lib_signature :: "lifetime \<Rightarrow> path \<Rightarrow> where_pred list option \<Rightarrow> signature" where
  "lib_signature lt krate preds =
     (plain_sig ''call'' [Receiver \<lparr>rc_reference = Some (Some lt), rc_mutability = False,
          rc_ty = TyReference (Some lt) False ty_Self\<rparr>, arg_of (str_ref (Some lt))]
        (RType (TyPath None (krate @ [Seg ''DynObject'' (AngleBracketed
           [ArgType (TyTraitObject (unit_future @ [BLifetime lt]))])]))))
      \<lparr>sg_generics := \<lparr>g_params = [GPLifetime (LParam lt [])], g_where = preds\<rparr>\<rparr>"

definition lib_impl :: "lifetime \<Rightarrow> path \<Rightarrow> where_pred list option \<Rightarrow> impl_item" where
  "lib_impl lt krate preds = IIFn (lib_signature lt krate preds)
     (DynObjectNew (CallDyn ''call'' [SelfArg, PatArg (PatIdent False False ''arg'' None)]))"

text \<open>Leaving the last type argument of the returned type to its default.\<close>

fun drop_last_arg :: "path_segment \<Rightarrow> path_segment" where
  "drop_last_arg (Seg i (AngleBracketed gs)) = Seg i (AngleBracketed (butlast gs))"
| "drop_last_arg (Seg i args) = Seg i args"

fun default_storage_output :: "return_type \<Rightarrow> return_type" where
  "default_storage_output (RType (TyPath q p)) = RType (TyPath q (butlast p @ [drop_last_arg (last p)]))"
| "default_storage_output t = t"

fun default_storage_impl :: "impl_item \<Rightarrow> impl_item" where
  "default_storage_impl (IIFn sg b) = IIFn (sg\<lparr>sg_output := default_storage_output (sg_output sg)\<rparr>) b"
| "default_storage_impl (IIType i t) = IIType i t"
| "default_storage_impl (IIConst i t v) = IIConst i t v"

text \<open>The trait of the front page, as \<open>dyn_trait\<close> gets it.\<close>

definition lib_callback :: item_trait where
  "lib_callback = callback [] []"

lemma lib_example_expansion:
  "\<exists>out. dyn_trait_macro capitalize [] lib_callback = Expanded out
    \<and> map default_storage_impl (do_impl_items out) = [lib_impl dyn_lt crate_name dyn_preds]"
  using no_macro_expansion
  by (elim exE conjE) (simp add: lib_callback_def hand_impl_def lib_impl_def hand_signature_def lib_signature_def dyn_object_ty_def
      crate_name_def plain_sig_def)

text \<open>\<open>impl Callback for Print\<close>: the method is synchronous.\<close>

definition print_call :: "'a \<Rightarrow> ('f, unit) maybe_sync" where
  "print_call arg = Sync ()"

end
