(* ===== verification/Await.thy ===== *)
theory Await
  imports Future_Impl
begin

text \<open>
  \<open>.await\<close> on a \<open>DynObject<dyn Future>\<close>, as the examples of \<open>src/object.rs\<close> and \<open>src/lib.rs\<close> use it:
  the executor polls until the future is no longer pending. A future may stay pending for ever, so
  the loop is a partial function, and not returning is \<open>None\<close>.
\<close>


section \<open>Loops that may not end\<close>

partial_function (option) run_until :: "('s \<Rightarrow> 'r + 's) \<Rightarrow> 's \<Rightarrow> 'r option" where
  "run_until step s = (case step s of Inl r \<Rightarrow> Some r | Inr s' \<Rightarrow> run_until step s')"

lemma run_until_Inl [simp]: "step s = Inl r \<Longrightarrow> run_until step s = Some r"
  by (simp add: run_until.simps)

lemma run_until_Inr [simp]: "step s = Inr s' \<Longrightarrow> run_until step s = run_until step s'"
  by (simp add: run_until.simps [of step s])

text \<open>The loop has not returned after \<open>k\<close> steps.\<close>

fun still_running :: "('s \<Rightarrow> 'r + 's) \<Rightarrow> nat \<Rightarrow> 's \<Rightarrow> bool" where
  "still_running step 0 s \<longleftrightarrow> True"
| "still_running step (Suc k) s \<longleftrightarrow> (case step s of Inl r \<Rightarrow> False | Inr s' \<Rightarrow> still_running step k s')"

lemma run_until_induct [consumes 1, case_names Return Continue]:
  assumes "run_until step s = Some r"
    and "\<And>s r. step s = Inl r \<Longrightarrow> P s r"
    and "\<And>s s' r. step s = Inr s' \<Longrightarrow> run_until step s' = Some r \<Longrightarrow> P s' r \<Longrightarrow> P s r"
  shows "P s r"
proof -
  let ?P = "\<lambda>st s r. st = step \<longrightarrow> run_until step s = Some r \<and> P s r"
  have "?P step s r"
  proof (rule run_until.raw_induct [where P = ?P])
    fix run st s r
    assume IH: "\<And>st' s r. run st' s = Some r \<Longrightarrow> ?P st' s r"
      and now: "(case st s of Inl r \<Rightarrow> Some r | Inr s' \<Rightarrow> run st s') = Some r"
    show "?P st s r"
    proof
      assume st: "st = step"
      show "run_until step s = Some r \<and> P s r"
      proof (cases "step s")
        case (Inl x)
        with now st assms(2) [OF Inl] show ?thesis by simp
      next
        case (Inr s')
        with now st have "run step s' = Some r" by simp
        with IH Inr assms(3) [OF Inr] show ?thesis by simp
      qed
    qed
  qed (rule assms(1))
  then show ?thesis by blast
qed

lemma run_until_Some: "run_until step s = Some r \<Longrightarrow> \<exists>k. \<not> still_running step k s"
proof (induction rule: run_until_induct)
  case (Return s r)
  then show ?case by (intro exI [of _ "Suc 0"]) simp
next
  case (Continue s s' r)
  then obtain k where "\<not> still_running step k s'" by blast
  with Continue show ?case by (intro exI [of _ "Suc k"]) simp
qed

lemma not_still_running: "\<not> still_running step k s \<Longrightarrow> \<exists>r. run_until step s = Some r"
  by (induction k arbitrary: s) (auto split: sum.splits)

lemma run_until_None_iff: "run_until step s = None \<longleftrightarrow> (\<forall>k. still_running step k s)"
proof (cases "run_until step s")
  case None
  with not_still_running [of step _ s] show ?thesis by auto
next
  case (Some r)
  with run_until_Some show ?thesis by force
qed

text \<open>Loops whose steps agree return together, with results that agree.\<close>

lemma still_running_sim:
  assumes step: "\<And>s t. R s t \<Longrightarrow> rel_sum Q R (step1 s) (step2 t)"
  shows "R s t \<Longrightarrow> still_running step1 k s = still_running step2 k t"
proof (induction k arbitrary: s t)
  case (Suc k)
  from step [OF Suc.prems] Suc.IH show ?case by (cases "step1 s"; cases "step2 t") auto
qed simp

lemma run_until_sim_Some:
  assumes step: "\<And>s t. R s t \<Longrightarrow> rel_sum Q R (step1 s) (step2 t)"
  shows "run_until step1 s = Some r \<Longrightarrow> R s t \<Longrightarrow> \<exists>r'. run_until step2 t = Some r' \<and> Q r r'"
proof (induction arbitrary: t rule: run_until_induct)
  case (Return s r)
  with step [OF Return(2)] show ?case by (cases "step2 t") auto
next
  case (Continue s s' r)
  with step [OF Continue(4)] obtain t' where "step2 t = Inr t'" "R s' t'" by (cases "step2 t") auto
  with Continue(3) show ?case by simp
qed

lemma run_until_sim:
  assumes step: "\<And>s t. R s t \<Longrightarrow> rel_sum Q R (step1 s) (step2 t)" and init: "R s t"
  shows "rel_option Q (run_until step1 s) (run_until step2 t)"
proof (cases "run_until step1 s")
  case None
  then have "run_until step2 t = None"
    using still_running_sim [where R = R and Q = Q, OF step init] by (simp add: run_until_None_iff)
  with None show ?thesis by simp
next
  case (Some r)
  have "\<exists>r'. run_until step2 t = Some r' \<and> Q r r'"
    by (rule run_until_sim_Some [where R = R]) (use step Some init in auto)
  with Some show ?thesis by auto
qed


section \<open>\<open>.await\<close>\<close>

text \<open>
  The \<open>n\<close>-th poll gets the context \<open>cx n\<close>. The loop goes on exactly when the outcome is
  \<open>Poll::Pending\<close>; what it returns is the outcome of the last poll.
\<close>

definition await_step ::
  "('s, 'y) storage_ops_scheme \<Rightarrow> env \<Rightarrow> ('c, 'o) poll_impl \<Rightarrow> nat \<Rightarrow> (nat \<Rightarrow> 'c)
    \<Rightarrow> nat \<times> ('s, future_vtable) dynobj \<times> world
    \<Rightarrow> ('o poll res \<times> ('s, future_vtable) dynobj) res \<times> world + nat \<times> ('s, future_vtable) dynobj \<times> world" where
  "await_step S E poll_impl a cx s = (case s of (n, this, w) \<Rightarrow>
     (case future_poll S E poll_impl a (cx n) this w of
        (Ok (Ok Pending, this'), w') \<Rightarrow> Inr (Suc n, this', w')
      | result \<Rightarrow> Inl result))"

definition dyn_await ::
  "('s, 'y) storage_ops_scheme \<Rightarrow> env \<Rightarrow> ('c, 'o) poll_impl \<Rightarrow> nat \<Rightarrow> (nat \<Rightarrow> 'c)
    \<Rightarrow> ('s, future_vtable) dynobj \<Rightarrow> world \<Rightarrow> (('o poll res \<times> ('s, future_vtable) dynobj) res \<times> world) option" where
  "dyn_await S E poll_impl a cx this w = run_until (await_step S E poll_impl a cx) (0, this, w)"

text \<open>The same on the value itself.\<close>

fun direct_step :: "('c, 'o) poll_impl \<Rightarrow> rtype \<Rightarrow> (nat \<Rightarrow> 'c) \<Rightarrow> nat \<times> rval \<Rightarrow> 'o poll res \<times> rval + nat \<times> rval" where
  "direct_step poll_impl T cx (n, v) = (case poll_impl T v (cx n) of
     (Ok Pending, v') \<Rightarrow> Inr (Suc n, v')
   | result \<Rightarrow> Inl result)"

definition direct_await ::
  "('c, 'o) poll_impl \<Rightarrow> rtype \<Rightarrow> (nat \<Rightarrow> 'c) \<Rightarrow> rval \<Rightarrow> ('o poll res \<times> rval) option" where
  "direct_await poll_impl T cx v = run_until (direct_step poll_impl T cx) (0, v)"

lemma direct_step_cases:
  "poll_impl T v (cx n) = (r, v') \<Longrightarrow> direct_step poll_impl T cx (n, v) =
    (if r = Ok Pending then Inr (Suc n, v') else Inl (r, v'))"
  by (simp split: res.split poll.split)

lemma await_step_cases:
  "future_poll S E poll_impl a (cx n) this w = (Ok (r, this'), w') \<Longrightarrow>
    await_step S E poll_impl a cx (n, this, w) =
    (if r = Ok Pending then Inr (Suc n, this', w') else Inl (Ok (r, this'), w'))"
  by (simp add: await_step_def split: res.split poll.split)

lemma direct_still_running:
  "still_running (direct_step poll_impl T cx) k (n, v)
    \<longleftrightarrow> set (fst (direct_polls poll_impl T (map cx [n..<n + k]) v)) \<subseteq> {Ok Pending}"
proof (induction k arbitrary: n v)
  case (Suc k)
  obtain r v' where p: "poll_impl T v (cx n) = (r, v')" by fastforce
  have upt: "[n..<n + Suc k] = n # [Suc n..<Suc n + k]" by (simp add: upt_conv_Cons)
  show ?case
    unfolding upt using p Suc.IH [of "Suc n" v']
    by (simp add: direct_step_cases case_prod_beta del: direct_step.simps)
qed simp

text \<open>Awaiting the value itself never ends exactly when every poll is pending.\<close>

lemma direct_await_None_iff:
  "direct_await poll_impl T cx v = None
    \<longleftrightarrow> (\<forall>k. set (fst (direct_polls poll_impl T (map cx [0..<k]) v)) \<subseteq> {Ok Pending})"
  by (simp add: direct_await_def run_until_None_iff direct_still_running)

text \<open>The object \<open>ob1\<close> is \<open>ob\<close> some polls later: it holds \<open>v1\<close>, at the same place.\<close>

definition poll_rel ::
  "('s, 'y) storage_ops_scheme \<Rightarrow> (rtype \<Rightarrow> rval \<Rightarrow> 's \<Rightarrow> world \<Rightarrow> bool) \<Rightarrow> (rtype \<Rightarrow> 's \<Rightarrow> nat set) \<Rightarrow> env \<Rightarrow> nat \<Rightarrow> rtype \<Rightarrow> ('s, future_vtable) dynobj \<Rightarrow> world \<Rightarrow> rval \<Rightarrow> ('s, future_vtable) dynobj \<Rightarrow> world \<Rightarrow> bool" where
  "poll_rel S rep own E a T ob w v1 ob1 w1 \<longleftrightarrow> wf_val E T v1 \<and> obj_rep rep future_vt T v1 ob1 w1 \<and> wf_world w1
     \<and> own T (storage ob1) = own T (storage ob) \<and> untouched (own T (storage ob)) w w1
     \<and> so_ptr_mut S a (storage ob1) = so_ptr_mut S a (storage ob)"

context storage_contract
begin

lemma poll_rel_step:
  assumes "poll_rel S rep own E a T ob w v1 ob1 w1" and T: "wf_rtype T" and a: "place_ok S a"
    and c: "poll_closed E T poll_impl"
  shows "\<exists>ob2 w2. future_poll S E poll_impl a cx ob1 w1 = (Ok (fst (poll_impl T v1 cx), ob2), w2)
    \<and> poll_rel S rep own E a T ob w (snd (poll_impl T v1 cx)) ob2 w2"
proof -
  from assms(1) have v1: "wf_val E T v1" and r: "obj_rep rep future_vt T v1 ob1 w1" "wf_world w1"
    and same: "own T (storage ob1) = own T (storage ob)" "untouched (own T (storage ob)) w w1"
      "so_ptr_mut S a (storage ob1) = so_ptr_mut S a (storage ob)"
    by (simp_all add: poll_rel_def)
  from future_poll_ok [OF r(1) T v1 r(2) a c, of cx] same(1) obtain ob2 w2 where
    2: "future_poll S E poll_impl a cx ob1 w1 = (Ok (fst (poll_impl T v1 cx), ob2), w2)"
    "obj_rep rep future_vt T (snd (poll_impl T v1 cx)) ob2 w2" "wf_world w2"
    "own T (storage ob2) = own T (storage ob)" "untouched (own T (storage ob)) w1 w2"
    "so_ptr_mut S a (storage ob2) = so_ptr_mut S a (storage ob1)"
    by auto
  have "wf_val E T (snd (poll_impl T v1 cx))" using c v1 by (simp add: poll_closed_def)
  with 2 same untouched_trans [OF same(2) 2(5)] show ?thesis by (auto simp: poll_rel_def)
qed

lemma dyn_await_ok:
  assumes "obj_rep rep future_vt T v ob w" and T: "wf_rtype T" and "wf_val E T v" and "wf_world w"
    and a: "place_ok S a" and c: "poll_closed E T poll_impl"
  shows "rel_option (\<lambda>out (r, v'). \<exists>ob' w'. out = (Ok (r, ob'), w') \<and> poll_rel S rep own E a T ob w v' ob' w')
    (dyn_await S E poll_impl a cx ob w) (direct_await poll_impl T cx v)"
  unfolding dyn_await_def direct_await_def
proof (rule run_until_sim [where R = "\<lambda>(n, ob1, w1) (n', v1). n = n' \<and> poll_rel S rep own E a T ob w v1 ob1 w1"])
  fix s :: "nat \<times> ('s, future_vtable) dynobj \<times> world" and t :: "nat \<times> rval"
  assume R: "(\<lambda>(n, ob1, w1) (n', v1). n = n' \<and> poll_rel S rep own E a T ob w v1 ob1 w1) s t"
  obtain n ob1 w1 where s: "s = (n, ob1, w1)" by (metis prod_cases3)
  with R obtain v1 where t: "t = (n, v1)" and r: "poll_rel S rep own E a T ob w v1 ob1 w1" by (cases t) auto
  from poll_rel_step [OF r T a c, of "cx n"] obtain ob2 w2 where
    2: "future_poll S E poll_impl a (cx n) ob1 w1 = (Ok (fst (poll_impl T v1 (cx n)), ob2), w2)"
    "poll_rel S rep own E a T ob w (snd (poll_impl T v1 (cx n))) ob2 w2" by blast
  note d = direct_step_cases [of poll_impl T v1 cx n, OF surjective_pairing]
  show "rel_sum (\<lambda>out (r, v'). \<exists>ob' w'. out = (Ok (r, ob'), w') \<and> poll_rel S rep own E a T ob w v' ob' w')
      (\<lambda>(n, ob1, w1) (n', v1). n = n' \<and> poll_rel S rep own E a T ob w v1 ob1 w1)
      (await_step S E poll_impl a cx s) (direct_step poll_impl T cx t)"
    unfolding s t d using await_step_cases [of S E poll_impl a cx n, OF 2(1)] 2(2)
    by (simp add: case_prod_beta)
qed (use assms in \<open>simp add: poll_rel_def\<close>)

text \<open>In particular awaiting the object ends exactly when some poll of the value is not pending.\<close>

lemma dyn_await_returns_iff:
  assumes "obj_rep rep future_vt T v ob w" "wf_rtype T" "wf_val E T v" "wf_world w"
    and "place_ok S a" "poll_closed E T poll_impl"
  shows "(\<exists>y. dyn_await S E poll_impl a cx ob w = Some y)
    \<longleftrightarrow> (\<exists>k. \<not> set (fst (direct_polls poll_impl T (map cx [0..<k]) v)) \<subseteq> {Ok Pending})"
proof -
  have "dyn_await S E poll_impl a cx ob w = None \<longleftrightarrow> direct_await poll_impl T cx v = None"
    using dyn_await_ok [OF assms, of cx]
    by (cases "dyn_await S E poll_impl a cx ob w"; cases "direct_await poll_impl T cx v") auto
  then show ?thesis by (metis direct_await_None_iff not_Some_eq)
qed

end

end
