(* ===== verification/More_Tests.thy ===== *)
theory More_Tests
  imports Unit_Tests Iterator_Impl Await
begin

text \<open>
  Further unit tests: those of \<open>src/impls.rs\<close> on futures and iterators, the last part of
  \<open>any_test!\<close>, and the alignment and over-alignment tests of \<open>src/storage.rs\<close>. The future is an
  \<open>async\<close> block and the iterator is the standard one of an array; both are parameters, with their
  documented behaviour as hypotheses.
\<close>


section \<open>\<open>src/impls.rs\<close>\<close>

text \<open>\<open>now_or_never\<close> polls the object once, and drops it.\<close>

definition dyn_future_test ::
  "('s, 'y) storage_ops_scheme \<Rightarrow> env \<Rightarrow> ('c, nat) poll_impl \<Rightarrow> nat \<Rightarrow> 'c \<Rightarrow> rtype \<Rightarrow> rval \<Rightarrow> (world, unit) op" where
  "dyn_future_test S E poll_impl a cx T v =
     bnd (dyn_new S future_vt T v) (\<lambda>future.
     bnd (future_poll S E poll_impl a cx future) (\<lambda>(r, future).
     bnd (dyn_drop S E a future) (\<lambda>_.
     bnd (throw (fst (now_or_never (r, ())))) (\<lambda>x. assert_that (x = Some 42)))))"

definition dyn_future_send_test ::
  "('s, 'y) storage_ops_scheme \<Rightarrow> env \<Rightarrow> ('c, nat) poll_impl \<Rightarrow> nat \<Rightarrow> 'c \<Rightarrow> rtype \<Rightarrow> rval \<Rightarrow> (world, unit) op" where
  "dyn_future_send_test S E poll_impl a cx T v =
     bnd (dyn_new S future_send_vt T v) (\<lambda>future.
     bnd (future_send_poll S E poll_impl a cx future) (\<lambda>(r, future).
     bnd (dyn_drop S E a future) (\<lambda>_.
     bnd (throw (fst (now_or_never (r, ())))) (\<lambda>x. assert_that (x = Some 42)))))"

definition dyn_iterator_test ::
  "('s, 'y) storage_ops_scheme \<Rightarrow> env \<Rightarrow> nat iter_impl \<Rightarrow> nat \<Rightarrow> rtype \<Rightarrow> rval \<Rightarrow> (world, unit) op" where
  "dyn_iterator_test S E impl a T v =
     bnd (dyn_new S iterator_vt T v) (\<lambda>iter.
     bnd (iterator_size_hint S E impl a iter) (\<lambda>(r, iter).
     bnd (throw r) (\<lambda>hint.
     bnd (assert_that (hint = (4, Some 4))) (\<lambda>_.
     bnd (iterator_nth S E impl a 2 iter) (\<lambda>(r, iter).
     bnd (throw r) (\<lambda>x.
     bnd (assert_that (x = Some 2)) (\<lambda>_.
     bnd (iterator_next S E impl a iter) (\<lambda>(r, iter).
     bnd (throw r) (\<lambda>x.
     bnd (assert_that (x = Some 3)) (\<lambda>_. dyn_drop S E a iter))))))))))"

text \<open>
  What the documentation of \<open>Iterator\<close> and of arrays says of \<open>array::IntoIter\<close>: it holds the items
  still to come, \<open>next\<close> takes one, \<open>nth(n)\<close> takes \<open>n + 1\<close>, and the size hint is exact.
\<close>

definition array_iter :: "env \<Rightarrow> rtype \<Rightarrow> nat iter_impl \<Rightarrow> (rval \<Rightarrow> nat list) \<Rightarrow> bool" where
  "array_iter E T impl items \<longleftrightarrow> (\<forall>v. wf_val E T v \<longrightarrow>
     (\<exists>u. it_next impl T v = (Ok (case items v of [] \<Rightarrow> None | x # xs \<Rightarrow> Some x), u)
        \<and> wf_val E T u \<and> items u = tl (items v))
     \<and> it_size_hint impl T v = (Ok (length (items v), Some (length (items v))), v)
     \<and> (\<forall>n. \<exists>u. it_nth impl n T v = (Ok (if n < length (items v) then Some (items v ! n) else None), u)
        \<and> wf_val E T u \<and> items u = drop (Suc n) (items v)))"

text \<open>The future \<open>async { n }\<close> with \<open>n = 42\<close>, and \<open>[0, 1, 2, 3].into_iter()\<close>.\<close>

definition ready_42 :: "env \<Rightarrow> rtype \<Rightarrow> rval \<Rightarrow> ('c, nat) poll_impl \<Rightarrow> bool" where
  "ready_42 E T v poll_impl \<longleftrightarrow> wf_rtype T \<and> wf_val E T v \<and> poll_closed E T poll_impl
     \<and> (\<forall>cx. fst (poll_impl T v cx) = Ok (Ready 42))"

definition iter_0123 :: "env \<Rightarrow> rtype \<Rightarrow> rval \<Rightarrow> nat iter_impl \<Rightarrow> bool" where
  "iter_0123 E T v impl \<longleftrightarrow> wf_rtype T \<and> wf_val E T v
     \<and> (\<exists>items. array_iter E T impl items \<and> items v = [0, 1, 2, 3])"

text \<open>
  The example of \<open>DynObject\<close>: the same future, awaited.
\<close>

definition object_example ::
  "('s, 'y) storage_ops_scheme \<Rightarrow> env \<Rightarrow> ('c, nat) poll_impl \<Rightarrow> nat \<Rightarrow> (nat \<Rightarrow> 'c) \<Rightarrow> rtype \<Rightarrow> rval \<Rightarrow> world
    \<Rightarrow> nat poll res option" where
  "object_example S E poll_impl a cx T v w = (case dyn_new S future_vt T v w of
     (Ok future, w) \<Rightarrow> (case dyn_await S E poll_impl a cx future w of
        Some (Ok (r, future), w) \<Rightarrow> Some r
      | Some (Panic s, w) \<Rightarrow> Some (Panic s)
      | Some (UB u, w) \<Rightarrow> Some (UB u)
      | Some (BuildError s, w) \<Rightarrow> Some (BuildError s)
      | None \<Rightarrow> None)
   | (Panic s, w) \<Rightarrow> Some (Panic s)
   | (UB u, w) \<Rightarrow> Some (UB u)
   | (BuildError s, w) \<Rightarrow> Some (BuildError s))"

text \<open>\<open>any_test!\<close>: an object dropped at once, and one over \<open>Box\<close> taken out.\<close>

definition any_drop_test ::
  "('s, 'y) storage_ops_scheme \<Rightarrow> env \<Rightarrow> nat \<Rightarrow> rtype \<Rightarrow> rval \<Rightarrow> (world, unit) op" where
  "any_drop_test S E a T v = bnd (dyn_new S any_vt T v) (dyn_drop S E a)"

definition any_box_test :: "config \<Rightarrow> env \<Rightarrow> nat \<Rightarrow> rtype \<Rightarrow> rval \<Rightarrow> (world, (erased_box, any_vtable) dynobj + rval) op" where
  "any_box_test cfg E a T v = bnd (dyn_new (box_ops cfg) any_vt T v) (downcast (box_ops cfg) E T a)"


section \<open>\<open>src/storage.rs\<close>\<close>

text \<open>
  \<open>check_alignment\<close>: an array of two objects, whose storages lie at \<open>a\<close> and \<open>a + stride\<close>, where
  \<open>stride\<close> is the size of the object type (the compiler's choice).
\<close>

definition is_aligned :: "nat \<Rightarrow> ptr \<Rightarrow> bool" where
  "is_aligned n p \<longleftrightarrow> n dvd ptr_addr p"

definition check_alignment ::
  "config \<Rightarrow> env \<Rightarrow> alignment \<Rightarrow> nat \<Rightarrow> nat \<Rightarrow> (world, unit) op" where
  "check_alignment cfg E ALIGN a stride =
     (if \<not> align_val ALIGN < 2048 then throw (BuildError ''assertion failed: ALIGN < 2048'') else
      let S = raw_ops cfg 0 ALIGN in
      bnd (dyn_new S test_vt unit_ty []) (\<lambda>s0.
      bnd (dyn_new S test_vt unit_ty []) (\<lambda>s1.
      bnd (throw (so_ptr S a (obj_storage s0))) (\<lambda>p0.
      bnd (throw (so_ptr S (a + stride) (obj_storage s1))) (\<lambda>p1.
      bnd (assert_that (list_all (is_aligned (align_val ALIGN)) [p0, p1])) (\<lambda>_.
      bnd (assert_that (list_ex (\<lambda>p. \<not> is_aligned 2048 p) [p0, p1])) (\<lambda>_.
      bnd (dyn_drop S E a s0) (\<lambda>_. dyn_drop S E (a + stride) s1))))))))"

text \<open>The end of \<open>raw_or_box\<close>: a \<open>u64\<close> is too aligned for \<open>RawOrBox<8, 1>\<close>.\<close>

definition over_aligned_test :: "config \<Rightarrow> env \<Rightarrow> nat \<Rightarrow> rtype \<Rightarrow> rval \<Rightarrow> (world, unit) op" where
  "over_aligned_test cfg E a T v =
     (let S = rob_ops cfg 8 (Log2 0) in
      bnd (dyn_new S test_vt T v) (\<lambda>ob.
      bnd (assert_that (\<not> is_raw (obj_storage ob))) (\<lambda>_. dyn_drop S E a ob)))"


section \<open>They pass\<close>

lemma bnd_pair_eq_Ok:
  "bnd m (\<lambda>(r, t). ret (f r, t)) w = (Ok (x, t'), w') \<Longrightarrow> \<exists>r. x = f r \<and> m w = (Ok (r, t'), w')"
  by (auto simp: bnd_eq_Ok)

lemma array_iter_closed: "array_iter E T impl items \<Longrightarrow> iter_closed E T impl"
  unfolding iter_closed_def
proof (intro allI impI)
  fix x v assume "array_iter E T impl items" and v: "wf_val E T v"
  then show "wf_val E T (snd (iter_direct impl T x v))"
    unfolding array_iter_def by (cases x) (metis iter_direct.simps(1) snd_conv snd_map_prod id_apply,
      metis iter_direct.simps(2) snd_conv snd_map_prod id_apply,
      metis iter_direct.simps(3) snd_conv snd_map_prod id_apply)
qed

context storage_contract
begin

lemma iter_calls_ok:
  assumes r: "obj_rep rep iterator_vt T v ob w" "wf_rtype T" "wf_val E T v" "wf_world w" "place_ok S a"
    and c: "iter_closed E T impl"
  shows "\<exists>ob' w'. iterator_next S E impl a ob w = (Ok (fst (it_next impl T v), ob'), w')
      \<and> obj_rep rep iterator_vt T (snd (it_next impl T v)) ob' w' \<and> wf_world w'
      \<and> own T (storage ob') = own T (storage ob) \<and> untouched (own T (storage ob)) w w'"
    "\<exists>ob' w'. iterator_size_hint S E impl a ob w = (Ok (fst (it_size_hint impl T v), ob'), w')
      \<and> obj_rep rep iterator_vt T (snd (it_size_hint impl T v)) ob' w' \<and> wf_world w'
      \<and> own T (storage ob') = own T (storage ob) \<and> untouched (own T (storage ob)) w w'"
    "\<exists>ob' w'. iterator_nth S E impl a n ob w = (Ok (fst (it_nth impl n T v), ob'), w')
      \<and> obj_rep rep iterator_vt T (snd (it_nth impl n T v)) ob' w' \<and> wf_world w'
      \<and> own T (storage ob') = own T (storage ob) \<and> untouched (own T (storage ob)) w w'"
  using iter_dyn_ok [OF r c, of Next] iter_dyn_ok [OF r c, of Size_Hint] iter_dyn_ok [OF r c, of "Nth n"]
  by (auto dest!: bnd_pair_eq_Ok)

lemma dyn_iterator_test_ok:
  assumes T: "wf_rtype T" "wf_val E T v" "fits T" and w: "wf_world w" and a: "place_ok S a"
    and i: "array_iter E T impl items" "items v = [0, 1, 2, 3]"
    and quiet: "\<And>u. wf_val E T u \<Longrightarrow> tneeds_drop T \<Longrightarrow> \<not> drop_panics E T u"
  shows "\<exists>w'. dyn_iterator_test S E impl a T v w = (Ok (), w') \<and> blocks w' = blocks w"
proof -
  note c = array_iter_closed [OF i(1)]
  note law = i(1) [unfolded array_iter_def, rule_format]
  from law [OF T(2)] i(2) have hint: "it_size_hint impl T v = (Ok (4, Some 4), v)" by simp
  from law [OF T(2)] i(2) obtain v2 where v2: "it_nth impl 2 T v = (Ok (Some 2), v2)" "wf_val E T v2" "items v2 = [3]"
    by (auto dest: spec [of _ 2])
  from law [OF v2(2)] v2(3) obtain v3 where v3: "it_next impl T v2 = (Ok (Some 3), v3)" "wf_val E T v3"
    by auto
  from iter.new_ok [OF T(1) wf_val_length [OF T(2)] T(3) w] obtain ob w1 where
    0: "dyn_new S iterator_vt T v w = (Ok ob, w1)" "wf_world w1" "obj_rep rep iterator_vt T v ob w1"
    "frees (own T (storage ob)) w1 w" by blast
  from iter_calls_ok(2) [OF 0(3) T(1,2) 0(2) a c] hint obtain ob1 w2 where
    1: "iterator_size_hint S E impl a ob w1 = (Ok (Ok (4, Some 4), ob1), w2)"
    "obj_rep rep iterator_vt T v ob1 w2" "wf_world w2" "own T (storage ob1) = own T (storage ob)"
    "untouched (own T (storage ob)) w1 w2" by auto
  from iter_calls_ok(3) [OF 1(2) T(1,2) 1(3) a c, of 2] v2(1) 1(4) obtain ob2 w3 where
    2: "iterator_nth S E impl a 2 ob1 w2 = (Ok (Ok (Some 2), ob2), w3)"
    "obj_rep rep iterator_vt T v2 ob2 w3" "wf_world w3" "own T (storage ob2) = own T (storage ob)"
    "untouched (own T (storage ob)) w2 w3" by auto
  from iter_calls_ok(1) [OF 2(2) T(1) v2(2) 2(3) a c] v3(1) 2(4) obtain ob3 w4 where
    3: "iterator_next S E impl a ob2 w3 = (Ok (Ok (Some 3), ob3), w4)"
    "obj_rep rep iterator_vt T v3 ob3 w4" "wf_world w4" "own T (storage ob3) = own T (storage ob)"
    "untouched (own T (storage ob)) w3 w4" by auto
  from iter.drop_ok [OF 3(2) T(1) v3(2) a 3(3)] quiet [OF v3(2)] obtain w5 where
    4: "dyn_drop S E a ob3 w4 = (Ok (), w5)" "after_drop (own T (storage ob)) T v3 w4 w5"
    unfolding 3(4) by blast
  from untouched_trans [OF untouched_trans [OF 1(5) 2(5)] 3(5)]
  have "blocks w4 |` (- own T (storage ob)) = blocks w1 |` (- own T (storage ob))"
    by (auto simp: untouched_def restrict_map_def fun_eq_iff)
  with 0(1,4) 1(1) 2(1) 3(1) 4 show ?thesis
    by (auto simp: dyn_iterator_test_def after_drop_def frees_def)
qed

lemma dyn_future_test_ok:
  assumes T: "wf_rtype T" "wf_val E T v" "fits T" and w: "wf_world w" and a: "place_ok S a"
    and c: "poll_closed E T poll_impl" and f: "fst (poll_impl T v cx) = Ok (Ready 42)"
    and quiet: "\<And>u. wf_val E T u \<Longrightarrow> tneeds_drop T \<Longrightarrow> \<not> drop_panics E T u"
  shows "\<exists>w'. dyn_future_test S E poll_impl a cx T v w = (Ok (), w') \<and> blocks w' = blocks w"
    "\<exists>w'. dyn_future_send_test S E poll_impl a cx T v w = (Ok (), w') \<and> blocks w' = blocks w"
proof -
  from new_polls_drop [OF T w a c quiet, of "[cx]"] f
  obtain ob w1 ob' w2 w3 where
    "dyn_new S future_vt T v w = (Ok ob, w1)"
    "dyn_polls S E poll_impl a [cx] ob w1 = (Ok ([Ok (Ready 42)], ob'), w2)"
    "dyn_drop S E a ob' w2 = (Ok (), w3)" "blocks w3 = blocks w"
    by (auto simp: case_prod_beta simp del: dyn_polls.simps)
  then show 1: "\<exists>w'. dyn_future_test S E poll_impl a cx T v w = (Ok (), w') \<and> blocks w' = blocks w"
    by (auto simp: dyn_future_test_def bnd_eq_Ok split: prod.splits)
  have "future_send_vt = future_vt" by (rule ext) (rule future_send_same(1))
  with 1 show "\<exists>w'. dyn_future_send_test S E poll_impl a cx T v w = (Ok (), w') \<and> blocks w' = blocks w"
    by (simp add: dyn_future_send_test_def dyn_future_test_def future_send_same(2))
qed

lemma object_example_ok:
  assumes T: "wf_rtype T" "wf_val E T v" "fits T" and w: "wf_world w" and a: "place_ok S a"
    and c: "poll_closed E T poll_impl" and f: "\<And>cx. fst (poll_impl T v cx) = Ok (Ready 42)"
  shows "object_example S E poll_impl a cx T v w = Some (Ok (Ready 42))"
proof -
  from fut.new_ok [OF T(1) wf_val_length [OF T(2)] T(3) w] obtain ob w1 where
    ob: "dyn_new S future_vt T v w = (Ok ob, w1)" "wf_world w1" "obj_rep rep future_vt T v ob w1" by blast
  have "direct_step poll_impl T cx (0, v) = Inl (Ok (Ready 42), snd (poll_impl T v (cx 0)))"
    using f [of "cx 0"] by (simp add: case_prod_beta)
  then have "direct_await poll_impl T cx v = Some (Ok (Ready 42), snd (poll_impl T v (cx 0)))"
    by (simp add: direct_await_def del: direct_step.simps)
  with dyn_await_ok [OF ob(3) T(1,2) ob(2) a c, of cx] ob(1) show ?thesis
    by (cases "dyn_await S E poll_impl a cx ob w1") (auto simp: object_example_def)
qed

lemma any_drop_test_ok:
  assumes "wf_rtype T" "wf_val E T v" "fits T" "wf_world w" "place_ok S a"
    and "tneeds_drop T \<longrightarrow> \<not> drop_panics E T v"
  shows "\<exists>w'. any_drop_test S E a T v w = (Ok (), w') \<and> blocks w' = blocks w"
  using any.new_drop [OF assms] by (auto simp: any_drop_test_def)

end

lemma any_box_test_ok:
  assumes "wf_rtype T" "wf_val E T v" "wf_world w" "place_ok (box_ops cfg) a"
  shows "\<exists>w'. any_box_test cfg E a T v w = (Ok (Inr v), w') \<and> blocks w' = blocks w"
  using box.new_downcast [OF assms(1,2) _ assms(3,4)] by (auto simp: any_box_test_def)

lemma unit_wf: "wf_rtype unit_ty" "\<not> tneeds_drop unit_ty" "size_of unit_ty = 0" "align_of unit_ty = 1"
  by (simp_all add: unit_ty_def wf_layout_def pow2.simps)

lemma check_alignment_ok:
  assumes "align_val ALIGN < 2048" "0 < a" "align_val ALIGN dvd a" "align_val ALIGN dvd stride"
    and "0 < stride" "stride < 2048" "wf_val E unit_ty []"
  shows "check_alignment cfg E ALIGN a stride w = (Ok (), w)"
proof -
  have new: "dyn_new (raw_ops cfg 0 ALIGN) test_vt unit_ty []
      = ret \<lparr>storage = \<lparr>raw_data = []\<rparr>, vtable = test_vt unit_ty\<rparr>"
    using raw_new_unchecked_ok [OF unit_wf(1), of "[]" 0 ALIGN] align_val_pos [of ALIGN]
    by (auto simp: fun_eq_iff dyn_new_def raw_new_def can_store_def unit_wf bnd_def Suc_le_eq)
  have drop: "dyn_drop (raw_ops cfg 0 ALIGN) E b \<lparr>storage = r, vtable = test_vt unit_ty\<rparr> = ret ()" for b r
    by (rule ext) (simp add: dyn_drop_def drop_in_place_fn_def test_vt_def DROP_IN_PLACE_FN_def unit_wf
        raw_drop_in_place_def bnd_ret_left)
  have "\<not> 2048 dvd a \<or> \<not> 2048 dvd a + stride"
    using assms(5,6) by (metis dvd_add_right_iff dvd_imp_le linorder_not_less)
  then show ?thesis
    using assms(1-6)
    by (simp add: check_alignment_def new drop bnd_ret_left raw_ptr_def nonnull_unwrap_def is_aligned_def dvd_add)
qed

lemma over_aligned_test_ok:
  assumes "alloc_feature cfg" "wf_rtype T" "wf_val E T v" "1 < align_of T" "\<not> tneeds_drop T" "wf_world w"
    and a: "place_ok (rob_ops cfg 8 (Log2 0)) a"
  shows "\<exists>w'. over_aligned_test cfg E a T v w = (Ok (), w') \<and> blocks w' = blocks w"
proof -
  have fits: "rob_fits cfg 8 (Log2 0) T" using assms(1) by (simp add: rob_fits_def)
  from rob.tst.new_ok [OF assms(2) wf_val_length [OF assms(3)] fits assms(6)] obtain ob w1 where
    ob: "dyn_new (rob_ops cfg 8 (Log2 0)) test_vt T v w = (Ok ob, w1)" "wf_world w1"
    "obj_rep (rob_rep 8 (Log2 0)) test_vt T v ob w1" "frees (rob_own T (storage ob)) w1 w" by blast
  have "\<not> is_raw (storage ob)"
    using rob_variant [OF rob.tst.obj_rep_storage [OF ob(3)]] assms(4)
    by (cases "storage ob") (auto simp: can_store_def)
  moreover from rob.tst.drop_ok [OF ob(3) assms(2,3) a ob(2)] assms(5) obtain w2 where
    "dyn_drop (rob_ops cfg 8 (Log2 0)) E a ob w1 = (Ok (), w2)" "after_drop (rob_own T (storage ob)) T v w1 w2"
    by blast
  ultimately show ?thesis
    using ob(1,4) by (auto simp: over_aligned_test_def after_drop_def frees_def Let_def)
qed

end
