(* ===== verification/Integration_Test.thy ===== *)
theory Integration_Test
  imports Doc_Examples
begin

text \<open>
  The integration test \<open>tests/test.rs\<close>, from the macro input to the calls: the trait is expanded by
  \<open>dyn_trait\<close>, an implementation's method by \<open>sync\<close>, the generated bodies run, and the futures they
  return are put into objects, polled once and dropped. How the futures of the implementation lie in memory
  is a parameter, with being ready with what the source's bodies give as its hypothesis.
\<close>


section \<open>The trait\<close>

text \<open>Snake case to Pascal case, for the words that occur here.\<close>

fun pascal_from :: "bool \<Rightarrow> string \<Rightarrow> string" where
  "pascal_from up [] = []"
| "pascal_from up (c # cs) =
     (if c = CHR ''_'' then pascal_from True cs
      else (if up then upper_char c else c) # pascal_from False cs)"

definition snake_to_pascal :: "string \<Rightarrow> string" where
  "snake_to_pascal s = pascal_from True s"

definition s_arg :: "fn_arg" where
  "s_arg = Typed (PatIdent False False ''s'' None) (str_ref (Some ''a''))"

definition lifetime_a :: generics where
  "lifetime_a = \<lparr>g_params = [GPLifetime (LParam ''a'' [])], g_where = None\<rparr>"

definition test_method :: trait_item_fn where
  "test_method = \<lparr>fn_attrs = [], fn_sig = plain_sig ''method'' [ref_self False] (RType (self_assoc ''Result'')),
     fn_default = None\<rparr>"

text \<open>\<open>async fn name<'a>(&self, s: &'a str) -> &'a str\<close>\<close>

definition test_future :: "ident \<Rightarrow> nested_meta list \<Rightarrow> trait_item_fn" where
  "test_future name attrs = \<lparr>fn_attrs = [dyn_trait_attr attrs],
     fn_sig = (plain_sig name [ref_self False, s_arg] (RType (str_ref (Some ''a''))))
       \<lparr>sg_async := True, sg_generics := lifetime_a\<rparr>,
     fn_default = None\<rparr>"

definition test_future_send :: trait_item_fn where
  "test_future_send = \<lparr>fn_attrs = [Attr (ident_path ''allow'')
       (MetaList [Nested [Seg ''clippy'' NoArgs, Seg ''needless_lifetimes'' NoArgs] NoArg])],
     fn_sig = (plain_sig ''future_send''
       [Receiver \<lparr>rc_reference = Some (Some ''_''), rc_mutability = False,
          rc_ty = TyReference (Some ''_'') False ty_Self\<rparr>, s_arg]
       (RType (TyImplTrait [BTrait False [] [Seg ''Future'' (AngleBracketed [ArgAssoc ''Output'' (ty_ident ''usize'')])],
          BTrait False [] (ident_path ''Send''), BPreciseCapture [CIdent ''Self'']])))
       \<lparr>sg_generics := lifetime_a\<rparr>,
     fn_default = None\<rparr>"

definition test_empty :: trait_item_fn where
  "test_empty = \<lparr>fn_attrs = [dyn_trait_attr [flag ''maybe_sync'']],
     fn_sig = (plain_sig ''empty'' [ref_self False] RDefault)\<lparr>sg_async := True\<rparr>, fn_default = None\<rparr>"

definition test_pinned_self :: trait_item_fn where
  "test_pinned_self = \<lparr>fn_attrs = [Attr (ident_path ''allow'') (MetaList [flag ''dead_code''])],
     fn_sig = plain_sig ''pinned_self'' [Receiver \<lparr>rc_reference = None, rc_mutability = False,
       rc_ty = TyPath None [Seg ''Pin'' (AngleBracketed [ArgType (TyReference None True ty_Self)])]\<rparr>] RDefault,
     fn_default = None\<rparr>"

definition test_trait :: item_trait where
  "test_trait = plain_trait ''Test'' [
     TIType \<lparr>ty_attrs = [], ty_name = ''GAT'', ty_generics = \<lparr>g_params = [GPType ''T'' [] None], g_where = None\<rparr>,
       ty_bounds = [], ty_default = None\<rparr>,
     plain_type ''Result'', TIFn test_method,
     TIFn (test_future ''future''
       [Nested (ident_path ''storage'') (EqPath (storage_path crate_name ''DefaultStorage'')), flag ''maybe_sync'']),
     TIFn (test_future ''future2'' [flag ''maybe_sync'']),
     TIFn test_future_send, TIFn test_empty, TIFn test_pinned_self, TIOther ''nothing!();'']"

text \<open>\<open>#[dyn_utils::sync] async fn future2<'a>(&self, s: &'a str) -> &'a str { s }\<close>\<close>

definition impl_future2 :: "signature \<times> block" where
  "impl_future2 = ((plain_sig ''future2'' [ref_self False, s_arg] (RType (str_ref (Some ''a''))))
     \<lparr>sg_async := True, sg_generics := lifetime_a\<rparr>, UserBlock ''s'')"

text \<open>\<open>#[dyn_utils::dyn_object(bounds = Send)] trait MyFuture\<close>, with the items of \<open>Future\<close>\<close>

definition my_future_trait :: item_trait where
  "my_future_trait = future_trait\<lparr>tr_ident := ''MyFuture''\<rparr>"

lemmas test_trait_defs =
  s_arg_def lifetime_a_def test_method_def test_future_def test_future_send_def test_empty_def
  test_pinned_self_def test_trait_def

lemma test_idents [simp]:
  "snake_to_pascal ''future'' = ''Future''" "snake_to_pascal ''future2'' = ''Future2''"
  "snake_to_pascal ''future_send'' = ''FutureSend''" "snake_to_pascal ''empty'' = ''Empty''"
  "to_uppercase ''future'' = ''FUTURE''" "to_uppercase ''future2'' = ''FUTURE2''" "to_uppercase ''empty'' = ''EMPTY''"
  by code_simp+

lemma test_format_idents [simp]:
  "format_ident ''Test2'' = Inr ''Test2''"
  "format_ident ''__StorageFuture'' = Inr ''__StorageFuture''"
  "format_ident ''__StorageFuture2'' = Inr ''__StorageFuture2''"
  "format_ident ''__StorageFutureSend'' = Inr ''__StorageFutureSend''"
  "format_ident ''__StorageEmpty'' = Inr ''__StorageEmpty''"
  "format_ident ''future_sync'' = Inr ''future_sync''" "format_ident ''FUTURE_IS_SYNC'' = Inr ''FUTURE_IS_SYNC''"
  "format_ident ''future2_sync'' = Inr ''future2_sync''" "format_ident ''FUTURE2_IS_SYNC'' = Inr ''FUTURE2_IS_SYNC''"
  "format_ident ''empty_sync'' = Inr ''empty_sync''" "format_ident ''EMPTY_IS_SYNC'' = Inr ''EMPTY_IS_SYNC''"
  by (simp_all add: macro_simps)

text \<open>What the expansion has: the generated methods with their bodies, and the constants.\<close>

abbreviation s_expr :: arg_expr where
  "s_expr \<equiv> PatArg (PatIdent False False ''s'' None)"

definition maybe_sync_body :: "ident \<Rightarrow> ident \<Rightarrow> ident \<Rightarrow> arg_expr list \<Rightarrow> block" where
  "maybe_sync_body const sync_name name args =
     IfConst const (MaybeSyncSync (CallDyn sync_name args)) (MaybeSyncAsync (DynObjectNew (CallDyn name args)))"

definition fn_bodies :: "impl_item list \<Rightarrow> (ident \<times> block) list" where
  "fn_bodies items = List.map_filter (\<lambda>i. map_option (\<lambda>(sg, b). (sg_ident sg, b)) (impl_fn i)) items"

definition test_bodies :: "(ident \<times> block) list" where
  "test_bodies = [
      (''method'', CallDyn ''method'' [SelfArg]),
      (''future'', maybe_sync_body ''FUTURE_IS_SYNC'' ''future_sync'' ''future'' [SelfArg, s_expr]),
      (''future2'', maybe_sync_body ''FUTURE2_IS_SYNC'' ''future2_sync'' ''future2'' [SelfArg, s_expr]),
      (''future_send'', DynObjectNew (CallDyn ''future_send'' [SelfArg, s_expr])),
      (''empty'', maybe_sync_body ''EMPTY_IS_SYNC'' ''empty_sync'' ''empty'' [SelfArg]),
      (''pinned_self'', CallDyn ''pinned_self'' [SelfArg])]"

definition test_consts :: "(ident \<times> string) list" where
  "test_consts = [(''FUTURE_IS_SYNC'', ''false''), (''FUTURE2_IS_SYNC'', ''false''), (''EMPTY_IS_SYNC'', ''false'')]"

lemma test_expansion:
  "\<exists>out tr. dyn_trait_macro snake_to_pascal [Nested (ident_path ''trait'') (EqIdent ''Test2'')] test_trait = Expanded out
    \<and> do_trait out = Some tr
    \<and> List.map_filter trait_const (tr_items tr) = test_consts
    \<and> fn_bodies (do_impl_items out) = test_bodies"
  by (simp add: dyn_trait_defs no_macro_defs async_callback_defs test_trait_defs self_assoc_def
      plain_type_def parse_type_def is_not_generic_def path_keyword_def fn_bodies_def maybe_sync_body_def test_bodies_def test_consts_def)

lemma impl_future2_expansion:
  "\<exists>sg. sync_macro [] impl_future2 = Expanded [IIFn (fst impl_future2) (snd impl_future2),
     IIFn sg (snd impl_future2), IIConst ''FUTURE2_IS_SYNC'' (ty_ident ''bool'') ''true'']
     \<and> sg_ident sg = ''future2_sync'' \<and> \<not> sg_async sg"
  by (simp add: dyn_trait_defs no_macro_defs async_callback_defs impl_future2_def test_trait_defs)

text \<open>The two traits of the test that \<open>dyn_object\<close> is put on.\<close>

lemma test_objects_expansion:
  "\<exists>out1 out2. dyn_object_macro bounds_send my_future_trait = Expanded out1
     \<and> vi_object (expansion_impl (\<lambda>p. {}) out1) = {MSend}
     \<and> dyn_object_macro [] iterator_trait = Expanded out2"
  by (simp add: dyn_object_defs trait_example_defs macro_simps my_future_trait_def bounds_send_def
      expansion_impl_def marker_named_def)


section \<open>The test\<close>

text \<open>The values the methods give; \<open>NoSuchMethod\<close> stands for a call that Rust would refuse.\<close>

datatype test_value = VUnit | VUsize nat | VStr string | NoSuchMethod

text \<open>
  \<open>impl Test for ()\<close>: what the body of a method gives, or the future it returns once it is ready, on
  the arguments a generated body passes on, where \<open>s\<close> is bound to \<open>text\<close>. \<open>future2_sync\<close> has the body
  of \<open>future2\<close>.
\<close>

fun arg_value :: "string \<Rightarrow> arg_expr \<Rightarrow> string option" where
  "arg_value text (PatArg (PatIdent _ _ x _)) = (if x = ''s'' then Some text else None)"
| "arg_value text _ = None"

definition test_call :: "string \<Rightarrow> ident \<Rightarrow> arg_expr list \<Rightarrow> test_value" where
  "test_call text i args = (case map (arg_value text) args of
       [None] \<Rightarrow> if i = ''method'' then VUsize 42 else if i = ''empty'' then VUnit else NoSuchMethod
     | [None, Some s] \<Rightarrow>
         if i \<in> {''future'', ''future2'', ''future2_sync''} then VStr s
         else if i = ''future_send'' then VUsize (length s) else NoSuchMethod
     | _ \<Rightarrow> NoSuchMethod)"

text \<open>
  A future put into a \<open>DynObject\<close>, with the heap it lies in: what \<open>MaybeSync::Async\<close> wraps.
\<close>

type_synonym 's stored = "('s, future_vtable) dynobj res \<times> world"

definition store_future :: "('s, 'y) storage_ops_scheme \<Rightarrow> world \<Rightarrow> rtype \<times> rval \<Rightarrow> 's stored" where
  "store_future S w fut = (case fut of (T, v) \<Rightarrow> dyn_new S future_vt T v w)"

fun poll_stored ::
  "('s, 'y) storage_ops_scheme \<Rightarrow> env \<Rightarrow> ('c, 'o) poll_impl \<Rightarrow> nat \<Rightarrow> 's stored \<Rightarrow> 'c \<Rightarrow> 'o poll res \<times> 's stored" where
  "poll_stored S E poll_impl a (Ok ob, w) cx = (case future_poll S E poll_impl a cx ob w of
      (Ok (r, ob'), w') \<Rightarrow> (r, (Ok ob', w'))
    | (Panic s, w') \<Rightarrow> (Panic s, (Ok ob, w'))
    | (UB u, w') \<Rightarrow> (UB u, (Ok ob, w'))
    | (BuildError s, w') \<Rightarrow> (BuildError s, (Ok ob, w')))"
| "poll_stored S E poll_impl a (r, w) cx = (map_res (\<lambda>_. Pending) r, (r, w))"

fun drop_stored :: "('s, 'y) storage_ops_scheme \<Rightarrow> env \<Rightarrow> nat \<Rightarrow> ('s stored, 'o) maybe_sync \<Rightarrow> (world, unit) op" where
  "drop_stored S E a (Async (Ok ob, w)) w0 = dyn_drop S E a ob w"
| "drop_stored S E a (Async (r, w)) w0 = (Ok (), w)"
| "drop_stored S E a ms w0 = (Ok (), w0)"

text \<open>
  \<open>test.name(args).now_or_never()\<close> for a \<open>maybe_sync\<close> method: the generated body runs on the
  implementation, the result is polled once and dropped.
\<close>

definition call_maybe_sync ::
  "('s, 'y) storage_ops_scheme \<Rightarrow> env \<Rightarrow> ('c, 'o) poll_impl \<Rightarrow> nat \<Rightarrow> 'c \<Rightarrow> (ident \<Rightarrow> bool)
    \<Rightarrow> (ident \<Rightarrow> arg_expr list \<Rightarrow> 'o) \<Rightarrow> (ident \<Rightarrow> arg_expr list \<Rightarrow> rtype \<times> rval) \<Rightarrow> block option
    \<Rightarrow> (world, 'o option) op" where
  "call_maybe_sync S E poll_impl a cx known sync_call async_call body w =
     (case Option.bind body (eval_maybe_sync known sync_call (\<lambda>i args. store_future S w (async_call i args))) of
        None \<Rightarrow> (BuildError ''no method'', w)
      | Some ms \<Rightarrow> (case now_or_never (maybe_sync_poll (poll_stored S E poll_impl a) cx ms) of
          (r, ms') \<Rightarrow> bnd (drop_stored S E a ms') (\<lambda>_. throw r) w))"

text \<open>The same for a method that returns a \<open>DynObject<dyn Future + Send>\<close>, and for an unchanged one.\<close>

definition call_object ::
  "('s, 'y) storage_ops_scheme \<Rightarrow> env \<Rightarrow> ('c, 'o) poll_impl \<Rightarrow> nat \<Rightarrow> 'c
    \<Rightarrow> (ident \<Rightarrow> arg_expr list \<Rightarrow> rtype \<times> rval) \<Rightarrow> block option \<Rightarrow> (world, 'o option) op" where
  "call_object S E poll_impl a cx async_call body =
     (case Option.bind body (eval_dyn_object S future_send_vt async_call) of
        None \<Rightarrow> throw (BuildError ''no method'')
      | Some run \<Rightarrow> bnd run (\<lambda>ob.
          bnd (future_send_poll S E poll_impl a cx ob) (\<lambda>(r, ob').
          bnd (dyn_drop S E a ob') (\<lambda>_. throw (fst (now_or_never (r, ())))))))"

fun call_plain :: "(ident \<Rightarrow> arg_expr list \<Rightarrow> 'o) \<Rightarrow> block option \<Rightarrow> 'o res" where
  "call_plain plain_call (Some (CallDyn i args)) = Ok (plain_call i args)"
| "call_plain plain_call b = BuildError ''no method''"

definition integration_test ::
  "('s, 'y) storage_ops_scheme \<Rightarrow> env \<Rightarrow> ('c, test_value) poll_impl \<Rightarrow> nat \<Rightarrow> 'c
    \<Rightarrow> (ident \<Rightarrow> arg_expr list \<Rightarrow> rtype \<times> rval) \<Rightarrow> (world, unit) op" where
  "integration_test S E poll_impl a cx async_call =
     (case (dyn_trait_macro snake_to_pascal [Nested (ident_path ''trait'') (EqIdent ''Test2'')] test_trait,
            sync_macro [] impl_future2, dyn_object_macro bounds_send my_future_trait, dyn_object_macro [] iterator_trait) of
        (Expanded out, Expanded items, Expanded _, Expanded _) \<Rightarrow> (case do_trait out of
            None \<Rightarrow> throw (BuildError ''no trait'')
          | Some tr \<Rightarrow>
             (let body = map_of (fn_bodies (do_impl_items out));
                  call = (\<lambda>name. call_maybe_sync S E poll_impl a cx (assoc_true items (tr_items tr))
                    (test_call ''test'') async_call (body name))
              in bnd (call ''empty'') (\<lambda>x.
                 bnd (throw (unwrap x)) (\<lambda>_.
                 bnd (throw (call_plain (test_call ''test'') (body ''method''))) (\<lambda>x.
                 bnd (assert_that (x = VUsize 42)) (\<lambda>_.
                 bnd (call ''future'') (\<lambda>x.
                 bnd (assert_that (x = Some (VStr ''test''))) (\<lambda>_.
                 bnd (call ''future2'') (\<lambda>x.
                 bnd (assert_that (x = Some (VStr ''test''))) (\<lambda>_.
                 bnd (call_object S E poll_impl a cx async_call (body ''future_send'')) (\<lambda>x.
                   assert_that (x = Some (VUsize 4)))))))))))))
      | _ \<Rightarrow> throw (BuildError ''macro error''))"

text \<open>
  The futures of \<open>impl Test for ()\<close>, \<open>async_call\<close>: no \<open>.await\<close> occurs in their bodies, so they are ready
  with what the body gives at the first poll.
\<close>

definition ready_future ::
  "env \<Rightarrow> ('c, 'o) poll_impl \<Rightarrow> 'c \<Rightarrow> rtype \<times> rval \<Rightarrow> 'o \<Rightarrow> bool" where
  "ready_future E poll_impl cx fut x \<longleftrightarrow> wf_rtype (fst fut) \<and> wf_val E (fst fut) (snd fut)
     \<and> poll_closed E (fst fut) poll_impl \<and> fst (poll_impl (fst fut) (snd fut) cx) = Ok (Ready x)"

definition test_impl ::
  "env \<Rightarrow> ('c, test_value) poll_impl \<Rightarrow> 'c \<Rightarrow> (ident \<Rightarrow> arg_expr list \<Rightarrow> rtype \<times> rval) \<Rightarrow> bool" where
  "test_impl E poll_impl cx async_call \<longleftrightarrow>
     (\<forall>(i, args) \<in> {(''empty'', [SelfArg]), (''future'', [SelfArg, s_expr]), (''future_send'', [SelfArg, s_expr])}.
        ready_future E poll_impl cx (async_call i args) (test_call ''test'' i args))"

lemma test_impl_calls:
  assumes "test_impl E poll_impl cx async_call"
  shows "test_call ''test'' ''method'' [SelfArg] = VUsize 42"
    and "test_call ''test'' ''future2_sync'' [SelfArg, s_expr] = VStr ''test''"
    and "ready_future E poll_impl cx (async_call ''empty'' [SelfArg]) VUnit"
    and "ready_future E poll_impl cx (async_call ''future'' [SelfArg, s_expr]) (VStr ''test'')"
    and "ready_future E poll_impl cx (async_call ''future_send'' [SelfArg, s_expr]) (VUsize 4)"
  using assms by (simp_all add: test_impl_def test_call_def eval_nat_numeral)

context storage_contract
begin

lemma store_poll_drop:
  assumes f: "ready_future E poll_impl cx (T, v) x" and w: "wf_world w" and a: "place_ok S a"
    and fits: "\<And>T. fits T" and quiet: "\<And>X u. \<not> drop_panics E X u"
  shows "\<exists>ob w1 ob' w2 w3. dyn_new S future_vt T v w = (Ok ob, w1)
    \<and> future_poll S E poll_impl a cx ob w1 = (Ok (Ok (Ready x), ob'), w2)
    \<and> dyn_drop S E a ob' w2 = (Ok (), w3) \<and> wf_world w3 \<and> blocks w3 = blocks w"
proof -
  from f have T: "wf_rtype T" "wf_val E T v" "poll_closed E T poll_impl" "fst (poll_impl T v cx) = Ok (Ready x)"
    by (simp_all add: ready_future_def)
  from new_polls_drop [OF T(1,2) fits w a T(3) quiet, of "[cx]"] T(4) show ?thesis
    by (auto simp: case_prod_beta bnd_eq_Ok)
qed

lemma call_maybe_sync_async:
  assumes f: "ready_future E poll_impl cx (async_call name args) x" and w: "wf_world w" and a: "place_ok S a"
    and fits: "\<And>T. fits T" and quiet: "\<And>X u. \<not> drop_panics E X u" and c: "\<not> known const"
  shows "\<exists>w'. call_maybe_sync S E poll_impl a cx known sync_call async_call
      (Some (maybe_sync_body const sync_name name args)) w = (Ok (Some x), w') \<and> wf_world w' \<and> blocks w' = blocks w"
proof -
  obtain T v where tv: "async_call name args = (T, v)" by fastforce
  with store_poll_drop [of E poll_impl cx T v x, OF _ w a fits quiet] f c show ?thesis
    by (auto simp: call_maybe_sync_def maybe_sync_body_def store_future_def bnd_def throw_def)
qed

lemma call_maybe_sync_sync:
  "known const \<Longrightarrow> call_maybe_sync S E poll_impl a cx known sync_call async_call
      (Some (maybe_sync_body const sync_name name args)) w = (Ok (Some (sync_call sync_name args)), w)"
  by (simp add: call_maybe_sync_def maybe_sync_body_def bnd_def throw_def)

lemma call_object_ok:
  assumes f: "ready_future E poll_impl cx (async_call name args) x" and w: "wf_world w" and a: "place_ok S a"
    and fits: "\<And>T. fits T" and quiet: "\<And>X u. \<not> drop_panics E X u"
  shows "\<exists>w'. call_object S E poll_impl a cx async_call (Some (DynObjectNew (CallDyn name args))) w
      = (Ok (Some x), w') \<and> wf_world w' \<and> blocks w' = blocks w"
proof -
  have vt: "future_send_vt = future_vt" by (rule ext) (rule future_send_same(1))
  obtain T v where tv: "async_call name args = (T, v)" by fastforce
  with store_poll_drop [of E poll_impl cx T v x, OF _ w a fits quiet] f show ?thesis
    by (auto simp: call_object_def vt future_send_same(2) bnd_def throw_def)
qed

lemma integration_test_ok:
  assumes t: "test_impl E poll_impl cx async_call" and w: "wf_world w" and a: "place_ok S a"
    and fits: "\<And>T. fits T" and quiet: "\<And>X u. \<not> drop_panics E X u"
  shows "\<exists>w'. integration_test S E poll_impl a cx async_call w = (Ok (), w') \<and> blocks w' = blocks w"
proof -
  obtain out tr where out:
    "dyn_trait_macro snake_to_pascal [Nested (ident_path ''trait'') (EqIdent ''Test2'')] test_trait = Expanded out"
    "do_trait out = Some tr"
    "List.map_filter trait_const (tr_items tr) = test_consts"
    "fn_bodies (do_impl_items out) = test_bodies"
    using test_expansion by blast
  obtain items where items: "sync_macro [] impl_future2 = Expanded items"
    "List.map_filter impl_const items = [(''FUTURE2_IS_SYNC'', ''true'')]"
    using impl_future2_expansion by (auto simp: List.map_filter_def)
  obtain out1 out2 where objects: "dyn_object_macro bounds_send my_future_trait = Expanded out1"
    "dyn_object_macro [] iterator_trait = Expanded out2"
    using test_objects_expansion by blast
  let ?known = "assoc_true items (tr_items tr)"
  have c: "\<not> ?known ''FUTURE_IS_SYNC''" "?known ''FUTURE2_IS_SYNC''" "\<not> ?known ''EMPTY_IS_SYNC''"
    by (simp_all add: assoc_true_def out(3) items(2) test_consts_def)
  let ?call = "call_maybe_sync S E poll_impl a cx ?known (test_call ''test'') async_call"
  note t' = test_impl_calls [OF t]
  from call_maybe_sync_async [where known = "?known" and async_call = async_call, OF t'(3) w a fits quiet c(3), of "test_call ''test''" "''empty_sync''"]
  obtain w1 where
    1: "?call (Some (maybe_sync_body ''EMPTY_IS_SYNC'' ''empty_sync'' ''empty'' [SelfArg])) w = (Ok (Some VUnit), w1)"
    "wf_world w1" "blocks w1 = blocks w" by blast
  from call_maybe_sync_async [where known = "?known" and async_call = async_call, OF t'(4) 1(2) a fits quiet c(1), of "test_call ''test''" "''future_sync''"]
  obtain w2 where
    2: "?call (Some (maybe_sync_body ''FUTURE_IS_SYNC'' ''future_sync'' ''future'' [SelfArg, s_expr])) w1
      = (Ok (Some (VStr ''test'')), w2)" "wf_world w2" "blocks w2 = blocks w1" by blast
  from call_object_ok [where async_call = async_call, OF t'(5) 2(2) a fits quiet] obtain w3 where
    3: "call_object S E poll_impl a cx async_call (Some (DynObjectNew (CallDyn ''future_send'' [SelfArg, s_expr]))) w2
      = (Ok (Some (VUsize 4)), w3)" "blocks w3 = blocks w2" by blast
  show ?thesis
    using t' 1 2 3 out(1,2) out(4) [unfolded test_bodies_def] items(1) objects
    by (simp add: integration_test_def Let_def bnd_def throw_def ret_def call_maybe_sync_sync [of ?known, OF c(2)])
qed

end

end
