(* ===== verification/Runtime_Properties.thy ===== *)
theory Runtime_Properties
  imports Examples Object_Traits Await
begin

text \<open>
  The properties of the objects and the storages: the facts of the contracts, read off their
  interpretations on \<open>Raw\<close>, \<open>Box\<close> and \<open>RawOrBox\<close> and written out over the model's operations.
  \<open>generated_vt inits\<close> stands for the vtable of any trait \<open>dyn_object\<close> accepts.
\<close>


section \<open>\<open>DynObject\<close>\<close>

text \<open>
  C6: an object created with \<open>DynObject::new\<close>, or from a \<open>Box\<close> with \<open>DynObject::from_box\<close>, and then
  dropped runs the drop glue of its value exactly once, on that value, and gives back every block,
  those of the box included: the heap is what it was before the value was stored or boxed.
\<close>
theorem object_new_drop:
  assumes "wf_rtype T" "wf_val E T v" "wf_world w" and "place_ok (rob_ops cfg SIZE ALIGN) a"
    and "tneeds_drop T \<longrightarrow> \<not> drop_panics E T v"
  shows "(rob_fits cfg SIZE ALIGN T \<longrightarrow>
      (\<exists>ob w' w''. dyn_new (rob_ops cfg SIZE ALIGN) (generated_vt inits) T v w = (Ok ob, w')
        \<and> dyn_drop (rob_ops cfg SIZE ALIGN) E a ob w' = (Ok (), w'')
        \<and> wf_world w'' \<and> blocks w'' = blocks w \<and> dropped w'' = dropped w @ drop_trace T v))
    \<and> (\<exists>p ob w1 w2 w3. std_box_new T v w = (Ok p, w1)
      \<and> dyn_from_box (rob_ops cfg SIZE ALIGN) (generated_vt inits) E T p w1 = (Ok ob, w2)
      \<and> dyn_drop (rob_ops cfg SIZE ALIGN) E a ob w2 = (Ok (), w3) \<and> blocks w3 = blocks w
      \<and> dropped w3 = dropped w @ drop_trace T v)"
  using rob.gen.new_drop [OF assms(1,2) _ assms(3-5)] rob.gen_fb.from_box_drop [OF assms] by blast

theorem object_new_drop_witness:
  "(\<exists>ob w' w''. dyn_new rob16 (generated_vt []) T_vec v_vec empty_world = (Ok ob, w')
      \<and> dyn_drop rob16 E_quiet 8 ob w' = (Ok (), w'') \<and> wf_world w''
      \<and> blocks w'' = blocks empty_world \<and> dropped w'' = dropped empty_world @ drop_trace T_vec v_vec)
    \<and> (\<exists>p ob w1 w2 w3. std_box_new T_usize v_usize vec_world = (Ok p, w1)
      \<and> dyn_from_box rob16 (generated_vt []) E_quiet T_usize p w1 = (Ok ob, w2)
      \<and> dyn_drop rob16 E_quiet 8 ob w2 = (Ok (), w3) \<and> blocks w3 = blocks vec_world
      \<and> dropped w3 = dropped vec_world @ drop_trace T_usize v_usize)"
  using object_new_drop [of T_vec E_quiet v_vec empty_world cfg64 16 "Log2 3" 8 "[]"]
    object_new_drop [of T_usize E_quiet v_usize vec_world cfg64 16 "Log2 3" 8 "[]"]
  by simp

text \<open>
  C7: what \<open>Drop for DynObject\<close> does to an object holding \<open>v\<close>. Without a panic the value is
  dropped once and exactly the blocks of the object are freed. If the drop glue of the value
  panics, the panic goes through and the storage is not released: every block it owns stays
  allocated.
\<close>
theorem object_drop_outcome:
  assumes "obj_rep (rob_rep SIZE ALIGN) (generated_vt inits) T v ob w" "wf_rtype T" "wf_val E T v"
    and "place_ok (rob_ops cfg SIZE ALIGN) a" "wf_world w"
  shows "if tneeds_drop T \<and> drop_panics E T v
    then dyn_drop (rob_ops cfg SIZE ALIGN) E a ob w = (Panic ''drop'', log_drop T v w)
      \<and> rob_own T (storage ob) \<subseteq> dom (blocks (log_drop T v w))
    else (\<exists>w'. dyn_drop (rob_ops cfg SIZE ALIGN) E a ob w = (Ok (), w')
      \<and> after_drop (rob_own T (storage ob)) T v w w')"
  using rob.gen.drop_panic [OF assms(1-4)] rob.gen.drop_ok [OF assms]
    rob.own_dom [OF rob.gen.obj_rep_storage [OF assms(1)]] by auto

theorem object_drop_outcome_witness:
  "dyn_drop rob16 E_loud 8 \<lparr>storage = vec_box, vtable = generated_vt [] T_vec\<rparr> vec_world
      = (Panic ''drop'', log_drop T_vec v_vec vec_world)
    \<and> rob_own T_vec vec_box \<subseteq> dom (blocks (log_drop T_vec v_vec vec_world)) \<and> rob_own T_vec vec_box = {8}"
proof -
  have "rob_own T_vec vec_box = {8}" by (simp add: vec_box_def box_own_def)
  with object_drop_outcome [OF vec_obj, of E_loud cfg64 8 "[]"] show ?thesis by simp
qed

text \<open>
  C8: \<open>DynObject::insert\<close> on a filled slot puts the new object there, in fresh blocks, and drops
  the old value once. If that drop goes well, the old blocks and no others are freed, and the
  reference returned reads the new value. If it panics, the panic goes through, the slot
  nevertheless holds the new object, and the blocks of the old one stay allocated.
\<close>
theorem object_insert:
  assumes "obj_rep (rob_rep SIZE ALIGN) (generated_vt inits) U u ob0 w" "wf_rtype U" "wf_val E U u"
    and "wf_rtype T" "wf_val E T v" "rob_fits cfg SIZE ALIGN T" "wf_world w"
    and "place_ok (rob_ops cfg SIZE ALIGN) a"
  shows "\<exists>r ob w'. dyn_insert (rob_ops cfg SIZE ALIGN) (generated_vt inits) E T a (Some ob0) v w
      = (r, Some ob, w') \<and> obj_rep (rob_rep SIZE ALIGN) (generated_vt inits) T v ob w'
    \<and> dropped w' = dropped w @ drop_trace U u
    \<and> (if tneeds_drop U \<and> drop_panics E U u
       then r = Panic ''drop'' \<and> rob_own U (storage ob0) \<subseteq> dom (blocks w')
       else \<exists>p. r = Ok p \<and> read_ref (rob_ops cfg SIZE ALIGN) E T a (storage ob) p w' = Ok v \<and> wf_world w'
         \<and> rob_own T (storage ob) \<inter> dom (blocks w) = {}
         \<and> blocks w' |` (- rob_own T (storage ob)) = blocks w |` (- rob_own U (storage ob0)))"
proof (cases "tneeds_drop U \<and> drop_panics E U u")
  case True
  then have "drop_trace U u = [(U, u)]" by (simp add: drop_trace_def)
  with True rob.gen.insert_panic [OF assms(1-3) _ _ assms(4-8)] show ?thesis by auto
next
  case False
  with rob.gen.insert_ok [OF assms(1-3) _ assms(4-8)] show ?thesis by auto
qed

theorem object_insert_witness:
  "(\<exists>p ob w'. dyn_insert rob16 (generated_vt []) E_quiet T_usize 8
      (Some \<lparr>storage = vec_box, vtable = generated_vt [] T_vec\<rparr>) v_usize vec_world = (Ok p, Some ob, w')
    \<and> read_ref rob16 E_quiet T_usize 8 (storage ob) p w' = Ok v_usize)
  \<and> (\<exists>ob w'. dyn_insert rob16 (generated_vt []) E_loud T_usize 8
      (Some \<lparr>storage = vec_box, vtable = generated_vt [] T_vec\<rparr>) v_usize vec_world = (Panic ''drop'', Some ob, w')
    \<and> rob_own T_vec vec_box \<subseteq> dom (blocks w'))"
  using object_insert [of 16 "Log2 3" "[]" T_vec v_vec
      "\<lparr>storage = vec_box, vtable = generated_vt [] T_vec\<rparr>" vec_world E_quiet T_usize v_usize cfg64 8]
    object_insert [of 16 "Log2 3" "[]" T_vec v_vec
      "\<lparr>storage = vec_box, vtable = generated_vt [] T_vec\<rparr>" vec_world E_loud T_usize v_usize cfg64 8]
  by auto


section \<open>\<open>dyn Any\<close>\<close>

text \<open>
  C9: downcasts to any type \<open>U\<close>. They succeed exactly when \<open>U\<close> is the type of the stored value,
  whatever the layouts, and otherwise hand the object back with nothing changed; a reference
  obtained reads the stored value. A value put into an object and taken out at once is the same,
  not dropped on the way, and the heap is as before.
\<close>
theorem any_downcast:
  assumes "obj_rep (rob_rep SIZE ALIGN) any_vt T v ob w" "wf_rtype T" "wf_val E T v"
    and "place_ok (rob_ops cfg SIZE ALIGN) a" "wf_world w"
  shows "(if U = T
    then (\<exists>w'. downcast (rob_ops cfg SIZE ALIGN) E U a ob w = (Ok (Inr v), w')
          \<and> wf_world w' \<and> frees (rob_own T (storage ob)) w w')
      \<and> (\<exists>p. downcast_ref (rob_ops cfg SIZE ALIGN) E U a ob w = Ok (Some p)
          \<and> downcast_mut (rob_ops cfg SIZE ALIGN) E U a ob w = Ok (Some p)
          \<and> read_ref (rob_ops cfg SIZE ALIGN) E U a (storage ob) p w = Ok v)
    else downcast (rob_ops cfg SIZE ALIGN) E U a ob w = (Ok (Inl ob), w)
      \<and> downcast_ref (rob_ops cfg SIZE ALIGN) E U a ob w = Ok None
      \<and> downcast_mut (rob_ops cfg SIZE ALIGN) E U a ob w = Ok None)
    \<and> (rob_fits cfg SIZE ALIGN T \<and> wf_world w0 \<longrightarrow>
        (\<exists>ob1 w1 w2. dyn_new (rob_ops cfg SIZE ALIGN) any_vt T v w0 = (Ok ob1, w1)
          \<and> downcast (rob_ops cfg SIZE ALIGN) E T a ob1 w1 = (Ok (Inr v), w2)
          \<and> blocks w2 = blocks w0 \<and> dropped w2 = dropped w0))"
  using rob.downcast_hit [OF assms] rob.downcast_ref_hit [OF assms(1-4)]
    rob.downcast_miss [OF assms(1), of U cfg E a] rob.downcast_ref_miss [OF assms(1), of U cfg E a]
    rob.new_downcast [OF assms(2,3) _ _ assms(4), of w0]
  by simp

theorem any_downcast_witness:
  "downcast rob16 E_quiet T_usize 8 \<lparr>storage = vec_box, vtable = any_vt T_vec\<rparr> vec_world
      = (Ok (Inl \<lparr>storage = vec_box, vtable = any_vt T_vec\<rparr>), vec_world)
    \<and> (\<exists>w'. downcast rob16 E_quiet T_vec 8 \<lparr>storage = vec_box, vtable = any_vt T_vec\<rparr> vec_world
        = (Ok (Inr v_vec), w'))
    \<and> (\<exists>ob w' w''. dyn_new rob16 any_vt T_vec v_vec empty_world = (Ok ob, w')
      \<and> downcast rob16 E_quiet T_vec 8 ob w' = (Ok (Inr v_vec), w'')
      \<and> blocks w'' = blocks empty_world \<and> dropped w'' = dropped empty_world)"
  using any_downcast [of 16 "Log2 3" T_vec v_vec "\<lparr>storage = vec_box, vtable = any_vt T_vec\<rparr>"
      vec_world E_quiet cfg64 8 T_usize]
    any_downcast [of 16 "Log2 3" T_vec v_vec "\<lparr>storage = vec_box, vtable = any_vt T_vec\<rparr>"
      vec_world E_quiet cfg64 8 T_vec empty_world]
  by (auto simp: if_split_eq1)


section \<open>Futures and iterators\<close>

text \<open>
  C10: a future behind a \<open>DynObject\<close> behaves as the future itself: any sequence of polls gives
  the results that polling the value directly gives, the object ends up holding the state the
  value would have, it does not move in memory, and no other block changes.
\<close>
theorem future_trace:
  assumes "obj_rep (rob_rep SIZE ALIGN) future_vt T v ob w" "wf_rtype T" "wf_val E T v" "wf_world w"
    and "place_ok (rob_ops cfg SIZE ALIGN) a" "poll_closed E T poll_impl"
  shows "\<exists>ob' w'. dyn_polls (rob_ops cfg SIZE ALIGN) E poll_impl a cxs ob w
      = (Ok (fst (direct_polls poll_impl T cxs v), ob'), w')
    \<and> obj_rep (rob_rep SIZE ALIGN) future_vt T (snd (direct_polls poll_impl T cxs v)) ob' w' \<and> wf_world w'
    \<and> rob_own T (storage ob') = rob_own T (storage ob) \<and> untouched (rob_own T (storage ob)) w w'
    \<and> so_ptr_mut (rob_ops cfg SIZE ALIGN) a (storage ob') = so_ptr_mut (rob_ops cfg SIZE ALIGN) a (storage ob)"
  by (rule rob.dyn_polls_ok [OF assms])

text \<open>A future that is pending once and then ready.\<close>

definition two_step :: "(unit, nat) poll_impl" where
  "two_step T v cx = (if v = v_usize then (Ok Pending, u_usize) else (Ok (Ready 42), v))"

lemma two_step_closed: "poll_closed E_quiet T_usize two_step"
  by (auto simp: poll_closed_def two_step_def)

theorem future_trace_witness:
  "\<exists>ob' w'. dyn_polls rob16 E_quiet two_step 8 [(), ()]
      \<lparr>storage = usize_raw, vtable = future_vt T_usize\<rparr> empty_world
    = (Ok ([Ok Pending, Ok (Ready 42)], ob'), w')"
  using future_trace [OF usize_obj _ _ _ _ two_step_closed, of empty_world cfg64 8 "[(), ()]"]
  by (auto simp: two_step_def simp del: dyn_polls.simps)

text \<open>
  C11: awaiting a future behind a \<open>DynObject\<close>, polling it until it is no longer pending, returns
  exactly when awaiting the future itself does, that is unless the future is pending at every poll,
  and then with the same outcome, the object holding the final state of the future where it was.
\<close>
theorem future_await:
  assumes "obj_rep (rob_rep SIZE ALIGN) future_vt T v ob w" "wf_rtype T" "wf_val E T v" "wf_world w"
    and "place_ok (rob_ops cfg SIZE ALIGN) a" "poll_closed E T poll_impl"
  shows "((\<exists>y. dyn_await (rob_ops cfg SIZE ALIGN) E poll_impl a cx ob w = Some y)
      \<longleftrightarrow> (\<exists>k. \<not> set (fst (direct_polls poll_impl T (map cx [0..<k]) v)) \<subseteq> {Ok Pending}))
    \<and> (case direct_await poll_impl T cx v of
         None \<Rightarrow> dyn_await (rob_ops cfg SIZE ALIGN) E poll_impl a cx ob w = None
       | Some (r, v') \<Rightarrow> \<exists>ob' w'. dyn_await (rob_ops cfg SIZE ALIGN) E poll_impl a cx ob w = Some (Ok (r, ob'), w')
           \<and> poll_rel (rob_ops cfg SIZE ALIGN) (rob_rep SIZE ALIGN) rob_own E a T ob w v' ob' w')"
  using rob.dyn_await_returns_iff [OF assms, of cx] rob.dyn_await_ok [OF assms, of cx]
  by (auto split: option.split elim: option.rel_cases)

lemma two_step_await: "direct_await two_step T cx v_usize = Some (Ok (Ready 42), u_usize)"
  by (simp add: direct_await_def two_step_def)

theorem future_await_witness:
  "\<exists>ob' w'. dyn_await rob16 E_quiet two_step 8 (\<lambda>n. ())
      \<lparr>storage = usize_raw, vtable = future_vt T_usize\<rparr> empty_world
    = Some (Ok (Ok (Ready 42), ob'), w')"
  using future_await [OF usize_obj _ _ _ _ two_step_closed, of empty_world cfg64 8 "\<lambda>n. ()"]
  by (auto simp: two_step_await)

text \<open>
  C12: an iterator behind a \<open>DynObject\<close> answers any sequence of \<open>next\<close>, \<open>size_hint\<close> and \<open>nth\<close>
  calls as the iterator itself.
\<close>
theorem iterator_trace:
  assumes "obj_rep (rob_rep SIZE ALIGN) iterator_vt T v ob w" "wf_rtype T" "wf_val E T v" "wf_world w"
    and "place_ok (rob_ops cfg SIZE ALIGN) a" "iter_closed E T impl"
  shows "\<exists>ob' w'. iter_dyn_run (rob_ops cfg SIZE ALIGN) E impl a xs ob w
      = (Ok (fst (iter_direct_run impl T xs v), ob'), w')
    \<and> obj_rep (rob_rep SIZE ALIGN) iterator_vt T (snd (iter_direct_run impl T xs v)) ob' w' \<and> wf_world w'"
  by (rule rob.iter_dyn_run_ok [OF assms])

text \<open>An iterator of one item.\<close>

definition once_iter :: "nat iter_impl" where
  "once_iter = \<lparr>
     it_next = (\<lambda>T v. if v = v_usize then (Ok (Some 5), u_usize) else (Ok None, v)),
     it_size_hint = (\<lambda>T v. (Ok (if v = v_usize then (1, Some 1) else (0, Some 0)), v)),
     it_nth = (\<lambda>n T v. (Ok (if v = v_usize \<and> n = 0 then Some 5 else None), u_usize))\<rparr>"

lemma once_iter_closed: "iter_closed E_quiet T_usize once_iter"
proof -
  have "wf_val E_quiet T_usize (snd (iter_direct once_iter T_usize x v))" if "wf_val E_quiet T_usize v" for x v
    using that by (cases x) (auto simp: once_iter_def)
  then show ?thesis by (simp add: iter_closed_def)
qed

theorem iterator_trace_witness:
  "\<exists>ob' w'. iter_dyn_run rob16 E_quiet once_iter 8 [Size_Hint, Next, Next, Nth 0]
      \<lparr>storage = usize_raw, vtable = iterator_vt T_usize\<rparr> empty_world
    = (Ok ([Hint (Ok (1, Some 1)), Item (Ok (Some 5)), Item (Ok None), Item (Ok None)], ob'), w')"
  using iterator_trace [OF usize_obj _ _ _ _ once_iter_closed, of empty_world cfg64 8
      "[Size_Hint, Next, Next, Nth 0]"]
  by (auto simp: once_iter_def simp del: iter_dyn_run.simps)

section \<open>The storages\<close>

text \<open>
  C13: \<open>RawOrBox::from_box\<close> keeps the box of a value that does not fit, without touching the
  heap, and moves a value that fits in place, freeing its box.
\<close>
theorem rob_from_box_outcome:
  assumes "boxed T v p w" "wf_rtype T" "wf_val E T v" "wf_world w"
  shows "if can_store SIZE ALIGN T
    then (\<exists>r w'. rob_from_box cfg SIZE ALIGN E T p w = (Ok (InnerRaw r), w')
      \<and> take (size_of T) (raw_data r) = v \<and> frees (box_own T p) w w')
    else rob_from_box cfg SIZE ALIGN E T p w = (Ok (InnerBox (Box p)), w)"
proof (cases "can_store SIZE ALIGN T")
  case True
  from std_box_unbox_spec [OF assms(4,1,3)] obtain w1 where
    "std_box_unbox E T p w = (Ok v, w1)" "frees (box_own T p) w w1" by blast
  moreover have "rob_new cfg SIZE ALIGN T v w1 = (Ok (InnerRaw \<lparr>raw_data = v @ replicate (SIZE - size_of T) Uninit\<rparr>), w1)"
    using raw_new_unchecked_ok [OF assms(2) wf_val_length [OF assms(3)] True, of w1] True
    by (simp add: rob_new_def raw_new_def)
  ultimately show ?thesis
    using True wf_val_length [OF assms(3)] by (auto simp: rob_from_box_def)
qed (simp add: rob_from_box_def box_from_box_ok [OF assms(1)])

theorem rob_from_box_outcome_witness:
  "rob_from_box cfg64 16 (Log2 3) E_quiet T_vec (HeapP 8) vec_world = (Ok (InnerBox (Box (HeapP 8))), vec_world)"
proof -
  have "boxed T_vec v_vec (HeapP 8) vec_world" by (simp add: boxed_def vec_world_def)
  from rob_from_box_outcome [OF this, of E_quiet 16 "Log2 3" cfg64] show ?thesis by simp
qed

text \<open>
  C14: \<open>Raw::new\<close> builds exactly for the types that fit, with the data at the start of the
  buffer and without touching the heap; for the others the constant assertion fails. The safety
  precondition of \<open>Raw::new_unchecked\<close> is exact: for a type that is not zero-sized the write is
  undefined precisely when the type does not fit.
\<close>
theorem raw_new_outcome:
  assumes "wf_rtype T" "length v = size_of T"
  shows "raw_new cfg SIZE ALIGN T v w =
    (if size_of T \<le> SIZE \<and> align_of T \<le> align_val ALIGN
     then (Ok \<lparr>raw_data = v @ replicate (SIZE - size_of T) Uninit\<rparr>, w)
     else (BuildError (fit_message cfg SIZE ALIGN T), w))
    \<and> (size_of T \<noteq> 0 \<longrightarrow> is_ub (fst (raw_new_unchecked SIZE ALIGN T v w)) \<longleftrightarrow> \<not> can_store SIZE ALIGN T)"
  using raw_new_unchecked_ok [OF assms, of SIZE ALIGN w] raw_new_unchecked_unfit [OF assms, of SIZE ALIGN w]
  by (auto simp: raw_new_def can_store_def)

theorem raw_new_outcome_witness:
  "raw_new cfg64 16 (Log2 3) T_usize v_usize empty_world
      = (Ok \<lparr>raw_data = v_usize @ replicate 8 Uninit\<rparr>, empty_world)
    \<and> raw_new cfg64 16 (Log2 3) T_vec v_vec empty_world
      = (BuildError ''assertion failed: Self::can_store::<T>()'', empty_world)
    \<and> is_ub (fst (raw_new_unchecked 16 (Log2 3) T_vec v_vec empty_world))"
  using raw_new_outcome [of T_usize v_usize cfg64 16 "Log2 3" empty_world]
    raw_new_outcome [of T_vec v_vec cfg64 16 "Log2 3" empty_world]
  by (simp add: fit_message_def cfg64_def)

text \<open>The default storage.\<close>

lemma default_storage_in_place:
  assumes "wf_rtype T" "length v = size_of T"
    and "size_of T \<le> 128 * usize_size cfg" "align_of T \<le> align_val (usize_align cfg)"
  shows "\<exists>r. so_new (default_storage cfg) T v w = (Ok (InnerRaw r), w) \<and> take (size_of T) (raw_data r) = v"
  using raw_new_unchecked_ok [OF assms(1,2), of "128 * usize_size cfg" "usize_align cfg" w] assms
  by (auto simp: default_storage_def rob_new_def raw_new_def can_store_def)

text \<open>
  C15: where \<open>RawOrBox::new\<close> puts a value depends on its type alone: in place, without touching
  the heap, when the type fits, and otherwise in exactly one fresh block of the type's layout
  (none for a zero-sized type). The default storage keeps every value of up to 128 words and at
  most word alignment in place, with or without the allocator: creating it never allocates.
\<close>
theorem rob_new_outcome:
  assumes "wf_rtype T" "length v = size_of T" "rob_fits cfg SIZE ALIGN T" "wf_world w"
  shows "\<exists>s w'. rob_new cfg SIZE ALIGN T v w = (Ok s, w') \<and> rob_rep SIZE ALIGN T v s w'
    \<and> ((\<exists>r. s = InnerRaw r) \<longleftrightarrow> can_store SIZE ALIGN T)
    \<and> (if can_store SIZE ALIGN T \<or> size_of T = 0 then blocks w' = blocks w
       else \<exists>a. blocks w a = None \<and> blocks w' = (blocks w)(a \<mapsto> (tlayout T, v)))
    \<and> (size_of T \<le> 128 * usize_size cfg \<and> align_of T \<le> align_val (usize_align cfg) \<longrightarrow>
         (\<exists>r. so_new (default_storage cfg) T v w = (Ok (InnerRaw r), w) \<and> take (size_of T) (raw_data r) = v))"
proof -
  from rob_new_ok [OF assms] obtain s w' where
    s: "rob_new cfg SIZE ALIGN T v w = (Ok s, w')" "wf_world w'" "rob_rep SIZE ALIGN T v s w'"
    "frees (rob_own T s) w' w" by blast
  have heap: "if can_store SIZE ALIGN T \<or> size_of T = 0 then blocks w' = blocks w
       else \<exists>a. blocks w a = None \<and> blocks w' = (blocks w)(a \<mapsto> (tlayout T, v))"
  proof (cases s)
    case (InnerRaw r)
    with s(3,4) show ?thesis by (simp add: raw_rep_def raw_own_def frees_def restrict_map_def)
  next
    case (InnerBox b)
    show ?thesis
    proof (cases "size_of T = 0")
      case True
      with InnerBox s(4) show ?thesis by (cases b) (simp add: box_own_def frees_def restrict_map_def)
    next
      case False
      from InnerBox s(3) obtain p where b: "b = Box p" "boxed T v p w'" "\<not> can_store SIZE ALIGN T"
        by (cases b) auto
      from boxed_HeapP [OF b(2)] obtain a where p: "p = HeapP a" by blast
      from b p False have "blocks w' a = Some (tlayout T, v)" by (simp add: boxed_def)
      moreover have "blocks w = blocks w' |` (- {a})"
        using s(4) InnerBox b(1) p False by (simp add: box_own_def frees_def)
      ultimately have "blocks w a = None \<and> blocks w' = (blocks w)(a \<mapsto> (tlayout T, v))"
        by (auto simp: restrict_map_def fun_eq_iff)
      with False b(3) show ?thesis by auto
    qed
  qed
  have small: "size_of T \<le> 128 * usize_size cfg \<and> align_of T \<le> align_val (usize_align cfg) \<longrightarrow>
      (\<exists>r. so_new (default_storage cfg) T v w = (Ok (InnerRaw r), w) \<and> take (size_of T) (raw_data r) = v)"
    using default_storage_in_place [OF assms(1,2)] by blast
  show ?thesis
    by (intro exI conjI) (rule s(1), rule s(3), rule rob_variant [OF s(3)], rule heap, rule small)
qed

theorem rob_new_outcome_witness:
  "\<exists>s w' a. rob_new cfg64 16 (Log2 3) T_vec v_vec empty_world = (Ok s, w')
    \<and> blocks w' = (blocks empty_world)(a \<mapsto> (tlayout T_vec, v_vec))
    \<and> (\<exists>r. so_new (default_storage cfg64) T_vec v_vec empty_world = (Ok (InnerRaw r), empty_world))"
  using rob_new_outcome [of T_vec v_vec cfg64 16 "Log2 3" empty_world] by auto

text \<open>
  \<open>Box::drop_in_place\<close> frees exactly the box's block when it is given the layout of the
  value's type, does nothing for a zero-sized type, and is undefined for any other layout with a
  size: the vtable has to carry the right one.
\<close>
lemma box_drop_layout:
  assumes "box_rep T v b w" "wf_world w"
  shows "(\<exists>w'. box_drop_in_place (tlayout T) b w = (Ok (), w') \<and> wf_world w' \<and> frees (box_owns T b) w w')
    \<and> (size_of T \<noteq> 0 \<longrightarrow> lsize l \<noteq> 0 \<longrightarrow> l \<noteq> tlayout T \<longrightarrow>
        box_drop_in_place l b w = (UB LayoutMismatch, w))"
proof
  show "\<exists>w'. box_drop_in_place (tlayout T) b w = (Ok (), w') \<and> wf_world w' \<and> frees (box_owns T b) w w'"
    by (rule box_drop_ok [OF assms])
  from assms(1) obtain a where "b = Box (HeapP a)" "boxed T v (HeapP a) w"
    by (cases b) (auto dest: boxed_HeapP)
  then show "size_of T \<noteq> 0 \<longrightarrow> lsize l \<noteq> 0 \<longrightarrow> l \<noteq> tlayout T \<longrightarrow>
        box_drop_in_place l b w = (UB LayoutMismatch, w)"
    by (auto simp: boxed_def dealloc_def)
qed

section \<open>Markers\<close>

text \<open>
  C5: an object may go to another thread, be referenced from one, or be moved out of a pin, when
  its \<open>dyn\<close> type is \<open>Send\<close>, \<open>Sync\<close>, \<open>Unpin\<close>, whatever the storage. Whatever a client does with
  objects, this never uses a value in a way its own type does not allow, for \<open>dyn Future\<close>, \<open>dyn
  Future + Send\<close>, \<open>dyn Iterator\<close> and every trait \<open>dyn_object\<close> expands, with any bounds and
  supertraits. It fails for \<open>dyn Any + Send\<close> and \<open>dyn Any + Send + Sync\<close>: \<open>any_impl!\<close> admits any
  \<open>Any\<close> type for them.
\<close>
theorem markers_sound:
  "sound_impl future_impl \<and> sound_impl future_send_impl \<and> sound_impl iterator_impl
    \<and> sound_impl (expansion_impl supers out) \<and> map sound_impl any_uses = [True, False, False]"
  by (simp add: sound_impl_iff future_impl_def future_send_impl_def iterator_impl_def any_uses_def
      any_impl_def expansion_impl_def)

section \<open>\<open>MaybeSync\<close>\<close>

lemma ready_polls_None:
  "fut_polls ready_poll cxs None = (replicate (length cxs) (Panic ''`Ready` polled after completion''), None)"
  by (induction cxs) simp_all

text \<open>
  C16: what any sequence of polls of a \<open>MaybeSync\<close> gives. \<open>Async\<close> is transparent: it is polled
  exactly as the future inside. \<open>Sync\<close> yields its value at the first poll and panics at every
  later one, so that the \<open>unreachable_unchecked\<close> of \<open>take_sync\<close> is never reached; up to the panic
  message it is the trace of \<open>core::future::ready\<close>.
\<close>
theorem maybe_sync_trace:
  "maybe_sync_polls poll_fut cxs (Async f) = map_prod id Async (fut_polls poll_fut cxs f)
  \<and> maybe_sync_polls poll_fut (cx # cxs) (Sync x)
    = (Ok (Ready x) # replicate (length cxs) (Panic ''future polled after completion''), SyncPolled)
  \<and> fst (fut_polls ready_poll (cx # cxs) (Some x))
    = Ok (Ready x) # replicate (length cxs) (Panic ''`Ready` polled after completion'')"
  by (simp add: maybe_sync_polls_SyncPolled maybe_sync_polls_Async ready_polls_None)

end
