(* ===== verification/Example_Properties.thy ===== *)
theory Example_Properties
  imports Doc_Examples More_Tests Integration_Test Runtime_Properties
begin

text \<open>
  The crate's own tests and examples hold of the model: the unit tests pass for every storage, the
  invalid macro invocations are refused with the expected messages, the hand-written version of a
  trait is the generated one, the asynchronous example takes the synchronous path, and the examples of
  the documentation expand as it says.
\<close>











text \<open>
  C37: the integration test passes, from the macro input to the calls. \<open>dyn_trait\<close> expands the trait
  of \<open>tests/test.rs\<close>, leaving out its generic associated type and the macro call inside; \<open>sync\<close> adds
  the synchronous copy of \<open>future2\<close>. Then every call through the generated implementation gives what
  the test asserts, \<open>future2\<close> from the synchronous copy, the others from a future that is put into a
  \<open>DynObject\<close> over the storage, polled once and dropped, and no block is leaked.
\<close>
theorem integration_test_passes:
  assumes "test_impl E poll_impl cx async_call" "wf_world w" "alloc_feature cfg"
    and "place_ok (rob_ops cfg SIZE ALIGN) a" "\<And>X u. \<not> drop_panics E X u"
  shows "(\<exists>w'. integration_test (rob_ops cfg SIZE ALIGN) E poll_impl a cx async_call w = (Ok (), w')
      \<and> blocks w' = blocks w)
    \<and> (\<exists>w'. integration_test (box_ops cfg) E poll_impl a cx async_call w = (Ok (), w')
      \<and> blocks w' = blocks w)"
proof
  show "\<exists>w'. integration_test (rob_ops cfg SIZE ALIGN) E poll_impl a cx async_call w = (Ok (), w')
      \<and> blocks w' = blocks w"
    by (rule rob.integration_test_ok [OF assms(1,2,4) _ assms(5)]) (simp add: rob_fits_def assms(3))
  show "\<exists>w'. integration_test (box_ops cfg) E poll_impl a cx async_call w = (Ok (), w')
      \<and> blocks w' = blocks w"
    by (rule box.integration_test_ok [OF assms(1,2) rob_place_box [OF assms(4,3)] _ assms(5)]) simp
qed

text \<open>An implementation whose futures are told apart by their values.\<close>

definition words_future :: "ident \<Rightarrow> arg_expr list \<Rightarrow> rtype \<times> rval" where
  "words_future i args = (if i = ''empty'' then (T_usize, v_usize)
     else if i = ''future'' then (T_usize, u_usize) else (T_vec, v_vec))"

definition words_poll :: "(unit, test_value) poll_impl" where
  "words_poll T v cx = (Ok (Ready (if T = T_vec then VUsize 4 else if v = v_usize then VUnit else VStr ''test'')), v)"

lemma words_impl: "test_impl E_quiet words_poll () words_future"
  by (simp add: test_impl_def ready_future_def poll_closed_def test_call_def words_future_def words_poll_def)

theorem integration_test_passes_witness:
  "(\<exists>w'. integration_test rob16 E_quiet words_poll 8 () words_future empty_world = (Ok (), w'))
    \<and> (\<exists>w'. integration_test (box_ops cfg64) E_quiet words_poll 8 () words_future empty_world = (Ok (), w'))"
  using integration_test_passes [OF words_impl, of empty_world cfg64 16 "Log2 3" 8] by auto





end
