(* ===== verification/Spec2Isabelle.thy ===== *)
theory Spec2Isabelle
  imports Macro_Properties Example_Properties
begin

text \<open>
  A model of the Rust crate \<open>dyn-utils\<close>: trait objects in a generic storage (\<open>src/\<close>) and the
  procedural macros that make traits usable with them (\<open>macros/src/\<close>). Paths below are relative
  to the crate's root.

  The runtime. \<^bold>\<open>Prelude\<close> has the outcomes of an operation (a value, a panic, undefined behaviour, a
  build error), their sequencing and the arithmetic of alignments. \<^bold>\<open>Memory\<close> is the part of Rust
  underneath: types with their layout and drop glue, values as bytes, the allocator's blocks,
  pointers, typed reads and writes, and \<open>std\<close>'s \<open>Box\<close>; every access the language makes undefined
  (misaligned, dangling, out of bounds, the wrong layout for \<open>dealloc\<close>) is the outcome \<open>UB\<close>.
  \<^bold>\<open>Storage_Trait\<close> has the traits \<open>Storage\<close> and \<open>FromBox\<close> of \<open>src/storage.rs\<close> as records of their
  methods, with the provided bodies, and what an implementation owes its clients as the locales
  \<open>storage_contract\<close> and \<open>from_box_contract\<close>. \<^bold>\<open>Raw_Storage\<close>, \<^bold>\<open>Box_Storage\<close> and \<^bold>\<open>Raw_Or_Box\<close> are the
  three storages, each with an interpretation of its contract. \<^bold>\<open>Object\<close> is \<open>src/object.rs\<close>: the
  vtable traits and \<open>DynObject\<close> with \<open>new\<close>, \<open>from_box\<close>, \<open>insert\<close> and \<open>Drop\<close>; its lemmas are proved
  once in the locale \<open>dyn_object\<close>, from a storage contract and a vtable contract. \<^bold>\<open>Dyn_Call\<close> is the
  call through an erased function pointer; \<^bold>\<open>Any_Impl\<close>, \<^bold>\<open>Future_Impl\<close> and \<^bold>\<open>Iterator_Impl\<close> are
  \<open>src/impls.rs\<close>; \<^bold>\<open>Maybe_Sync\<close> is \<open>MaybeSync\<close> of \<open>src/lib.rs\<close>. \<^bold>\<open>Lifecycle\<close> is any safe client of
  \<open>DynObject<dyn Any>\<close> as a step relation with its invariant. \<^bold>\<open>Object_Programs\<close> has the
  clients of any object type as programs, lists of commands over variables, and an abstract machine
  whose variables hold typed values; in the locale \<open>object_client\<close> (a storage and a vtable contract,
  and operations that act on the object as on its value) running a program refines the machine.
  \<^bold>\<open>Client_Programs\<close> gives the two kinds of operations, those of \<open>dyn Any\<close> and the method calls of
  any trait \<open>dyn_object\<close> accepts, on each of the three storages. \<^bold>\<open>Await\<close> is the loop of \<open>.await\<close> over
  \<open>DynObject<dyn Future>\<close>, as a partial function, compared with the loop over the future itself.
  \<^bold>\<open>Object_Traits\<close> has the implementations of \<open>Send\<close>, \<open>Sync\<close>, \<open>Unpin\<close> and \<open>Debug\<close> for \<open>DynObject\<close>, the
  auto traits of the storages, the bounds of the \<open>Vtable\<close> implementations, and a client that moves
  objects between threads and out of pins, as a step relation.

  The macros. \<^bold>\<open>Syn_Ast\<close> has the syntax trees they work on, \<^bold>\<open>Macro_Utils\<close> the helpers of
  \<open>macros/src/utils.rs\<close>, the \<open>sync\<close> macro of \<open>macros/src/sync.rs\<close> and the parser driver of
  \<open>macros/src/lib.rs\<close> (its three entry points are in \<^bold>\<open>Macro_Lib\<close>), \<^bold>\<open>Captured_Lifetimes\<close> and
  \<^bold>\<open>Dyn_Trait_Macro\<close> \<open>macros/src/dyn_trait.rs\<close>, and \<^bold>\<open>Dyn_Object_Macro\<close> \<open>macros/src/dyn_object.rs\<close>. An expansion is a record of its parts (headers,
  items, bodies), not a token stream. \<^bold>\<open>Dyn_Trait_Facts\<close> has the lemmas on \<open>dyn_trait\<close>,
  \<^bold>\<open>Opaque_Types\<close> those on the opaque types it leaves.
  \<^bold>\<open>Macro_Runtime\<close> joins the halves: the vtable that an expansion of \<open>dyn_object\<close> builds is a
  vtable of \<open>Object\<close> (an interpretation of \<open>vtable_contract\<close>), the body of a generated method runs to
  a \<open>DynObject\<close>, and the body of a \<open>maybe_sync\<close> method evaluates to a \<open>MaybeSync\<close>.

  The crate's own programs. \<^bold>\<open>Unit_Tests\<close> and \<^bold>\<open>More_Tests\<close> have the unit tests as programs over the
  model, \<^bold>\<open>Crate_Examples\<close> the macro inputs of \<open>examples/\<close> and of \<open>tests/compilation/errors.rs\<close>,
  \<^bold>\<open>Doc_Examples\<close> those of the documentation (\<open>src/macros.rs\<close>, \<open>src/lib.rs\<close>), and
  \<^bold>\<open>Integration_Test\<close> the test \<open>tests/test.rs\<close> from the macro input to the calls.

  The properties are in \<^bold>\<open>Runtime_Properties\<close>, \<^bold>\<open>Macro_Properties\<close> and \<^bold>\<open>Example_Properties\<close> and,
  where they span the components, here; \<^bold>\<open>Examples\<close> has the inputs of their witnesses. Runtime: each
  value is dropped exactly once and each block freed exactly once, on every path but a panicking
  destructor, whose leak is stated; no call of a safe client is undefined, and no client can tell
  the storages apart; dynamic calls are the calls of the value, and awaiting ends when awaiting the
  value does; what fits where; which objects may cross threads (a hole in \<open>any_impl!\<close> is stated).
  Macros: the generated trait, implementation and vtable agree with each other and with the
  original trait; which inputs are accepted. Examples: the tests pass, the
  hand-written expansion is the generated one.

  Bounds. There is no fuel: every loop of the crate runs over a list of the input, and the loop of
  an \<open>.await\<close>, which may not end, is a partial function with \<open>None\<close> for not returning. Sizes and
  addresses are natural numbers; the allocator never fails and never reuses an address.

  Taken from elsewhere, as parameters: which byte strings a user's type accepts and whether its
  destructor panics (\<open>env\<close>), the user's methods behind a vtable, where the compiler places the
  payload of an enum and the target's word (\<open>config\<close>), and the case conversion of the \<open>heck\<close> crate
  (\<open>pascal\<close>). Of the \<open>syn\<close> crate, parsing is not modelled: inputs are syntax trees, attributes lists
  of parsed items.

  Not modelled: spans of diagnostics, other than \<open>respan\<close>; raw identifiers and non-ASCII ones; the
  parsing and printing of token streams; type checking and lifetimes, beyond the markers and the
  predicates the macros write (so a \<open>compile_fail\<close> example is covered only where a macro refuses
  it); \<open>try_match!\<close> and \<open>fields!\<close>, which stand expanded as case expressions and record selectors;
  the \<open>Debug\<close> output of storages and vtables, parameters here; module declarations and re-exports;
  closures and printing in examples, executors and the benchmarks.
\<close>


section \<open>Programs over \<open>DynObject<dyn Any>\<close>\<close>

text \<open>
  C1: in every state a safe client can reach, each variable that holds an object holds a valid
  value of the type its vtable names, no two variables share an allocation, and the values that
  need dropping balance: those created are live, dropped or moved out, each exactly once. If no
  destructor panics, the heap is exactly what the live objects own.
\<close>
theorem lifecycle_invariant:
  assumes "reachable (rob_ops cfg SIZE ALIGN) (rob_fits cfg SIZE ALIGN) E addr s"
    and "\<And>i. place_ok (rob_ops cfg SIZE ALIGN) (addr i)"
  shows "heap_inv (rob_rep SIZE ALIGN) rob_own E s \<and> balanced s
    \<and> ((\<forall>T v. \<not> drop_panics E T v) \<longrightarrow> exact_heap rob_own s)"
  by (rule rob.reachable_inv [OF assms])

theorem lifecycle_invariant_witness:
  "heap_inv (rob_rep 16 (Log2 3)) rob_own E_quiet sys_one \<and> balanced sys_one \<and> exact_heap rob_own sys_one"
  using lifecycle_invariant [OF reach_one addr8_place] by simp

text \<open>
  C2: nothing a safe client can do next in a reachable state is undefined: dropping a variable,
  a downcast of any kind to any type, inserting a value of any type the storage takes, or
  creating an object from one or from a box.
\<close>
theorem lifecycle_no_undefined:
  assumes "reachable (rob_ops cfg SIZE ALIGN) (rob_fits cfg SIZE ALIGN) E addr s"
    and "\<And>i. place_ok (rob_ops cfg SIZE ALIGN) (addr i)"
    and "vars s i = Some ob" "wf_rtype T" "wf_val E T v" "rob_fits cfg SIZE ALIGN T"
  shows "\<not> is_ub (fst (dyn_drop (rob_ops cfg SIZE ALIGN) E (addr i) ob (heap s)))
    \<and> \<not> is_ub (fst (downcast (rob_ops cfg SIZE ALIGN) E U (addr i) ob (heap s)))
    \<and> \<not> is_ub (downcast_ref (rob_ops cfg SIZE ALIGN) E U (addr i) ob (heap s))
    \<and> \<not> is_ub (downcast_mut (rob_ops cfg SIZE ALIGN) E U (addr i) ob (heap s))
    \<and> \<not> is_ub (fst (dyn_insert (rob_ops cfg SIZE ALIGN) any_vt E T (addr j) (vars s j) v (heap s)))
    \<and> \<not> is_ub (fst (dyn_new (rob_ops cfg SIZE ALIGN) any_vt T v (heap s)))
    \<and> \<not> is_ub (fst (bnd (std_box_new T v) (dyn_from_box (rob_ops cfg SIZE ALIGN) any_vt E T) (heap s)))"
proof -
  have inv: "heap_inv (rob_rep SIZE ALIGN) rob_own E s"
    using rob.reachable_inv [OF assms(1,2)] by simp
  show ?thesis
    using rob.inv_no_ub [OF inv assms(2,3)] rob.inv_insert_no_ub [OF inv assms(2,4-6)]
      rob.inv_create_no_ub [OF inv assms(4,5)] assms(6) by simp
qed

theorem lifecycle_no_undefined_witness:
  "\<not> is_ub (fst (dyn_drop rob16 E_quiet (addr8 0) \<lparr>storage = vec_box, vtable = any_vt T_vec\<rparr> vec_world))
    \<and> \<not> is_ub (fst (dyn_insert rob16 any_vt E_quiet T_usize (addr8 0) (vars sys_one 0) v_usize vec_world))"
  using lifecycle_no_undefined [OF reach_one addr8_place, of 0 "\<lparr>storage = vec_box, vtable = any_vt T_vec\<rparr>"
      T_usize v_usize T_vec 0]
  by (simp add: sys_one_def)

text \<open>
  C3: from every reachable state a client can drop all it has, and whenever it has emptied its
  variables it has leaked nothing, if no destructor panics: the heap is empty, and every value
  that needed dropping was dropped once or moved out.
\<close>
theorem lifecycle_no_leak:
  assumes "reachable (rob_ops cfg SIZE ALIGN) (rob_fits cfg SIZE ALIGN) E addr s"
    and "\<And>i. place_ok (rob_ops cfg SIZE ALIGN) (addr i)"
    and "\<And>T v. \<not> drop_panics E T v"
  shows "(\<exists>s'. (client_step (rob_ops cfg SIZE ALIGN) (rob_fits cfg SIZE ALIGN) E addr)\<^sup>*\<^sup>* s s'
      \<and> vars s' = Map.empty \<and> blocks (heap s') = Map.empty)
    \<and> (vars s = Map.empty \<longrightarrow> blocks (heap s) = Map.empty
        \<and> dropping (created s) = dropped_types (heap s) + dropping (taken s))"
proof -
  let ?step = "client_step (rob_ops cfg SIZE ALIGN) (rob_fits cfg SIZE ALIGN) E addr"
  have empty: "blocks (heap t) = Map.empty
      \<and> dropping (created t) = dropped_types (heap t) + dropping (taken t)"
    if "reachable (rob_ops cfg SIZE ALIGN) (rob_fits cfg SIZE ALIGN) E addr t" "vars t = Map.empty" for t
    using rob.reachable_inv [OF that(1) assms(2)] assms(3) rob.inv_empty_heap [of t] that(2) by simp
  have "finite (dom (vars s))"
    using rob.reachable_inv [OF assms(1,2)] rob.heap_inv_finite by blast
  then obtain s' where s': "?step\<^sup>*\<^sup>* s s'" "vars s' = Map.empty" using rob.drain_steps by blast
  with empty [OF rob.steps_reachable [OF s'(1) assms(1)] s'(2)] empty [OF assms(1)] show ?thesis by blast
qed

theorem lifecycle_no_leak_witness:
  "(\<exists>s'. (client_step rob16 (rob_fits cfg64 16 (Log2 3)) E_quiet addr8)\<^sup>*\<^sup>* sys_two s' \<and> vars s' = Map.empty)
    \<and> blocks (heap sys_two) = Map.empty
    \<and> dropping (created sys_two) = dropped_types (heap sys_two) + dropping (taken sys_two)"
proof -
  have "vars sys_two = Map.empty" by (simp add: sys_two_def)
  with lifecycle_no_leak [OF reach_two addr8_place] show ?thesis by auto
qed


text \<open>
  C4: the storage is transparent. A program that creates \<open>dyn Any\<close> objects, from values or from
  boxes, moves, drops and overwrites them, asks for their type, downcasts them and mutates what it
  finds, sees of \<open>RawOrBox\<close>, of \<open>Box\<close> where there is an allocator, and of \<open>Raw\<close> where everything
  fits, what it sees of the abstract machine, whose variables hold typed values and which has no
  storage, heap or vtable: the results of every command, panics included, and the sequence of the
  values dropped.
\<close>
theorem storage_transparent:
  assumes "list_all (cmd_ok E (rob_fits cfg SIZE ALIGN) (alloc_feature cfg) any_use_ok) cs"
    and "\<And>i. place_ok (rob_ops cfg SIZE ALIGN) (addr i)"
  shows "any_program (rob_ops cfg SIZE ALIGN) (dyn_from_box (rob_ops cfg SIZE ALIGN) any_vt) E addr cs = any_spec E cs
    \<and> (alloc_feature cfg \<longrightarrow>
        any_program (box_ops cfg) (dyn_from_box (box_ops cfg) any_vt) E addr cs = any_spec E cs)
    \<and> (list_all (cmd_ok E (can_store SIZE ALIGN) False any_use_ok) cs \<longrightarrow>
        any_program (raw_ops cfg SIZE ALIGN) no_from_box E addr cs = any_spec E cs)"
proof (intro conjI impI)
  assume "alloc_feature cfg"
  then show "any_program (box_ops cfg) (dyn_from_box (box_ops cfg) any_vt) E addr cs = any_spec E cs"
    by (intro box_any_program [OF assms(1)] rob_place_box [OF assms(2)])
next
  assume "list_all (cmd_ok E (can_store SIZE ALIGN) False any_use_ok) cs"
  then show "any_program (raw_ops cfg SIZE ALIGN) no_from_box E addr cs = any_spec E cs"
    by (rule raw_any_program) (rule raw_place_of_rob [OF assms(2)])
qed (rule rob_any_program [OF assms])

theorem storage_transparent_witness:
  "any_program rob16 (dyn_from_box rob16 any_vt) E_loud addr8 prog_example
      = ([Ok Done, Ok (Got (Val None)), Ok Done, Panic ''drop'', Ok (Got (Flag True)),
          Ok (Got (Flag False)), Ok (Got (Val (Some u_usize))), Ok Rejected], [(T_vec, v_vec)])
    \<and> any_program (box_ops cfg64) (dyn_from_box (box_ops cfg64) any_vt) E_loud addr8 prog_example
      = any_program rob16 (dyn_from_box rob16 any_vt) E_loud addr8 prog_example
    \<and> any_program (raw_ops cfg64 16 (Log2 3)) no_from_box E_quiet addr8 prog_in_place
      = ([Ok Done, Ok (Got (Val (Some v_usize))), Ok Done], [])"
  using storage_transparent [OF prog_example_ok addr8_place]
    storage_transparent [OF prog_in_place_ok(2) addr8_place] prog_in_place_ok(1)
  by (simp add: prog_example_spec prog_in_place_spec)


section \<open>Generated traits at run time\<close>

lemma future_trait_expansion:
  "\<exists>out om. expansion_of future_trait default_object_opts out \<and> om \<in> set (oo_methods out)"
proof -
  obtain out where out: "dyn_object_impl future_trait default_object_opts = Inr out"
    using dyn_object_impl_ok_iff future_iterator_ok(1) by blast
  have names: "map vtable_field (List.map_filter item_fn (tr_items future_trait)) = [''poll'']"
    by (simp add: trait_example_defs List.map_filter_def vtable_field_def)
  have "map om_sig (oo_methods out) \<noteq> []"
    using dyn_object_impl_entries(4) [OF out] names by (metis list.discI list.map_disc_iff)
  then obtain om where "om \<in> set (oo_methods out)" by (cases "oo_methods out") auto
  with out names show ?thesis by (auto simp: expansion_of_def)
qed

text \<open>
  C17: for every trait that \<open>dyn_object\<close> accepts, calling any of its methods on an object that
  holds the value \<open>v\<close> runs the concrete method on \<open>v\<close>: the entry found in the vtable is the one
  made for this method and this receiver, the result is the method's, the object holds the state
  it left, and no other block changes.
\<close>
theorem generated_trait_calls:
  assumes "dyn_object_impl tr opts = Inr out" "om \<in> set (oo_methods out)"
    and "distinct (map vtable_field (List.map_filter item_fn (tr_items tr)))"
    and "vtable ob = generated_vt (oo_inits out) T" "rob_rep SIZE ALIGN T v (storage ob) w"
    and "wf_rtype T" "wf_val E T v" "wf_world w" "place_ok (rob_ops cfg SIZE ALIGN) a"
    and "length (snd (body T v)) = size_of T"
  shows "\<exists>ob' w'. generated_call (rob_ops cfg SIZE ALIGN) E a om body ob w = (Ok (fst (body T v), ob'), w')
    \<and> vtable ob' = vtable ob \<and> rob_rep SIZE ALIGN T (snd (body T v)) (storage ob') w' \<and> wf_world w'
    \<and> untouched (rob_own T (storage ob)) w w'"
  using rob.generated_call_ok [where body = body, OF assms] by blast

theorem generated_trait_calls_witness:
  "\<exists>out om ob' w'. dyn_object_impl future_trait default_object_opts = Inr out \<and> om \<in> set (oo_methods out)
    \<and> generated_call rob16 E_quiet 8 om (\<lambda>T v. (''called'', u_usize))
        \<lparr>storage = usize_raw, vtable = generated_vt (oo_inits out) T_usize\<rparr> empty_world
      = (Ok (''called'', ob'), w')"
proof -
  from future_trait_expansion obtain out om where
    e: "expansion_of future_trait default_object_opts out" and om: "om \<in> set (oo_methods out)" by blast
  then have out: "dyn_object_impl future_trait default_object_opts = Inr out"
    "distinct (map vtable_field (List.map_filter item_fn (tr_items future_trait)))"
    by (simp_all add: expansion_of_def)
  have rep: "rob_rep 16 (Log2 3) T_usize v_usize usize_raw w" for w
    by (simp add: usize_raw_def raw_rep_def)
  from generated_trait_calls [OF out(1) om out(2), of "\<lparr>storage = usize_raw, vtable = generated_vt (oo_inits out) T_usize\<rparr>"
      T_usize 16 "Log2 3" v_usize empty_world E_quiet cfg64 8 "\<lambda>T v. (''called'', u_usize)"] out(1) om
  show ?thesis by (auto simp: rep)
qed

text \<open>
  C18: objects of a trait are its values. For every trait that \<open>dyn_object\<close> accepts, a program that
  creates objects of it, from values or from boxes, moves, drops and overwrites them and calls the
  generated methods on them, sees of each of the three storages what it would see of the values
  themselves, if the methods leave values of their types: what every call returns, or its panic,
  and the sequence of the values dropped.
\<close>
theorem trait_objects_transparent:
  assumes "expansion_of tr opts out" "bodies_closed E bodies"
    and "list_all (cmd_ok E (rob_fits cfg SIZE ALIGN) (alloc_feature cfg) (calls_of out)) cs"
    and "\<And>i. place_ok (rob_ops cfg SIZE ALIGN) (addr i)"
  shows "trait_program (rob_ops cfg SIZE ALIGN) (dyn_from_box (rob_ops cfg SIZE ALIGN) (generated_vt (oo_inits out)))
        out bodies E addr cs = trait_spec bodies E cs
    \<and> (alloc_feature cfg \<longrightarrow>
        trait_program (box_ops cfg) (dyn_from_box (box_ops cfg) (generated_vt (oo_inits out)))
          out bodies E addr cs = trait_spec bodies E cs)
    \<and> (list_all (cmd_ok E (can_store SIZE ALIGN) False (calls_of out)) cs \<longrightarrow>
        trait_program (raw_ops cfg SIZE ALIGN) no_from_box out bodies E addr cs = trait_spec bodies E cs)"
proof (intro conjI impI)
  assume "alloc_feature cfg"
  then show "trait_program (box_ops cfg) (dyn_from_box (box_ops cfg) (generated_vt (oo_inits out)))
      out bodies E addr cs = trait_spec bodies E cs"
    by (intro box_trait_program [OF assms(1-3)] rob_place_box [OF assms(4)])
next
  assume "list_all (cmd_ok E (can_store SIZE ALIGN) False (calls_of out)) cs"
  then show "trait_program (raw_ops cfg SIZE ALIGN) no_from_box out bodies E addr cs = trait_spec bodies E cs"
    by (rule raw_trait_program [OF assms(1,2)]) (rule raw_place_of_rob [OF assms(4)])
qed (rule rob_trait_program [OF assms])

theorem trait_objects_transparent_witness:
  "\<exists>out om. expansion_of future_trait default_object_opts out
    \<and> trait_program rob16 (dyn_from_box rob16 (generated_vt (oo_inits out))) out flip_bodies E_loud addr8 (call_twice om)
      = ([Ok Done, Ok (Got v_usize), Ok Done, Panic (sg_ident (om_sig om)), Ok Done, Panic ''drop''], [(T_vec, v_vec)])"
proof -
  from future_trait_expansion obtain out om where
    e: "expansion_of future_trait default_object_opts out" and om: "om \<in> set (oo_methods out)" by blast
  from trait_objects_transparent [OF e flip_closed call_twice_ok [OF om] addr8_place]
  have "trait_program rob16 (dyn_from_box rob16 (generated_vt (oo_inits out))) out flip_bodies E_loud addr8
      (call_twice om) = trait_spec flip_bodies E_loud (call_twice om)" by (rule conjunct1)
  with e show ?thesis unfolding call_twice_spec by blast
qed

text \<open>
  C19: a method with an opaque or async return type whose type implements \<open>Future\<close>, end to end:
  the body \<open>dyn_trait\<close> generates calls the method of the wrapped type with all its arguments and
  puts the future it returns, a \<open>T\<close> holding \<open>v\<close>, into a \<open>DynObject\<close>; polling that object any
  number of times gives what polling the future gives; and dropping it drops the state the future
  was left in, once, and gives back every block.
\<close>
theorem generated_async_call:
  assumes "parse_method pascal m dt = Inr (m', dt')" "method_attrs_parse m = Inr (attrs, m')"
    and "\<not> ma_maybe_sync attrs" "has_rpit (fn_sig m)" "is_dispatchable m"
    and "call (sg_ident (fn_sig m)) (fn_args (fn_sig m)) = (T, v)"
    and "wf_rtype T" "wf_val E T v" "rob_fits cfg SIZE ALIGN T" "wf_world w"
    and "place_ok (rob_ops cfg SIZE ALIGN) a" "poll_closed E T poll_impl"
    and "\<And>u. wf_val E T u \<Longrightarrow> tneeds_drop T \<Longrightarrow> \<not> drop_panics E T u"
  shows "\<exists>sg body run ob w1 ob' w2 w3. dt_impl_items dt' = dt_impl_items dt @ [IIFn sg body]
    \<and> eval_dyn_object (rob_ops cfg SIZE ALIGN) future_vt call body = Some run
    \<and> run w = (Ok ob, w1)
    \<and> dyn_polls (rob_ops cfg SIZE ALIGN) E poll_impl a cxs ob w1
        = (Ok (fst (direct_polls poll_impl T cxs v), ob'), w2)
    \<and> dyn_drop (rob_ops cfg SIZE ALIGN) E a ob' w2 = (Ok (), w3) \<and> blocks w3 = blocks w
    \<and> dropped w3 = dropped w @ drop_trace T (snd (direct_polls poll_impl T cxs v))"
proof -
  from rpit_items [OF assms(1-5)] obtain sg where "dt_impl_items dt' = dt_impl_items dt
      @ [IIFn sg (DynObjectNew (CallDyn (sg_ident (fn_sig m)) (fn_args (fn_sig m))))]" ..
  moreover have "eval_dyn_object (rob_ops cfg SIZE ALIGN) future_vt call
      (DynObjectNew (CallDyn (sg_ident (fn_sig m)) (fn_args (fn_sig m))))
    = Some (dyn_new (rob_ops cfg SIZE ALIGN) future_vt T v)"
    by (simp add: assms(6))
  ultimately show ?thesis using rob.new_polls_drop [OF assms(7-13), of cxs] by metis
qed

text \<open>\<open>async fn call(&self, arg: &str)\<close> without \<open>maybe_sync\<close>, returning the two-step future.\<close>

theorem generated_async_call_witness:
  "\<exists>m' dt' sg body run ob w1 ob' w2. parse_method pascal_ex (call_fn\<lparr>fn_attrs := []\<rparr>) callback_dt = Inr (m', dt')
    \<and> dt_impl_items dt' = [IIFn sg body]
    \<and> eval_dyn_object rob16 future_vt (\<lambda>i args. (T_usize, v_usize)) body = Some run
    \<and> run empty_world = (Ok ob, w1)
    \<and> dyn_polls rob16 E_quiet two_step 8 [(), ()] ob w1 = (Ok ([Ok Pending, Ok (Ready 42)], ob'), w2)"
proof -
  let ?m = "call_fn\<lparr>fn_attrs := []\<rparr>"
  have attrs: "method_attrs_parse ?m = Inr (\<lparr>ma_storage = None, ma_maybe_sync = False\<rparr>, ?m)"
    by (simp add: method_attrs_parse_def default_method_attrs_def)
  have d: "is_dispatchable ?m" using callback_dispatchable(1) by (simp add: is_dispatchable_def)
  have "method_named pascal_ex ?m" using callback_named(1) by (simp add: method_named_def)
  from parse_method_ok_iff [OF this d, of callback_dt] attrs obtain dt' where
    p: "parse_method pascal_ex ?m callback_dt = Inr (?m, dt')"
    by (auto simp: method_accepted_def parse_method_def mbind_eq_Inr Let_def)
  have polls: "fst (direct_polls two_step T_usize [(), ()] v_usize) = [Ok Pending, Ok (Ready 42)]"
    by (simp add: two_step_def)
  have "dt_impl_items callback_dt = []" by (simp add: callback_dt_def)
  with generated_async_call [OF p attrs _ _ d, of "\<lambda>i args. (T_usize, v_usize)" T_usize v_usize E_quiet cfg64 16
      "Log2 3" empty_world 8 two_step "[(), ()]", unfolded polls] two_step_closed p
  show ?thesis by (simp del: dyn_polls.simps) metis
qed

end
